(* ===== verification/Prelude.thy ===== *)
theory Prelude
  imports Main "HOL-Library.Word" "HOL-Library.Char_ord" "HOL-Library.List_Lexorder"
begin

text \<open>
  Shared vocabulary of the development: results of fallible Rust code, the error-and-state
  monad in which asynchronous operations with side effects are written, the part of the Rust
  standard library the operator uses (\<open>BTreeMap\<close>, decimal \<open>Display\<close> of integers, \<open>join\<close>) and
  the generic facts on them. The interface of an ordered map is the locale \<open>ordered_map\<close>;
  sorted association lists are its provider here.
\<close>

named_theorems result_simps "evaluation and inversion of fallible computations"
named_theorems io_simps "evaluation and inversion of effectful computations"

section \<open>Fallible computations\<close>

text \<open>
  A Rust \<open>Result<T, E>\<close> is \<open>'e + 'a\<close>, with \<open>Inl\<close> for \<open>Err\<close>. The operator \<open>?\<close> is \<open>and_then\<close>,
  snafu's \<open>.context(..)?\<close> on a result is \<open>with_context\<close>, on an option \<open>ok_or\<close>.
\<close>

definition and_then :: "'e + 'a \<Rightarrow> ('a \<Rightarrow> 'e + 'b) \<Rightarrow> 'e + 'b" where
  "and_then r f = (case r of Inl e \<Rightarrow> Inl e | Inr x \<Rightarrow> f x)"

definition with_context :: "('e \<Rightarrow> 'f) \<Rightarrow> 'e + 'a \<Rightarrow> 'f + 'a" where
  "with_context c r = (case r of Inl e \<Rightarrow> Inl (c e) | Inr x \<Rightarrow> Inr x)"

definition ok_or :: "'e \<Rightarrow> 'a option \<Rightarrow> 'e + 'a" where
  "ok_or e x = (case x of None \<Rightarrow> Inl e | Some y \<Rightarrow> Inr y)"

text \<open>A check that only reports an error: \<open>None\<close> is success.\<close>

definition unless_error :: "'e option \<Rightarrow> 'a \<Rightarrow> 'e + 'a" where
  "unless_error e x = (case e of None \<Rightarrow> Inr x | Some e' \<Rightarrow> Inl e')"

definition is_ok :: "'e + 'a \<Rightarrow> bool" where
  "is_ok r = (case r of Inl _ \<Rightarrow> False | Inr _ \<Rightarrow> True)"

text \<open>Collecting an iterator of results into a result of a vector stops at the first error.\<close>

fun collect_results :: "('e + 'a) list \<Rightarrow> 'e + 'a list" where
  "collect_results [] = Inr []"
| "collect_results (r # rs) =
     and_then r (\<lambda>x. and_then (collect_results rs) (\<lambda>xs. Inr (x # xs)))"

lemma and_then_simps [simp, result_simps]:
  "and_then (Inl e) f = Inl e"
  "and_then (Inr x) f = f x"
  by (simp_all add: and_then_def)

lemma with_context_simps [simp, result_simps]:
  "with_context c (Inl e) = Inl (c e)"
  "with_context c (Inr x) = Inr x"
  by (simp_all add: with_context_def)

lemma ok_or_simps [simp, result_simps]:
  "ok_or e None = Inl e"
  "ok_or e (Some x) = Inr x"
  by (simp_all add: ok_or_def)

lemma unless_error_simps [simp, result_simps]:
  "unless_error None x = Inr x"
  "unless_error (Some e) x = Inl e"
  by (simp_all add: unless_error_def)

lemma is_ok_simps [simp, result_simps]:
  "\<not> is_ok (Inl e)"
  "is_ok (Inr x)"
  by (simp_all add: is_ok_def)

lemma and_then_eq_Inr [result_simps]:
  "and_then r f = Inr y \<longleftrightarrow> (\<exists>x. r = Inr x \<and> f x = Inr y)"
  by (cases r) auto

lemma and_then_eq_Inl [result_simps]:
  "and_then r f = Inl e \<longleftrightarrow> r = Inl e \<or> (\<exists>x. r = Inr x \<and> f x = Inl e)"
  by (cases r) auto

lemma with_context_eq_Inr [result_simps]: "with_context c r = Inr y \<longleftrightarrow> r = Inr y"
  by (cases r) auto

lemma with_context_eq_Inl [result_simps]:
  "with_context c r = Inl e \<longleftrightarrow> (\<exists>e'. r = Inl e' \<and> e = c e')"
  by (cases r) auto

lemma ok_or_eq_Inr [result_simps]: "ok_or e x = Inr y \<longleftrightarrow> x = Some y"
  by (cases x) auto

lemma ok_or_eq_Inl [result_simps]: "ok_or e x = Inl e' \<longleftrightarrow> x = None \<and> e' = e"
  by (cases x) auto

lemma unless_error_eq_Inr [result_simps]: "unless_error e x = Inr y \<longleftrightarrow> e = None \<and> y = x"
  by (cases e) auto

lemma unless_error_eq_Inl [result_simps]: "unless_error e x = Inl e' \<longleftrightarrow> e = Some e'"
  by (cases e) auto

lemma is_ok_iff: "is_ok r \<longleftrightarrow> (\<exists>x. r = Inr x)"
  by (cases r) auto

lemma collect_results_append:
  "collect_results (rs @ ss) =
     and_then (collect_results rs) (\<lambda>xs. and_then (collect_results ss) (\<lambda>ys. Inr (xs @ ys)))"
proof (induction rs)
  case Nil
  show ?case by (cases "collect_results ss") simp_all
next
  case (Cons r rs)
  then show ?case
    by (cases r; cases "collect_results rs"; cases "collect_results ss") simp_all
qed

lemma collect_results_map_Inr: "collect_results (map (\<lambda>x. Inr (f x)) xs) = Inr (map f xs)"
  by (induction xs) simp_all

lemma collect_results_eq_Inr:
  "collect_results rs = Inr ys \<longleftrightarrow> rs = map Inr ys"
proof (induction rs arbitrary: ys)
  case (Cons r rs)
  then show ?case by (cases ys) (auto simp: and_then_eq_Inr)
qed auto

text \<open>An error of the whole is the error of the first element that has one.\<close>

lemma collect_results_eq_Inl:
  "collect_results rs = Inl e \<longleftrightarrow>
     (\<exists>xs ss. rs = map Inr xs @ Inl e # ss)"
proof (induction rs)
  case (Cons r rs)
  show ?case
  proof (cases r)
    case (Inl e')
    then show ?thesis by (auto simp: Cons_eq_append_conv)
  next
    case (Inr x)
    have "collect_results (r # rs) = Inl e \<longleftrightarrow> collect_results rs = Inl e"
      using Inr by (auto simp: and_then_eq_Inl)
    also have "\<dots> \<longleftrightarrow> (\<exists>xs ss. rs = map Inr xs @ Inl e # ss)"
      by (rule Cons.IH)
    also have "\<dots> \<longleftrightarrow> (\<exists>xs ss. r # rs = map Inr xs @ Inl e # ss)"
      using Inr by (auto simp: Cons_eq_append_conv Cons_eq_map_conv)
    finally show ?thesis .
  qed
qed simp

section \<open>Effectful computations\<close>

text \<open>
  An \<open>async fn\<close> that talks to the Kubernetes API is a function from the state of the world to a
  result and the next state. Effects already performed stay performed when a later step fails.
\<close>

type_synonym ('w, 'e, 'a) io = "'w \<Rightarrow> ('e + 'a) \<times> 'w"

definition io_return :: "'a \<Rightarrow> ('w, 'e, 'a) io" where
  "io_return x w = (Inr x, w)"

definition io_bind :: "('w, 'e, 'a) io \<Rightarrow> ('a \<Rightarrow> ('w, 'e, 'b) io) \<Rightarrow> ('w, 'e, 'b) io" where
  "io_bind m f w = (case m w of (Inl e, w') \<Rightarrow> (Inl e, w') | (Inr x, w') \<Rightarrow> f x w')"

definition io_lift :: "'e + 'a \<Rightarrow> ('w, 'e, 'a) io" where
  "io_lift r w = (r, w)"

definition io_context :: "('e \<Rightarrow> 'f) \<Rightarrow> ('w, 'e, 'a) io \<Rightarrow> ('w, 'f, 'a) io" where
  "io_context c m w = (case m w of (r, w') \<Rightarrow> (with_context c r, w'))"

text \<open>A \<open>for\<close> loop whose body is effectful and that collects the value of each round.\<close>

fun io_for :: "'x list \<Rightarrow> ('x \<Rightarrow> ('w, 'e, 'a) io) \<Rightarrow> ('w, 'e, 'a list) io" where
  "io_for [] body = io_return []"
| "io_for (x # xs) body =
     io_bind (body x) (\<lambda>y. io_bind (io_for xs body) (\<lambda>ys. io_return (y # ys)))"

lemma io_return_apply [simp, io_simps]: "io_return x w = (Inr x, w)"
  by (simp add: io_return_def)

lemma io_lift_apply [simp, io_simps]: "io_lift r w = (r, w)"
  by (simp add: io_lift_def)

lemma io_bind_eq_Inr [io_simps]:
  "io_bind m f w = (Inr y, w'') \<longleftrightarrow> (\<exists>x w'. m w = (Inr x, w') \<and> f x w' = (Inr y, w''))"
  by (auto simp: io_bind_def split: prod.splits sum.splits)

lemma io_bind_eq_Inl [io_simps]:
  "io_bind m f w = (Inl e, w'') \<longleftrightarrow>
     m w = (Inl e, w'') \<or> (\<exists>x w'. m w = (Inr x, w') \<and> f x w' = (Inl e, w''))"
  by (auto simp: io_bind_def split: prod.splits sum.splits)

lemma io_context_eq_Inr [io_simps]: "io_context c m w = (Inr y, w') \<longleftrightarrow> m w = (Inr y, w')"
  by (auto simp: io_context_def with_context_eq_Inr split: prod.splits)

lemma io_context_eq_Inl [io_simps]:
  "io_context c m w = (Inl e, w') \<longleftrightarrow> (\<exists>e'. m w = (Inl e', w') \<and> e = c e')"
  by (auto simp: io_context_def with_context_eq_Inl split: prod.splits)

lemma io_bind_return [simp]: "io_bind (io_return x) f = f x"
  by (simp add: io_bind_def fun_eq_iff)

lemma io_bind_lift: "io_bind (io_lift r) f = (case r of Inl e \<Rightarrow> io_lift (Inl e) | Inr x \<Rightarrow> f x)"
  by (auto simp: io_bind_def fun_eq_iff split: sum.splits)

lemma io_bind_assoc: "io_bind (io_bind m f) g = io_bind m (\<lambda>x. io_bind (f x) g)"
  by (auto simp: io_bind_def fun_eq_iff split: prod.splits sum.splits)

subsection \<open>Programs that only extend a log\<close>

text \<open>
  When the world is a log of effects, \<open>emits P m\<close> says that \<open>m\<close> appends to the log and that
  every entry it appends satisfies \<open>P\<close>, whatever the log was and whether \<open>m\<close> fails or not.
\<close>

definition emits :: "('x \<Rightarrow> bool) \<Rightarrow> ('x list, 'e, 'a) io \<Rightarrow> bool" where
  "emits P m \<longleftrightarrow> (\<forall>w r w'. m w = (r, w') \<longrightarrow> (\<exists>us. w' = w @ us \<and> list_all P us))"

named_theorems emits_intros "composition rules for emits"

lemma emits_return [emits_intros]: "emits P (io_return x)"
  by (simp add: emits_def)

lemma emits_lift [emits_intros]: "emits P (io_lift r)"
  by (simp add: emits_def)

lemma emits_context [emits_intros]: "emits P m \<Longrightarrow> emits P (io_context c m)"
  by (fastforce simp: emits_def io_context_def split: prod.splits)

lemma emits_bind [emits_intros]:
  assumes m: "emits P m" and f: "\<And>x. emits P (f x)"
  shows "emits P (io_bind m f)"
  unfolding emits_def
proof (intro allI impI)
  fix w r w'
  assume run: "io_bind m f w = (r, w')"
  obtain r1 w1 where m1: "m w = (r1, w1)" by (cases "m w")
  with m obtain us where us: "w1 = w @ us" "list_all P us" unfolding emits_def by meson
  show "\<exists>us. w' = w @ us \<and> list_all P us"
  proof (cases r1)
    case (Inl e)
    with run m1 us show ?thesis by (auto simp: io_bind_def)
  next
    case (Inr x)
    with run m1 have "f x w1 = (r, w')" by (simp add: io_bind_def)
    with f [of x] obtain vs where "w' = w1 @ vs" "list_all P vs"
      unfolding emits_def by meson
    with us show ?thesis by (intro exI [of _ "us @ vs"]) simp
  qed
qed

lemma emits_for [emits_intros]: "(\<And>x. emits P (body x)) \<Longrightarrow> emits P (io_for xs body)"
  by (induction xs) (auto intro!: emits_intros)

lemma emits_mono: "emits P m \<Longrightarrow> (\<And>x. P x \<Longrightarrow> Q x) \<Longrightarrow> emits Q m"
  unfolding emits_def by (meson list.pred_mono_strong)

lemma emitsD: "emits P m \<Longrightarrow> m w = (r, w') \<Longrightarrow> \<exists>us. w' = w @ us \<and> list_all P us"
  by (simp add: emits_def)

section \<open>Ordered maps\<close>

text \<open>
  The interface the operator relies on when it uses a \<open>BTreeMap\<close>: a lookup after an insert, and
  an iteration in strictly ascending key order.
\<close>

locale ordered_map =
  fixes empty_map :: "'m"
    and insert_map :: "'k::linorder \<Rightarrow> 'v \<Rightarrow> 'm \<Rightarrow> 'm"
    and lookup_map :: "'m \<Rightarrow> 'k \<Rightarrow> 'v option"
    and entries :: "'m \<Rightarrow> ('k \<times> 'v) list"
    and wf :: "'m \<Rightarrow> bool"
  assumes wf_empty: "wf empty_map"
    and wf_insert: "wf m \<Longrightarrow> wf (insert_map k v m)"
    and lookup_empty: "lookup_map empty_map k = None"
    and lookup_insert: "wf m \<Longrightarrow> lookup_map (insert_map k v m) k' =
          (if k' = k then Some v else lookup_map m k')"
    and lookup_entries: "wf m \<Longrightarrow> lookup_map m = map_of (entries m)"
    and entries_sorted: "wf m \<Longrightarrow> sorted_wrt (<) (map fst (entries m))"
begin

definition extend_map :: "'m \<Rightarrow> ('k \<times> 'v) list \<Rightarrow> 'm" where
  "extend_map m kvs = fold (\<lambda>(k, v). insert_map k v) kvs m"

lemma wf_extend: "wf m \<Longrightarrow> wf (extend_map m kvs)"
  unfolding extend_map_def by (induction kvs arbitrary: m) (auto intro: wf_insert)

text \<open>In an extension the last binding of a key wins; other keys keep their value.\<close>

lemma lookup_extend:
  assumes "wf m"
  shows "lookup_map (extend_map m kvs) k =
           (case map_of (rev kvs) k of None \<Rightarrow> lookup_map m k | Some v \<Rightarrow> Some v)"
  using assms
proof (induction kvs arbitrary: m)
  case Nil
  then show ?case by (simp add: extend_map_def)
next
  case (Cons kv kvs)
  obtain k0 v0 where kv: "kv = (k0, v0)" by (cases kv)
  have "lookup_map (extend_map m (kv # kvs)) k =
          lookup_map (extend_map (insert_map k0 v0 m) kvs) k"
    by (simp add: extend_map_def kv)
  also have "\<dots> = (case map_of (rev kvs) k of
                     None \<Rightarrow> lookup_map (insert_map k0 v0 m) k | Some v \<Rightarrow> Some v)"
    by (rule Cons.IH) (simp add: Cons.prems wf_insert)
  finally show ?case
    by (auto simp: kv Cons.prems lookup_insert map_add_def split: option.splits)
qed

lemma lookup_extend_distinct:
  assumes "wf m" and "distinct (map fst kvs)"
  shows "lookup_map (extend_map m kvs) k =
           (case map_of kvs k of None \<Rightarrow> lookup_map m k | Some v \<Rightarrow> Some v)"
proof -
  have "map_of (rev kvs) = map_of kvs"
    using assms(2) by (simp add: map_of_inject_set rev_map [symmetric])
  with lookup_extend [OF assms(1), of kvs k] show ?thesis by simp
qed

lemma entries_distinct: "wf m \<Longrightarrow> distinct (map fst (entries m))"
  using entries_sorted strict_sorted_iff by blast

lemma entries_lookup_iff: "wf m \<Longrightarrow> (k, v) \<in> set (entries m) \<longleftrightarrow> lookup_map m k = Some v"
  by (simp add: entries_distinct lookup_entries)

lemma keys_lookup_iff: "wf m \<Longrightarrow> k \<in> fst ` set (entries m) \<longleftrightarrow> lookup_map m k \<noteq> None"
  by (simp add: lookup_entries map_of_eq_None_iff)

end

subsection \<open>\<open>BTreeMap\<close> as a sorted association list\<close>

type_synonym ('k, 'v) btree_map = "('k \<times> 'v) list"

fun bt_insert :: "'k::linorder \<Rightarrow> 'v \<Rightarrow> ('k, 'v) btree_map \<Rightarrow> ('k, 'v) btree_map" where
  "bt_insert k v [] = [(k, v)]"
| "bt_insert k v ((a, b) # m) =
     (if k < a then (k, v) # (a, b) # m
      else if k = a then (k, v) # m
      else (a, b) # bt_insert k v m)"

definition bt_get :: "('k, 'v) btree_map \<Rightarrow> 'k \<Rightarrow> 'v option" where
  "bt_get m k = map_of m k"

definition bt_wf :: "('k::linorder, 'v) btree_map \<Rightarrow> bool" where
  "bt_wf m \<longleftrightarrow> sorted_wrt (<) (map fst m)"

text \<open>\<open>BTreeMap::extend\<close>, and \<open>collect\<close> when the map is empty: one insert per pair.\<close>

definition bt_extend ::
  "('k::linorder, 'v) btree_map \<Rightarrow> ('k \<times> 'v) list \<Rightarrow> ('k, 'v) btree_map" where
  "bt_extend m kvs = fold (\<lambda>(k, v). bt_insert k v) kvs m"

lemma map_of_bt_insert: "map_of (bt_insert k v m) = (map_of m)(k \<mapsto> v)"
  by (induction k v m rule: bt_insert.induct) (auto simp: fun_eq_iff)

lemma keys_bt_insert: "fst ` set (bt_insert k v m) = insert k (fst ` set m)"
  by (induction k v m rule: bt_insert.induct) auto

lemma bt_wf_insert: "bt_wf m \<Longrightarrow> bt_wf (bt_insert k v m)"
proof (induction k v m rule: bt_insert.induct)
  case (2 k v a b m)
  have keys: "fst ` set (bt_insert k v m) = insert k (fst ` set m)" by (rule keys_bt_insert)
  from 2 show ?case
    by (auto simp: bt_wf_def keys simp flip: image_set intro: less_trans)
qed (simp add: bt_wf_def)

lemma bt_wf_sorted: "bt_wf m \<Longrightarrow> sorted_wrt (<) (map fst m)"
  by (simp add: bt_wf_def)

interpretation bt: ordered_map "[]" bt_insert bt_get "\<lambda>m. m" bt_wf
  rewrites "ordered_map.extend_map bt_insert = bt_extend"
proof -
  show map: "ordered_map [] bt_insert bt_get (\<lambda>m. m) bt_wf"
  proof unfold_locales
    show "bt_wf []" by (simp add: bt_wf_def)
  qed (auto simp: bt_wf_insert bt_get_def map_of_bt_insert fun_eq_iff bt_wf_sorted)
  show "ordered_map.extend_map bt_insert = bt_extend"
    by (simp add: ordered_map.extend_map_def [OF map] bt_extend_def fun_eq_iff)
qed

lemma bt_get_empty [simp]: "bt_get [] k = None"
  by (simp add: bt_get_def)

lemma bt_get_insert: "bt_get (bt_insert k v m) k' = (if k' = k then Some v else bt_get m k')"
  by (simp add: bt_get_def map_of_bt_insert)

lemma bt_get_extend:
  "bt_get (bt_extend m kvs) k = (case map_of (rev kvs) k of None \<Rightarrow> bt_get m k | Some v \<Rightarrow> Some v)"
proof (induction kvs arbitrary: m)
  case (Cons kv kvs)
  then show ?case
    by (cases kv) (auto simp: bt_extend_def bt_get_insert map_add_def split: option.splits)
qed (simp add: bt_extend_def)

lemma bt_extend_Nil [simp]: "bt_extend m [] = m"
  by (simp add: bt_extend_def)

lemma bt_extend_append: "bt_extend m (kvs @ kws) = bt_extend (bt_extend m kvs) kws"
  by (simp add: bt_extend_def)

lemma bt_extend_insert: "bt_insert k v m = bt_extend m [(k, v)]"
  by (simp add: bt_extend_def)

lemma keys_bt_extend: "fst ` set (bt_extend m kvs) = fst ` set m \<union> fst ` set kvs"
proof (induction kvs arbitrary: m)
  case (Cons kv kvs)
  obtain k v where kv: "kv = (k, v)" by (cases kv)
  have "bt_extend m (kv # kvs) = bt_extend (bt_insert k v m) kvs"
    by (simp add: bt_extend_def kv)
  then show ?case by (simp add: Cons.IH keys_bt_insert kv)
qed (simp add: bt_extend_def)

text \<open>Two maps with the same lookups have the same entries, in the same order.\<close>

lemma bt_eqI:
  assumes "bt_wf m" and "bt_wf m'" and "\<And>k. bt_get m k = bt_get m' k"
  shows "m = m'"
proof -
  have eq: "map_of m = map_of m'" using assms(3) by (simp add: bt_get_def fun_eq_iff)
  have srt: "sorted (map fst m)" "sorted (map fst m')"
    and dst: "distinct (map fst m)" "distinct (map fst m')"
    using assms(1,2) by (simp_all add: bt_wf_def strict_sorted_iff)
  from eq dst have set: "set m = set m'" by (simp add: map_of_inject_set)
  from dst(1) have "inj_on fst (set m \<union> set m')" by (simp add: set distinct_map)
  then show ?thesis
    by (rule map_sorted_distinct_set_unique [OF _ srt(1) dst(1) srt(2) dst(2) set])
qed

lemma bt_wf_Nil [simp]: "bt_wf []"
  by (simp add: bt_wf_def)

lemma bt_wf_extend_Nil: "bt_wf (bt_extend [] kvs)"
  by (rule bt.wf_extend) simp

lemma bt_extend_order_irrelevant:
  assumes "distinct (map fst kvs)" and "distinct (map fst kws)" and "set kvs = set kws"
  shows "bt_extend [] kvs = bt_extend [] kws"
proof (rule bt_eqI)
  fix k
  have "map_of kvs = map_of kws" using assms by (simp add: map_of_inject_set)
  then show "bt_get (bt_extend [] kvs) k = bt_get (bt_extend [] kws) k"
    by (simp add: bt.lookup_extend_distinct assms)
qed (rule bt_wf_extend_Nil)+

lemma set_bt_extend_distinct:
  assumes "distinct (map fst kvs)"
  shows "set (bt_extend [] kvs) = set kvs"
proof -
  have "map_of (bt_extend [] kvs) = map_of kvs"
    using bt.lookup_extend_distinct [OF bt_wf_Nil assms]
    by (auto simp: bt_get_def fun_eq_iff split: option.splits)
  then show ?thesis
    using bt.entries_distinct [OF bt_wf_extend_Nil] assms by (metis map_of_inject_set)
qed

end
