(* ===== verification/TextFormat.thy ===== *)
theory TextFormat
  imports Prelude
begin

text \<open>
  Text the operator writes: decimal \<open>Display\<close> of integers, \<open>join\<close>, the conversions strum
  derives for enums. The reading functions \<open>dec_to_nat\<close> and \<open>split_on\<close> are specifications: they
  say how a reader of the generated text recovers what was written.
\<close>

section \<open>Decimal numbers\<close>

definition digit_char :: "nat \<Rightarrow> char" where
  "digit_char d = char_of (48 + d)"

fun nat_to_dec :: "nat \<Rightarrow> string" where
  "nat_to_dec n =
     (if n < 10 then [digit_char n] else nat_to_dec (n div 10) @ [digit_char (n mod 10)])"

declare nat_to_dec.simps [simp del]

definition dec_to_nat :: "string \<Rightarrow> nat" where
  "dec_to_nat s = foldl (\<lambda>n c. 10 * n + (of_char c - 48)) 0 s"

definition is_digit :: "char \<Rightarrow> bool" where
  "is_digit c \<longleftrightarrow> 48 \<le> (of_char c :: nat) \<and> (of_char c :: nat) \<le> 57"

lemma of_char_digit: "d < 10 \<Longrightarrow> (of_char (digit_char d) :: nat) = 48 + d"
  by (simp add: digit_char_def)

lemma is_digit_digit_char: "d < 10 \<Longrightarrow> is_digit (digit_char d)"
  by (simp add: is_digit_def of_char_digit)

lemma nat_to_dec_digits: "list_all is_digit (nat_to_dec n)"
proof (induction n rule: nat_to_dec.induct)
  case (1 n)
  then show ?case
    by (subst nat_to_dec.simps) (simp add: is_digit_digit_char)
qed

lemma nat_to_dec_nonempty: "nat_to_dec n \<noteq> []"
  by (subst nat_to_dec.simps) simp

lemma dec_to_nat_nat_to_dec: "dec_to_nat (nat_to_dec n) = n"
proof (induction n rule: nat_to_dec.induct)
  case (1 n)
  show ?case
  proof (cases "n < 10")
    case True
    then show ?thesis
      by (subst nat_to_dec.simps) (simp add: dec_to_nat_def of_char_digit)
  next
    case False
    with "1.IH" have "dec_to_nat (nat_to_dec (n div 10)) = n div 10" by simp
    with False show ?thesis
      by (subst nat_to_dec.simps) (simp add: dec_to_nat_def of_char_digit)
  qed
qed

lemma nat_to_dec_inject: "nat_to_dec m = nat_to_dec n \<longleftrightarrow> m = n"
  by (metis dec_to_nat_nat_to_dec)

lemma non_digit_notin_dec: "\<not> is_digit c \<Longrightarrow> c \<notin> set (nat_to_dec n)"
  using nat_to_dec_digits by (auto simp: list_all_iff)

definition u16_to_string :: "16 word \<Rightarrow> string" where
  "u16_to_string p = nat_to_dec (unat p)"

lemma u16_to_string_inject: "u16_to_string p = u16_to_string q \<longleftrightarrow> p = q"
  by (simp add: u16_to_string_def nat_to_dec_inject word_unat_eq_iff)

lemma u16_to_string_unat: "dec_to_nat (u16_to_string p) = unat p"
  by (simp add: u16_to_string_def dec_to_nat_nat_to_dec)

text \<open>Evaluation on numerals.\<close>

lemma digit_char_simps:
  "digit_char 0 = CHR ''0''" "digit_char (Suc 0) = CHR ''1''" "digit_char 2 = CHR ''2''"
  "digit_char 3 = CHR ''3''" "digit_char 4 = CHR ''4''" "digit_char 5 = CHR ''5''"
  "digit_char 6 = CHR ''6''" "digit_char 7 = CHR ''7''" "digit_char 8 = CHR ''8''"
  "digit_char 9 = CHR ''9''"
  by code_simp+

lemma nat_to_dec_less: "n < 10 \<Longrightarrow> nat_to_dec n = [digit_char n]"
  by (simp add: nat_to_dec.simps)

lemma nat_to_dec_ge: "\<not> n < 10 \<Longrightarrow> nat_to_dec n = nat_to_dec (n div 10) @ [digit_char (n mod 10)]"
  by (subst nat_to_dec.simps) simp

lemmas nat_to_dec_eval = nat_to_dec_less nat_to_dec_ge digit_char_simps

section \<open>Joining and splitting\<close>

fun join :: "string \<Rightarrow> string list \<Rightarrow> string" where
  "join sep [] = []"
| "join sep [x] = x"
| "join sep (x # y # xs) = x @ sep @ join sep (y # xs)"

fun split_on :: "char \<Rightarrow> string \<Rightarrow> string list" where
  "split_on c [] = [[]]"
| "split_on c (x # xs) =
     (if x = c then [] # split_on c xs
      else (case split_on c xs of [] \<Rightarrow> [[x]] | y # ys \<Rightarrow> (x # y) # ys))"

lemma split_on_nonempty: "split_on c s \<noteq> []"
  by (induction s) (auto split: list.splits)

lemma split_on_free: "c \<notin> set s \<Longrightarrow> split_on c s = [s]"
  by (induction s) auto

lemma split_on_append: "c \<notin> set s \<Longrightarrow> split_on c (s @ c # t) = s # split_on c t"
  by (induction s) auto

lemma split_on_join:
  "xs \<noteq> [] \<Longrightarrow> (\<And>x. x \<in> set xs \<Longrightarrow> c \<notin> set x) \<Longrightarrow> split_on c (join [c] xs) = xs"
proof (induction "[c]" xs rule: join.induct)
  case (3 x y xs)
  then show ?case by (simp add: split_on_append)
qed (simp_all add: split_on_free)

text \<open>The text before and after the last occurrence of a separator is determined.\<close>

lemma last_separator_unique:
  assumes "xs @ c # ys = xs' @ c # ys'" and "c \<notin> set ys" and "c \<notin> set ys'"
  shows "xs = xs' \<and> ys = ys'"
proof -
  have "rev ys @ c # rev xs = rev ys' @ c # rev xs'"
    using arg_cong [OF assms(1), of rev] by simp
  moreover have "takeWhile (\<lambda>d. d \<noteq> c) (rev zs @ c # rev ws) = rev zs" if "c \<notin> set zs" for zs ws
    using that by (subst takeWhile_append2) auto
  ultimately have "rev ys = rev ys'" using assms(2,3) by metis
  with assms(1) show ?thesis by simp
qed

section \<open>Enums with a textual form\<close>

text \<open>
  strum's \<open>Display\<close> and \<open>EnumString\<close> on one enum: reading the text of a variant gives the variant
  back, and nothing else is read as a variant.
\<close>

locale enum_string =
  fixes to_text :: "'a \<Rightarrow> string"
    and from_text :: "string \<Rightarrow> 'e + 'a"
  assumes read_text: "from_text (to_text x) = Inr x"
    and text_of_read: "from_text s = Inr x \<Longrightarrow> s = to_text x"
begin

lemma text_inject: "to_text x = to_text y \<longleftrightarrow> x = y"
  by (metis read_text sum.inject(2))

lemma read_ok_iff: "is_ok (from_text s) \<longleftrightarrow> s \<in> range to_text"
  by (auto simp: is_ok_iff read_text dest: text_of_read)

lemma read_error_iff: "(\<exists>e. from_text s = Inl e) \<longleftrightarrow> (\<forall>x. s \<noteq> to_text x)"
  by (metis Inl_Inr_False read_text sumE text_of_read)

lemma distinct_texts: "distinct xs \<Longrightarrow> distinct (map to_text xs)"
  by (simp add: distinct_map inj_on_def text_inject)

end

end
