(* ===== verification/Crd.thy ===== *)
theory Crd
  imports TextFormat
begin

text \<open>
  The custom resource \<open>KafkaCluster\<close> and the operations on it: \<open>rust/crd/src/lib.rs\<close>, with
  \<open>affinity.rs\<close>, \<open>authorization.rs\<close> and \<open>tls.rs\<close>. Values of library types that the operator only
  passes through (image selection, cluster operation, OPA configuration, overrides, default
  logging) are their JSON text. Library functions are the fields of \<open>crd_lib\<close>.
\<close>

type_synonym json = string

section \<open>Constants\<close>

definition DOCKER_IMAGE_BASE_NAME :: string where "DOCKER_IMAGE_BASE_NAME = ''kafka''"
definition APP_NAME :: string where "APP_NAME = ''kafka''"
definition OPERATOR_NAME :: string where "OPERATOR_NAME = ''kafka.stackable.tech''"
definition METRICS_PORT_NAME :: string where "METRICS_PORT_NAME = ''metrics''"
definition METRICS_PORT :: "16 word" where "METRICS_PORT = 9606"
definition SERVER_PROPERTIES_FILE :: string where
  "SERVER_PROPERTIES_FILE = ''server.properties''"
definition JVM_SECURITY_PROPERTIES_FILE :: string where
  "JVM_SECURITY_PROPERTIES_FILE = ''security.properties''"
definition KAFKA_HEAP_OPTS :: string where "KAFKA_HEAP_OPTS = ''KAFKA_HEAP_OPTS''"
definition LOG_DIRS_VOLUME_NAME :: string where "LOG_DIRS_VOLUME_NAME = ''log-dirs''"
definition LISTENER_BROKER_VOLUME_NAME :: string where
  "LISTENER_BROKER_VOLUME_NAME = ''listener-broker''"
definition LISTENER_BOOTSTRAP_VOLUME_NAME :: string where
  "LISTENER_BOOTSTRAP_VOLUME_NAME = ''listener-bootstrap''"
definition STACKABLE_LISTENER_BROKER_DIR :: string where
  "STACKABLE_LISTENER_BROKER_DIR = ''/stackable/listener-broker''"
definition STACKABLE_LISTENER_BOOTSTRAP_DIR :: string where
  "STACKABLE_LISTENER_BOOTSTRAP_DIR = ''/stackable/listener-bootstrap''"
definition STACKABLE_DATA_DIR :: string where "STACKABLE_DATA_DIR = ''/stackable/data''"
definition STACKABLE_CONFIG_DIR :: string where "STACKABLE_CONFIG_DIR = ''/stackable/config''"
definition STACKABLE_LOG_CONFIG_DIR :: string where
  "STACKABLE_LOG_CONFIG_DIR = ''/stackable/log_config''"
definition STACKABLE_LOG_DIR :: string where "STACKABLE_LOG_DIR = ''/stackable/log''"
definition STACKABLE_KERBEROS_DIR :: string where "STACKABLE_KERBEROS_DIR = ''/stackable/kerberos''"
definition STACKABLE_KERBEROS_KRB5_PATH :: string where
  "STACKABLE_KERBEROS_KRB5_PATH = ''/stackable/kerberos/krb5.conf''"

text \<open>A \<open>Duration\<close> counts nanoseconds.\<close>

type_synonym duration = nat

definition duration_from_secs :: "nat \<Rightarrow> duration" where
  "duration_from_secs n = n * 10 ^ 9"

definition DEFAULT_BROKER_GRACEFUL_SHUTDOWN_TIMEOUT :: duration where
  "DEFAULT_BROKER_GRACEFUL_SHUTDOWN_TIMEOUT = duration_from_secs (30 * 60)"

definition DEFAULT_BROKER_SECRET_LIFETIME :: duration where
  "DEFAULT_BROKER_SECRET_LIFETIME = duration_from_secs (1 * 24 * 60 * 60)"

section \<open>Roles and containers\<close>

datatype kafka_role = Broker

datatype strum_error = VariantNotFound

fun kafka_role_to_string :: "kafka_role \<Rightarrow> string" where
  "kafka_role_to_string Broker = ''broker''"

definition kafka_role_from_str :: "string \<Rightarrow> strum_error + kafka_role" where
  "kafka_role_from_str s = (if s = ''broker'' then Inr Broker else Inl VariantNotFound)"

definition kafka_role_iter :: "kafka_role list" where
  "kafka_role_iter = [Broker]"

definition kafka_role_roles :: "string list" where
  "kafka_role_roles = map kafka_role_to_string kafka_role_iter"

fun kerberos_service_name :: "kafka_role \<Rightarrow> string" where
  "kerberos_service_name Broker = ''kafka''"

interpretation role_text: enum_string kafka_role_to_string kafka_role_from_str
proof unfold_locales
  fix x show "kafka_role_from_str (kafka_role_to_string x) = Inr x"
    by (cases x) (simp add: kafka_role_from_str_def)
next
  fix s x assume "kafka_role_from_str s = Inr x"
  then show "s = kafka_role_to_string x"
    by (cases x) (simp add: kafka_role_from_str_def split: if_splits)
qed

datatype container = Vector | KcatProber | GetService | Kafka

fun container_to_string :: "container \<Rightarrow> string" where
  "container_to_string Vector = ''vector''"
| "container_to_string KcatProber = ''kcat-prober''"
| "container_to_string GetService = ''get-service''"
| "container_to_string Kafka = ''kafka''"

text \<open>The derived order on \<open>Container\<close> is the order of declaration; it is a map key.\<close>

fun container_index :: "container \<Rightarrow> nat" where
  "container_index Vector = 0"
| "container_index KcatProber = 1"
| "container_index GetService = 2"
| "container_index Kafka = 3"

lemma container_index_inject: "container_index c = container_index d \<longleftrightarrow> c = d"
  by (cases c; cases d) simp_all

instantiation container :: linorder
begin

definition less_eq_container :: "container \<Rightarrow> container \<Rightarrow> bool" where
  "less_eq_container c d \<longleftrightarrow> container_index c \<le> container_index d"

definition less_container :: "container \<Rightarrow> container \<Rightarrow> bool" where
  "less_container c d \<longleftrightarrow> container_index c < container_index d"

instance
  by standard
    (auto simp: less_eq_container_def less_container_def container_index_inject [symmetric])

end

section \<open>The custom resource\<close>

record object_meta =
  metadata_name :: "string option"
  metadata_namespace :: "string option"

record kafka_tls =
  kt_internal_secret_class :: string
  kt_server_secret_class :: "string option"

definition TLS_DEFAULT_SECRET_CLASS :: string where "TLS_DEFAULT_SECRET_CLASS = ''tls''"

definition internal_tls_default :: string where
  "internal_tls_default = TLS_DEFAULT_SECRET_CLASS"

definition server_tls_default :: "string option" where
  "server_tls_default = Some TLS_DEFAULT_SECRET_CLASS"

definition default_kafka_tls :: "kafka_tls option" where
  "default_kafka_tls = Some \<lparr>
     kt_internal_secret_class = internal_tls_default,
     kt_server_secret_class = server_tls_default\<rparr>"

record kafka_authentication =
  ka_authentication_class :: string

record kafka_authorization =
  opa :: "json option"

record kafka_cluster_config =
  cc_authentication :: "kafka_authentication list"
  cc_authorization :: kafka_authorization
  cc_tls :: "kafka_tls option"
  cc_vector_aggregator_config_map_name :: "string option"
  cc_zookeeper_config_map_name :: string

record cpu_limits_fragment =
  cpuf_min :: "string option"
  cpuf_max :: "string option"

record memory_limits_fragment =
  memf_limit :: "string option"

record pvc_config_fragment =
  pvcf_capacity :: "string option"
  pvcf_storage_class :: "string option"
  pvcf_selectors :: "json option"

record storage_fragment =
  stf_log_dirs :: pvc_config_fragment

record resources_fragment =
  resf_cpu :: cpu_limits_fragment
  resf_memory :: memory_limits_fragment
  resf_storage :: storage_fragment

record pod_anti_affinity =
  paa_preferred :: "json list option"
  paa_required :: "json list option"

record affinity_fragment =
  aff_pod_affinity :: "json option"
  aff_pod_anti_affinity :: "pod_anti_affinity option"
  aff_node_affinity :: "json option"
  aff_node_selector :: "json option"

text \<open>What users write, every field optional: \<open>KafkaConfigFragment\<close>.\<close>

record kafka_config_fragment =
  cf_logging :: json
  cf_resources :: resources_fragment
  cf_affinity :: affinity_fragment
  cf_graceful_shutdown_timeout :: "duration option"
  cf_bootstrap_listener_class :: "string option"
  cf_broker_listener_class :: "string option"
  cf_requested_secret_lifetime :: "duration option"

datatype container_log_config_choice =
    Custom (clc_config_map: string)
  | Automatic (clc_log_config: json)

record container_log_config =
  clc_choice :: "container_log_config_choice option"

record logging =
  enable_vector_agent :: bool
  log_containers :: "(container, container_log_config) btree_map"

record pvc_config =
  pvc_capacity :: "string option"
  pvc_storage_class :: "string option"
  pvc_selectors :: "json option"

record storage =
  st_log_dirs :: pvc_config

record resources =
  res_cpu_min :: "string option"
  res_cpu_max :: "string option"
  res_memory_limit :: "string option"
  res_storage :: storage

text \<open>The validated configuration of a role group: \<open>KafkaConfig\<close>.\<close>

record kafka_config =
  kc_logging :: logging
  kc_resources :: resources
  kc_affinity :: json
  kc_graceful_shutdown_timeout :: "duration option"
  kc_bootstrap_listener_class :: string
  kc_broker_listener_class :: string
  kc_requested_secret_lifetime :: "duration option"

record common_configuration =
  com_config :: kafka_config_fragment
  com_config_overrides :: json
  com_env_overrides :: json
  com_pod_overrides :: json

record pdb_config =
  pdb_enabled :: bool
  pdb_max_unavailable :: "16 word option"

record generic_role_config =
  pod_disruption_budget :: pdb_config

record role_group =
  rg_config :: common_configuration
  rg_replicas :: "16 word option"

text \<open>The role groups are a hash map; the list holds its entries in iteration order.\<close>

record role =
  role_common :: common_configuration
  role_generic_config :: generic_role_config
  role_groups :: "(string \<times> role_group) list"

record kafka_cluster_spec =
  spec_image :: json
  spec_brokers :: "role option"
  spec_cluster_config :: kafka_cluster_config
  spec_cluster_operation :: json

record kafka_cluster_status =
  status_conditions :: "json list"

record kafka_cluster =
  metadata :: object_meta
  spec :: kafka_cluster_spec
  status :: "kafka_cluster_status option"

definition namespace :: "kafka_cluster \<Rightarrow> string option" where
  "namespace kafka = metadata_namespace (metadata kafka)"

definition kafka_conditions :: "kafka_cluster \<Rightarrow> json list" where
  "kafka_conditions kafka =
     (case status kafka of Some st \<Rightarrow> status_conditions st | None \<Rightarrow> [])"

text \<open>A reference to a role group names its cluster object, the role and the group.\<close>

record role_group_ref =
  rgr_cluster :: object_meta
  rgr_role :: string
  rgr_role_group :: string

record kafka_pod_ref =
  pod_namespace :: string
  role_group_service_name :: string
  pod_name :: string

section \<open>Library functions\<close>

text \<open>
  Functions of the operator library that the resource's code calls: the object name of a role
  group, the name of an object, the defaults and the merge and validation of configuration
  fragments (code derived by macros), and the affinity term between pods of a role.
\<close>

record 'e crd_lib =
  lib_object_name :: "role_group_ref \<Rightarrow> string"
  lib_name_any :: "object_meta \<Rightarrow> string"
  lib_default_logging :: json
  lib_affinity_between_role_pods :: "string \<Rightarrow> string \<Rightarrow> string \<Rightarrow> int \<Rightarrow> json"
  lib_merge :: "kafka_config_fragment \<Rightarrow> kafka_config_fragment \<Rightarrow> kafka_config_fragment"
  lib_validate :: "kafka_config_fragment \<Rightarrow> 'e + kafka_config"

datatype 'e crd_error =
    NoNamespace
  | RoleGroupValidation role_group_ref 'e
  | MissingKafkaRole string
  | CannotRetrieveKafkaRole string
  | MissingKafkaRoleGroup string
  | CannotRetrieveKafkaRoleGroup string
  | UnknownKafkaRole strum_error string "string list"
  | FragmentValidationFailure 'e

section \<open>Operations\<close>

definition bootstrap_service_name :: "'e crd_lib \<Rightarrow> role_group_ref \<Rightarrow> string" where
  "bootstrap_service_name lib rolegroup = lib_object_name lib rolegroup @ ''-bootstrap''"

text \<open>
  The reference to the cluster is made by \<open>ObjectRef::from_obj\<close>, which panics for a resource without a
  name. The reconciliation checks the name at its call; for \<open>pods\<close>, which nothing under \<open>src\<close> calls, the
  definition is that of a resource with a name, as every stored resource has one.
\<close>

definition broker_rolegroup_ref :: "kafka_cluster \<Rightarrow> string \<Rightarrow> role_group_ref" where
  "broker_rolegroup_ref kafka group_name = \<lparr>
     rgr_cluster = metadata kafka,
     rgr_role = kafka_role_to_string Broker,
     rgr_role_group = group_name\<rparr>"

definition kafka_role_rolegroup_ref ::
  "kafka_role \<Rightarrow> kafka_cluster \<Rightarrow> string \<Rightarrow> role_group_ref" where
  "kafka_role_rolegroup_ref r kafka group_name = \<lparr>
     rgr_cluster = metadata kafka,
     rgr_role = kafka_role_to_string r,
     rgr_role_group = group_name\<rparr>"

definition cluster_role :: "kafka_cluster \<Rightarrow> kafka_role \<Rightarrow> 'e crd_error + role" where
  "cluster_role kafka role_variant =
     ok_or (CannotRetrieveKafkaRole (kafka_role_to_string role_variant))
       (case role_variant of Broker \<Rightarrow> spec_brokers (spec kafka))"

definition cluster_rolegroup ::
  "kafka_cluster \<Rightarrow> role_group_ref \<Rightarrow> 'e crd_error + role_group" where
  "cluster_rolegroup kafka r =
     and_then
       (with_context (\<lambda>e. UnknownKafkaRole e (rgr_role r) kafka_role_roles)
         (kafka_role_from_str (rgr_role r)))
       (\<lambda>role_variant. and_then (cluster_role kafka role_variant)
         (\<lambda>rl. ok_or (CannotRetrieveKafkaRoleGroup (rgr_role_group r))
            (map_of (role_groups rl) (rgr_role_group r))))"

definition cluster_role_config ::
  "kafka_cluster \<Rightarrow> kafka_role \<Rightarrow> generic_role_config option" where
  "cluster_role_config kafka r =
     (case r of Broker \<Rightarrow> map_option role_generic_config (spec_brokers (spec kafka)))"

text \<open>The pods expected to form the cluster, role groups in ascending order of their names.\<close>

definition pods :: "'e crd_lib \<Rightarrow> kafka_cluster \<Rightarrow> 'e crd_error + kafka_pod_ref list" where
  "pods lib kafka =
     and_then (ok_or NoNamespace (metadata_namespace (metadata kafka))) (\<lambda>ns.
       let groups = bt_extend []
             (case spec_brokers (spec kafka) of None \<Rightarrow> [] | Some rl \<Rightarrow> role_groups rl)
       in Inr (concat (map (\<lambda>(rolegroup_name, rolegroup).
            let rolegroup_ref = broker_rolegroup_ref kafka rolegroup_name;
                replicas = (case rg_replicas rolegroup of None \<Rightarrow> 0 | Some n \<Rightarrow> n)
            in map (\<lambda>i. \<lparr>
                 pod_namespace = ns,
                 role_group_service_name = lib_object_name lib rolegroup_ref,
                 pod_name = lib_object_name lib rolegroup_ref @ ''-'' @ nat_to_dec i\<rparr>)
               [0..<unat replicas]) groups)))"

definition pod_ref_fqdn :: "string \<Rightarrow> kafka_pod_ref \<Rightarrow> string" where
  "pod_ref_fqdn cluster_domain p =
     pod_name p @ ''.'' @ role_group_service_name p @ ''.'' @ pod_namespace p @ ''.svc.''
       @ cluster_domain"

definition get_affinity :: "'e crd_lib \<Rightarrow> string \<Rightarrow> kafka_role \<Rightarrow> affinity_fragment" where
  "get_affinity lib cluster_name r = \<lparr>
     aff_pod_affinity = None,
     aff_pod_anti_affinity = Some \<lparr>
       paa_preferred = Some [lib_affinity_between_role_pods lib APP_NAME cluster_name
                               (kafka_role_to_string r) 70],
       paa_required = None\<rparr>,
     aff_node_affinity = None,
     aff_node_selector = None\<rparr>"

definition default_config :: "'e crd_lib \<Rightarrow> string \<Rightarrow> kafka_role \<Rightarrow> kafka_config_fragment" where
  "default_config lib cluster_name r = \<lparr>
     cf_logging = lib_default_logging lib,
     cf_resources = \<lparr>
       resf_cpu = \<lparr>cpuf_min = Some ''250m'', cpuf_max = Some ''1000m''\<rparr>,
       resf_memory = \<lparr>memf_limit = Some ''1Gi''\<rparr>,
       resf_storage = \<lparr>stf_log_dirs = \<lparr>
         pvcf_capacity = Some ''2Gi'',
         pvcf_storage_class = None,
         pvcf_selectors = None\<rparr>\<rparr>\<rparr>,
     cf_affinity = get_affinity lib cluster_name r,
     cf_graceful_shutdown_timeout = Some DEFAULT_BROKER_GRACEFUL_SHUTDOWN_TIMEOUT,
     cf_bootstrap_listener_class = Some ''cluster-internal'',
     cf_broker_listener_class = Some ''cluster-internal'',
     cf_requested_secret_lifetime = Some DEFAULT_BROKER_SECRET_LIFETIME\<rparr>"

definition merged_config ::
  "'e crd_lib \<Rightarrow> kafka_cluster \<Rightarrow> kafka_role \<Rightarrow> role_group_ref \<Rightarrow> 'e crd_error + kafka_config" where
  "merged_config lib kafka r rolegroup_ref =
     (let conf_defaults = default_config lib (lib_name_any lib (metadata kafka)) r
      in and_then (cluster_role kafka r) (\<lambda>rl.
           let conf_role = com_config (role_common rl)
           in and_then (cluster_rolegroup kafka rolegroup_ref) (\<lambda>rg.
             let conf_role_group = com_config (rg_config rg);
                 conf_role = lib_merge lib conf_role conf_defaults;
                 conf_role_group = lib_merge lib conf_role_group conf_role
             in with_context FragmentValidationFailure (lib_validate lib conf_role_group))))"

text \<open>
  The implementation of \<open>Configuration\<close>: no environment and no command line settings; the
  authorizer settings for \<open>server.properties\<close>.
\<close>

definition compute_env ::
  "kafka_config_fragment \<Rightarrow> kafka_cluster \<Rightarrow> string \<Rightarrow>
     'e + (string, string option) btree_map" where
  "compute_env conf resource role_name = Inr []"

definition compute_cli ::
  "kafka_config_fragment \<Rightarrow> kafka_cluster \<Rightarrow> string \<Rightarrow>
     'e + (string, string option) btree_map" where
  "compute_cli conf resource role_name = Inr []"

definition compute_files ::
  "kafka_config_fragment \<Rightarrow> kafka_cluster \<Rightarrow> string \<Rightarrow> string \<Rightarrow>
     'e + (string, string option) btree_map" where
  "compute_files conf resource role_name file =
     Inr (if file = SERVER_PROPERTIES_FILE then
            (if opa (cc_authorization (spec_cluster_config (spec resource))) \<noteq> None then
               bt_insert ''opa.authorizer.metrics.enabled'' (Some ''true'')
                 (bt_insert ''authorizer.class.name''
                   (Some ''org.openpolicyagent.kafka.OpaAuthorizer'') [])
             else [])
          else [])"

record persistent_volume_claim =
  pvc_name :: string
  pvc_source :: pvc_config
  pvc_access_modes :: "string list option"

text \<open>The claim \<open>PvcConfig::build_pvc\<close> is asked for, by its name, configuration and access modes.\<close>

definition build_pvcs :: "storage \<Rightarrow> persistent_volume_claim list" where
  "build_pvcs s = [\<lparr>pvc_name = LOG_DIRS_VOLUME_NAME, pvc_source = st_log_dirs s,
                    pvc_access_modes = Some [''ReadWriteOnce'']\<rparr>]"

section \<open>Roles, role groups and pods\<close>

lemma kafka_role_rolegroup_ref_broker:
  "kafka_role_rolegroup_ref Broker kafka g = broker_rolegroup_ref kafka g"
  by (simp add: kafka_role_rolegroup_ref_def broker_rolegroup_ref_def)

lemma cluster_role_Broker [simp]:
  "cluster_role kafka Broker =
     ok_or (CannotRetrieveKafkaRole ''broker'') (spec_brokers (spec kafka))"
  by (simp add: cluster_role_def)

lemma cluster_rolegroup_broker:
  "cluster_rolegroup kafka (broker_rolegroup_ref kafka g) =
     and_then (cluster_role kafka Broker)
       (\<lambda>rl. ok_or (CannotRetrieveKafkaRoleGroup g) (map_of (role_groups rl) g))"
  by (simp add: cluster_rolegroup_def broker_rolegroup_ref_def kafka_role_from_str_def)

lemma cluster_rolegroup_eq_Inr:
  "cluster_rolegroup kafka r = Inr rg \<longleftrightarrow>
     rgr_role r = ''broker'' \<and>
     (\<exists>rl. spec_brokers (spec kafka) = Some rl \<and>
           map_of (role_groups rl) (rgr_role_group r) = Some rg)"
  by (auto simp: cluster_rolegroup_def kafka_role_from_str_def result_simps)

text \<open>The role groups in the order in which \<open>pods\<close> visits them.\<close>

definition sorted_role_groups :: "kafka_cluster \<Rightarrow> (string \<times> role_group) list" where
  "sorted_role_groups kafka = bt_extend []
     (case spec_brokers (spec kafka) of None \<Rightarrow> [] | Some rl \<Rightarrow> role_groups rl)"

lemma sorted_role_groups_wf: "bt_wf (sorted_role_groups kafka)"
  unfolding sorted_role_groups_def by (rule bt_wf_extend_Nil)

lemma sorted_role_groups_distinct: "distinct (map fst (sorted_role_groups kafka))"
  using sorted_role_groups_wf bt.entries_distinct by blast

definition group_pods ::
  "'e crd_lib \<Rightarrow> kafka_cluster \<Rightarrow> string \<Rightarrow> string \<times> role_group \<Rightarrow> kafka_pod_ref list" where
  "group_pods lib kafka ns g =
     map (\<lambda>i. \<lparr>
         pod_namespace = ns,
         role_group_service_name = lib_object_name lib (broker_rolegroup_ref kafka (fst g)),
         pod_name = lib_object_name lib (broker_rolegroup_ref kafka (fst g)) @ ''-''
                      @ nat_to_dec i\<rparr>)
       [0..<unat (case rg_replicas (snd g) of None \<Rightarrow> 0 | Some n \<Rightarrow> n)]"

lemma pods_eq:
  "pods lib kafka =
     and_then (ok_or NoNamespace (namespace kafka))
       (\<lambda>ns. Inr (concat (map (group_pods lib kafka ns) (sorted_role_groups kafka))))"
  unfolding pods_def group_pods_def sorted_role_groups_def namespace_def Let_def
  by (simp add: case_prod_unfold)

lemma dash_not_digit: "\<not> is_digit CHR ''-''"
  by (simp add: is_digit_def)

text \<open>A pod name determines the role group's object name and the ordinal.\<close>

lemma pod_name_unique:
  "n @ ''-'' @ nat_to_dec i = m @ ''-'' @ nat_to_dec j \<longleftrightarrow> n = m \<and> i = j"
  using last_separator_unique [of n "CHR ''-''" "nat_to_dec i" m "nat_to_dec j"]
    non_digit_notin_dec [OF dash_not_digit] nat_to_dec_inject by auto

definition object_name_injective :: "'e crd_lib \<Rightarrow> kafka_cluster \<Rightarrow> bool" where
  "object_name_injective lib kafka \<longleftrightarrow>
     inj (\<lambda>g. lib_object_name lib (broker_rolegroup_ref kafka g))"

lemma distinct_group_pod_names: "distinct (map pod_name (group_pods lib kafka ns g))"
  by (simp add: group_pods_def distinct_map inj_on_def nat_to_dec_inject comp_def)

lemma distinct_pod_names_concat:
  assumes inj: "object_name_injective lib kafka" and "distinct (map fst gs)"
  shows "distinct (map pod_name (concat (map (group_pods lib kafka ns) gs)))"
  using assms(2)
proof (induction gs)
  case (Cons g gs)
  have "n \<noteq> m" if n: "n \<in> pod_name ` set (group_pods lib kafka ns g)"
    and h: "h \<in> set gs" and m: "m \<in> pod_name ` set (group_pods lib kafka ns h)" for n m h
  proof -
    have "fst g \<notin> fst ` set gs" using Cons.prems by simp
    then have "fst h \<noteq> fst g" using h by (metis image_eqI)
    with inj have "lib_object_name lib (broker_rolegroup_ref kafka (fst h)) \<noteq>
                   lib_object_name lib (broker_rolegroup_ref kafka (fst g))"
      by (auto simp: object_name_injective_def dest: injD)
    with n m show ?thesis by (auto simp: group_pods_def pod_name_unique simp del: append_Cons)
  qed
  then have "pod_name ` set (group_pods lib kafka ns g) \<inter>
             pod_name ` set (concat (map (group_pods lib kafka ns) gs)) = {}"
    by fastforce
  with Cons show ?case by (simp add: distinct_group_pod_names)
qed simp

lemma pods_names_distinct:
  assumes "object_name_injective lib kafka" and "pods lib kafka = Inr ps"
  shows "distinct (map pod_name ps)"
proof -
  obtain ns where "ps = concat (map (group_pods lib kafka ns) (sorted_role_groups kafka))"
    using assms(2) by (auto simp: pods_eq result_simps)
  then show ?thesis
    using distinct_pod_names_concat [OF assms(1) sorted_role_groups_distinct] by simp
qed

lemma sorted_role_groups_brokers:
  "spec_brokers (spec kafka) = Some rl \<Longrightarrow>
     sorted_role_groups kafka = bt_extend [] (role_groups rl)"
  by (simp add: sorted_role_groups_def)

section \<open>Merged configuration\<close>

text \<open>
  What the merge and validation the operator relies on promise, per field: a set field is kept,
  an unset one takes the default; validation needs the required fields and copies the others.
\<close>

definition opt_or :: "'a option \<Rightarrow> 'a option \<Rightarrow> 'a option" where
  "opt_or x y = (case x of None \<Rightarrow> y | Some _ \<Rightarrow> x)"

lemma opt_or_simps [simp]: "opt_or None y = y" "opt_or (Some x) y = Some x"
  by (simp_all add: opt_or_def)

lemma opt_or_assoc: "opt_or (opt_or x y) z = opt_or x (opt_or y z)"
  by (cases x) simp_all

lemma opt_or_not_None: "y \<noteq> None \<Longrightarrow> opt_or x y \<noteq> None"
  by (cases x) simp_all

definition merge_prefers_self :: "'e crd_lib \<Rightarrow> bool" where
  "merge_prefers_self lib \<longleftrightarrow> (\<forall>a b.
     cf_bootstrap_listener_class (lib_merge lib a b) =
       opt_or (cf_bootstrap_listener_class a) (cf_bootstrap_listener_class b) \<and>
     cf_broker_listener_class (lib_merge lib a b) =
       opt_or (cf_broker_listener_class a) (cf_broker_listener_class b) \<and>
     cf_graceful_shutdown_timeout (lib_merge lib a b) =
       opt_or (cf_graceful_shutdown_timeout a) (cf_graceful_shutdown_timeout b) \<and>
     cf_requested_secret_lifetime (lib_merge lib a b) =
       opt_or (cf_requested_secret_lifetime a) (cf_requested_secret_lifetime b))"

definition validate_copies :: "'e crd_lib \<Rightarrow> bool" where
  "validate_copies lib \<longleftrightarrow> (\<forall>f c. lib_validate lib f = Inr c \<longrightarrow>
     cf_bootstrap_listener_class f = Some (kc_bootstrap_listener_class c) \<and>
     cf_broker_listener_class f = Some (kc_broker_listener_class c) \<and>
     kc_graceful_shutdown_timeout c = cf_graceful_shutdown_timeout f \<and>
     kc_requested_secret_lifetime c = cf_requested_secret_lifetime f)"

text \<open>The fragment that is validated: role group over role over defaults.\<close>

lemma merged_config_eq_Inr:
  "merged_config lib kafka Broker (broker_rolegroup_ref kafka g) = Inr c \<longleftrightarrow>
     (\<exists>rl rg. spec_brokers (spec kafka) = Some rl \<and> map_of (role_groups rl) g = Some rg \<and>
        lib_validate lib
          (lib_merge lib (com_config (rg_config rg))
            (lib_merge lib (com_config (role_common rl))
              (default_config lib (lib_name_any lib (metadata kafka)) Broker))) = Inr c)"
  by (auto simp: merged_config_def cluster_rolegroup_broker Let_def result_simps)

lemma default_config_fields [simp]:
  "cf_bootstrap_listener_class (default_config lib n r) = Some ''cluster-internal''"
  "cf_broker_listener_class (default_config lib n r) = Some ''cluster-internal''"
  "cf_graceful_shutdown_timeout (default_config lib n r) =
     Some DEFAULT_BROKER_GRACEFUL_SHUTDOWN_TIMEOUT"
  "cf_requested_secret_lifetime (default_config lib n r) = Some DEFAULT_BROKER_SECRET_LIFETIME"
  by (simp_all add: default_config_def)

lemma merged_config_fields:
  assumes "merge_prefers_self lib" and "validate_copies lib"
    and "spec_brokers (spec kafka) = Some rl" and "map_of (role_groups rl) g = Some rg"
    and "merged_config lib kafka Broker (broker_rolegroup_ref kafka g) = Inr c"
  shows "Some (kc_bootstrap_listener_class c) =
           opt_or (cf_bootstrap_listener_class (com_config (rg_config rg)))
             (opt_or (cf_bootstrap_listener_class (com_config (role_common rl)))
               (Some ''cluster-internal''))"
    and "Some (kc_broker_listener_class c) =
           opt_or (cf_broker_listener_class (com_config (rg_config rg)))
             (opt_or (cf_broker_listener_class (com_config (role_common rl)))
               (Some ''cluster-internal''))"
    and "kc_graceful_shutdown_timeout c =
           opt_or (cf_graceful_shutdown_timeout (com_config (rg_config rg)))
             (opt_or (cf_graceful_shutdown_timeout (com_config (role_common rl)))
               (Some DEFAULT_BROKER_GRACEFUL_SHUTDOWN_TIMEOUT))"
    and "kc_requested_secret_lifetime c =
           opt_or (cf_requested_secret_lifetime (com_config (rg_config rg)))
             (opt_or (cf_requested_secret_lifetime (com_config (role_common rl)))
               (Some DEFAULT_BROKER_SECRET_LIFETIME))"
proof -
  let ?f = "lib_merge lib (com_config (rg_config rg))
              (lib_merge lib (com_config (role_common rl))
                (default_config lib (lib_name_any lib (metadata kafka)) Broker))"
  have v: "lib_validate lib ?f = Inr c" using assms(3-5) by (simp add: merged_config_eq_Inr)
  note m = assms(1) [unfolded merge_prefers_self_def, rule_format]
  note w = assms(2) [unfolded validate_copies_def, rule_format, OF v]
  show "Some (kc_bootstrap_listener_class c) =
           opt_or (cf_bootstrap_listener_class (com_config (rg_config rg)))
             (opt_or (cf_bootstrap_listener_class (com_config (role_common rl)))
               (Some ''cluster-internal''))"
    using w m by (metis default_config_fields(1))
  show "Some (kc_broker_listener_class c) =
           opt_or (cf_broker_listener_class (com_config (rg_config rg)))
             (opt_or (cf_broker_listener_class (com_config (role_common rl)))
               (Some ''cluster-internal''))"
    using w m by (metis default_config_fields(2))
  show "kc_graceful_shutdown_timeout c =
           opt_or (cf_graceful_shutdown_timeout (com_config (rg_config rg)))
             (opt_or (cf_graceful_shutdown_timeout (com_config (role_common rl)))
               (Some DEFAULT_BROKER_GRACEFUL_SHUTDOWN_TIMEOUT))"
    using w m by (metis default_config_fields(3))
  show "kc_requested_secret_lifetime c =
           opt_or (cf_requested_secret_lifetime (com_config (rg_config rg)))
             (opt_or (cf_requested_secret_lifetime (com_config (role_common rl)))
               (Some DEFAULT_BROKER_SECRET_LIFETIME))"
    using w m by (metis default_config_fields(4))
qed

section \<open>A concrete library and cluster\<close>

text \<open>
  An instance of the library functions that has the properties assumed of them, and a cluster
  with two role groups. They show that the hypotheses of the theorems can hold.
\<close>

definition example_merge ::
  "kafka_config_fragment \<Rightarrow> kafka_config_fragment \<Rightarrow> kafka_config_fragment" where
  "example_merge a b = a\<lparr>
     cf_graceful_shutdown_timeout :=
       opt_or (cf_graceful_shutdown_timeout a) (cf_graceful_shutdown_timeout b),
     cf_bootstrap_listener_class :=
       opt_or (cf_bootstrap_listener_class a) (cf_bootstrap_listener_class b),
     cf_broker_listener_class :=
       opt_or (cf_broker_listener_class a) (cf_broker_listener_class b),
     cf_requested_secret_lifetime :=
       opt_or (cf_requested_secret_lifetime a) (cf_requested_secret_lifetime b)\<rparr>"

definition example_validate :: "kafka_config_fragment \<Rightarrow> string + kafka_config" where
  "example_validate f =
     (case (cf_bootstrap_listener_class f, cf_broker_listener_class f) of
        (Some b, Some c) \<Rightarrow> Inr \<lparr>
          kc_logging = \<lparr>enable_vector_agent = False, log_containers = []\<rparr>,
          kc_resources = \<lparr>res_cpu_min = cpuf_min (resf_cpu (cf_resources f)),
            res_cpu_max = cpuf_max (resf_cpu (cf_resources f)),
            res_memory_limit = memf_limit (resf_memory (cf_resources f)),
            res_storage = \<lparr>st_log_dirs = \<lparr>
              pvc_capacity = pvcf_capacity (stf_log_dirs (resf_storage (cf_resources f))),
              pvc_storage_class = None, pvc_selectors = None\<rparr>\<rparr>\<rparr>,
          kc_affinity = ''{}'',
          kc_graceful_shutdown_timeout = cf_graceful_shutdown_timeout f,
          kc_bootstrap_listener_class = b,
          kc_broker_listener_class = c,
          kc_requested_secret_lifetime = cf_requested_secret_lifetime f\<rparr>
      | _ \<Rightarrow> Inl ''missing field'')"

definition example_lib :: "string crd_lib" where
  "example_lib = \<lparr>
     lib_object_name = (\<lambda>r. (case metadata_name (rgr_cluster r) of None \<Rightarrow> [] | Some n \<Rightarrow> n)
        @ ''-'' @ rgr_role r @ ''-'' @ rgr_role_group r),
     lib_name_any = (\<lambda>m. case metadata_name m of None \<Rightarrow> [] | Some n \<Rightarrow> n),
     lib_default_logging = ''{}'',
     lib_affinity_between_role_pods = (\<lambda>app name r w. ''{}''),
     lib_merge = example_merge,
     lib_validate = example_validate\<rparr>"

definition empty_fragment :: kafka_config_fragment where
  "empty_fragment = \<lparr>
     cf_logging = ''{}'',
     cf_resources = \<lparr>resf_cpu = \<lparr>cpuf_min = None, cpuf_max = None\<rparr>,
       resf_memory = \<lparr>memf_limit = None\<rparr>,
       resf_storage = \<lparr>stf_log_dirs = \<lparr>pvcf_capacity = None, pvcf_storage_class = None,
         pvcf_selectors = None\<rparr>\<rparr>\<rparr>,
     cf_affinity = \<lparr>aff_pod_affinity = None, aff_pod_anti_affinity = None,
       aff_node_affinity = None, aff_node_selector = None\<rparr>,
     cf_graceful_shutdown_timeout = None,
     cf_bootstrap_listener_class = None,
     cf_broker_listener_class = None,
     cf_requested_secret_lifetime = None\<rparr>"

definition example_common :: "kafka_config_fragment \<Rightarrow> common_configuration" where
  "example_common f = \<lparr>com_config = f, com_config_overrides = ''{}'', com_env_overrides = ''{}'',
     com_pod_overrides = ''{}''\<rparr>"

definition example_group :: "kafka_config_fragment \<Rightarrow> 16 word option \<Rightarrow> role_group" where
  "example_group f n = \<lparr>rg_config = example_common f, rg_replicas = n\<rparr>"

definition example_role :: role where
  "example_role = \<lparr>
     role_common = example_common
       (empty_fragment\<lparr>cf_broker_listener_class := Some ''external-unstable''\<rparr>),
     role_generic_config = \<lparr>pod_disruption_budget =
       \<lparr>pdb_enabled = True, pdb_max_unavailable = None\<rparr>\<rparr>,
     role_groups = [(''default'', example_group empty_fragment (Some 2)),
       (''blue'', example_group
          (empty_fragment\<lparr>cf_bootstrap_listener_class := Some ''external-stable''\<rparr>) (Some 1))]\<rparr>"

definition example_kafka :: kafka_cluster where
  "example_kafka = \<lparr>
     metadata = \<lparr>metadata_name = Some ''simple-kafka'', metadata_namespace = Some ''default''\<rparr>,
     spec = \<lparr>
       spec_image = ''{}'',
       spec_brokers = Some example_role,
       spec_cluster_config = \<lparr>
         cc_authentication = [],
         cc_authorization = \<lparr>opa = None\<rparr>,
         cc_tls = default_kafka_tls,
         cc_vector_aggregator_config_map_name = None,
         cc_zookeeper_config_map_name = ''xyz''\<rparr>,
       spec_cluster_operation = ''{}''\<rparr>,
     status = None\<rparr>"

lemma example_lib_merge: "merge_prefers_self example_lib"
  by (simp add: merge_prefers_self_def example_lib_def example_merge_def)

lemma example_lib_validate: "validate_copies example_lib"
  by (auto simp: validate_copies_def example_lib_def example_validate_def split: option.splits)

lemma example_lib_object_names: "object_name_injective example_lib kafka"
  by (simp add: object_name_injective_def inj_on_def example_lib_def broker_rolegroup_ref_def)

section \<open>Properties\<close>

text \<open>
  C26. Pod prediction. When the library gives different role groups different object names, no two
  of the predicted pods have the same name: ordinals within a group and groups among each other
  are kept apart, also when one group's name extends another's (\<open>a\<close>, \<open>a-1\<close>).
\<close>

theorem predicted_pod_names_distinct:
  assumes "object_name_injective lib kafka" and "pods lib kafka = Inr ps"
  shows "distinct (map pod_name ps)"
  using assms by (rule pods_names_distinct)

theorem predicted_pod_names_distinct_witness:
  "case pods example_lib example_kafka of Inl e \<Rightarrow> False
   | Inr ps \<Rightarrow> length ps = 3 \<and> distinct (map pod_name ps)"
proof -
  have three: "case pods example_lib example_kafka of Inl e \<Rightarrow> False | Inr ps \<Rightarrow> length ps = 3"
    by code_simp
  then obtain ps where ps: "pods example_lib example_kafka = Inr ps"
    by (cases "pods example_lib example_kafka") auto
  with three predicted_pod_names_distinct [OF example_lib_object_names ps] show ?thesis by simp
qed

text \<open>
  Pod prediction does not depend on the iteration order of the hash map of role groups: two
  resources that differ only in that order predict the same pods in the same order, so downstream
  objects are not rewritten spuriously.
\<close>

theorem pods_order_deterministic:
  assumes "spec_brokers (spec kafka) = Some rl"
    and "distinct (map fst (role_groups rl))"
    and "distinct (map fst gs)" and "set gs = set (role_groups rl)"
  shows "pods lib (kafka\<lparr>spec := (spec kafka)\<lparr>spec_brokers := Some (rl\<lparr>role_groups := gs\<rparr>)\<rparr>\<rparr>)
           = pods lib kafka"
proof -
  let ?k = "kafka\<lparr>spec := (spec kafka)\<lparr>spec_brokers := Some (rl\<lparr>role_groups := gs\<rparr>)\<rparr>\<rparr>"
  have "sorted_role_groups ?k = sorted_role_groups kafka"
    by (simp add: sorted_role_groups_def assms(1) bt_extend_order_irrelevant [OF assms(3,2,4)])
  moreover have "broker_rolegroup_ref ?k = broker_rolegroup_ref kafka"
    by (simp add: broker_rolegroup_ref_def fun_eq_iff)
  then have "group_pods lib ?k = group_pods lib kafka"
    by (simp add: group_pods_def fun_eq_iff)
  ultimately show ?thesis by (simp add: pods_eq namespace_def)
qed

theorem pods_order_deterministic_witness:
  "pods example_lib (example_kafka\<lparr>spec := (spec example_kafka)\<lparr>spec_brokers :=
       Some (example_role\<lparr>role_groups := rev (role_groups example_role)\<rparr>)\<rparr>\<rparr>)
     = pods example_lib example_kafka"
proof (rule pods_order_deterministic [of example_kafka example_role])
  show "spec_brokers (spec example_kafka) = Some example_role"
    by (simp add: example_kafka_def)
  show "distinct (map fst (role_groups example_role))"
    "distinct (map fst (rev (role_groups example_role)))"
    by (simp_all add: example_role_def)
qed simp

text \<open>
  Functional content of the prediction: with a namespace, the pods are those of the role
  groups in ascending order of group names, and exactly the defined groups are visited; a group
  without a replica count contributes no pod, one with count \<open>n\<close> the ordinals \<open>0..n-1\<close>. Without
  a namespace the operation fails.
\<close>

theorem pods_functional:
  "case namespace kafka of
     None \<Rightarrow> pods lib kafka = Inl NoNamespace
   | Some ns \<Rightarrow>
      (\<exists>gs. pods lib kafka = Inr (concat (map (group_pods lib kafka ns) gs)) \<and>
         sorted_wrt (<) (map fst gs) \<and>
         fst ` set gs = (case spec_brokers (spec kafka) of None \<Rightarrow> {}
                         | Some rl \<Rightarrow> fst ` set (role_groups rl)) \<and>
         (\<forall>g. length (group_pods lib kafka ns g) =
                 (case rg_replicas (snd g) of None \<Rightarrow> 0 | Some n \<Rightarrow> unat n)))"
proof (cases "namespace kafka")
  case (Some ns)
  let ?gs = "sorted_role_groups kafka"
  have "pods lib kafka = Inr (concat (map (group_pods lib kafka ns) ?gs))"
    using Some by (simp add: pods_eq)
  moreover have "sorted_wrt (<) (map fst ?gs)"
    using sorted_role_groups_wf by (simp add: bt_wf_def)
  moreover have "fst ` set ?gs = (case spec_brokers (spec kafka) of None \<Rightarrow> {}
                         | Some rl \<Rightarrow> fst ` set (role_groups rl))"
    by (simp add: sorted_role_groups_def keys_bt_extend split: option.splits)
  moreover have "\<forall>g. length (group_pods lib kafka ns g) =
                 (case rg_replicas (snd g) of None \<Rightarrow> 0 | Some n \<Rightarrow> unat n)"
    by (simp add: group_pods_def split: option.splits)
  ultimately show ?thesis using Some by auto
qed (simp add: pods_eq)

text \<open>
  Configuration hierarchy. If the library's merge keeps set fields and its validation copies
  them, the configuration of a role group takes each setting from the role group, else from the
  role, else from the operator's defaults.
\<close>

theorem merged_config_hierarchy:
  assumes "merge_prefers_self lib" and "validate_copies lib"
    and "spec_brokers (spec kafka) = Some rl" and "map_of (role_groups rl) g = Some rg"
    and "merged_config lib kafka Broker (broker_rolegroup_ref kafka g) = Inr c"
  shows "Some (kc_bootstrap_listener_class c) =
           opt_or (cf_bootstrap_listener_class (com_config (rg_config rg)))
             (opt_or (cf_bootstrap_listener_class (com_config (role_common rl)))
               (Some ''cluster-internal'')) \<and>
         Some (kc_broker_listener_class c) =
           opt_or (cf_broker_listener_class (com_config (rg_config rg)))
             (opt_or (cf_broker_listener_class (com_config (role_common rl)))
               (Some ''cluster-internal'')) \<and>
         kc_graceful_shutdown_timeout c =
           opt_or (cf_graceful_shutdown_timeout (com_config (rg_config rg)))
             (opt_or (cf_graceful_shutdown_timeout (com_config (role_common rl)))
               (Some DEFAULT_BROKER_GRACEFUL_SHUTDOWN_TIMEOUT)) \<and>
         kc_requested_secret_lifetime c =
           opt_or (cf_requested_secret_lifetime (com_config (rg_config rg)))
             (opt_or (cf_requested_secret_lifetime (com_config (role_common rl)))
               (Some DEFAULT_BROKER_SECRET_LIFETIME))"
  using merged_config_fields [OF assms] by blast

lemma example_brokers: "spec_brokers (spec example_kafka) = Some example_role"
  by (simp add: example_kafka_def)

lemma example_blue:
  "map_of (role_groups example_role) ''blue'' =
     Some (example_group
       (empty_fragment\<lparr>cf_bootstrap_listener_class := Some ''external-stable''\<rparr>) (Some 1))"
  by (simp add: example_role_def)

lemma example_merged:
  "\<exists>c. merged_config example_lib example_kafka Broker (broker_rolegroup_ref example_kafka ''blue'')
     = Inr c"
  by (simp add: merged_config_eq_Inr example_brokers example_blue example_lib_def
      example_validate_def example_merge_def default_config_def example_group_def
      example_common_def empty_fragment_def example_role_def)

theorem merged_config_hierarchy_witness:
  "\<exists>c. merged_config example_lib example_kafka Broker (broker_rolegroup_ref example_kafka ''blue'')
          = Inr c \<and>
       kc_bootstrap_listener_class c = ''external-stable'' \<and>
       kc_broker_listener_class c = ''external-unstable'' \<and>
       kc_graceful_shutdown_timeout c = Some (1800 * 10 ^ 9)"
proof -
  obtain c where c: "merged_config example_lib example_kafka Broker
      (broker_rolegroup_ref example_kafka ''blue'') = Inr c"
    using example_merged by blast
  from merged_config_hierarchy [OF example_lib_merge example_lib_validate example_brokers
      example_blue c]
  have "kc_bootstrap_listener_class c = ''external-stable''"
    "kc_broker_listener_class c = ''external-unstable''"
    "kc_graceful_shutdown_timeout c = Some (1800 * 10 ^ 9)"
    by (simp_all add: example_group_def example_common_def empty_fragment_def example_role_def
        DEFAULT_BROKER_GRACEFUL_SHUTDOWN_TIMEOUT_def duration_from_secs_def)
  with c show ?thesis by blast
qed

text \<open>
  Graceful shutdown and the certificate lifetime cannot be disabled: whatever the user writes,
  a successful merge yields a shutdown timeout and a secret lifetime, so the error for a missing
  lifetime cannot occur.
\<close>

theorem merged_config_timeouts_set:
  assumes "merge_prefers_self lib" and "validate_copies lib"
    and "merged_config lib kafka Broker (broker_rolegroup_ref kafka g) = Inr c"
  shows "kc_graceful_shutdown_timeout c \<noteq> None \<and> kc_requested_secret_lifetime c \<noteq> None"
proof -
  obtain rl rg where "spec_brokers (spec kafka) = Some rl" "map_of (role_groups rl) g = Some rg"
    using assms(3) by (auto simp: merged_config_eq_Inr)
  from merged_config_fields(3,4) [OF assms(1,2) this assms(3)] show ?thesis
    by (simp add: opt_or_not_None)
qed

theorem merged_config_timeouts_set_witness:
  "\<exists>c. merged_config example_lib example_kafka Broker (broker_rolegroup_ref example_kafka ''blue'')
          = Inr c \<and>
       kc_graceful_shutdown_timeout c \<noteq> None \<and> kc_requested_secret_lifetime c \<noteq> None"
  using example_merged merged_config_timeouts_set [OF example_lib_merge example_lib_validate]
  by blast

text \<open>
  Looking up the configuration of a role group reports each way it can be missing: an unknown
  role (listing the known ones), an undefined broker role, an undefined role group; otherwise the
  result is what validation makes of the merged fragments, with its error wrapped.
\<close>

theorem merged_config_errors:
  "merged_config lib kafka Broker r =
     (case spec_brokers (spec kafka) of
        None \<Rightarrow> Inl (CannotRetrieveKafkaRole ''broker'')
      | Some rl \<Rightarrow>
          if rgr_role r \<noteq> ''broker'' then
            Inl (UnknownKafkaRole VariantNotFound (rgr_role r) [''broker''])
          else (case map_of (role_groups rl) (rgr_role_group r) of
              None \<Rightarrow> Inl (CannotRetrieveKafkaRoleGroup (rgr_role_group r))
            | Some rg \<Rightarrow>
                (case lib_validate lib (lib_merge lib (com_config (rg_config rg))
                        (lib_merge lib (com_config (role_common rl))
                          (default_config lib (lib_name_any lib (metadata kafka)) Broker))) of
                   Inl e \<Rightarrow> Inl (FragmentValidationFailure e)
                 | Inr c \<Rightarrow> Inr c)))"
  by (simp add: merged_config_def cluster_rolegroup_def kafka_role_from_str_def
      kafka_role_roles_def kafka_role_iter_def with_context_def Let_def
      split: option.splits sum.splits)

text \<open>
  The generated product configuration enables the OPA authorizer in \<open>server.properties\<close>
  exactly when the resource configures OPA, and contributes nothing to any other file.
\<close>

theorem compute_files_opa:
  "\<exists>m. compute_files conf kafka role_name file = Inr m \<and> bt_wf m \<and>
     (if file = SERVER_PROPERTIES_FILE \<and>
         opa (cc_authorization (spec_cluster_config (spec kafka))) \<noteq> None
      then bt_get m ''authorizer.class.name'' =
             Some (Some ''org.openpolicyagent.kafka.OpaAuthorizer'') \<and>
           bt_get m ''opa.authorizer.metrics.enabled'' = Some (Some ''true'') \<and>
           fst ` set m = {''authorizer.class.name'', ''opa.authorizer.metrics.enabled''}
      else m = [])"
  by (auto simp: compute_files_def bt_get_def bt_wf_def)

end
