(* ===== verification/Authentication.thy ===== *)
theory Authentication
  imports Crd
begin

text \<open>
  Authentication classes: \<open>rust/crd/src/authentication.rs\<close>. The references of a resource are
  resolved one by one through the Kubernetes client (the parameter \<open>resolve_class\<close>) and the
  result is validated: at most one class, and only of a supported provider.
\<close>

section \<open>Data\<close>

text \<open>
  The providers of the library's \<open>AuthenticationClass\<close>. The settings of the providers the operator
  does not support are opaque.
\<close>

datatype authentication_class_provider =
    TlsProvider (client_cert_secret_class: "string option")
  | KerberosProvider (kerberos_provider_secret_class: string)
  | StaticProvider json
  | LdapProvider json
  | OidcProvider json

type_synonym object_ref = object_meta

definition object_ref_new :: "string \<Rightarrow> object_ref" where
  "object_ref_new name = \<lparr>metadata_name = Some name, metadata_namespace = None\<rparr>"

record authentication_class =
  ac_metadata :: object_meta
  ac_provider :: authentication_class_provider

datatype 'e authentication_error =
    AuthenticationClassRetrieval 'e object_ref
  | MultipleAuthenticationClassesProvided
  | AuthenticationProviderNotSupported object_ref string

definition SUPPORTED_AUTHENTICATION_CLASS_PROVIDERS :: "string list" where
  "SUPPORTED_AUTHENTICATION_CLASS_PROVIDERS = [''TLS'', ''Kerberos'']"

record resolved_authentication_classes =
  resolved_classes :: "authentication_class list"

section \<open>Operations\<close>

fun is_tls_provider :: "authentication_class_provider \<Rightarrow> bool" where
  "is_tls_provider (TlsProvider _) = True"
| "is_tls_provider _ = False"

fun is_kerberos_provider :: "authentication_class_provider \<Rightarrow> bool" where
  "is_kerberos_provider (KerberosProvider _) = True"
| "is_kerberos_provider _ = False"

definition get_tls_authentication_class ::
  "resolved_authentication_classes \<Rightarrow> authentication_class option" where
  "get_tls_authentication_class r =
     find (\<lambda>auth. is_tls_provider (ac_provider auth)) (resolved_classes r)"

definition get_kerberos_authentication_class ::
  "resolved_authentication_classes \<Rightarrow> authentication_class option" where
  "get_kerberos_authentication_class r =
     find (\<lambda>auth. is_kerberos_provider (ac_provider auth)) (resolved_classes r)"

text \<open>
  The loop of \<open>validate\<close> over the classes; \<open>provider_to_string\<close> is the library's text of a provider.
\<close>

fun validate_providers ::
  "(authentication_class_provider \<Rightarrow> string) \<Rightarrow> authentication_class list \<Rightarrow>
     'e authentication_error option" where
  "validate_providers provider_to_string [] = None"
| "validate_providers provider_to_string (auth_class # rest) =
     (case ac_provider auth_class of
        TlsProvider _ \<Rightarrow> validate_providers provider_to_string rest
      | KerberosProvider _ \<Rightarrow> validate_providers provider_to_string rest
      | _ \<Rightarrow> Some (AuthenticationProviderNotSupported (ac_metadata auth_class)
               (provider_to_string (ac_provider auth_class))))"

definition validate_classes ::
  "(authentication_class_provider \<Rightarrow> string) \<Rightarrow> resolved_authentication_classes \<Rightarrow>
     'e authentication_error + resolved_authentication_classes" where
  "validate_classes provider_to_string r =
     (if length (resolved_classes r) > 1 then Inl MultipleAuthenticationClassesProvided
      else (case validate_providers provider_to_string (resolved_classes r) of
              Some e \<Rightarrow> Inl e
            | None \<Rightarrow> Inr r))"

definition from_references ::
  "(string \<Rightarrow> ('w, 'e, authentication_class) io) \<Rightarrow> (authentication_class_provider \<Rightarrow> string) \<Rightarrow>
     kafka_authentication list \<Rightarrow>
     ('w, 'e authentication_error, resolved_authentication_classes) io" where
  "from_references resolve_class provider_to_string auth_classes =
     io_bind
       (io_for auth_classes (\<lambda>auth_class.
          io_context (\<lambda>e. AuthenticationClassRetrieval e
                            (object_ref_new (ka_authentication_class auth_class)))
            (resolve_class (ka_authentication_class auth_class))))
       (\<lambda>classes. io_lift (validate_classes provider_to_string \<lparr>resolved_classes = classes\<rparr>))"

section \<open>Facts\<close>

definition supported_provider :: "authentication_class_provider \<Rightarrow> bool" where
  "supported_provider p \<longleftrightarrow> is_tls_provider p \<or> is_kerberos_provider p"

text \<open>What validation establishes: no class, or one of a supported provider.\<close>

definition classes_valid :: "resolved_authentication_classes \<Rightarrow> bool" where
  "classes_valid r \<longleftrightarrow> length (resolved_classes r) \<le> 1 \<and>
     (\<forall>c \<in> set (resolved_classes r). supported_provider (ac_provider c))"

lemma validate_providers_None:
  "validate_providers pts cs = None \<longleftrightarrow> (\<forall>c \<in> set cs. supported_provider (ac_provider c))"
proof (induction cs)
  case (Cons c cs)
  then show ?case by (cases "ac_provider c") (simp_all add: supported_provider_def)
qed simp

lemma validate_classes_eq_Inr:
  "(validate_classes pts r :: 'e authentication_error + _) = Inr r' \<longleftrightarrow> r' = r \<and> classes_valid r"
proof (cases "validate_providers pts (resolved_classes r) :: 'e authentication_error option")
  case None
  then have "\<forall>c \<in> set (resolved_classes r). supported_provider (ac_provider c)"
    by (simp only: validate_providers_None)
  with None show ?thesis by (auto simp: validate_classes_def classes_valid_def)
next
  case (Some e)
  then have "(validate_providers pts (resolved_classes r) :: 'e authentication_error option) \<noteq> None"
    by simp
  then have "\<not> classes_valid r" by (simp only: validate_providers_None classes_valid_def) simp
  with Some show ?thesis by (simp add: validate_classes_def)
qed

lemma classes_valid_cases:
  assumes "classes_valid r"
  obtains (none) "resolved_classes r = []"
    | (tls) c s where "resolved_classes r = [c]" "ac_provider c = TlsProvider s"
    | (kerberos) c s where "resolved_classes r = [c]" "ac_provider c = KerberosProvider s"
proof (cases "resolved_classes r")
  case Nil
  then show ?thesis by (rule none)
next
  case (Cons c cs)
  with assms have one: "resolved_classes r = [c]" "supported_provider (ac_provider c)"
    by (auto simp: classes_valid_def)
  then show ?thesis
    by (cases "ac_provider c") (auto simp: supported_provider_def intro: tls kerberos)
qed

lemma tls_and_kerberos_exclusive:
  assumes "classes_valid r"
  shows "get_tls_authentication_class r = None \<or> get_kerberos_authentication_class r = None"
  using assms
  by (cases rule: classes_valid_cases)
    (simp_all add: get_tls_authentication_class_def get_kerberos_authentication_class_def)

lemma get_tls_is_tls:
  "get_tls_authentication_class r = Some c \<Longrightarrow>
     c \<in> set (resolved_classes r) \<and> is_tls_provider (ac_provider c)"
  unfolding get_tls_authentication_class_def by (auto simp: find_Some_iff)

lemma get_kerberos_is_kerberos:
  "get_kerberos_authentication_class r = Some c \<Longrightarrow>
     c \<in> set (resolved_classes r) \<and> is_kerberos_provider (ac_provider c)"
  unfolding get_kerberos_authentication_class_def by (auto simp: find_Some_iff)

lemma emits_from_references:
  "(\<And>n. emits P (resolve_class n)) \<Longrightarrow> emits P (from_references resolve_class pts auth_classes)"
  unfolding from_references_def by (intro emits_intros)

lemma from_references_valid:
  "from_references resolve_class pts auth_classes w = (Inr r, w') \<Longrightarrow> classes_valid r"
  by (auto simp: from_references_def io_simps validate_classes_eq_Inr)

section \<open>Properties\<close>

text \<open>
  Validation of authentication classes is exact: it accepts and returns its argument unchanged
  precisely when there is at most one class and its provider is TLS or Kerberos; two or more
  classes are rejected as such whatever their providers; otherwise the single unsupported class
  is named in the error.
\<close>

theorem validate_classes_exact:
  "validate_classes pts r =
     (case resolved_classes r of
        [] \<Rightarrow> Inr r
      | [c] \<Rightarrow> (if is_tls_provider (ac_provider c) \<or> is_kerberos_provider (ac_provider c) then Inr r
               else Inl (AuthenticationProviderNotSupported (ac_metadata c) (pts (ac_provider c))))
      | _ \<Rightarrow> Inl MultipleAuthenticationClassesProvided)"
proof -
  consider "resolved_classes r = []" | c where "resolved_classes r = [c]"
    | c d cs where "resolved_classes r = c # d # cs"
    by (metis neq_Nil_conv)
  then show ?thesis
  proof cases
    case 2
    then show ?thesis
      by (cases "ac_provider c") (simp_all add: validate_classes_def)
  qed (simp_all add: validate_classes_def)
qed

text \<open>
  C17. TLS client authentication and Kerberos are mutually exclusive after the references have been
  resolved: whatever the client answers, a successful resolution never provides both a TLS and a
  Kerberos class. The listener configuration and the probe commands rely on it.
\<close>

theorem resolved_classes_exclusive:
  assumes "from_references resolve_class pts auth_classes w = (Inr r, w')"
  shows "get_tls_authentication_class r = None \<or> get_kerberos_authentication_class r = None"
  using from_references_valid [OF assms] by (rule tls_and_kerberos_exclusive)

definition example_kerberos_class :: authentication_class where
  "example_kerberos_class = \<lparr>
     ac_metadata = object_ref_new ''kafka-kerberos'',
     ac_provider = KerberosProvider ''kerberos-secret-class''\<rparr>"

theorem resolved_classes_exclusive_witness:
  "\<exists>r. from_references (\<lambda>n. io_return example_kerberos_class) (\<lambda>p. ''x'')
         [\<lparr>ka_authentication_class = ''kafka-kerberos''\<rparr>] ([] :: string list) =
         (Inr r :: string authentication_error + _, []) \<and>
       get_kerberos_authentication_class r = Some example_kerberos_class \<and>
       get_tls_authentication_class r = None"
proof -
  let ?r = "\<lparr>resolved_classes = [example_kerberos_class]\<rparr>"
  have run: "from_references (\<lambda>n. io_return example_kerberos_class) (\<lambda>p. ''x'')
         [\<lparr>ka_authentication_class = ''kafka-kerberos''\<rparr>] ([] :: string list) =
         (Inr ?r :: string authentication_error + _, [])"
    by (simp add: from_references_def io_bind_def io_context_def validate_classes_def
        example_kerberos_class_def)
  have "get_kerberos_authentication_class ?r = Some example_kerberos_class"
    by (simp add: get_kerberos_authentication_class_def example_kerberos_class_def)
  with run resolved_classes_exclusive [OF run] show ?thesis by auto
qed
end
