(* ===== verification/ListenerNames.thy ===== *)
theory ListenerNames
  imports Crd
begin

text \<open>
  Listener names and protocols with their textual forms, from \<open>rust/crd/src/listener.rs\<close>. Names
  are ordered by declaration because they are the keys of the protocol map.
\<close>

datatype kafka_listener_protocol = Plaintext | Ssl | SaslSsl

fun protocol_to_string :: "kafka_listener_protocol \<Rightarrow> string" where
  "protocol_to_string Plaintext = ''PLAINTEXT''"
| "protocol_to_string Ssl = ''SSL''"
| "protocol_to_string SaslSsl = ''SASL_SSL''"

definition protocol_from_str :: "string \<Rightarrow> strum_error + kafka_listener_protocol" where
  "protocol_from_str s =
     (if s = ''PLAINTEXT'' then Inr Plaintext
      else if s = ''SSL'' then Inr Ssl
      else if s = ''SASL_SSL'' then Inr SaslSsl
      else Inl VariantNotFound)"

datatype kafka_listener_name = Client | ClientAuth | Internal | Bootstrap

fun listener_name_to_string :: "kafka_listener_name \<Rightarrow> string" where
  "listener_name_to_string Client = ''CLIENT''"
| "listener_name_to_string ClientAuth = ''CLIENT_AUTH''"
| "listener_name_to_string Internal = ''INTERNAL''"
| "listener_name_to_string Bootstrap = ''BOOTSTRAP''"

definition listener_name_from_str :: "string \<Rightarrow> strum_error + kafka_listener_name" where
  "listener_name_from_str s =
     (if s = ''CLIENT'' then Inr Client
      else if s = ''CLIENT_AUTH'' then Inr ClientAuth
      else if s = ''INTERNAL'' then Inr Internal
      else if s = ''BOOTSTRAP'' then Inr Bootstrap
      else Inl VariantNotFound)"

fun listener_name_index :: "kafka_listener_name \<Rightarrow> nat" where
  "listener_name_index Client = 0"
| "listener_name_index ClientAuth = 1"
| "listener_name_index Internal = 2"
| "listener_name_index Bootstrap = 3"

lemma listener_name_index_inject:
  "listener_name_index a = listener_name_index b \<longleftrightarrow> a = b"
  by (cases a; cases b) simp_all

instantiation kafka_listener_name :: linorder
begin

definition less_eq_kafka_listener_name ::
  "kafka_listener_name \<Rightarrow> kafka_listener_name \<Rightarrow> bool" where
  "less_eq_kafka_listener_name a b \<longleftrightarrow> listener_name_index a \<le> listener_name_index b"

definition less_kafka_listener_name ::
  "kafka_listener_name \<Rightarrow> kafka_listener_name \<Rightarrow> bool" where
  "less_kafka_listener_name a b \<longleftrightarrow> listener_name_index a < listener_name_index b"

instance
  by standard
    (auto simp: less_eq_kafka_listener_name_def less_kafka_listener_name_def
      listener_name_index_inject [symmetric])

end

lemma listener_name_less_simps [simp]:
  "Client < ClientAuth" "Client < Internal" "Client < Bootstrap"
  "ClientAuth < Internal" "ClientAuth < Bootstrap" "Internal < Bootstrap"
  "\<not> Internal < Client" "\<not> Internal < ClientAuth" "\<not> Bootstrap < Client"
  "\<not> Bootstrap < ClientAuth" "\<not> Bootstrap < Internal" "\<not> ClientAuth < Client"
  by (simp_all add: less_kafka_listener_name_def)

interpretation protocol_text: enum_string protocol_to_string protocol_from_str
proof unfold_locales
  fix x show "protocol_from_str (protocol_to_string x) = Inr x"
    by (cases x) (simp_all add: protocol_from_str_def)
next
  fix s x assume "protocol_from_str s = Inr x"
  then show "s = protocol_to_string x"
    by (auto simp: protocol_from_str_def split: if_splits)
qed

interpretation listener_text: enum_string listener_name_to_string listener_name_from_str
proof unfold_locales
  fix x show "listener_name_from_str (listener_name_to_string x) = Inr x"
    by (cases x) (simp_all add: listener_name_from_str_def)
next
  fix s x assume "listener_name_from_str s = Inr x"
  then show "s = listener_name_to_string x"
    by (auto simp: listener_name_from_str_def split: if_splits)
qed

lemma listener_text_no_separator:
  "CHR '','' \<notin> set (listener_name_to_string n)" "CHR '':'' \<notin> set (listener_name_to_string n)"
  by (cases n; simp)+

lemma protocol_text_no_separator:
  "CHR '','' \<notin> set (protocol_to_string p)" "CHR '':'' \<notin> set (protocol_to_string p)"
  by (cases p; simp)+

section \<open>Listener properties of the broker\<close>

text \<open>
  Kafka reads the settings of one listener under \<open>listener.name.<name in lower case>.\<close>
\<close>

definition to_lower_char :: "char \<Rightarrow> char" where
  "to_lower_char c =
     (if 65 \<le> (of_char c :: nat) \<and> (of_char c :: nat) \<le> 90 then char_of (of_char c + 32 :: nat) else c)"

definition listener_property :: "kafka_listener_name \<Rightarrow> string \<Rightarrow> string" where
  "listener_property n suffix =
     ''listener.name.'' @ map to_lower_char (listener_name_to_string n) @ ''.'' @ suffix"

lemma lower_listener_names:
  "map to_lower_char (listener_name_to_string n) =
     (case n of Client \<Rightarrow> ''client'' | ClientAuth \<Rightarrow> ''client_auth''
      | Internal \<Rightarrow> ''internal'' | Bootstrap \<Rightarrow> ''bootstrap'')"
  by (induct n) code_simp+

end
