(* ===== verification/Security.thy ===== *)
theory Security
  imports Authentication ListenerNames
begin

text \<open>
  The security settings of a cluster: \<open>rust/crd/src/security.rs\<close>, less the commands
  (\<open>Commands\<close>) and the volumes (\<open>PodSecurity\<close>). \<open>kafka_tls_security\<close> combines the resolved
  authentication classes with the two TLS secret classes; every other component asks it for the
  ports, the port names and the broker settings.
\<close>

section \<open>Constants\<close>

definition CLIENT_PORT_NAME :: string where "CLIENT_PORT_NAME = ''kafka''"
definition CLIENT_PORT :: "16 word" where "CLIENT_PORT = 9092"
definition SECURE_CLIENT_PORT_NAME :: string where "SECURE_CLIENT_PORT_NAME = ''kafka-tls''"
definition SECURE_CLIENT_PORT :: "16 word" where "SECURE_CLIENT_PORT = 9093"
definition BOOTSTRAP_PORT_NAME :: string where "BOOTSTRAP_PORT_NAME = ''bootstrap''"
definition BOOTSTRAP_PORT :: "16 word" where "BOOTSTRAP_PORT = 9094"
definition SECURE_BOOTSTRAP_PORT :: "16 word" where "SECURE_BOOTSTRAP_PORT = 9095"
definition INTERNAL_PORT :: "16 word" where "INTERNAL_PORT = 19092"
definition SECURE_INTERNAL_PORT :: "16 word" where "SECURE_INTERNAL_PORT = 19093"
definition SSL_STORE_PASSWORD :: string where "SSL_STORE_PASSWORD = []"
definition CLIENT_SSL_KEYSTORE_LOCATION :: string where
  "CLIENT_SSL_KEYSTORE_LOCATION = ''listener.name.client.ssl.keystore.location''"
definition CLIENT_SSL_KEYSTORE_PASSWORD :: string where
  "CLIENT_SSL_KEYSTORE_PASSWORD = ''listener.name.client.ssl.keystore.password''"
definition CLIENT_SSL_KEYSTORE_TYPE :: string where
  "CLIENT_SSL_KEYSTORE_TYPE = ''listener.name.client.ssl.keystore.type''"
definition CLIENT_SSL_TRUSTSTORE_LOCATION :: string where
  "CLIENT_SSL_TRUSTSTORE_LOCATION = ''listener.name.client.ssl.truststore.location''"
definition CLIENT_SSL_TRUSTSTORE_PASSWORD :: string where
  "CLIENT_SSL_TRUSTSTORE_PASSWORD = ''listener.name.client.ssl.truststore.password''"
definition CLIENT_SSL_TRUSTSTORE_TYPE :: string where
  "CLIENT_SSL_TRUSTSTORE_TYPE = ''listener.name.client.ssl.truststore.type''"
definition BOOTSTRAP_SSL_KEYSTORE_LOCATION :: string where
  "BOOTSTRAP_SSL_KEYSTORE_LOCATION = ''listener.name.bootstrap.ssl.keystore.location''"
definition BOOTSTRAP_SSL_KEYSTORE_PASSWORD :: string where
  "BOOTSTRAP_SSL_KEYSTORE_PASSWORD = ''listener.name.bootstrap.ssl.keystore.password''"
definition BOOTSTRAP_SSL_KEYSTORE_TYPE :: string where
  "BOOTSTRAP_SSL_KEYSTORE_TYPE = ''listener.name.bootstrap.ssl.keystore.type''"
definition BOOTSTRAP_SSL_TRUSTSTORE_LOCATION :: string where
  "BOOTSTRAP_SSL_TRUSTSTORE_LOCATION = ''listener.name.bootstrap.ssl.truststore.location''"
definition BOOTSTRAP_SSL_TRUSTSTORE_PASSWORD :: string where
  "BOOTSTRAP_SSL_TRUSTSTORE_PASSWORD = ''listener.name.bootstrap.ssl.truststore.password''"
definition BOOTSTRAP_SSL_TRUSTSTORE_TYPE :: string where
  "BOOTSTRAP_SSL_TRUSTSTORE_TYPE = ''listener.name.bootstrap.ssl.truststore.type''"
definition CLIENT_AUTH_SSL_KEYSTORE_LOCATION :: string where
  "CLIENT_AUTH_SSL_KEYSTORE_LOCATION = ''listener.name.client_auth.ssl.keystore.location''"
definition CLIENT_AUTH_SSL_KEYSTORE_PASSWORD :: string where
  "CLIENT_AUTH_SSL_KEYSTORE_PASSWORD = ''listener.name.client_auth.ssl.keystore.password''"
definition CLIENT_AUTH_SSL_KEYSTORE_TYPE :: string where
  "CLIENT_AUTH_SSL_KEYSTORE_TYPE = ''listener.name.client_auth.ssl.keystore.type''"
definition CLIENT_AUTH_SSL_TRUSTSTORE_LOCATION :: string where
  "CLIENT_AUTH_SSL_TRUSTSTORE_LOCATION = ''listener.name.client_auth.ssl.truststore.location''"
definition CLIENT_AUTH_SSL_TRUSTSTORE_PASSWORD :: string where
  "CLIENT_AUTH_SSL_TRUSTSTORE_PASSWORD = ''listener.name.client_auth.ssl.truststore.password''"
definition CLIENT_AUTH_SSL_TRUSTSTORE_TYPE :: string where
  "CLIENT_AUTH_SSL_TRUSTSTORE_TYPE = ''listener.name.client_auth.ssl.truststore.type''"
definition CLIENT_AUTH_SSL_CLIENT_AUTH :: string where
  "CLIENT_AUTH_SSL_CLIENT_AUTH = ''listener.name.client_auth.ssl.client.auth''"
definition INTER_BROKER_LISTENER_NAME :: string where
  "INTER_BROKER_LISTENER_NAME = ''inter.broker.listener.name''"
definition INTER_SSL_KEYSTORE_LOCATION :: string where
  "INTER_SSL_KEYSTORE_LOCATION = ''listener.name.internal.ssl.keystore.location''"
definition INTER_SSL_KEYSTORE_PASSWORD :: string where
  "INTER_SSL_KEYSTORE_PASSWORD = ''listener.name.internal.ssl.keystore.password''"
definition INTER_SSL_KEYSTORE_TYPE :: string where
  "INTER_SSL_KEYSTORE_TYPE = ''listener.name.internal.ssl.keystore.type''"
definition INTER_SSL_TRUSTSTORE_LOCATION :: string where
  "INTER_SSL_TRUSTSTORE_LOCATION = ''listener.name.internal.ssl.truststore.location''"
definition INTER_SSL_TRUSTSTORE_PASSWORD :: string where
  "INTER_SSL_TRUSTSTORE_PASSWORD = ''listener.name.internal.ssl.truststore.password''"
definition INTER_SSL_TRUSTSTORE_TYPE :: string where
  "INTER_SSL_TRUSTSTORE_TYPE = ''listener.name.internal.ssl.truststore.type''"
definition INTER_SSL_CLIENT_AUTH :: string where
  "INTER_SSL_CLIENT_AUTH = ''listener.name.internal.ssl.client.auth''"
definition STACKABLE_TLS_KCAT_DIR :: string where
  "STACKABLE_TLS_KCAT_DIR = ''/stackable/tls-kcat''"
definition STACKABLE_TLS_KCAT_VOLUME_NAME :: string where
  "STACKABLE_TLS_KCAT_VOLUME_NAME = ''tls-kcat''"
definition STACKABLE_TLS_KAFKA_SERVER_DIR :: string where
  "STACKABLE_TLS_KAFKA_SERVER_DIR = ''/stackable/tls-kafka-server''"
definition STACKABLE_TLS_KAFKA_SERVER_VOLUME_NAME :: string where
  "STACKABLE_TLS_KAFKA_SERVER_VOLUME_NAME = ''tls-kafka-server''"
definition STACKABLE_TLS_KAFKA_INTERNAL_DIR :: string where
  "STACKABLE_TLS_KAFKA_INTERNAL_DIR = ''/stackable/tls-kafka-internal''"
definition STACKABLE_TLS_KAFKA_INTERNAL_VOLUME_NAME :: string where
  "STACKABLE_TLS_KAFKA_INTERNAL_VOLUME_NAME = ''tls-kafka-internal''"

section \<open>Data\<close>

datatype 'e security_error =
    InvalidAuthenticationClassConfiguration "'e authentication_error"
  | SecretVolumeBuild 'e
  | SecurityAddVolume 'e
  | SecurityAddVolumeMount 'e
  | KerberosRequiresTls

record kafka_tls_security =
  sec_resolved_authentication_classes :: resolved_authentication_classes
  sec_internal_secret_class :: string
  sec_server_secret_class :: "string option"

section \<open>Operations\<close>

definition new_from_kafka_cluster ::
  "(string \<Rightarrow> ('w, 'e, authentication_class) io) \<Rightarrow> (authentication_class_provider \<Rightarrow> string) \<Rightarrow>
     kafka_cluster \<Rightarrow> ('w, 'e security_error, kafka_tls_security) io" where
  "new_from_kafka_cluster resolve_class provider_to_string kafka =
     io_bind
       (io_context InvalidAuthenticationClassConfiguration
         (from_references resolve_class provider_to_string
           (cc_authentication (spec_cluster_config (spec kafka)))))
       (\<lambda>classes. io_return \<lparr>
          sec_resolved_authentication_classes = classes,
          sec_internal_secret_class =
            (case cc_tls (spec_cluster_config (spec kafka)) of
               Some tls \<Rightarrow> kt_internal_secret_class tls
             | None \<Rightarrow> internal_tls_default),
          sec_server_secret_class =
            (case cc_tls (spec_cluster_config (spec kafka)) of
               Some tls \<Rightarrow> kt_server_secret_class tls
             | None \<Rightarrow> None)\<rparr>)"

definition tls_server_secret_class :: "kafka_tls_security \<Rightarrow> string option" where
  "tls_server_secret_class sec = sec_server_secret_class sec"

definition tls_client_authentication_class ::
  "kafka_tls_security \<Rightarrow> authentication_class option" where
  "tls_client_authentication_class sec =
     get_tls_authentication_class (sec_resolved_authentication_classes sec)"

definition tls_enabled :: "kafka_tls_security \<Rightarrow> bool" where
  "tls_enabled sec \<longleftrightarrow>
     tls_client_authentication_class sec \<noteq> None \<or> tls_server_secret_class sec \<noteq> None"

definition tls_internal_secret_class :: "kafka_tls_security \<Rightarrow> string option" where
  "tls_internal_secret_class sec =
     (if sec_internal_secret_class sec \<noteq> [] then Some (sec_internal_secret_class sec) else None)"

definition kerberos_secret_class :: "kafka_tls_security \<Rightarrow> string option" where
  "kerberos_secret_class sec =
     (case get_kerberos_authentication_class (sec_resolved_authentication_classes sec) of
        Some kerberos \<Rightarrow>
          (case ac_provider kerberos of KerberosProvider s \<Rightarrow> Some s | _ \<Rightarrow> None)
      | None \<Rightarrow> None)"

definition has_kerberos_enabled :: "kafka_tls_security \<Rightarrow> bool" where
  "has_kerberos_enabled sec \<longleftrightarrow> kerberos_secret_class sec \<noteq> None"

definition validate_authentication_methods ::
  "kafka_tls_security \<Rightarrow> 'e security_error + unit" where
  "validate_authentication_methods sec =
     (if has_kerberos_enabled sec then
        (if sec_server_secret_class sec \<noteq> None then Inr () else Inl KerberosRequiresTls)
      else Inr ())"

definition client_port :: "kafka_tls_security \<Rightarrow> 16 word" where
  "client_port sec = (if tls_enabled sec then SECURE_CLIENT_PORT else CLIENT_PORT)"

definition bootstrap_port :: "kafka_tls_security \<Rightarrow> 16 word" where
  "bootstrap_port sec = (if tls_enabled sec then SECURE_BOOTSTRAP_PORT else BOOTSTRAP_PORT)"

definition bootstrap_port_name :: "kafka_tls_security \<Rightarrow> string" where
  "bootstrap_port_name sec = BOOTSTRAP_PORT_NAME"

definition client_port_name :: "kafka_tls_security \<Rightarrow> string" where
  "client_port_name sec = (if tls_enabled sec then SECURE_CLIENT_PORT_NAME else CLIENT_PORT_NAME)"

definition internal_port :: "kafka_tls_security \<Rightarrow> 16 word" where
  "internal_port sec =
     (if tls_internal_secret_class sec \<noteq> None then SECURE_INTERNAL_PORT else INTERNAL_PORT)"

text \<open>The secret class of a TLS authentication class takes precedence over the server's.\<close>

definition get_tls_secret_class :: "kafka_tls_security \<Rightarrow> string option" where
  "get_tls_secret_class sec =
     (case Option.bind (get_tls_authentication_class (sec_resolved_authentication_classes sec))
             (\<lambda>auth_class. case ac_provider auth_class of
                TlsProvider s \<Rightarrow> s | _ \<Rightarrow> None) of
        Some s \<Rightarrow> Some s
      | None \<Rightarrow> sec_server_secret_class sec)"

text \<open>The settings for \<open>server.properties\<close>, inserted in the order of the code.\<close>

definition config_settings :: "kafka_tls_security \<Rightarrow> (string, string) btree_map" where
  "config_settings sec =
     (let config = [];
          config = (if tls_client_authentication_class sec \<noteq> None then
              bt_extend config
                [(CLIENT_AUTH_SSL_KEYSTORE_LOCATION,
                    STACKABLE_TLS_KAFKA_SERVER_DIR @ ''/keystore.p12''),
                 (CLIENT_AUTH_SSL_KEYSTORE_PASSWORD, SSL_STORE_PASSWORD),
                 (CLIENT_AUTH_SSL_KEYSTORE_TYPE, ''PKCS12''),
                 (CLIENT_AUTH_SSL_TRUSTSTORE_LOCATION,
                    STACKABLE_TLS_KAFKA_SERVER_DIR @ ''/truststore.p12''),
                 (CLIENT_AUTH_SSL_TRUSTSTORE_PASSWORD, SSL_STORE_PASSWORD),
                 (CLIENT_AUTH_SSL_TRUSTSTORE_TYPE, ''PKCS12''),
                 (CLIENT_AUTH_SSL_CLIENT_AUTH, ''required'')]
            else if tls_server_secret_class sec \<noteq> None then
              bt_extend config
                [(CLIENT_SSL_KEYSTORE_LOCATION,
                    STACKABLE_TLS_KAFKA_SERVER_DIR @ ''/keystore.p12''),
                 (CLIENT_SSL_KEYSTORE_PASSWORD, SSL_STORE_PASSWORD),
                 (CLIENT_SSL_KEYSTORE_TYPE, ''PKCS12''),
                 (CLIENT_SSL_TRUSTSTORE_LOCATION,
                    STACKABLE_TLS_KAFKA_SERVER_DIR @ ''/truststore.p12''),
                 (CLIENT_SSL_TRUSTSTORE_PASSWORD, SSL_STORE_PASSWORD),
                 (CLIENT_SSL_TRUSTSTORE_TYPE, ''PKCS12'')]
            else config);
          config = (if has_kerberos_enabled sec then
              bt_extend config
                [(BOOTSTRAP_SSL_KEYSTORE_LOCATION,
                    STACKABLE_TLS_KAFKA_SERVER_DIR @ ''/keystore.p12''),
                 (BOOTSTRAP_SSL_KEYSTORE_PASSWORD, SSL_STORE_PASSWORD),
                 (BOOTSTRAP_SSL_KEYSTORE_TYPE, ''PKCS12''),
                 (BOOTSTRAP_SSL_TRUSTSTORE_LOCATION,
                    STACKABLE_TLS_KAFKA_SERVER_DIR @ ''/truststore.p12''),
                 (BOOTSTRAP_SSL_TRUSTSTORE_PASSWORD, SSL_STORE_PASSWORD),
                 (BOOTSTRAP_SSL_TRUSTSTORE_TYPE, ''PKCS12'')]
            else config);
          config = (if tls_internal_secret_class sec \<noteq> None then
              bt_extend config
                [(INTER_SSL_KEYSTORE_LOCATION,
                    STACKABLE_TLS_KAFKA_INTERNAL_DIR @ ''/keystore.p12''),
                 (INTER_SSL_KEYSTORE_PASSWORD, SSL_STORE_PASSWORD),
                 (INTER_SSL_KEYSTORE_TYPE, ''PKCS12''),
                 (INTER_SSL_TRUSTSTORE_LOCATION,
                    STACKABLE_TLS_KAFKA_INTERNAL_DIR @ ''/truststore.p12''),
                 (INTER_SSL_TRUSTSTORE_PASSWORD, SSL_STORE_PASSWORD),
                 (INTER_SSL_TRUSTSTORE_TYPE, ''PKCS12''),
                 (INTER_SSL_CLIENT_AUTH, ''required'')]
            else config);
          config = (if has_kerberos_enabled sec then
              bt_extend config
                [(''sasl.enabled.mechanisms'', ''GSSAPI''),
                 (''sasl.kerberos.service.name'', kerberos_service_name Broker),
                 (''sasl.mechanism.inter.broker.protocol'', ''GSSAPI'')]
            else config)
      in bt_insert INTER_BROKER_LISTENER_NAME (listener_name_to_string Internal) config)"

section \<open>Client modes\<close>

text \<open>
  Abstractly a cluster is in one of four modes towards its clients. The ports, the port names and
  the listeners depend on the mode only.
\<close>

datatype client_mode = MutualTls | Kerberized | ServerTls | Unsecured

definition client_mode :: "kafka_tls_security \<Rightarrow> client_mode" where
  "client_mode sec =
     (if tls_client_authentication_class sec \<noteq> None then MutualTls
      else if has_kerberos_enabled sec then Kerberized
      else if tls_server_secret_class sec \<noteq> None then ServerTls
      else Unsecured)"

text \<open>What reconciliation has checked before it uses the settings.\<close>

definition sec_valid :: "kafka_tls_security \<Rightarrow> bool" where
  "sec_valid sec \<longleftrightarrow> classes_valid (sec_resolved_authentication_classes sec) \<and>
     is_ok (validate_authentication_methods sec :: unit security_error + unit)"

lemma validate_authentication_methods_ok:
  "is_ok (validate_authentication_methods sec) \<longleftrightarrow>
     (has_kerberos_enabled sec \<longrightarrow> sec_server_secret_class sec \<noteq> None)"
  by (simp add: validate_authentication_methods_def)

lemma sec_valid_iff:
  "sec_valid sec \<longleftrightarrow> classes_valid (sec_resolved_authentication_classes sec) \<and>
     (has_kerberos_enabled sec \<longrightarrow> sec_server_secret_class sec \<noteq> None)"
  by (simp add: sec_valid_def validate_authentication_methods_ok)

lemma has_kerberos_enabled_iff:
  "has_kerberos_enabled sec \<longleftrightarrow>
     get_kerberos_authentication_class (sec_resolved_authentication_classes sec) \<noteq> None"
  using get_kerberos_is_kerberos [of "sec_resolved_authentication_classes sec"]
  by (auto simp: has_kerberos_enabled_def kerberos_secret_class_def
      split: option.splits authentication_class_provider.splits)

lemma mtls_excludes_kerberos:
  "sec_valid sec \<Longrightarrow> tls_client_authentication_class sec \<noteq> None \<Longrightarrow> \<not> has_kerberos_enabled sec"
  using tls_and_kerberos_exclusive [of "sec_resolved_authentication_classes sec"]
  by (auto simp: sec_valid_iff has_kerberos_enabled_iff tls_client_authentication_class_def)

lemma client_mode_eqs:
  assumes "sec_valid sec"
  shows "client_mode sec = MutualTls \<longleftrightarrow> tls_client_authentication_class sec \<noteq> None"
    and "client_mode sec = Kerberized \<longleftrightarrow> has_kerberos_enabled sec"
    and "client_mode sec = Unsecured \<longleftrightarrow> \<not> tls_enabled sec"
  using assms mtls_excludes_kerberos [OF assms]
  by (auto simp: client_mode_def sec_valid_iff tls_enabled_def tls_server_secret_class_def)

lemma tls_enabled_mode: "sec_valid sec \<Longrightarrow> tls_enabled sec \<longleftrightarrow> client_mode sec \<noteq> Unsecured"
  by (simp add: client_mode_eqs)

lemma tls_secret_class_available:
  assumes "sec_valid sec" and "client_mode sec \<in> {Kerberized, ServerTls}"
  shows "get_tls_secret_class sec = sec_server_secret_class sec \<and> sec_server_secret_class sec \<noteq> None"
  using assms
  by (auto simp: client_mode_def sec_valid_iff get_tls_secret_class_def
      tls_client_authentication_class_def tls_server_secret_class_def split: if_splits)

subsection \<open>Ports that follow from the security settings\<close>

text \<open>
  The client, bootstrap and internal ports share one contract: a secure and an insecure number
  that differ, chosen by a condition on the settings. What the clients of these ports need is that
  the number tells the condition.
\<close>

locale secured_port =
  fixes port :: "kafka_tls_security \<Rightarrow> 16 word"
    and secured :: "kafka_tls_security \<Rightarrow> bool"
    and secure_number insecure_number :: "16 word"
  assumes port_secure: "secured sec \<Longrightarrow> port sec = secure_number"
    and port_insecure: "\<not> secured sec \<Longrightarrow> port sec = insecure_number"
    and numbers_differ: "secure_number \<noteq> insecure_number"
begin

lemma port_tells: "port sec = secure_number \<longleftrightarrow> secured sec"
  using port_secure port_insecure numbers_differ by metis

lemma port_range: "port sec \<in> {secure_number, insecure_number}"
  using port_secure port_insecure by blast

lemma port_cong: "secured sec = secured sec' \<Longrightarrow> port sec = port sec'"
  using port_secure port_insecure by metis

end

interpretation client: secured_port client_port tls_enabled SECURE_CLIENT_PORT CLIENT_PORT
  by unfold_locales (simp_all add: client_port_def SECURE_CLIENT_PORT_def CLIENT_PORT_def)

interpretation bootstrap:
  secured_port bootstrap_port tls_enabled SECURE_BOOTSTRAP_PORT BOOTSTRAP_PORT
  by unfold_locales (simp_all add: bootstrap_port_def SECURE_BOOTSTRAP_PORT_def BOOTSTRAP_PORT_def)

interpretation internal:
  secured_port internal_port "\<lambda>sec. tls_internal_secret_class sec \<noteq> None"
    SECURE_INTERNAL_PORT INTERNAL_PORT
  by unfold_locales
    (simp_all add: internal_port_def SECURE_INTERNAL_PORT_def INTERNAL_PORT_def)

lemmas port_number_defs =
  CLIENT_PORT_def SECURE_CLIENT_PORT_def BOOTSTRAP_PORT_def SECURE_BOOTSTRAP_PORT_def
  INTERNAL_PORT_def SECURE_INTERNAL_PORT_def METRICS_PORT_def

lemma broker_ports_distinct: "distinct [client_port sec, bootstrap_port sec, internal_port sec,
    METRICS_PORT]"
  by (simp add: client_port_def bootstrap_port_def internal_port_def port_number_defs)

section \<open>Key stores per listener\<close>

definition listener_store :: "kafka_listener_name \<Rightarrow> string \<Rightarrow> (string \<times> string) list" where
  "listener_store n dir =
     [(listener_property n ''ssl.keystore.location'', dir @ ''/keystore.p12''),
      (listener_property n ''ssl.keystore.password'', []),
      (listener_property n ''ssl.keystore.type'', ''PKCS12''),
      (listener_property n ''ssl.truststore.location'', dir @ ''/truststore.p12''),
      (listener_property n ''ssl.truststore.password'', []),
      (listener_property n ''ssl.truststore.type'', ''PKCS12'')]"

text \<open>The directory of the stores the broker is told to use for a listener, if any.\<close>

definition store_dir :: "kafka_tls_security \<Rightarrow> kafka_listener_name \<Rightarrow> string option" where
  "store_dir sec n =
     (case n of
        ClientAuth \<Rightarrow> (if tls_client_authentication_class sec \<noteq> None
                       then Some STACKABLE_TLS_KAFKA_SERVER_DIR else None)
      | Client \<Rightarrow> (if tls_client_authentication_class sec = None \<and>
                      tls_server_secret_class sec \<noteq> None
                   then Some STACKABLE_TLS_KAFKA_SERVER_DIR else None)
      | Bootstrap \<Rightarrow> (if has_kerberos_enabled sec
                      then Some STACKABLE_TLS_KAFKA_SERVER_DIR else None)
      | Internal \<Rightarrow> (if tls_internal_secret_class sec \<noteq> None
                     then Some STACKABLE_TLS_KAFKA_INTERNAL_DIR else None))"

definition store_block :: "kafka_tls_security \<Rightarrow> kafka_listener_name \<Rightarrow> (string \<times> string) list" where
  "store_block sec n =
     (case store_dir sec n of None \<Rightarrow> []
      | Some dir \<Rightarrow> listener_store n dir @
          (if n = ClientAuth \<or> n = Internal
           then [(listener_property n ''ssl.client.auth'', ''required'')] else []))"

definition sasl_block :: "kafka_tls_security \<Rightarrow> (string \<times> string) list" where
  "sasl_block sec =
     (if has_kerberos_enabled sec then
        [(''sasl.enabled.mechanisms'', ''GSSAPI''), (''sasl.kerberos.service.name'', ''kafka''),
         (''sasl.mechanism.inter.broker.protocol'', ''GSSAPI'')] else [])"

definition settings_list :: "kafka_tls_security \<Rightarrow> (string \<times> string) list" where
  "settings_list sec =
     store_block sec ClientAuth @ store_block sec Client @ store_block sec Bootstrap @
     store_block sec Internal @ sasl_block sec @ [(''inter.broker.listener.name'', ''INTERNAL'')]"

lemma listener_property_eqs:
  "listener_property Client s = ''listener.name.client.'' @ s"
  "listener_property ClientAuth s = ''listener.name.client_auth.'' @ s"
  "listener_property Internal s = ''listener.name.internal.'' @ s"
  "listener_property Bootstrap s = ''listener.name.bootstrap.'' @ s"
  unfolding listener_property_def lower_listener_names by simp_all

lemma client_auth_block:
  "[(CLIENT_AUTH_SSL_KEYSTORE_LOCATION, STACKABLE_TLS_KAFKA_SERVER_DIR @ ''/keystore.p12''),
    (CLIENT_AUTH_SSL_KEYSTORE_PASSWORD, SSL_STORE_PASSWORD),
    (CLIENT_AUTH_SSL_KEYSTORE_TYPE, ''PKCS12''),
    (CLIENT_AUTH_SSL_TRUSTSTORE_LOCATION, STACKABLE_TLS_KAFKA_SERVER_DIR @ ''/truststore.p12''),
    (CLIENT_AUTH_SSL_TRUSTSTORE_PASSWORD, SSL_STORE_PASSWORD),
    (CLIENT_AUTH_SSL_TRUSTSTORE_TYPE, ''PKCS12''),
    (CLIENT_AUTH_SSL_CLIENT_AUTH, ''required'')]
   = listener_store ClientAuth STACKABLE_TLS_KAFKA_SERVER_DIR @
       [(listener_property ClientAuth ''ssl.client.auth'', ''required'')]"
  by (simp add: listener_store_def listener_property_eqs SSL_STORE_PASSWORD_def
      CLIENT_AUTH_SSL_KEYSTORE_LOCATION_def CLIENT_AUTH_SSL_KEYSTORE_PASSWORD_def
      CLIENT_AUTH_SSL_KEYSTORE_TYPE_def CLIENT_AUTH_SSL_TRUSTSTORE_LOCATION_def
      CLIENT_AUTH_SSL_TRUSTSTORE_PASSWORD_def CLIENT_AUTH_SSL_TRUSTSTORE_TYPE_def
      CLIENT_AUTH_SSL_CLIENT_AUTH_def)

lemma client_block:
  "[(CLIENT_SSL_KEYSTORE_LOCATION, STACKABLE_TLS_KAFKA_SERVER_DIR @ ''/keystore.p12''),
    (CLIENT_SSL_KEYSTORE_PASSWORD, SSL_STORE_PASSWORD),
    (CLIENT_SSL_KEYSTORE_TYPE, ''PKCS12''),
    (CLIENT_SSL_TRUSTSTORE_LOCATION, STACKABLE_TLS_KAFKA_SERVER_DIR @ ''/truststore.p12''),
    (CLIENT_SSL_TRUSTSTORE_PASSWORD, SSL_STORE_PASSWORD),
    (CLIENT_SSL_TRUSTSTORE_TYPE, ''PKCS12'')]
   = listener_store Client STACKABLE_TLS_KAFKA_SERVER_DIR"
  by (simp add: listener_store_def listener_property_eqs SSL_STORE_PASSWORD_def
      CLIENT_SSL_KEYSTORE_LOCATION_def CLIENT_SSL_KEYSTORE_PASSWORD_def
      CLIENT_SSL_KEYSTORE_TYPE_def CLIENT_SSL_TRUSTSTORE_LOCATION_def
      CLIENT_SSL_TRUSTSTORE_PASSWORD_def CLIENT_SSL_TRUSTSTORE_TYPE_def)

lemma bootstrap_block:
  "[(BOOTSTRAP_SSL_KEYSTORE_LOCATION, STACKABLE_TLS_KAFKA_SERVER_DIR @ ''/keystore.p12''),
    (BOOTSTRAP_SSL_KEYSTORE_PASSWORD, SSL_STORE_PASSWORD),
    (BOOTSTRAP_SSL_KEYSTORE_TYPE, ''PKCS12''),
    (BOOTSTRAP_SSL_TRUSTSTORE_LOCATION, STACKABLE_TLS_KAFKA_SERVER_DIR @ ''/truststore.p12''),
    (BOOTSTRAP_SSL_TRUSTSTORE_PASSWORD, SSL_STORE_PASSWORD),
    (BOOTSTRAP_SSL_TRUSTSTORE_TYPE, ''PKCS12'')]
   = listener_store Bootstrap STACKABLE_TLS_KAFKA_SERVER_DIR"
  by (simp add: listener_store_def listener_property_eqs SSL_STORE_PASSWORD_def
      BOOTSTRAP_SSL_KEYSTORE_LOCATION_def BOOTSTRAP_SSL_KEYSTORE_PASSWORD_def
      BOOTSTRAP_SSL_KEYSTORE_TYPE_def BOOTSTRAP_SSL_TRUSTSTORE_LOCATION_def
      BOOTSTRAP_SSL_TRUSTSTORE_PASSWORD_def BOOTSTRAP_SSL_TRUSTSTORE_TYPE_def)

lemma internal_block:
  "[(INTER_SSL_KEYSTORE_LOCATION, STACKABLE_TLS_KAFKA_INTERNAL_DIR @ ''/keystore.p12''),
    (INTER_SSL_KEYSTORE_PASSWORD, SSL_STORE_PASSWORD),
    (INTER_SSL_KEYSTORE_TYPE, ''PKCS12''),
    (INTER_SSL_TRUSTSTORE_LOCATION, STACKABLE_TLS_KAFKA_INTERNAL_DIR @ ''/truststore.p12''),
    (INTER_SSL_TRUSTSTORE_PASSWORD, SSL_STORE_PASSWORD),
    (INTER_SSL_TRUSTSTORE_TYPE, ''PKCS12''),
    (INTER_SSL_CLIENT_AUTH, ''required'')]
   = listener_store Internal STACKABLE_TLS_KAFKA_INTERNAL_DIR @
       [(listener_property Internal ''ssl.client.auth'', ''required'')]"
  by (simp add: listener_store_def listener_property_eqs SSL_STORE_PASSWORD_def
      INTER_SSL_KEYSTORE_LOCATION_def INTER_SSL_KEYSTORE_PASSWORD_def
      INTER_SSL_KEYSTORE_TYPE_def INTER_SSL_TRUSTSTORE_LOCATION_def
      INTER_SSL_TRUSTSTORE_PASSWORD_def INTER_SSL_TRUSTSTORE_TYPE_def
      INTER_SSL_CLIENT_AUTH_def)

lemma config_settings_eq: "config_settings sec = bt_extend [] (settings_list sec)"
  unfolding config_settings_def client_auth_block client_block bootstrap_block internal_block
    settings_list_def Let_def bt_extend_insert
  by (auto simp: store_block_def sasl_block_def store_dir_def bt_extend_append
      INTER_BROKER_LISTENER_NAME_def)

subsection \<open>Looking settings up\<close>

lemma dot_notin_lower: "CHR ''.'' \<notin> set (map to_lower_char (listener_name_to_string n))"
  unfolding lower_listener_names by (cases n) simp_all

lemma lower_names_inject:
  "map to_lower_char (listener_name_to_string n) = map to_lower_char (listener_name_to_string m)
     \<longleftrightarrow> n = m"
  unfolding lower_listener_names by (cases n; cases m) simp_all

lemma listener_property_inject:
  "listener_property n s = listener_property m t \<longleftrightarrow> n = m \<and> s = t"
proof
  assume "listener_property n s = listener_property m t"
  then have eq: "map to_lower_char (listener_name_to_string n) @ CHR ''.'' # s =
      map to_lower_char (listener_name_to_string m) @ CHR ''.'' # t"
    by (simp add: listener_property_def)
  have "hd (split_on CHR ''.'' (map to_lower_char (listener_name_to_string n) @ CHR ''.'' # s)) =
        hd (split_on CHR ''.'' (map to_lower_char (listener_name_to_string m) @ CHR ''.'' # t))"
    by (simp only: eq)
  then have "n = m"
    by (simp only: split_on_append [OF dot_notin_lower] list.sel lower_names_inject)
  with eq show "n = m \<and> s = t" by simp
qed simp

lemma listener_property_neq [simp]:
  "listener_property n s \<noteq> ''sasl.enabled.mechanisms''"
  "listener_property n s \<noteq> ''sasl.kerberos.service.name''"
  "listener_property n s \<noteq> ''sasl.mechanism.inter.broker.protocol''"
  "listener_property n s \<noteq> ''inter.broker.listener.name''"
  "''sasl.enabled.mechanisms'' \<noteq> listener_property n s"
  "''sasl.kerberos.service.name'' \<noteq> listener_property n s"
  "''sasl.mechanism.inter.broker.protocol'' \<noteq> listener_property n s"
  "''inter.broker.listener.name'' \<noteq> listener_property n s"
  by (simp_all add: listener_property_def)

lemma keys_store_block:
  "fst ` set (store_block sec n) \<subseteq> range (listener_property n)"
  by (auto simp: store_block_def listener_store_def split: option.splits)

lemma distinct_store_block: "distinct (map fst (store_block sec n))"
  by (simp add: store_block_def listener_store_def listener_property_inject split: option.splits)

lemma store_blocks_disjoint:
  "n \<noteq> m \<Longrightarrow> fst ` set (store_block sec n) \<inter> fst ` set (store_block sec m) = {}"
proof -
  assume "n \<noteq> m"
  then have "range (listener_property n) \<inter> range (listener_property m) = {}"
    by (auto simp: listener_property_inject)
  then show ?thesis using keys_store_block [of sec n] keys_store_block [of sec m] by blast
qed

lemma store_block_neq_other:
  "fst ` set (store_block sec n) \<inter> fst ` set (sasl_block sec @ [(''inter.broker.listener.name'', v)])
     = {}"
  using keys_store_block [of sec n] by (fastforce simp: sasl_block_def dest: subsetD)

lemma distinct_settings_list: "distinct (map fst (settings_list sec))"
proof -
  have rest: "distinct (map fst (sasl_block sec @ [(''inter.broker.listener.name'', ''INTERNAL'')]))"
    by (auto simp: sasl_block_def)
  show ?thesis
    unfolding settings_list_def map_append distinct_append
    using rest store_blocks_disjoint [of _ _ sec] store_block_neq_other [of sec _ "''INTERNAL''"]
    by (simp add: distinct_store_block Int_Un_distrib)
qed

lemma config_settings_wf: "bt_wf (config_settings sec)"
  unfolding config_settings_eq by (rule bt_wf_extend_Nil)

lemma config_settings_get: "bt_get (config_settings sec) k = map_of (settings_list sec) k"
  by (simp add: config_settings_eq bt.lookup_extend_distinct distinct_settings_list
      split: option.splits)

lemma map_of_store_block_other:
  "n \<noteq> m \<Longrightarrow> map_of (store_block sec n) (listener_property m s) = None"
  using keys_store_block [of sec n]
  by (auto simp: map_of_eq_None_iff listener_property_inject)

lemma map_of_sasl_block_listener [simp]: "map_of (sasl_block sec) (listener_property m s) = None"
  by (simp add: sasl_block_def)

lemma config_settings_listener:
  "bt_get (config_settings sec) (listener_property n s) =
     map_of (store_block sec n) (listener_property n s)"
  by (cases n)
    (simp_all add: config_settings_get settings_list_def map_of_store_block_other map_add_def
      split: option.splits)

lemma config_settings_keystore:
  "bt_get (config_settings sec) (listener_property n ''ssl.keystore.location'') =
     map_option (\<lambda>d. d @ ''/keystore.p12'') (store_dir sec n)"
  by (simp add: config_settings_listener store_block_def listener_store_def
      listener_property_inject split: option.splits)

lemma config_settings_truststore:
  "bt_get (config_settings sec) (listener_property n ''ssl.truststore.location'') =
     map_option (\<lambda>d. d @ ''/truststore.p12'') (store_dir sec n)"
  by (simp add: config_settings_listener store_block_def listener_store_def
      listener_property_inject split: option.splits)

lemma config_settings_client_auth:
  "bt_get (config_settings sec) (listener_property n ''ssl.client.auth'') =
     (if (n = ClientAuth \<or> n = Internal) \<and> store_dir sec n \<noteq> None then Some ''required'' else None)"
  by (cases "store_dir sec n")
    (auto simp: config_settings_listener store_block_def listener_store_def
      listener_property_inject)

lemma map_of_store_blocks_None:
  "(\<And>s. k \<noteq> listener_property n s) \<Longrightarrow> map_of (store_block sec n) k = None"
  using keys_store_block [of sec n] by (auto simp: map_of_eq_None_iff)

lemma config_settings_other:
  assumes "\<And>n s. k \<noteq> listener_property n s"
  shows "bt_get (config_settings sec) k =
    map_of (sasl_block sec @ [(''inter.broker.listener.name'', ''INTERNAL'')]) k"
  using assms
  by (simp add: config_settings_get settings_list_def map_of_store_blocks_None map_add_def
      split: option.splits)

lemma config_settings_sasl:
  "bt_get (config_settings sec) ''sasl.enabled.mechanisms'' =
     (if has_kerberos_enabled sec then Some ''GSSAPI'' else None)"
  "bt_get (config_settings sec) ''sasl.kerberos.service.name'' =
     (if has_kerberos_enabled sec then Some ''kafka'' else None)"
  "bt_get (config_settings sec) ''sasl.mechanism.inter.broker.protocol'' =
     (if has_kerberos_enabled sec then Some ''GSSAPI'' else None)"
  "bt_get (config_settings sec) ''inter.broker.listener.name'' = Some ''INTERNAL''"
  by (simp_all add: config_settings_other sasl_block_def)

lemma emits_new_from_kafka_cluster:
  "(\<And>n. emits P (resolve_class n)) \<Longrightarrow> emits P (new_from_kafka_cluster resolve_class pts kafka)"
  unfolding new_from_kafka_cluster_def by (intro emits_intros emits_from_references)

lemma new_from_kafka_cluster_eq_Inr:
  "new_from_kafka_cluster resolve_class pts kafka w = (Inr sec, w') \<Longrightarrow>
     classes_valid (sec_resolved_authentication_classes sec)"
  by (auto simp: new_from_kafka_cluster_def io_simps dest: from_references_valid)

section \<open>Properties\<close>

text \<open>
  C19. The ports and port names offered to clients follow from the client mode alone: with
  settings that passed validation, the secure client port 9093 (named \<open>kafka-tls\<close>) and the secure
  bootstrap port 9095 are used in every mode but the unsecured one, which uses 9092 (\<open>kafka\<close>)
  and 9094; the four ports of a broker (client, bootstrap, internal, metrics) never coincide.
\<close>

theorem ports_follow_client_mode:
  assumes "sec_valid sec"
  shows "client_port sec = (if client_mode sec = Unsecured then 9092 else 9093) \<and>
         client_port_name sec = (if client_mode sec = Unsecured then ''kafka'' else ''kafka-tls'') \<and>
         bootstrap_port sec = (if client_mode sec = Unsecured then 9094 else 9095) \<and>
         distinct [client_port sec, bootstrap_port sec, internal_port sec, METRICS_PORT]"
proof -
  have mode: "tls_enabled sec \<longleftrightarrow> client_mode sec \<noteq> Unsecured"
    using assms by (rule tls_enabled_mode)
  have "client_port sec = (if client_mode sec = Unsecured then 9092 else 9093)"
    using client.port_secure client.port_insecure mode by (simp add: port_number_defs)
  moreover have "bootstrap_port sec = (if client_mode sec = Unsecured then 9094 else 9095)"
    using bootstrap.port_secure bootstrap.port_insecure mode by (simp add: port_number_defs)
  moreover have "client_port_name sec =
      (if client_mode sec = Unsecured then ''kafka'' else ''kafka-tls'')"
    using mode by (simp add: client_port_name_def SECURE_CLIENT_PORT_NAME_def CLIENT_PORT_NAME_def)
  ultimately show ?thesis using broker_ports_distinct by blast
qed

definition example_security :: "authentication_class list \<Rightarrow> string \<Rightarrow> string option \<Rightarrow>
  kafka_tls_security" where
  "example_security classes internal server = \<lparr>
     sec_resolved_authentication_classes = \<lparr>resolved_classes = classes\<rparr>,
     sec_internal_secret_class = internal,
     sec_server_secret_class = server\<rparr>"

definition example_tls_class :: "string option \<Rightarrow> authentication_class" where
  "example_tls_class s = \<lparr>ac_metadata = object_ref_new ''kafka-client-tls'',
     ac_provider = TlsProvider s\<rparr>"

lemmas example_security_defs =
  example_security_def example_tls_class_def example_kerberos_class_def
  tls_client_authentication_class_def get_tls_authentication_class_def
  get_kerberos_authentication_class_def has_kerberos_enabled_def kerberos_secret_class_def
  tls_server_secret_class_def tls_internal_secret_class_def get_tls_secret_class_def

lemma example_kerberos_valid:
  "sec_valid (example_security [example_kerberos_class] ''tls'' (Some ''tls''))"
  by (simp add: sec_valid_iff classes_valid_def supported_provider_def example_security_defs)

lemma example_kerberos_mode:
  "client_mode (example_security [example_kerberos_class] ''tls'' (Some ''tls'')) = Kerberized"
  by (simp add: client_mode_def example_security_defs)

theorem ports_follow_client_mode_witness:
  "client_port (example_security [example_kerberos_class] ''tls'' (Some ''tls'')) = 9093 \<and>
   bootstrap_port (example_security [example_kerberos_class] ''tls'' (Some ''tls'')) = 9095"
  using ports_follow_client_mode [OF example_kerberos_valid] by (simp add: example_kerberos_mode)

text \<open>
  Kerberos is accepted only together with TLS: validation of the authentication methods fails
  exactly when Kerberos is enabled and no server secret class is set; then, and only then, TLS
  would be off for clients that authenticate with Kerberos alone.
\<close>

theorem kerberos_requires_tls:
  "validate_authentication_methods sec =
     (if has_kerberos_enabled sec \<and> sec_server_secret_class sec = None
      then Inl KerberosRequiresTls else Inr ())"
  by (simp add: validate_authentication_methods_def)

text \<open>
  C18. The generated broker settings refine the per-listener view: for each listener the key store
  and trust store lie in the directory \<open>store_dir\<close> assigns to the listener and are absent when it
  assigns none; client certificates are required exactly on the mutual-TLS client listener and on
  the internal listener; the SASL settings are present exactly with Kerberos; the internal
  listener is always the one brokers use among themselves.
\<close>

theorem config_settings_refines_stores:
  "bt_wf (config_settings sec) \<and>
   (\<forall>n. bt_get (config_settings sec) (listener_property n ''ssl.keystore.location'') =
          map_option (\<lambda>d. d @ ''/keystore.p12'') (store_dir sec n) \<and>
        bt_get (config_settings sec) (listener_property n ''ssl.truststore.location'') =
          map_option (\<lambda>d. d @ ''/truststore.p12'') (store_dir sec n) \<and>
        bt_get (config_settings sec) (listener_property n ''ssl.client.auth'') =
          (if n \<in> {ClientAuth, Internal} \<and> store_dir sec n \<noteq> None then Some ''required'' else None)) \<and>
   bt_get (config_settings sec) ''sasl.enabled.mechanisms'' =
     (if has_kerberos_enabled sec then Some ''GSSAPI'' else None) \<and>
   bt_get (config_settings sec) ''sasl.kerberos.service.name'' =
     (if has_kerberos_enabled sec then Some ''kafka'' else None) \<and>
   bt_get (config_settings sec) ''inter.broker.listener.name'' = Some ''INTERNAL''"
  by (simp add: config_settings_wf config_settings_keystore config_settings_truststore
      config_settings_client_auth config_settings_sasl)

text \<open>
  The server's key material: the secret class of a TLS authentication class, when it names one,
  overrides the cluster's server secret class; otherwise the server secret class is used. So with
  validated settings a cluster that offers Kerberos or plain server TLS always has key material.
\<close>

theorem server_key_material:
  assumes "sec_valid sec"
  shows "get_tls_secret_class sec =
           (case resolved_classes (sec_resolved_authentication_classes sec) of
              [c] \<Rightarrow> (case ac_provider c of
                       TlsProvider (Some s) \<Rightarrow> Some s | _ \<Rightarrow> sec_server_secret_class sec)
            | _ \<Rightarrow> sec_server_secret_class sec) \<and>
         (client_mode sec \<in> {Kerberized, ServerTls} \<longrightarrow> get_tls_secret_class sec \<noteq> None)"
proof
  have "classes_valid (sec_resolved_authentication_classes sec)"
    using assms by (simp add: sec_valid_iff)
  then show "get_tls_secret_class sec =
           (case resolved_classes (sec_resolved_authentication_classes sec) of
              [c] \<Rightarrow> (case ac_provider c of
                       TlsProvider (Some s) \<Rightarrow> Some s | _ \<Rightarrow> sec_server_secret_class sec)
            | _ \<Rightarrow> sec_server_secret_class sec)"
    by (cases rule: classes_valid_cases)
      (simp_all add: get_tls_secret_class_def get_tls_authentication_class_def split: option.splits)
  show "client_mode sec \<in> {Kerberized, ServerTls} \<longrightarrow> get_tls_secret_class sec \<noteq> None"
    using tls_secret_class_available [OF assms] by auto
qed

theorem server_key_material_witness:
  "get_tls_secret_class (example_security [example_kerberos_class] ''tls'' (Some ''tls'')) \<noteq> None"
  using conjunct2 [OF server_key_material [OF example_kerberos_valid]]
  by (simp add: example_kerberos_mode)

text \<open>
  Leaving out the TLS settings does not switch internal encryption off: a resource without
  \<open>tls\<close> has no server secret class but the default internal one, so brokers still encrypt among
  themselves, on the secure internal port. Only an empty internal secret class switches it off.
\<close>

theorem internal_tls_default_on:
  assumes "new_from_kafka_cluster resolve_class pts kafka w = (Inr sec, w')"
    and "cc_tls (spec_cluster_config (spec kafka)) = None"
  shows "tls_internal_secret_class sec = Some ''tls'' \<and> tls_server_secret_class sec = None \<and>
         internal_port sec = 19093"
  using assms
  by (auto simp: new_from_kafka_cluster_def io_simps tls_internal_secret_class_def
      tls_server_secret_class_def internal_tls_default_def TLS_DEFAULT_SECRET_CLASS_def
      internal_port_def SECURE_INTERNAL_PORT_def)

theorem internal_tls_default_on_witness:
  "\<exists>sec. new_from_kafka_cluster (\<lambda>n. io_return example_kerberos_class) (\<lambda>p. ''x'')
      (example_kafka\<lparr>spec := (spec example_kafka)\<lparr>spec_cluster_config :=
         (spec_cluster_config (spec example_kafka))\<lparr>cc_tls := None\<rparr>\<rparr>\<rparr>) ([] :: string list)
      = (Inr sec :: string security_error + _, []) \<and> internal_port sec = 19093"
proof -
  let ?k = "example_kafka\<lparr>spec := (spec example_kafka)\<lparr>spec_cluster_config :=
         (spec_cluster_config (spec example_kafka))\<lparr>cc_tls := None\<rparr>\<rparr>\<rparr>"
  let ?sec = "example_security [] ''tls'' None"
  have run: "new_from_kafka_cluster (\<lambda>n. io_return example_kerberos_class) (\<lambda>p. ''x'') ?k
      ([] :: string list) = (Inr ?sec :: string security_error + _, [])"
    by (simp add: new_from_kafka_cluster_def from_references_def io_bind_def io_context_def
        validate_classes_def example_kafka_def example_security_def internal_tls_default_def
        TLS_DEFAULT_SECRET_CLASS_def)
  have "cc_tls (spec_cluster_config (spec ?k)) = None" by simp
  with run internal_tls_default_on [OF run] show ?thesis by blast
qed

end
