(* ===== verification/Listener.thy ===== *)
theory Listener
  imports Security
begin

text \<open>
  The listeners of a broker: \<open>rust/crd/src/listener.rs\<close>. \<open>get_kafka_listener_config\<close> chooses the
  sockets to bind, the addresses to advertise and the protocol of each listener from the security
  settings; the three printing functions produce the values of the broker's properties.
\<close>

section \<open>Data\<close>

definition LISTENER_LOCAL_ADDRESS :: string where "LISTENER_LOCAL_ADDRESS = ''0.0.0.0''"

datatype kafka_listener_error = ObjectHasNoNamespace

record kafka_listener =
  listener_name :: kafka_listener_name
  listener_host :: string
  listener_port :: string

record kafka_listener_config =
  lc_listeners :: "kafka_listener list"
  lc_advertised_listeners :: "kafka_listener list"
  lc_security_protocol_map :: "(kafka_listener_name, kafka_listener_protocol) btree_map"

section \<open>Printing\<close>

definition listener_to_string :: "kafka_listener \<Rightarrow> string" where
  "listener_to_string l =
     listener_name_to_string (listener_name l) @ ''://'' @ listener_host l @ '':'' @ listener_port l"

definition listeners_value :: "kafka_listener_config \<Rightarrow> string" where
  "listeners_value c = join '','' (map listener_to_string (lc_listeners c))"

definition advertised_listeners_value :: "kafka_listener_config \<Rightarrow> string" where
  "advertised_listeners_value c = join '','' (map listener_to_string (lc_advertised_listeners c))"

definition listener_security_protocol_map_value :: "kafka_listener_config \<Rightarrow> string" where
  "listener_security_protocol_map_value c =
     join '','' (map (\<lambda>(name, protocol).
         listener_name_to_string name @ '':'' @ protocol_to_string protocol)
       (lc_security_protocol_map c))"

section \<open>Building the configuration\<close>

definition node_address_cmd :: "string \<Rightarrow> string" where
  "node_address_cmd directory = ''$(cat '' @ directory @ ''/default-address/address)''"

definition node_port_cmd :: "string \<Rightarrow> string \<Rightarrow> string" where
  "node_port_cmd directory port_name =
     ''$(cat '' @ directory @ ''/default-address/ports/'' @ port_name @ '')''"

definition pod_fqdn :: "kafka_cluster \<Rightarrow> string \<Rightarrow> string \<Rightarrow> kafka_listener_error + string" where
  "pod_fqdn kafka object_name cluster_domain =
     and_then (ok_or ObjectHasNoNamespace (namespace kafka)) (\<lambda>ns.
       Inr (''$POD_NAME.'' @ object_name @ ''.'' @ ns @ ''.svc.'' @ cluster_domain))"

text \<open>
  The three collections the code fills, as one value; \<open>push_listener\<close> is one round of
  \<open>listeners.push\<close>, \<open>advertised_listeners.push\<close> and \<open>listener_security_protocol_map.insert\<close>.
\<close>

definition push_listener ::
  "kafka_listener_name \<Rightarrow> string \<Rightarrow> string \<Rightarrow> string \<Rightarrow> kafka_listener_protocol \<Rightarrow>
     kafka_listener_config \<Rightarrow> kafka_listener_config" where
  "push_listener name port advertised_host advertised_port protocol c = \<lparr>
     lc_listeners = lc_listeners c @
       [\<lparr>listener_name = name, listener_host = LISTENER_LOCAL_ADDRESS, listener_port = port\<rparr>],
     lc_advertised_listeners = lc_advertised_listeners c @
       [\<lparr>listener_name = name, listener_host = advertised_host, listener_port = advertised_port\<rparr>],
     lc_security_protocol_map = bt_insert name protocol (lc_security_protocol_map c)\<rparr>"

definition get_kafka_listener_config ::
  "kafka_cluster \<Rightarrow> kafka_tls_security \<Rightarrow> string \<Rightarrow> string \<Rightarrow>
     kafka_listener_error + kafka_listener_config" where
  "get_kafka_listener_config kafka sec object_name cluster_domain =
     and_then (pod_fqdn kafka object_name cluster_domain) (\<lambda>fqdn.
       let broker_address = node_address_cmd STACKABLE_LISTENER_BROKER_DIR;
           broker_port = node_port_cmd STACKABLE_LISTENER_BROKER_DIR (client_port_name sec);
           c = \<lparr>lc_listeners = [], lc_advertised_listeners = [], lc_security_protocol_map = []\<rparr>;
           c = (if tls_client_authentication_class sec \<noteq> None then
                  push_listener ClientAuth (u16_to_string (client_port sec))
                    broker_address broker_port Ssl c
                else if has_kerberos_enabled sec then
                  push_listener Client (u16_to_string SECURE_CLIENT_PORT)
                    broker_address broker_port SaslSsl c
                else if tls_server_secret_class sec \<noteq> None then
                  push_listener Client (u16_to_string (client_port sec))
                    broker_address broker_port Ssl c
                else
                  push_listener Client (u16_to_string CLIENT_PORT)
                    broker_address broker_port Plaintext c);
           c = (if has_kerberos_enabled sec \<or> tls_internal_secret_class sec \<noteq> None then
                  push_listener Internal (u16_to_string SECURE_INTERNAL_PORT)
                    fqdn (u16_to_string SECURE_INTERNAL_PORT) Ssl c
                else
                  push_listener Internal (u16_to_string (internal_port sec))
                    fqdn (u16_to_string (internal_port sec)) Plaintext c);
           c = (if has_kerberos_enabled sec then
                  push_listener Bootstrap (u16_to_string (bootstrap_port sec))
                    broker_address broker_port SaslSsl c
                else c)
       in Inr c)"

section \<open>The listeners by mode\<close>

text \<open>
  The abstract view: the client mode and the protection of the internal listener determine a list
  of listeners with bound port, protocol and whether they are advertised at the pod's own name.
\<close>

definition client_listener :: "client_mode \<Rightarrow> kafka_listener_name \<times> 16 word \<times> kafka_listener_protocol"
where
  "client_listener m =
     (case m of
        MutualTls \<Rightarrow> (ClientAuth, 9093, Ssl)
      | Kerberized \<Rightarrow> (Client, 9093, SaslSsl)
      | ServerTls \<Rightarrow> (Client, 9093, Ssl)
      | Unsecured \<Rightarrow> (Client, 9092, Plaintext))"

definition internal_encrypted :: "kafka_tls_security \<Rightarrow> bool" where
  "internal_encrypted sec \<longleftrightarrow> has_kerberos_enabled sec \<or> tls_internal_secret_class sec \<noteq> None"

definition internal_listener :: "bool \<Rightarrow> kafka_listener_name \<times> 16 word \<times> kafka_listener_protocol"
where
  "internal_listener enc = (if enc then (Internal, 19093, Ssl) else (Internal, 19092, Plaintext))"

definition bootstrap_listeners ::
  "client_mode \<Rightarrow> (kafka_listener_name \<times> 16 word \<times> kafka_listener_protocol) list" where
  "bootstrap_listeners m = (if m = Kerberized then [(Bootstrap, 9095, SaslSsl)] else [])"

definition abstract_listeners ::
  "kafka_tls_security \<Rightarrow> (kafka_listener_name \<times> 16 word \<times> kafka_listener_protocol) list" where
  "abstract_listeners sec =
     client_listener (client_mode sec) # internal_listener (internal_encrypted sec) #
     bootstrap_listeners (client_mode sec)"

text \<open>What the concrete configuration binds, listener by listener.\<close>

definition concrete_listeners ::
  "kafka_listener_config \<Rightarrow> (kafka_listener_name \<times> string \<times> kafka_listener_protocol option) list" where
  "concrete_listeners c =
     map (\<lambda>l. (listener_name l, listener_port l,
              bt_get (lc_security_protocol_map c) (listener_name l))) (lc_listeners c)"

lemma push_listener_sel [simp]:
  "lc_listeners (push_listener n p ah ap pr c) = lc_listeners c @
     [\<lparr>listener_name = n, listener_host = LISTENER_LOCAL_ADDRESS, listener_port = p\<rparr>]"
  "lc_advertised_listeners (push_listener n p ah ap pr c) = lc_advertised_listeners c @
     [\<lparr>listener_name = n, listener_host = ah, listener_port = ap\<rparr>]"
  "lc_security_protocol_map (push_listener n p ah ap pr c) =
     bt_insert n pr (lc_security_protocol_map c)"
  by (simp_all add: push_listener_def)

lemma get_kafka_listener_config_eq_Inr:
  "get_kafka_listener_config kafka sec obj cdom = Inr c \<Longrightarrow>
     \<exists>ns. namespace kafka = Some ns"
  by (auto simp: get_kafka_listener_config_def pod_fqdn_def result_simps)

lemma get_kafka_listener_config_error:
  "namespace kafka = None \<Longrightarrow>
     get_kafka_listener_config kafka sec obj cdom = Inl ObjectHasNoNamespace"
  by (simp add: get_kafka_listener_config_def pod_fqdn_def)

lemma get_kafka_listener_config_ok:
  "namespace kafka = Some ns \<Longrightarrow> is_ok (get_kafka_listener_config kafka sec obj cdom)"
  by (simp add: get_kafka_listener_config_def pod_fqdn_def Let_def)

text \<open>The configuration built once the fully-qualified pod name is known.\<close>

definition listener_layout :: "kafka_tls_security \<Rightarrow> string \<Rightarrow> kafka_listener_config" where
  "listener_layout sec fqdn =
     (let broker_address = node_address_cmd STACKABLE_LISTENER_BROKER_DIR;
          broker_port = node_port_cmd STACKABLE_LISTENER_BROKER_DIR (client_port_name sec);
          c0 = \<lparr>lc_listeners = [], lc_advertised_listeners = [], lc_security_protocol_map = []\<rparr>;
          c1 = (case client_mode sec of
                  MutualTls \<Rightarrow> push_listener ClientAuth (u16_to_string (client_port sec))
                    broker_address broker_port Ssl c0
                | Kerberized \<Rightarrow> push_listener Client (u16_to_string SECURE_CLIENT_PORT)
                    broker_address broker_port SaslSsl c0
                | ServerTls \<Rightarrow> push_listener Client (u16_to_string (client_port sec))
                    broker_address broker_port Ssl c0
                | Unsecured \<Rightarrow> push_listener Client (u16_to_string CLIENT_PORT)
                    broker_address broker_port Plaintext c0);
          c2 = (if internal_encrypted sec then
                  push_listener Internal (u16_to_string SECURE_INTERNAL_PORT)
                    fqdn (u16_to_string SECURE_INTERNAL_PORT) Ssl c1
                else
                  push_listener Internal (u16_to_string (internal_port sec))
                    fqdn (u16_to_string (internal_port sec)) Plaintext c1)
      in if has_kerberos_enabled sec then
           push_listener Bootstrap (u16_to_string (bootstrap_port sec))
             broker_address broker_port SaslSsl c2
         else c2)"

lemma get_kafka_listener_config_layout:
  "get_kafka_listener_config kafka sec obj cdom =
     and_then (pod_fqdn kafka obj cdom) (\<lambda>fqdn. Inr (listener_layout sec fqdn))"
  by (simp add: get_kafka_listener_config_def listener_layout_def client_mode_def
      internal_encrypted_def Let_def cong: if_cong)

lemma get_kafka_listener_config_Inr:
  "get_kafka_listener_config kafka sec obj cdom = Inr c \<Longrightarrow>
     \<exists>fqdn. pod_fqdn kafka obj cdom = Inr fqdn \<and> c = listener_layout sec fqdn"
  by (auto simp: get_kafka_listener_config_layout result_simps)

lemma layout_listeners:
  "map listener_name (lc_listeners (listener_layout sec fqdn)) =
     (if client_mode sec = MutualTls then ClientAuth else Client) # Internal #
     (if has_kerberos_enabled sec then [Bootstrap] else [])"
  "map listener_name (lc_advertised_listeners (listener_layout sec fqdn)) =
     (if client_mode sec = MutualTls then ClientAuth else Client) # Internal #
     (if has_kerberos_enabled sec then [Bootstrap] else [])"
  by (cases "client_mode sec"; simp add: listener_layout_def Let_def)+

lemma layout_protocol_map:
  "lc_security_protocol_map (listener_layout sec fqdn) =
     (case client_mode sec of
        MutualTls \<Rightarrow> (ClientAuth, Ssl)
      | Kerberized \<Rightarrow> (Client, SaslSsl)
      | ServerTls \<Rightarrow> (Client, Ssl)
      | Unsecured \<Rightarrow> (Client, Plaintext)) #
     (Internal, if internal_encrypted sec then Ssl else Plaintext) #
     (if has_kerberos_enabled sec then [(Bootstrap, SaslSsl)] else [])"
  by (cases "client_mode sec") (simp_all add: listener_layout_def Let_def)

lemma layout_ports:
  assumes "sec_valid sec"
  shows "map listener_port (lc_listeners (listener_layout sec fqdn)) =
           map (\<lambda>(n, p, pr). u16_to_string p) (abstract_listeners sec)"
  using assms tls_enabled_mode [OF assms] client_mode_eqs(2) [OF assms]
  by (cases "client_mode sec")
    (simp_all add: listener_layout_def Let_def abstract_listeners_def client_listener_def
      internal_listener_def bootstrap_listeners_def client_port_def bootstrap_port_def
      internal_port_def internal_encrypted_def port_number_defs)

lemma get_kafka_listener_config_names:
  assumes "get_kafka_listener_config kafka sec obj cdom = Inr c"
  shows "map listener_name (lc_listeners c) =
           (if client_mode sec = MutualTls then ClientAuth else Client) # Internal #
           (if has_kerberos_enabled sec then [Bootstrap] else [])"
    and "map listener_name (lc_advertised_listeners c) = map listener_name (lc_listeners c)"
    and "map fst (lc_security_protocol_map c) = map listener_name (lc_listeners c)"
  using get_kafka_listener_config_Inr [OF assms]
  by (cases "client_mode sec"; auto simp: layout_listeners layout_protocol_map)+

lemma get_kafka_listener_config_ports:
  assumes "get_kafka_listener_config kafka sec obj cdom = Inr c" and "sec_valid sec"
  shows "map listener_port (lc_listeners c) =
           map (\<lambda>(n, p, pr). u16_to_string p) (abstract_listeners sec)"
  using get_kafka_listener_config_Inr [OF assms(1)] layout_ports [OF assms(2)] by auto

lemma get_kafka_listener_config_protocol_map:
  assumes "get_kafka_listener_config kafka sec obj cdom = Inr c"
  shows "lc_security_protocol_map c =
           (case client_mode sec of
              MutualTls \<Rightarrow> (ClientAuth, Ssl)
            | Kerberized \<Rightarrow> (Client, SaslSsl)
            | ServerTls \<Rightarrow> (Client, Ssl)
            | Unsecured \<Rightarrow> (Client, Plaintext)) #
           (Internal, if internal_encrypted sec then Ssl else Plaintext) #
           (if has_kerberos_enabled sec then [(Bootstrap, SaslSsl)] else [])"
  using get_kafka_listener_config_Inr [OF assms] by (auto simp: layout_protocol_map)

lemma abstract_listener_names:
  assumes "get_kafka_listener_config kafka sec obj cdom = Inr c" and "sec_valid sec"
  shows "map listener_name (lc_listeners c) = map fst (abstract_listeners sec)"
  using client_mode_eqs [OF assms(2)] mtls_excludes_kerberos [OF assms(2)]
  by (cases "client_mode sec")
    (auto simp: get_kafka_listener_config_names [OF assms(1)] abstract_listeners_def
      client_listener_def internal_listener_def bootstrap_listeners_def)

lemma abstract_listener_protocols:
  assumes "get_kafka_listener_config kafka sec obj cdom = Inr c" and "sec_valid sec"
  shows "lc_security_protocol_map c = map (\<lambda>(n, p, pr). (n, pr)) (abstract_listeners sec)"
  using client_mode_eqs [OF assms(2)] mtls_excludes_kerberos [OF assms(2)]
  by (cases "client_mode sec")
    (auto simp: get_kafka_listener_config_protocol_map [OF assms(1)] abstract_listeners_def
      client_listener_def internal_listener_def bootstrap_listeners_def)

lemma distinct_abstract_names: "distinct (map fst (abstract_listeners sec))"
  by (cases "client_mode sec")
    (auto simp: abstract_listeners_def client_listener_def internal_listener_def
      bootstrap_listeners_def)

lemma distinct_abstract_ports: "distinct (map (\<lambda>(n, p, pr). p) (abstract_listeners sec))"
  by (cases "client_mode sec")
    (auto simp: abstract_listeners_def client_listener_def internal_listener_def
      bootstrap_listeners_def)

lemma concrete_listeners_abstract:
  assumes "get_kafka_listener_config kafka sec obj cdom = Inr c" and "sec_valid sec"
  shows "concrete_listeners c =
           map (\<lambda>(n, p, pr). (n, u16_to_string p, Some pr)) (abstract_listeners sec)"
proof (rule nth_equalityI)
  let ?a = "abstract_listeners sec"
  have names: "map listener_name (lc_listeners c) = map fst ?a"
    by (rule abstract_listener_names [OF assms])
  have ports: "map listener_port (lc_listeners c) = map (\<lambda>(n, p, pr). u16_to_string p) ?a"
    by (rule get_kafka_listener_config_ports [OF assms])
  have map: "lc_security_protocol_map c = map (\<lambda>(n, p, pr). (n, pr)) ?a"
    by (rule abstract_listener_protocols [OF assms])
  have len: "length (lc_listeners c) = length ?a" using names by (metis length_map)
  then show "length (concrete_listeners c) =
      length (map (\<lambda>(n, p, pr). (n, u16_to_string p, Some pr)) ?a)"
    by (simp add: concrete_listeners_def)
  fix i assume "i < length (concrete_listeners c)"
  then have i: "i < length ?a" using len by (simp add: concrete_listeners_def)
  obtain n p pr where a: "?a ! i = (n, p, pr)" by (cases "?a ! i")
  have "(n, pr) \<in> set (lc_security_protocol_map c)"
    using i a map by (force simp: in_set_conv_nth)
  moreover have "distinct (map fst (lc_security_protocol_map c))"
    using distinct_abstract_names [of sec] by (simp add: map comp_def case_prod_unfold)
  ultimately have get: "bt_get (lc_security_protocol_map c) n = Some pr"
    by (simp add: bt_get_def)
  have "listener_name (lc_listeners c ! i) = n"
    using i len a arg_cong [OF names, of "\<lambda>xs. xs ! i"] by simp
  moreover have "listener_port (lc_listeners c ! i) = u16_to_string p"
    using i len a arg_cong [OF ports, of "\<lambda>xs. xs ! i"] by simp
  ultimately show "concrete_listeners c ! i =
      map (\<lambda>(n, p, pr). (n, u16_to_string p, Some pr)) ?a ! i"
    using i len a get by (simp add: concrete_listeners_def)
qed

lemma encrypted_listener_has_store:
  assumes "sec_valid sec" and "(n, p, pr) \<in> set (abstract_listeners sec)"
  shows "store_dir sec n \<noteq> None \<longleftrightarrow> pr \<noteq> Plaintext \<and>
    \<not> (n = Internal \<and> has_kerberos_enabled sec \<and> tls_internal_secret_class sec = None)"
  using assms client_mode_eqs [OF assms(1)] mtls_excludes_kerberos [OF assms(1)]
  by (cases "client_mode sec")
    (auto simp: abstract_listeners_def client_listener_def internal_listener_def
      bootstrap_listeners_def store_dir_def internal_encrypted_def sec_valid_iff
      tls_server_secret_class_def tls_enabled_def client_mode_def split: if_splits)

section \<open>Reading the printed values\<close>

text \<open>How the broker reads the protocol map: entries separated by commas, name and protocol by a
  colon.\<close>

definition read_entry :: "string \<Rightarrow> strum_error + kafka_listener_name \<times> kafka_listener_protocol" where
  "read_entry s =
     (case split_on CHR '':'' s of
        [a, b] \<Rightarrow> and_then (listener_name_from_str a)
                   (\<lambda>n. and_then (protocol_from_str b) (\<lambda>p. Inr (n, p)))
      | _ \<Rightarrow> Inl VariantNotFound)"

definition read_protocol_map ::
  "string \<Rightarrow> strum_error + (kafka_listener_name \<times> kafka_listener_protocol) list" where
  "read_protocol_map s = collect_results (map read_entry (split_on CHR '','' s))"

lemma read_entry_print:
  "read_entry (listener_name_to_string n @ '':'' @ protocol_to_string p) = Inr (n, p)"
  by (simp add: read_entry_def split_on_append split_on_free listener_text_no_separator
      protocol_text_no_separator listener_text.read_text protocol_text.read_text)

lemma read_protocol_map_print:
  assumes "lc_security_protocol_map c \<noteq> []"
  shows "read_protocol_map (listener_security_protocol_map_value c) =
           Inr (lc_security_protocol_map c)"
proof -
  let ?print = "\<lambda>(name, protocol). listener_name_to_string name @ '':'' @ protocol_to_string protocol"
  have "split_on CHR '','' (join '','' (map ?print (lc_security_protocol_map c))) =
          map ?print (lc_security_protocol_map c)"
    using assms listener_text_no_separator protocol_text_no_separator
    by (intro split_on_join) auto
  then have "read_protocol_map (listener_security_protocol_map_value c) =
      collect_results (map (\<lambda>e. Inr e) (lc_security_protocol_map c))"
    using read_entry_print
    by (simp add: read_protocol_map_def listener_security_protocol_map_value_def comp_def
        case_prod_unfold)
  then show ?thesis using collect_results_map_Inr [of id] by (simp add: id_def)
qed

section \<open>Properties\<close>

text \<open>
  C9. The concrete listener configuration implements the abstract table: with validated settings
  the broker binds, in this order, the client listener of the client mode, the internal listener
  and, with Kerberos, the bootstrap listener, each on the port and with the protocol of the table.
\<close>

theorem listener_config_refines_table:
  assumes "get_kafka_listener_config kafka sec obj cdom = Inr c" and "sec_valid sec"
  shows "concrete_listeners c =
           map (\<lambda>(n, p, pr). (n, u16_to_string p, Some pr)) (abstract_listeners sec)"
  using assms by (rule concrete_listeners_abstract)

abbreviation kerberos_security :: kafka_tls_security where
  "kerberos_security \<equiv> example_security [example_kerberos_class] ''tls'' (Some ''tls'')"

lemma example_listener_config:
  "\<exists>c. get_kafka_listener_config example_kafka sec ''simple-kafka-broker-default'' ''cluster.local''
     = Inr c"
proof -
  have "namespace example_kafka = Some ''default''" by (simp add: namespace_def example_kafka_def)
  from get_kafka_listener_config_ok [OF this] show ?thesis by (simp add: is_ok_iff)
qed

lemma kerberos_abstract_listeners:
  "abstract_listeners kerberos_security =
     [(Client, 9093, SaslSsl), (Internal, 19093, Ssl), (Bootstrap, 9095, SaslSsl)]"
proof -
  have "internal_encrypted kerberos_security"
    by (simp add: internal_encrypted_def example_security_defs)
  then show ?thesis
    by (simp add: abstract_listeners_def example_kerberos_mode client_listener_def
        bootstrap_listeners_def internal_listener_def)
qed

theorem listener_config_refines_table_witness:
  "\<exists>c. get_kafka_listener_config example_kafka kerberos_security
          ''simple-kafka-broker-default'' ''cluster.local'' = Inr c \<and>
       concrete_listeners c = [(Client, ''9093'', Some SaslSsl), (Internal, ''19093'', Some Ssl),
         (Bootstrap, ''9095'', Some SaslSsl)]"
proof -
  obtain c where c: "get_kafka_listener_config example_kafka kerberos_security
      ''simple-kafka-broker-default'' ''cluster.local'' = Inr c"
    using example_listener_config by blast
  have ports: "u16_to_string 9093 = ''9093''" "u16_to_string 19093 = ''19093''"
    "u16_to_string 9095 = ''9095''"
    by (simp_all add: u16_to_string_def nat_to_dec_eval)
  from c listener_config_refines_table [OF c example_kerberos_valid] show ?thesis
    by (simp add: kerberos_abstract_listeners ports)
qed

text \<open>
  The three generated lists agree for every setting, validated or not: the listeners that are
  bound are those that are advertised, in the same order, and exactly they have an entry in the
  protocol map; no listener name occurs twice.
\<close>

theorem listener_lists_agree:
  assumes "get_kafka_listener_config kafka sec obj cdom = Inr c"
  shows "map listener_name (lc_advertised_listeners c) = map listener_name (lc_listeners c) \<and>
         fst ` set (lc_security_protocol_map c) = listener_name ` set (lc_listeners c) \<and>
         distinct (map listener_name (lc_listeners c)) \<and>
         bt_wf (lc_security_protocol_map c)"
proof -
  note n = get_kafka_listener_config_names [OF assms]
  have "fst ` set (lc_security_protocol_map c) = listener_name ` set (lc_listeners c)"
    using arg_cong [OF n(3), of set] by simp
  then show ?thesis using n(2,3) by (simp add: n(1) bt_wf_def)
qed

theorem listener_lists_agree_witness:
  "\<exists>c. get_kafka_listener_config example_kafka kerberos_security
          ''simple-kafka-broker-default'' ''cluster.local'' = Inr c \<and>
       map listener_name (lc_advertised_listeners c) = map listener_name (lc_listeners c)"
  using example_listener_config listener_lists_agree by blast

text \<open>
  C10. No plaintext towards clients once TLS is on: with validated settings and TLS enabled, every
  listener but the internal one is encrypted, and with Kerberos every one of them authenticates
  by SASL.
\<close>

theorem client_listeners_encrypted:
  assumes "get_kafka_listener_config kafka sec obj cdom = Inr c" and "sec_valid sec"
    and "tls_enabled sec" and "(n, pr) \<in> set (lc_security_protocol_map c)" and "n \<noteq> Internal"
  shows "pr \<noteq> Plaintext \<and> (has_kerberos_enabled sec \<longrightarrow> pr = SaslSsl)"
proof -
  obtain p where "(n, p, pr) \<in> set (abstract_listeners sec)"
    using assms(4) by (auto simp: abstract_listener_protocols [OF assms(1,2)])
  with assms(3,5) client_mode_eqs [OF assms(2)] show ?thesis
    by (cases "client_mode sec")
      (auto simp: abstract_listeners_def client_listener_def internal_listener_def
        bootstrap_listeners_def split: if_splits)
qed

theorem client_listeners_encrypted_witness:
  "\<exists>c. get_kafka_listener_config example_kafka kerberos_security
          ''simple-kafka-broker-default'' ''cluster.local'' = Inr c \<and>
       (Bootstrap, SaslSsl) \<in> set (lc_security_protocol_map c) \<and> SaslSsl \<noteq> Plaintext"
proof -
  obtain c where c: "get_kafka_listener_config example_kafka kerberos_security
      ''simple-kafka-broker-default'' ''cluster.local'' = Inr c"
    using example_listener_config by blast
  have mem: "(Bootstrap, SaslSsl) \<in> set (lc_security_protocol_map c)"
    by (simp add: abstract_listener_protocols [OF c example_kerberos_valid]
        kerberos_abstract_listeners)
  have "tls_enabled kerberos_security" by (simp add: tls_enabled_def example_security_defs)
  from client_listeners_encrypted [OF c example_kerberos_valid this mem] c mem
  show ?thesis by auto
qed

text \<open>
  C6. Encrypted listeners have their key material configured, and only those: with validated settings
  the broker settings name a key store and a trust store for a listener exactly when the protocol
  map does not say PLAINTEXT, with one exception: the internal listener of a Kerberos cluster whose
  internal secret class is empty is encrypted and has neither.
\<close>

theorem encrypted_listeners_have_stores:
  assumes "get_kafka_listener_config kafka sec obj cdom = Inr c" and "sec_valid sec"
    and "(n, pr) \<in> set (lc_security_protocol_map c)"
  shows "(bt_get (config_settings sec) (listener_property n ''ssl.keystore.location'') \<noteq> None) =
           (pr \<noteq> Plaintext \<and>
            \<not> (n = Internal \<and> has_kerberos_enabled sec \<and> tls_internal_secret_class sec = None)) \<and>
         (bt_get (config_settings sec) (listener_property n ''ssl.truststore.location'') \<noteq> None) =
           (pr \<noteq> Plaintext \<and>
            \<not> (n = Internal \<and> has_kerberos_enabled sec \<and> tls_internal_secret_class sec = None))"
proof -
  obtain p where "(n, p, pr) \<in> set (abstract_listeners sec)"
    using assms(3) by (auto simp: abstract_listener_protocols [OF assms(1,2)])
  from encrypted_listener_has_store [OF assms(2) this] show ?thesis
    by (simp add: config_settings_keystore config_settings_truststore)
qed

theorem encrypted_listeners_have_stores_witness:
  "bt_get (config_settings kerberos_security)
     (listener_property Bootstrap ''ssl.keystore.location'') \<noteq> None"
proof -
  obtain c where c: "get_kafka_listener_config example_kafka kerberos_security
      ''simple-kafka-broker-default'' ''cluster.local'' = Inr c"
    using example_listener_config by blast
  have "(Bootstrap, SaslSsl) \<in> set (lc_security_protocol_map c)"
    by (simp add: abstract_listener_protocols [OF c example_kerberos_valid]
        kerberos_abstract_listeners)
  then show ?thesis
    using encrypted_listeners_have_stores [OF c example_kerberos_valid] by blast
qed

text \<open>
  C39. Without an internal secret class, Kerberos leaves a listener without keys: when Kerberos is
  enabled and the internal secret class is empty (settings that pass validation), the internal
  listener is bound as SSL on 19093, but no key store is configured for it and the settings report
  the insecure internal port 19092.
\<close>

theorem kerberos_internal_listener_without_keys:
  assumes "get_kafka_listener_config kafka sec obj cdom = Inr c" and "sec_valid sec"
    and "has_kerberos_enabled sec" and "sec_internal_secret_class sec = []"
  shows "(Internal, ''19093'', Some Ssl) \<in> set (concrete_listeners c) \<and>
         bt_get (config_settings sec) (listener_property Internal ''ssl.keystore.location'') = None \<and>
         internal_port sec = 19092"
proof -
  have port: "u16_to_string 19093 = ''19093''" by (simp add: u16_to_string_def nat_to_dec_eval)
  have none: "tls_internal_secret_class sec = None"
    using assms(4) by (simp add: tls_internal_secret_class_def)
  have "(Internal, ''19093'', Some Ssl) \<in> set (concrete_listeners c)"
    unfolding concrete_listeners_abstract [OF assms(1,2)]
    using assms(3) by (simp add: abstract_listeners_def internal_listener_def
        internal_encrypted_def port)
  moreover have "bt_get (config_settings sec) (listener_property Internal ''ssl.keystore.location'')
      = None"
    by (simp add: config_settings_keystore store_dir_def none)
  moreover have "internal_port sec = 19092"
    using internal.port_insecure [of sec] none by (simp add: port_number_defs)
  ultimately show ?thesis by blast
qed

theorem kerberos_internal_listener_without_keys_witness:
  "internal_port (example_security [example_kerberos_class] [] (Some ''tls'')) = 19092"
proof -
  let ?sec = "example_security [example_kerberos_class] [] (Some ''tls'')"
  obtain c where c: "get_kafka_listener_config example_kafka ?sec
      ''simple-kafka-broker-default'' ''cluster.local'' = Inr c"
    using example_listener_config by blast
  have "sec_valid ?sec" "has_kerberos_enabled ?sec" "sec_internal_secret_class ?sec = []"
    by (simp_all add: sec_valid_iff classes_valid_def supported_provider_def example_security_defs)
  from kerberos_internal_listener_without_keys [OF c this] show ?thesis by blast
qed

text \<open>
  C34. The printed protocol map can be read back: splitting the value of
  \<open>listener.security.protocol.map\<close> at commas and colons and reading names and protocols gives the
  map the operator built, entry by entry.
\<close>

theorem protocol_map_roundtrip:
  assumes "get_kafka_listener_config kafka sec obj cdom = Inr c"
  shows "read_protocol_map (listener_security_protocol_map_value c) =
           Inr (lc_security_protocol_map c)"
  by (rule read_protocol_map_print)
    (simp add: get_kafka_listener_config_protocol_map [OF assms])

theorem protocol_map_roundtrip_witness:
  "\<exists>c. get_kafka_listener_config example_kafka kerberos_security
          ''simple-kafka-broker-default'' ''cluster.local'' = Inr c \<and>
       read_protocol_map (listener_security_protocol_map_value c) =
         Inr [(Client, SaslSsl), (Internal, Ssl), (Bootstrap, SaslSsl)]"
proof -
  obtain c where c: "get_kafka_listener_config example_kafka kerberos_security
      ''simple-kafka-broker-default'' ''cluster.local'' = Inr c"
    using example_listener_config by blast
  with protocol_map_roundtrip [OF c] show ?thesis
    by (simp add: abstract_listener_protocols [OF c example_kerberos_valid]
        kerberos_abstract_listeners)
qed

text \<open>
  C36. The listener configuration fails exactly for a cluster without a namespace, and then with
  that error; otherwise the internal listener is advertised under the pod's name in the role
  group's service and the others through the node address file of the broker's listener volume.
\<close>

theorem listener_config_addresses:
  "case namespace kafka of
     None \<Rightarrow> get_kafka_listener_config kafka sec obj cdom = Inl ObjectHasNoNamespace
   | Some ns \<Rightarrow> (\<exists>c. get_kafka_listener_config kafka sec obj cdom = Inr c \<and>
       list_all (\<lambda>l. listener_host l = ''0.0.0.0'') (lc_listeners c) \<and>
       list_all (\<lambda>l. listener_host l =
           (if listener_name l = Internal
            then ''$POD_NAME.'' @ obj @ ''.'' @ ns @ ''.svc.'' @ cdom
            else ''$(cat /stackable/listener-broker/default-address/address)''))
         (lc_advertised_listeners c))"
  by (cases "client_mode sec")
    (auto simp: get_kafka_listener_config_layout pod_fqdn_def listener_layout_def Let_def
      push_listener_def LISTENER_LOCAL_ADDRESS_def node_address_cmd_def
      STACKABLE_LISTENER_BROKER_DIR_def split: option.splits)

end
