(* ===== verification/KubeTypes.thy ===== *)
theory KubeTypes
  imports Crd
begin

text \<open>
  The Kubernetes data the operator writes and the library builders it uses to write it. A builder
  is the sequence of calls the operator has made on it, in order; what a fallible call answers is
  a parameter (the fields of \<open>pod_lib\<close> and \<open>meta_lib\<close>), a function of the calls before it. So
  nothing is assumed about a builder beyond its being deterministic.
\<close>

section \<open>Volumes\<close>

datatype secret_format = TlsPem | TlsPkcs12

datatype secret_volume_call =
    WithPodScope
  | WithListenerVolumeScope string
  | WithFormat secret_format
  | WithAutoTlsCertLifetime duration
  | WithKerberosServiceName string

record secret_volume_source_builder =
  svs_secret_class :: string
  svs_calls :: "secret_volume_call list"

datatype volume_source =
    EphemeralSecret secret_volume_source_builder
  | VolumeConfigMap string

record volume =
  volume_name :: string
  volume_source :: volume_source

section \<open>Containers\<close>

datatype env_var_source =
    ConfigMapKeyRef (ref_config_map: string) (ref_key: string)
  | FieldRef (ref_api_version: string) (ref_field_path: string)

record env_var =
  env_name :: string
  env_value :: "string option"
  env_value_from :: "env_var_source option"

text \<open>Port numbers are 32-bit in the Kubernetes types; a \<open>u16\<close> is widened by \<open>into\<close>.\<close>

definition u16_into_i32 :: "16 word \<Rightarrow> 32 word" where
  "u16_into_i32 p = ucast p"

lemma sint_u16_into_i32: "sint (u16_into_i32 p) = int (unat p)"
proof -
  have lt: "uint p < 2 ^ 16" using unsigned_less [of p] by simp
  have "uint (ucast p :: 32 word) = uint p"
    using lt by (simp add: unsigned_ucast_eq take_bit_int_eq_self)
  moreover have "signed_take_bit 31 (uint p) = uint p"
  proof (rule signed_take_bit_int_eq_self)
    have "- (2 ^ 31) \<le> (0 :: int)" by simp
    also have "0 \<le> uint p" by simp
    finally show "- (2 ^ 31) \<le> uint p" .
    show "uint p < 2 ^ 31" using lt by simp
  qed
  ultimately have "sint (ucast p :: 32 word) = uint p" by (simp add: sint_uint)
  then show ?thesis by (simp add: u16_into_i32_def)
qed

record container_port =
  cp_name :: "string option"
  cp_container_port :: "32 word"
  cp_protocol :: "string option"

record probe =
  probe_exec_command :: "string list option"
  probe_timeout_seconds :: "int option"
  probe_period_seconds :: "int option"

datatype resource_requirements =
    ResourcesFromConfig resources
  | ResourcesExplicit (cpu_request: string) (cpu_limit: string)
      (memory_request: string) (memory_limit: string)

text \<open>A resolved product image; only the two versions are read by the operator.\<close>

record resolved_product_image =
  product_version :: string
  app_version_label :: string
  image_details :: json

datatype container_call =
    CbImage resolved_product_image
  | CbCommand "string list"
  | CbArgs "string list"
  | CbAddEnvVar string string
  | CbAddEnvVars "env_var list"
  | CbAddContainerPorts "container_port list"
  | CbAddVolumeMount string string
  | CbResources resource_requirements
  | CbReadinessProbe probe

record container_builder =
  cb_name :: string
  cb_calls :: "container_call list"

definition cb_call :: "container_call \<Rightarrow> container_builder \<Rightarrow> container_builder" where
  "cb_call c cb = cb\<lparr>cb_calls := cb_calls cb @ [c]\<rparr>"

datatype built_container =
    BuiltContainer container_builder
  | VectorContainer json

section \<open>Object metadata\<close>

text \<open>\<open>ObjectLabels\<close>: the values of the recommended labels.\<close>

record object_labels =
  ol_owner :: object_meta
  ol_app_name :: string
  ol_app_version :: string
  ol_operator_name :: string
  ol_controller_name :: string
  ol_role :: string
  ol_role_group :: string

datatype meta_call =
    MetaNameAndNamespace object_meta
  | MetaName string
  | MetaOwnerReference object_meta "bool option" "bool option"
  | MetaRecommendedLabels object_labels
  | MetaLabel string string

type_synonym built_meta = "meta_call list"

type_synonym labels = json

record 'e meta_lib =
  ownerreference_error :: "object_meta \<Rightarrow> 'e option"
  recommended_labels_error :: "object_labels \<Rightarrow> 'e option"
  label_try_from_error :: "string \<Rightarrow> string \<Rightarrow> 'e option"
  labels_recommended :: "object_labels \<Rightarrow> 'e + labels"
  labels_role_group_selector :: "object_meta \<Rightarrow> string \<Rightarrow> string \<Rightarrow> string \<Rightarrow> 'e + labels"

section \<open>Pods\<close>

datatype pod_call =
    PbMetadata built_meta
  | PbImagePullSecrets resolved_product_image
  | PbAddContainer built_container
  | PbAffinity json
  | PbAddVolume volume
  | PbAddListenerVolumeByClass string string labels
  | PbAddEmptyDirVolume string json
  | PbServiceAccountName string
  | PbSecurityContext int int int
  | PbTerminationGracePeriod duration

type_synonym pod_builder = "pod_call list"

record 'e pod_lib =
  container_new_error :: "string \<Rightarrow> 'e option"
  add_volume_mount_error :: "container_builder \<Rightarrow> string \<Rightarrow> string \<Rightarrow> 'e option"
  secret_volume_build_error :: "secret_volume_source_builder \<Rightarrow> 'e option"
  add_volume_error :: "pod_builder \<Rightarrow> volume \<Rightarrow> 'e option"
  add_listener_volume_error :: "pod_builder \<Rightarrow> string \<Rightarrow> string \<Rightarrow> labels \<Rightarrow> 'e option"
  add_empty_dir_error :: "pod_builder \<Rightarrow> string \<Rightarrow> json \<Rightarrow> 'e option"
  termination_grace_period_error :: "pod_builder \<Rightarrow> duration \<Rightarrow> 'e option"

definition add_volume :: "'e pod_lib \<Rightarrow> volume \<Rightarrow> pod_builder \<Rightarrow> 'e + pod_builder" where
  "add_volume lib v pb = unless_error (add_volume_error lib pb v) (pb @ [PbAddVolume v])"

definition add_volume_mount ::
  "'e pod_lib \<Rightarrow> string \<Rightarrow> string \<Rightarrow> container_builder \<Rightarrow> 'e + container_builder" where
  "add_volume_mount lib name path cb =
     unless_error (add_volume_mount_error lib cb name path) (cb_call (CbAddVolumeMount name path) cb)"

section \<open>Reading a builder\<close>

text \<open>The mounts of a container and the volumes of a pod, from the calls made.\<close>

fun mount_of_call :: "container_call \<Rightarrow> (string \<times> string) list" where
  "mount_of_call (CbAddVolumeMount name path) = [(name, path)]"
| "mount_of_call _ = []"

definition mounts :: "container_builder \<Rightarrow> (string \<times> string) list" where
  "mounts cb = concat (map mount_of_call (cb_calls cb))"

fun volume_name_of_call :: "pod_call \<Rightarrow> string list" where
  "volume_name_of_call (PbAddVolume v) = [volume_name v]"
| "volume_name_of_call (PbAddListenerVolumeByClass n c l) = [n]"
| "volume_name_of_call (PbAddEmptyDirVolume n s) = [n]"
| "volume_name_of_call _ = []"

definition volume_names :: "pod_builder \<Rightarrow> string list" where
  "volume_names pb = concat (map volume_name_of_call pb)"

fun volume_of_call :: "pod_call \<Rightarrow> volume list" where
  "volume_of_call (PbAddVolume v) = [v]"
| "volume_of_call _ = []"

definition pod_volumes :: "pod_builder \<Rightarrow> volume list" where
  "pod_volumes pb = concat (map volume_of_call pb)"

lemma mounts_cb_call [simp]: "mounts (cb_call c cb) = mounts cb @ mount_of_call c"
  by (simp add: mounts_def cb_call_def)

lemma mounts_new [simp]: "mounts \<lparr>cb_name = n, cb_calls = []\<rparr> = []"
  by (simp add: mounts_def)

lemma volume_names_append [simp]: "volume_names (pb @ pb') = volume_names pb @ volume_names pb'"
  by (simp add: volume_names_def)

lemma volume_names_Cons [simp]: "volume_names (c # pb) = volume_name_of_call c @ volume_names pb"
  by (simp add: volume_names_def)

lemma volume_names_Nil [simp]: "volume_names [] = []"
  by (simp add: volume_names_def)

lemma pod_volumes_append [simp]: "pod_volumes (pb @ pb') = pod_volumes pb @ pod_volumes pb'"
  by (simp add: pod_volumes_def)

lemma pod_volumes_Cons [simp]: "pod_volumes (c # pb) = volume_of_call c @ pod_volumes pb"
  by (simp add: pod_volumes_def)

lemma pod_volumes_Nil [simp]: "pod_volumes [] = []"
  by (simp add: pod_volumes_def)

lemma pod_volumes_names: "volume_name ` set (pod_volumes pb) \<subseteq> set (volume_names pb)"
proof (induction pb)
  case (Cons c pb)
  then show ?case by (cases c) auto
qed simp

lemma add_volume_eq_Inr [result_simps]:
  "add_volume lib v pb = Inr pb' \<longleftrightarrow> add_volume_error lib pb v = None \<and> pb' = pb @ [PbAddVolume v]"
  by (auto simp: add_volume_def result_simps)

lemma add_volume_mount_eq_Inr [result_simps]:
  "add_volume_mount lib n p cb = Inr cb' \<longleftrightarrow>
     add_volume_mount_error lib cb n p = None \<and> cb' = cb_call (CbAddVolumeMount n p) cb"
  by (auto simp: add_volume_mount_def result_simps)

section \<open>Documented behaviour of the builders\<close>

text \<open>
  Adding a volume fails only when another volume of that name with other content was added; adding
  a mount fails only when another volume is already mounted at that path.
\<close>

definition volumes_fail_on_collision :: "'e pod_lib \<Rightarrow> bool" where
  "volumes_fail_on_collision lib \<longleftrightarrow>
     (\<forall>pb v. volume_name v \<notin> set (volume_names pb) \<longrightarrow> add_volume_error lib pb v = None)"

definition mounts_fail_on_collision :: "'e pod_lib \<Rightarrow> bool" where
  "mounts_fail_on_collision lib \<longleftrightarrow>
     (\<forall>cb n p. p \<notin> snd ` set (mounts cb) \<longrightarrow> add_volume_mount_error lib cb n p = None)"

text \<open>A concrete library with that behaviour.\<close>

definition collision_lib :: "string pod_lib" where
  "collision_lib = \<lparr>
     container_new_error = (\<lambda>n. None),
     add_volume_mount_error = (\<lambda>cb n p.
       if p \<in> set (map snd (mounts cb)) then Some ''mount collision'' else None),
     secret_volume_build_error = (\<lambda>b. None),
     add_volume_error = (\<lambda>pb v.
       if volume_name v \<in> set (volume_names pb) then Some ''volume collision'' else None),
     add_listener_volume_error = (\<lambda>pb n c l.
       if n \<in> set (volume_names pb) then Some ''volume collision'' else None),
     add_empty_dir_error = (\<lambda>pb n s.
       if n \<in> set (volume_names pb) then Some ''volume collision'' else None),
     termination_grace_period_error = (\<lambda>pb d. None)\<rparr>"

lemma collision_lib_volumes: "volumes_fail_on_collision collision_lib"
  by (simp add: volumes_fail_on_collision_def collision_lib_def)

lemma collision_lib_mounts: "mounts_fail_on_collision collision_lib"
  by (simp add: mounts_fail_on_collision_def collision_lib_def)

end
