(* ===== verification/PodSecurity.thy ===== *)
theory PodSecurity
  imports Security KubeTypes
begin

text \<open>
  The secret volumes of a broker pod: \<open>add_volume_and_volume_mounts\<close> of
  \<open>rust/crd/src/security.rs\<close> and \<open>rust/operator-binary/src/kerberos.rs\<close>. Both extend the builders
  of the pod and of its two containers; on an error the builders are given up with the request.
\<close>

section \<open>TLS volumes\<close>

definition create_kcat_tls_volume ::
  "'e pod_lib \<Rightarrow> string \<Rightarrow> string \<Rightarrow> duration \<Rightarrow> 'e security_error + volume" where
  "create_kcat_tls_volume lib name secret_class_name requested_secret_lifetime =
     (let b = \<lparr>svs_secret_class = secret_class_name,
               svs_calls = [WithPodScope, WithFormat TlsPem,
                            WithAutoTlsCertLifetime requested_secret_lifetime]\<rparr>
      in with_context SecretVolumeBuild
           (unless_error (secret_volume_build_error lib b)
             \<lparr>volume_name = name, volume_source = EphemeralSecret b\<rparr>))"

definition create_tls_keystore_volume ::
  "'e pod_lib \<Rightarrow> string \<Rightarrow> string \<Rightarrow> duration \<Rightarrow> 'e security_error + volume" where
  "create_tls_keystore_volume lib name secret_class_name requested_secret_lifetime =
     (let b = \<lparr>svs_secret_class = secret_class_name,
               svs_calls = [WithPodScope,
                            WithListenerVolumeScope LISTENER_BROKER_VOLUME_NAME,
                            WithListenerVolumeScope LISTENER_BOOTSTRAP_VOLUME_NAME,
                            WithFormat TlsPkcs12,
                            WithAutoTlsCertLifetime requested_secret_lifetime]\<rparr>
      in with_context SecretVolumeBuild
           (unless_error (secret_volume_build_error lib b)
             \<lparr>volume_name = name, volume_source = EphemeralSecret b\<rparr>))"

text \<open>The builders threaded through: the pod, the prober container and the broker container.\<close>

type_synonym builders = "pod_builder \<times> container_builder \<times> container_builder"

definition add_server_volumes ::
  "'e pod_lib \<Rightarrow> kafka_tls_security \<Rightarrow> duration \<Rightarrow> builders \<Rightarrow> 'e security_error + builders" where
  "add_server_volumes lib sec lifetime b =
     (case b of (pb, cb_kcat_prober, cb_kafka) \<Rightarrow>
        (case get_tls_secret_class sec of
           None \<Rightarrow> Inr b
         | Some secret_class \<Rightarrow>
             and_then (create_kcat_tls_volume lib STACKABLE_TLS_KCAT_VOLUME_NAME secret_class lifetime)
               (\<lambda>v. and_then (with_context SecurityAddVolume (add_volume lib v pb))
               (\<lambda>pb. and_then (with_context SecurityAddVolumeMount
                   (add_volume_mount lib STACKABLE_TLS_KCAT_VOLUME_NAME STACKABLE_TLS_KCAT_DIR
                     cb_kcat_prober))
               (\<lambda>cb_kcat_prober. and_then (create_tls_keystore_volume lib
                   STACKABLE_TLS_KAFKA_SERVER_VOLUME_NAME secret_class lifetime)
               (\<lambda>v. and_then (with_context SecurityAddVolume (add_volume lib v pb))
               (\<lambda>pb. and_then (with_context SecurityAddVolumeMount
                   (add_volume_mount lib STACKABLE_TLS_KAFKA_SERVER_VOLUME_NAME
                     STACKABLE_TLS_KAFKA_SERVER_DIR cb_kafka))
               (\<lambda>cb_kafka. Inr (pb, cb_kcat_prober, cb_kafka)))))))))"

definition add_internal_volume ::
  "'e pod_lib \<Rightarrow> kafka_tls_security \<Rightarrow> duration \<Rightarrow> builders \<Rightarrow> 'e security_error + builders" where
  "add_internal_volume lib sec lifetime b =
     (case b of (pb, cb_kcat_prober, cb_kafka) \<Rightarrow>
        (case tls_internal_secret_class sec of
           None \<Rightarrow> Inr b
         | Some secret_class \<Rightarrow>
             and_then (create_tls_keystore_volume lib STACKABLE_TLS_KAFKA_INTERNAL_VOLUME_NAME
                 secret_class lifetime)
               (\<lambda>v. and_then (with_context SecurityAddVolume (add_volume lib v pb))
               (\<lambda>pb. and_then (with_context SecurityAddVolumeMount
                   (add_volume_mount lib STACKABLE_TLS_KAFKA_INTERNAL_VOLUME_NAME
                     STACKABLE_TLS_KAFKA_INTERNAL_DIR cb_kafka))
               (\<lambda>cb_kafka. Inr (pb, cb_kcat_prober, cb_kafka))))))"

definition add_volume_and_volume_mounts ::
  "'e pod_lib \<Rightarrow> kafka_tls_security \<Rightarrow> duration \<Rightarrow> builders \<Rightarrow> 'e security_error + builders" where
  "add_volume_and_volume_mounts lib sec lifetime b =
     and_then (add_server_volumes lib sec lifetime b) (add_internal_volume lib sec lifetime)"

section \<open>Kerberos\<close>

datatype 'e kerberos_error =
    KerberosSecretVolume 'e
  | KerberosAddVolume 'e
  | KerberosAddVolumeMount 'e

text \<open>One round of the loop over the two containers.\<close>

definition add_kerberos_to_container ::
  "'e pod_lib \<Rightarrow> container_builder \<Rightarrow> 'e kerberos_error + container_builder" where
  "add_kerberos_to_container lib cb =
     and_then (with_context KerberosAddVolumeMount
         (add_volume_mount lib ''kerberos'' STACKABLE_KERBEROS_DIR cb))
       (\<lambda>cb. Inr (cb_call (CbAddEnvVar ''KAFKA_OPTS''
                    (''-Djava.security.krb5.conf='' @ STACKABLE_KERBEROS_KRB5_PATH))
                 (cb_call (CbAddEnvVar ''KRB5_CONFIG'' STACKABLE_KERBEROS_KRB5_PATH) cb)))"

definition add_kerberos_pod_config ::
  "'e pod_lib \<Rightarrow> kafka_tls_security \<Rightarrow> kafka_role \<Rightarrow> builders \<Rightarrow> 'e kerberos_error + builders" where
  "add_kerberos_pod_config lib sec r b =
     (case b of (pb, cb_kcat_prober, cb_kafka) \<Rightarrow>
        (case kerberos_secret_class sec of
           None \<Rightarrow> Inr b
         | Some secret_class \<Rightarrow>
             let vb = \<lparr>svs_secret_class = secret_class,
                       svs_calls = [WithListenerVolumeScope LISTENER_BROKER_VOLUME_NAME,
                                    WithListenerVolumeScope LISTENER_BOOTSTRAP_VOLUME_NAME,
                                    WithKerberosServiceName (kerberos_service_name r)]\<rparr>
             in and_then (with_context KerberosSecretVolume
                  (unless_error (secret_volume_build_error lib vb) ()))
               (\<lambda>_. and_then (with_context KerberosAddVolume
                  (add_volume lib \<lparr>volume_name = ''kerberos'', volume_source = EphemeralSecret vb\<rparr> pb))
               (\<lambda>pb. and_then (add_kerberos_to_container lib cb_kafka)
               (\<lambda>cb_kafka. and_then (add_kerberos_to_container lib cb_kcat_prober)
               (\<lambda>cb_kcat_prober. Inr (pb, cb_kcat_prober, cb_kafka)))))))"

section \<open>Facts\<close>

definition server_keystore_source :: "string \<Rightarrow> duration \<Rightarrow> secret_volume_source_builder" where
  "server_keystore_source secret_class lifetime =
     \<lparr>svs_secret_class = secret_class,
      svs_calls = [WithPodScope, WithListenerVolumeScope ''listener-broker'',
        WithListenerVolumeScope ''listener-bootstrap'', WithFormat TlsPkcs12,
        WithAutoTlsCertLifetime lifetime]\<rparr>"

definition kcat_source :: "string \<Rightarrow> duration \<Rightarrow> secret_volume_source_builder" where
  "kcat_source secret_class lifetime =
     \<lparr>svs_secret_class = secret_class,
      svs_calls = [WithPodScope, WithFormat TlsPem, WithAutoTlsCertLifetime lifetime]\<rparr>"

lemmas volume_name_defs =
  STACKABLE_TLS_KCAT_VOLUME_NAME_def STACKABLE_TLS_KAFKA_SERVER_VOLUME_NAME_def
  STACKABLE_TLS_KAFKA_INTERNAL_VOLUME_NAME_def LISTENER_BROKER_VOLUME_NAME_def
  LISTENER_BOOTSTRAP_VOLUME_NAME_def LOG_DIRS_VOLUME_NAME_def

lemmas directory_defs =
  STACKABLE_TLS_KCAT_DIR_def STACKABLE_TLS_KAFKA_SERVER_DIR_def
  STACKABLE_TLS_KAFKA_INTERNAL_DIR_def STACKABLE_KERBEROS_DIR_def STACKABLE_LISTENER_BROKER_DIR_def
  STACKABLE_LISTENER_BOOTSTRAP_DIR_def STACKABLE_DATA_DIR_def STACKABLE_CONFIG_DIR_def
  STACKABLE_LOG_CONFIG_DIR_def STACKABLE_LOG_DIR_def

text \<open>The volumes and mounts a successful call adds.\<close>

definition tls_pod_volumes :: "kafka_tls_security \<Rightarrow> duration \<Rightarrow> volume list" where
  "tls_pod_volumes sec lifetime =
     (case get_tls_secret_class sec of None \<Rightarrow> []
      | Some s \<Rightarrow>
          [\<lparr>volume_name = ''tls-kcat'', volume_source = EphemeralSecret (kcat_source s lifetime)\<rparr>,
           \<lparr>volume_name = ''tls-kafka-server'',
            volume_source = EphemeralSecret (server_keystore_source s lifetime)\<rparr>]) @
     (case tls_internal_secret_class sec of None \<Rightarrow> []
      | Some s \<Rightarrow>
          [\<lparr>volume_name = ''tls-kafka-internal'',
            volume_source = EphemeralSecret (server_keystore_source s lifetime)\<rparr>])"

definition tls_kcat_mounts :: "kafka_tls_security \<Rightarrow> (string \<times> string) list" where
  "tls_kcat_mounts sec =
     (case get_tls_secret_class sec of None \<Rightarrow> []
      | Some s \<Rightarrow> [(''tls-kcat'', ''/stackable/tls-kcat'')])"

definition tls_kafka_mounts :: "kafka_tls_security \<Rightarrow> (string \<times> string) list" where
  "tls_kafka_mounts sec =
     (case get_tls_secret_class sec of None \<Rightarrow> []
      | Some s \<Rightarrow> [(''tls-kafka-server'', ''/stackable/tls-kafka-server'')]) @
     (case tls_internal_secret_class sec of None \<Rightarrow> []
      | Some s \<Rightarrow> [(''tls-kafka-internal'', ''/stackable/tls-kafka-internal'')])"

lemma add_server_volumes_effect:
  assumes "add_server_volumes lib sec lifetime (pb, kcat, kafka) = Inr (pb', kcat', kafka')"
  shows "pb' = pb @ map PbAddVolume (case get_tls_secret_class sec of None \<Rightarrow> []
      | Some s \<Rightarrow>
          [\<lparr>volume_name = ''tls-kcat'', volume_source = EphemeralSecret (kcat_source s lifetime)\<rparr>,
           \<lparr>volume_name = ''tls-kafka-server'',
            volume_source = EphemeralSecret (server_keystore_source s lifetime)\<rparr>])"
    and "mounts kcat' = mounts kcat @ tls_kcat_mounts sec"
    and "mounts kafka' = mounts kafka @ (case get_tls_secret_class sec of None \<Rightarrow> []
      | Some s \<Rightarrow> [(''tls-kafka-server'', ''/stackable/tls-kafka-server'')])"
  using assms
  by (auto simp: add_server_volumes_def create_kcat_tls_volume_def create_tls_keystore_volume_def
      tls_kcat_mounts_def kcat_source_def server_keystore_source_def volume_name_defs
      directory_defs Let_def result_simps split: option.splits)

lemma add_internal_volume_effect:
  assumes "add_internal_volume lib sec lifetime (pb, kcat, kafka) = Inr (pb', kcat', kafka')"
  shows "pb' = pb @ map PbAddVolume (case tls_internal_secret_class sec of None \<Rightarrow> []
      | Some s \<Rightarrow>
          [\<lparr>volume_name = ''tls-kafka-internal'',
            volume_source = EphemeralSecret (server_keystore_source s lifetime)\<rparr>])"
    and "kcat' = kcat"
    and "mounts kafka' = mounts kafka @ (case tls_internal_secret_class sec of None \<Rightarrow> []
      | Some s \<Rightarrow> [(''tls-kafka-internal'', ''/stackable/tls-kafka-internal'')])"
  using assms
  by (auto simp: add_internal_volume_def create_tls_keystore_volume_def server_keystore_source_def
      volume_name_defs directory_defs Let_def result_simps split: option.splits)

lemma add_volume_and_volume_mounts_effect:
  assumes "add_volume_and_volume_mounts lib sec lifetime (pb, kcat, kafka) = Inr (pb', kcat', kafka')"
  shows "pb' = pb @ map PbAddVolume (tls_pod_volumes sec lifetime)"
    and "mounts kcat' = mounts kcat @ tls_kcat_mounts sec"
    and "mounts kafka' = mounts kafka @ tls_kafka_mounts sec"
proof -
  obtain pb1 kcat1 kafka1
    where s: "add_server_volumes lib sec lifetime (pb, kcat, kafka) = Inr (pb1, kcat1, kafka1)"
      and i: "add_internal_volume lib sec lifetime (pb1, kcat1, kafka1) = Inr (pb', kcat', kafka')"
    using assms by (auto simp: add_volume_and_volume_mounts_def result_simps)
  note eff = add_server_volumes_effect [OF s] add_internal_volume_effect [OF i]
  show "pb' = pb @ map PbAddVolume (tls_pod_volumes sec lifetime)"
    by (simp add: eff(1,4) tls_pod_volumes_def)
  show "mounts kcat' = mounts kcat @ tls_kcat_mounts sec"
    by (simp add: eff(2,5))
  show "mounts kafka' = mounts kafka @ tls_kafka_mounts sec"
    by (simp add: eff(3,6) tls_kafka_mounts_def)
qed

lemma add_kerberos_to_container_mounts:
  "add_kerberos_to_container lib cb = Inr cb' \<Longrightarrow>
     mounts cb' = mounts cb @ [(''kerberos'', ''/stackable/kerberos'')]"
  by (auto simp: add_kerberos_to_container_def directory_defs result_simps)

lemma add_kerberos_pod_config_effect:
  assumes "add_kerberos_pod_config lib sec r (pb, kcat, kafka) = Inr (pb', kcat', kafka')"
  shows "volume_names pb' = volume_names pb @ (if has_kerberos_enabled sec then [''kerberos''] else [])"
    and "mounts kcat' = mounts kcat @
      (if has_kerberos_enabled sec then [(''kerberos'', ''/stackable/kerberos'')] else [])"
    and "mounts kafka' = mounts kafka @
      (if has_kerberos_enabled sec then [(''kerberos'', ''/stackable/kerberos'')] else [])"
  using assms add_kerberos_to_container_mounts
  by (auto simp: add_kerberos_pod_config_def has_kerberos_enabled_def Let_def result_simps
      split: option.splits)

section \<open>Stores and mounts\<close>

lemma volume_names_map_add [simp]: "volume_names (map PbAddVolume vs) = map volume_name vs"
  by (induction vs) simp_all

lemma volume_names_add [simp]: "volume_names (pb @ [PbAddVolume v]) = volume_names pb @ [volume_name v]"
  by simp

text \<open>The directories the broker settings point to, when key material was requested for them.\<close>

lemma server_dir_mounted:
  assumes "get_tls_secret_class sec \<noteq> None"
  shows "(''tls-kafka-server'', STACKABLE_TLS_KAFKA_SERVER_DIR) \<in> set (tls_kafka_mounts sec) \<and>
         ''tls-kafka-server'' \<in> volume_name ` set (tls_pod_volumes sec l)"
  using assms
  by (cases "get_tls_secret_class sec")
    (simp_all add: tls_kafka_mounts_def tls_pod_volumes_def STACKABLE_TLS_KAFKA_SERVER_DIR_def)

lemma internal_dir_mounted:
  assumes "tls_internal_secret_class sec \<noteq> None"
  shows "(''tls-kafka-internal'', STACKABLE_TLS_KAFKA_INTERNAL_DIR) \<in> set (tls_kafka_mounts sec) \<and>
         ''tls-kafka-internal'' \<in> volume_name ` set (tls_pod_volumes sec l)"
  using assms
  by (cases "tls_internal_secret_class sec")
    (simp_all add: tls_kafka_mounts_def tls_pod_volumes_def STACKABLE_TLS_KAFKA_INTERNAL_DIR_def)

lemma server_dir_has_class:
  assumes "sec_valid sec" and "get_tls_secret_class sec \<noteq> None \<or> n \<noteq> ClientAuth"
    and "store_dir sec n = Some d" and "n \<noteq> Internal"
  shows "get_tls_secret_class sec \<noteq> None \<and> d = STACKABLE_TLS_KAFKA_SERVER_DIR"
proof -
  have kerberos: "has_kerberos_enabled sec \<Longrightarrow> get_tls_secret_class sec \<noteq> None"
    using tls_secret_class_available [OF assms(1)] client_mode_eqs(2) [OF assms(1)] by auto
  have server: "tls_server_secret_class sec \<noteq> None \<Longrightarrow> get_tls_secret_class sec \<noteq> None"
    by (simp add: get_tls_secret_class_def tls_server_secret_class_def split: option.split)
  show ?thesis
    using assms(2-4) kerberos server by (cases n) (simp_all add: store_dir_def split: if_splits)
qed

lemma store_dirs_mounted:
  assumes "sec_valid sec" and "get_tls_secret_class sec \<noteq> None \<or> n \<noteq> ClientAuth"
    and "store_dir sec n = Some d"
  shows "\<exists>v. (v, d) \<in> set (tls_kafka_mounts sec) \<and> v \<in> volume_name ` set (tls_pod_volumes sec l)"
proof (cases "n = Internal")
  case True
  then have "tls_internal_secret_class sec \<noteq> None \<and> d = STACKABLE_TLS_KAFKA_INTERNAL_DIR"
    using assms(3) by (simp add: store_dir_def split: if_splits)
  then show ?thesis using internal_dir_mounted by blast
next
  case False
  then show ?thesis using server_dir_has_class [OF assms] server_dir_mounted by blast
qed

text \<open>With builders that fail on collisions only, fresh names and paths never fail.\<close>

lemma fresh_volume: "volumes_fail_on_collision lib \<Longrightarrow> volume_name v \<notin> set (volume_names pb) \<Longrightarrow>
    add_volume lib v pb = Inr (pb @ [PbAddVolume v])"
  by (simp add: add_volume_def volumes_fail_on_collision_def)

lemma fresh_mount: "mounts_fail_on_collision lib \<Longrightarrow> p \<notin> snd ` set (mounts cb) \<Longrightarrow>
    add_volume_mount lib n p cb = Inr (cb_call (CbAddVolumeMount n p) cb)"
  by (simp add: add_volume_mount_def mounts_fail_on_collision_def)

definition secret_volumes_build :: "'e pod_lib \<Rightarrow> bool" where
  "secret_volumes_build lib \<longleftrightarrow> (\<forall>b. secret_volume_build_error lib b = None)"

lemmas fresh_simps = secret_volumes_build_def fresh_volume fresh_mount volume_name_defs directory_defs

lemma add_server_volumes_total:
  assumes "volumes_fail_on_collision lib" and "mounts_fail_on_collision lib"
    and "secret_volumes_build lib" and "volume_names pb = []" and "mounts kcat = []"
    and "mounts kafka = []"
  shows "is_ok (add_server_volumes lib sec lifetime (pb, kcat, kafka))"
  using assms
  by (cases "get_tls_secret_class sec")
    (simp_all add: add_server_volumes_def create_kcat_tls_volume_def create_tls_keystore_volume_def
      Let_def fresh_simps)

lemma add_internal_volume_total:
  assumes "volumes_fail_on_collision lib" and "mounts_fail_on_collision lib"
    and "secret_volumes_build lib" and "''tls-kafka-internal'' \<notin> set (volume_names pb)"
    and "''/stackable/tls-kafka-internal'' \<notin> snd ` set (mounts kafka)"
  shows "is_ok (add_internal_volume lib sec lifetime (pb, kcat, kafka))"
  using assms
  by (cases "tls_internal_secret_class sec")
    (simp_all add: add_internal_volume_def create_tls_keystore_volume_def Let_def fresh_simps)

lemma add_volume_and_volume_mounts_total:
  assumes "volumes_fail_on_collision lib" and "mounts_fail_on_collision lib"
    and "secret_volumes_build lib" and "volume_names pb = []" and "mounts kcat = []"
    and "mounts kafka = []"
  shows "is_ok (add_volume_and_volume_mounts lib sec lifetime (pb, kcat, kafka))"
proof -
  obtain pb1 kcat1 kafka1
    where s: "add_server_volumes lib sec lifetime (pb, kcat, kafka) = Inr (pb1, kcat1, kafka1)"
    using add_server_volumes_total [OF assms] unfolding is_ok_iff by (metis prod_cases3)
  have "''tls-kafka-internal'' \<notin> set (volume_names pb1)"
    by (cases "get_tls_secret_class sec")
      (simp_all add: add_server_volumes_effect(1) [OF s] assms(4))
  moreover have "''/stackable/tls-kafka-internal'' \<notin> snd ` set (mounts kafka1)"
    by (cases "get_tls_secret_class sec")
      (simp_all add: add_server_volumes_effect(3) [OF s] assms(6))
  ultimately have "is_ok (add_internal_volume lib sec lifetime (pb1, kcat1, kafka1))"
    by (rule add_internal_volume_total [OF assms(1-3)])
  with s show ?thesis by (simp add: add_volume_and_volume_mounts_def)
qed

section \<open>Properties\<close>

text \<open>
  C8. The broker finds the stores it is told to use: when adding the secret volumes succeeds, every key
  store and trust store path in the broker settings lies in a directory that is mounted in the broker
  container from a volume of the pod. The one exception is the listener for mutual TLS in a cluster
  in which neither the authentication class nor the server settings name a secret class.
\<close>

theorem keystores_are_mounted:
  assumes "sec_valid sec"
    and "add_volume_and_volume_mounts lib sec lifetime (pb, kcat, kafka) = Inr (pb', kcat', kafka')"
    and "(k, file) \<in> {(''ssl.keystore.location'', ''/keystore.p12''),
                         (''ssl.truststore.location'', ''/truststore.p12'')}"
    and "bt_get (config_settings sec) (listener_property n k) = Some loc"
  shows "(n = ClientAuth \<and> get_tls_secret_class sec = None) \<or>
         (\<exists>v d. loc = d @ file \<and> (v, d) \<in> set (mounts kafka') \<and> v \<in> set (volume_names pb'))"
proof (cases "n = ClientAuth \<and> get_tls_secret_class sec = None")
  case False
  from assms(3,4) obtain d where d: "store_dir sec n = Some d" and loc: "loc = d @ file"
    by (auto simp: config_settings_keystore config_settings_truststore)
  from False have "get_tls_secret_class sec \<noteq> None \<or> n \<noteq> ClientAuth" by auto
  from store_dirs_mounted [OF assms(1) this d, of lifetime] obtain v
    where v: "(v, d) \<in> set (tls_kafka_mounts sec)"
      "v \<in> volume_name ` set (tls_pod_volumes sec lifetime)" by blast
  then show ?thesis
    using loc add_volume_and_volume_mounts_effect [OF assms(2)] by auto
qed simp

text \<open>
  Adding the secret volumes succeeds for fresh builders, whatever the settings: the volume
  names and mount paths it uses are pairwise different. The volumes are exactly those of the
  table \<open>tls_pod_volumes\<close>: a PEM volume for the prober and a PKCS12 volume for the broker, of the
  server's secret class, and a PKCS12 volume of the internal secret class.
\<close>

theorem secret_volumes_added:
  assumes "volumes_fail_on_collision lib" and "mounts_fail_on_collision lib"
    and "secret_volumes_build lib"
  shows "case add_volume_and_volume_mounts lib sec lifetime
            ([], \<lparr>cb_name = n, cb_calls = []\<rparr>, \<lparr>cb_name = m, cb_calls = []\<rparr>) of
           Inl _ \<Rightarrow> False
         | Inr (pb, kcat, kafka) \<Rightarrow>
             pb = map PbAddVolume (tls_pod_volumes sec lifetime) \<and>
             mounts kcat = tls_kcat_mounts sec \<and> mounts kafka = tls_kafka_mounts sec"
proof -
  let ?b = "([], \<lparr>cb_name = n, cb_calls = []\<rparr>, \<lparr>cb_name = m, cb_calls = []\<rparr>) :: builders"
  have "is_ok (add_volume_and_volume_mounts lib sec lifetime ?b)"
    by (rule add_volume_and_volume_mounts_total [OF assms]) simp_all
  then obtain pb kcat kafka where
    run: "add_volume_and_volume_mounts lib sec lifetime ?b = Inr (pb, kcat, kafka)"
    unfolding is_ok_iff by (metis prod_cases3)
  show ?thesis using add_volume_and_volume_mounts_effect [OF run] by (simp add: run)
qed

text \<open>
  C38. A mutual-TLS cluster without key material: when the TLS authentication class names no
  secret class and the cluster has no server secret class, the settings pass validation and the
  broker is told to read its key store in \<open>/stackable/tls-kafka-server\<close>, but no volume is created
  for that directory and nothing is mounted there.
\<close>

theorem mutual_tls_without_secret_class:
  assumes "tls_client_authentication_class sec \<noteq> None" and "get_tls_secret_class sec = None"
    and "add_volume_and_volume_mounts lib sec lifetime
           ([], \<lparr>cb_name = n, cb_calls = []\<rparr>, \<lparr>cb_name = m, cb_calls = []\<rparr>) = Inr (pb, kcat, kafka)"
  shows "bt_get (config_settings sec) ''listener.name.client_auth.ssl.keystore.location'' =
           Some ''/stackable/tls-kafka-server/keystore.p12'' \<and>
         ''/stackable/tls-kafka-server'' \<notin> snd ` set (mounts kafka) \<and>
         ''tls-kafka-server'' \<notin> set (volume_names pb)"
proof -
  have "bt_get (config_settings sec) (listener_property ClientAuth ''ssl.keystore.location'') =
      Some ''/stackable/tls-kafka-server/keystore.p12''"
    using assms(1) by (simp add: config_settings_keystore store_dir_def directory_defs)
  then show ?thesis
    using add_volume_and_volume_mounts_effect [OF assms(3)] assms(2)
    by (auto simp: listener_property_eqs tls_kafka_mounts_def tls_pod_volumes_def
        split: option.splits)
qed

lemma collision_lib_secrets: "secret_volumes_build collision_lib"
  by (simp add: secret_volumes_build_def collision_lib_def)

theorem secret_volumes_added_witness:
  "is_ok (add_volume_and_volume_mounts collision_lib
     (example_security [example_kerberos_class] ''tls'' (Some ''tls'')) 5
     ([], \<lparr>cb_name = ''kcat-prober'', cb_calls = []\<rparr>, \<lparr>cb_name = ''kafka'', cb_calls = []\<rparr>))"
  using secret_volumes_added [OF collision_lib_volumes collision_lib_mounts collision_lib_secrets,
      of "example_security [example_kerberos_class] ''tls'' (Some ''tls'')" 5 "''kcat-prober''" "''kafka''"]
  by (auto simp: is_ok_def split: sum.splits)

lemma collision_lib_run:
  "\<exists>pb kcat kafka. add_volume_and_volume_mounts collision_lib sec l
     ([], \<lparr>cb_name = n, cb_calls = []\<rparr>, \<lparr>cb_name = m, cb_calls = []\<rparr>) = Inr (pb, kcat, kafka)"
proof -
  have "is_ok (add_volume_and_volume_mounts collision_lib sec l
     ([], \<lparr>cb_name = n, cb_calls = []\<rparr>, \<lparr>cb_name = m, cb_calls = []\<rparr>))"
    by (rule add_volume_and_volume_mounts_total
        [OF collision_lib_volumes collision_lib_mounts collision_lib_secrets]) simp_all
  then show ?thesis unfolding is_ok_iff by (metis prod_cases3)
qed

theorem keystores_are_mounted_witness:
  "\<exists>pb' kcat' kafka'. add_volume_and_volume_mounts collision_lib
     (example_security [example_kerberos_class] ''tls'' (Some ''tls'')) 5
     ([], \<lparr>cb_name = ''k'', cb_calls = []\<rparr>, \<lparr>cb_name = ''b'', cb_calls = []\<rparr>) = Inr (pb', kcat', kafka') \<and>
     (\<exists>v d. ''/stackable/tls-kafka-server/keystore.p12'' = d @ ''/keystore.p12'' \<and>
        (v, d) \<in> set (mounts kafka') \<and> v \<in> set (volume_names pb'))"
proof -
  let ?sec = "example_security [example_kerberos_class] ''tls'' (Some ''tls'')"
  obtain pb kcat kafka where run: "add_volume_and_volume_mounts collision_lib ?sec 5
     ([], \<lparr>cb_name = ''k'', cb_calls = []\<rparr>, \<lparr>cb_name = ''b'', cb_calls = []\<rparr>) = Inr (pb, kcat, kafka)"
    using collision_lib_run by blast
  have "bt_get (config_settings ?sec) (listener_property Bootstrap ''ssl.keystore.location'')
      = Some ''/stackable/tls-kafka-server/keystore.p12''"
    by (simp add: config_settings_keystore store_dir_def directory_defs example_security_defs)
  with keystores_are_mounted [OF example_kerberos_valid run insertI1] run show ?thesis by blast
qed

theorem mutual_tls_without_secret_class_witness:
  "sec_valid (example_security [example_tls_class None] ''tls'' None) \<and>
   (\<exists>pb kcat kafka. add_volume_and_volume_mounts collision_lib
     (example_security [example_tls_class None] ''tls'' None) 5
     ([], \<lparr>cb_name = ''k'', cb_calls = []\<rparr>, \<lparr>cb_name = ''b'', cb_calls = []\<rparr>) = Inr (pb, kcat, kafka) \<and>
     ''tls-kafka-server'' \<notin> set (volume_names pb))"
proof
  let ?sec = "example_security [example_tls_class None] ''tls'' None"
  show "sec_valid ?sec"
    by (simp add: sec_valid_iff classes_valid_def supported_provider_def example_security_defs)
  obtain pb kcat kafka where run: "add_volume_and_volume_mounts collision_lib ?sec 5
     ([], \<lparr>cb_name = ''k'', cb_calls = []\<rparr>, \<lparr>cb_name = ''b'', cb_calls = []\<rparr>) = Inr (pb, kcat, kafka)"
    using collision_lib_run by blast
  have "tls_client_authentication_class ?sec \<noteq> None" and "get_tls_secret_class ?sec = None"
    by (simp_all add: example_security_defs)
  from mutual_tls_without_secret_class [OF this run] run
  show "\<exists>pb kcat kafka. add_volume_and_volume_mounts collision_lib ?sec 5
     ([], \<lparr>cb_name = ''k'', cb_calls = []\<rparr>, \<lparr>cb_name = ''b'', cb_calls = []\<rparr>) = Inr (pb, kcat, kafka) \<and>
     ''tls-kafka-server'' \<notin> set (volume_names pb)" by blast
qed

end
