(* ===== verification/Resources.thy ===== *)
theory Resources
  imports KubeTypes Security
begin

text \<open>
  The Kubernetes objects the operator applies, how it builds their metadata (the chain of
  \<open>ObjectMetaBuilder\<close> calls all its builders share, \<open>rust/operator-binary/src/utils.rs\<close>) and the
  effects it has on the cluster. \<open>owned_object\<close> is the contract of a builder of owned objects.
\<close>

section \<open>Failures and panics\<close>

text \<open>Where the code may panic (\<open>unwrap\<close>, \<open>name_unchecked\<close>), the outcome is one of two faults.\<close>

datatype 'e fault = Fail 'e | Panic

definition fails :: "'e + 'a \<Rightarrow> 'e fault + 'a" where
  "fails r = with_context Fail r"

definition fault_context :: "('e \<Rightarrow> 'f) \<Rightarrow> 'e fault + 'a \<Rightarrow> 'f fault + 'a" where
  "fault_context c r = with_context (map_fault c) r"

definition unwrap :: "'e + 'a \<Rightarrow> 'f fault + 'a" where
  "unwrap r = with_context (\<lambda>_. Panic) r"

definition name_unchecked :: "object_meta \<Rightarrow> 'f fault + string" where
  "name_unchecked m = ok_or Panic (metadata_name m)"

lemma fails_eq_Inr [result_simps]: "fails r = Inr x \<longleftrightarrow> r = Inr x"
  by (simp add: fails_def result_simps)

lemma fails_eq_Inl [result_simps]: "fails r = Inl f \<longleftrightarrow> (\<exists>e. r = Inl e \<and> f = Fail e)"
  by (simp add: fails_def result_simps)

lemma fails_simps [simp]: "fails (Inr x) = Inr x" "fails (Inl e) = Inl (Fail e)"
  by (simp_all add: fails_def)

lemma fault_context_eq_Inr [result_simps]: "fault_context c r = Inr x \<longleftrightarrow> r = Inr x"
  by (simp add: fault_context_def result_simps)

lemma fault_context_simps [simp]:
  "fault_context c (Inr x) = Inr x" "fault_context c (Inl f) = Inl (map_fault c f)"
  by (simp_all add: fault_context_def)

lemma unwrap_eq_Inr [result_simps]: "unwrap r = Inr x \<longleftrightarrow> r = Inr x"
  by (simp add: unwrap_def result_simps)

lemma unwrap_simps [simp]: "unwrap (Inr x) = Inr x" "unwrap (Inl e) = Inl Panic"
  by (simp_all add: unwrap_def)

section \<open>Labels and metadata\<close>

definition KAFKA_CONTROLLER_NAME :: string where "KAFKA_CONTROLLER_NAME = ''kafkacluster''"

definition build_recommended_labels ::
  "kafka_cluster \<Rightarrow> string \<Rightarrow> string \<Rightarrow> string \<Rightarrow> string \<Rightarrow> object_labels" where
  "build_recommended_labels owner controller_name app_version r role_group = \<lparr>
     ol_owner = metadata owner,
     ol_app_name = APP_NAME,
     ol_app_version = app_version,
     ol_operator_name = OPERATOR_NAME,
     ol_controller_name = controller_name,
     ol_role = r,
     ol_role_group = role_group\<rparr>"

text \<open>
  The chain of calls of every builder: name and namespace of the cluster, the object's own name,
  a controller owner reference, the recommended labels. The two fallible calls carry the error
  variants of the caller.
\<close>

definition owned_metadata ::
  "'e meta_lib \<Rightarrow> ('e \<Rightarrow> 'f) \<Rightarrow> ('e \<Rightarrow> 'f) \<Rightarrow> kafka_cluster \<Rightarrow> object_meta \<Rightarrow> string \<Rightarrow>
     object_labels \<Rightarrow> 'f + built_meta" where
  "owned_metadata lib owner_failed labels_failed kafka owner name labels =
     and_then (with_context owner_failed
         (unless_error (ownerreference_error lib owner)
           [MetaNameAndNamespace (metadata kafka), MetaName name,
            MetaOwnerReference owner None (Some True)]))
       (\<lambda>b. with_context labels_failed
         (unless_error (recommended_labels_error lib labels) (b @ [MetaRecommendedLabels labels])))"

text \<open>Reading metadata back: the last name set, the owners, the labels.\<close>

fun name_of_call :: "meta_call \<Rightarrow> string option" where
  "name_of_call (MetaName n) = Some n"
| "name_of_call (MetaNameAndNamespace m) = metadata_name m"
| "name_of_call _ = None"

fun meta_name :: "built_meta \<Rightarrow> string option" where
  "meta_name [] = None"
| "meta_name (c # cs) =
     (case meta_name cs of Some n \<Rightarrow> Some n | None \<Rightarrow> name_of_call c)"

definition owned_by :: "kafka_cluster \<Rightarrow> built_meta \<Rightarrow> bool" where
  "owned_by kafka m \<longleftrightarrow> MetaOwnerReference (metadata kafka) None (Some True) \<in> set m"

fun meta_labels :: "built_meta \<Rightarrow> object_labels option" where
  "meta_labels [] = None"
| "meta_labels (c # cs) =
     (case meta_labels cs of Some l \<Rightarrow> Some l
      | None \<Rightarrow> (case c of MetaRecommendedLabels l \<Rightarrow> Some l | _ \<Rightarrow> None))"

lemma owned_metadata_eq_Inr [result_simps]:
  "owned_metadata lib f g kafka owner name labels = Inr m \<longleftrightarrow>
     ownerreference_error lib owner = None \<and> recommended_labels_error lib labels = None \<and>
     m = [MetaNameAndNamespace (metadata kafka), MetaName name,
          MetaOwnerReference owner None (Some True), MetaRecommendedLabels labels]"
  by (auto simp: owned_metadata_def result_simps)

lemma meta_name_owned [simp]:
  "meta_name (MetaNameAndNamespace m # MetaName n # MetaOwnerReference ow b c #
     MetaRecommendedLabels l # []) = Some n"
  "meta_name (MetaNameAndNamespace m # MetaName n # MetaOwnerReference ow b c #
     MetaRecommendedLabels l # MetaLabel k v # []) = Some n"
  by simp_all

section \<open>Objects\<close>

record listener_port =
  lp_name :: string
  lp_port :: "32 word"
  lp_protocol :: "string option"

record listener_ingress =
  ingress_address :: string
  ingress_ports :: "(string, 32 word) btree_map"

record listener_status =
  ls_ingress_addresses :: "listener_ingress list option"

record listener_object =
  lo_metadata :: built_meta
  lo_class_name :: "string option"
  lo_ports :: "listener_port list option"
  lo_status :: "listener_status option"

datatype cm_call = CmMetadata built_meta | CmAddData string string

type_synonym config_map_builder = "cm_call list"

text \<open>A config map is what was built by the calls; \<open>cm_data\<close> and \<open>cm_metadata\<close> read it.\<close>

fun cm_data :: "config_map_builder \<Rightarrow> string \<Rightarrow> string option" where
  "cm_data [] k = None"
| "cm_data (CmAddData k' v # cs) k =
     (case cm_data cs k of Some v' \<Rightarrow> Some v' | None \<Rightarrow> if k' = k then Some v else None)"
| "cm_data (CmMetadata m # cs) k = cm_data cs k"

fun cm_metadata :: "config_map_builder \<Rightarrow> built_meta" where
  "cm_metadata [] = []"
| "cm_metadata (CmMetadata m # cs) = (if cm_metadata cs = [] then m else cm_metadata cs)"
| "cm_metadata (CmAddData k v # cs) = cm_metadata cs"

lemma cm_data_append:
  "cm_data (cs @ ds) k = (case cm_data ds k of Some v \<Rightarrow> Some v | None \<Rightarrow> cm_data cs k)"
  by (induction cs k rule: cm_data.induct) (auto split: option.splits)

lemma cm_metadata_append:
  "cm_metadata (cs @ ds) = (if cm_metadata ds = [] then cm_metadata cs else cm_metadata ds)"
  by (induction cs rule: cm_metadata.induct) auto

record service =
  svc_metadata :: built_meta
  svc_cluster_ip :: "string option"
  svc_selector :: "labels option"
  svc_publish_not_ready_addresses :: "bool option"

record pod_template =
  pt_builder :: pod_builder
  pt_share_process_namespace :: "bool option"
  pt_overrides :: "json list"

datatype pvc_template =
    DataPvc persistent_volume_claim
  | ListenerPvc (lpvc_name: string) (lpvc_listener: string) (lpvc_labels: labels)

record stateful_set =
  ss_metadata :: built_meta
  ss_pod_management_policy :: "string option"
  ss_replicas :: "32 word option"
  ss_selector :: "labels option"
  ss_service_name :: string
  ss_template :: pod_template
  ss_volume_claim_templates :: "pvc_template list option"

record service_account =
  sa_metadata :: object_meta
  sa_body :: json

record pod_disruption_budget =
  pdb_cluster :: object_meta
  pdb_role :: string
  pdb_max :: "16 word"

datatype k8s_object =
    ListenerObject listener_object
  | ServiceObject service
  | ConfigMapObject config_map_builder
  | StatefulSetObject stateful_set
  | ServiceAccountObject service_account
  | RoleBindingObject json
  | PdbObject pod_disruption_budget

section \<open>Effects\<close>

text \<open>
  The calls the operator makes into its library's client, in order: \<open>ClusterResources::new\<close> with the
  strategy that follows from the cluster operation, reads, \<open>ClusterResources::add\<close>,
  \<open>delete_orphaned_resources\<close> (one call, whatever the library sends for it) and the status patch. A
  call is in the trace whether or not it succeeds. What a call does to the cluster is the library's
  matter and may depend on the strategy: the answers are functions of the trace.
\<close>

datatype effect =
    NewClusterResources json
  | GetAuthenticationClass string
  | GetOpaConfigMap json
  | GetConfigMap string string
  | Apply k8s_object
  | DeleteOrphans
  | PatchStatus "json list"

type_synonym trace = "effect list"

fun is_write :: "effect \<Rightarrow> bool" where
  "is_write (Apply x) = True"
| "is_write DeleteOrphans = True"
| "is_write (PatchStatus c) = True"
| "is_write _ = False"

text \<open>What the API server answers to a request may depend on all requests before it.\<close>

record 'e server =
  srv_authentication_class :: "trace \<Rightarrow> string \<Rightarrow> 'e + authentication_class"
  srv_opa_url :: "trace \<Rightarrow> json \<Rightarrow> 'e + string"
  srv_config_map_data :: "trace \<Rightarrow> string \<Rightarrow> string \<Rightarrow> 'e + (string, string) btree_map option"
  srv_apply_error :: "trace \<Rightarrow> k8s_object \<Rightarrow> 'e option"
  srv_listener :: "trace \<Rightarrow> listener_object \<Rightarrow> listener_object"
  srv_service_account :: "trace \<Rightarrow> service_account \<Rightarrow> service_account"
  srv_stateful_set :: "trace \<Rightarrow> stateful_set \<Rightarrow> json"
  srv_delete_orphans_error :: "trace \<Rightarrow> 'e option"
  srv_patch_status_error :: "trace \<Rightarrow> json list \<Rightarrow> 'e option"

definition request :: "effect \<Rightarrow> (trace \<Rightarrow> 'e + 'a) \<Rightarrow> (trace, 'e, 'a) io" where
  "request eff answer w = (answer w, w @ [eff])"

definition apply_object :: "'e server \<Rightarrow> k8s_object \<Rightarrow> (trace \<Rightarrow> 'a) \<Rightarrow> (trace, 'e, 'a) io" where
  "apply_object srv x answer =
     request (Apply x) (\<lambda>w. unless_error (srv_apply_error srv w x) (answer w))"

lemma emits_request [emits_intros]: "P eff \<Longrightarrow> emits P (request eff answer)"
  by (simp add: emits_def request_def)

lemma emits_apply [emits_intros]: "P (Apply x) \<Longrightarrow> emits P (apply_object srv x answer)"
  unfolding apply_object_def by (rule emits_request)

lemma request_run [io_simps]: "request eff answer w = (r, w') \<longleftrightarrow> r = answer w \<and> w' = w @ [eff]"
  by (auto simp: request_def)

lemma apply_object_eq_Inr [io_simps]:
  "apply_object srv x answer w = (Inr y, w') \<longleftrightarrow>
     srv_apply_error srv w x = None \<and> y = answer w \<and> w' = w @ [Apply x]"
  by (auto simp: apply_object_def request_def result_simps)

section \<open>Builders of owned objects\<close>

text \<open>
  The contract of a builder of owned objects: what it builds carries the metadata of the shared
  chain, for a name and labels that are functions of its input.
\<close>

locale owned_object =
  fixes build :: "'i \<Rightarrow> 'f + 'o"
    and meta_of :: "'o \<Rightarrow> built_meta"
    and cluster_of :: "'i \<Rightarrow> kafka_cluster"
    and name_of :: "'i \<Rightarrow> string"
    and labels_of :: "'i \<Rightarrow> object_labels"
  assumes built_metadata: "build i = Inr x \<Longrightarrow> \<exists>extra.
      meta_of x = [MetaNameAndNamespace (metadata (cluster_of i)), MetaName (name_of i),
        MetaOwnerReference (metadata (cluster_of i)) None (Some True),
        MetaRecommendedLabels (labels_of i)] @ extra \<and>
      (\<forall>c\<in>set extra. \<exists>k v. c = MetaLabel k v)"
begin

lemma extra_labels_only:
  assumes "\<forall>c\<in>set extra. \<exists>k v. c = MetaLabel k v"
  shows "meta_name extra = None \<and> meta_labels extra = None"
  using assms by (induction extra) auto

lemma built_name: "build i = Inr x \<Longrightarrow> meta_name (meta_of x) = Some (name_of i)"
  using built_metadata [of i x] extra_labels_only by fastforce

lemma built_owned: "build i = Inr x \<Longrightarrow> owned_by (cluster_of i) (meta_of x)"
  using built_metadata [of i x] by (auto simp: owned_by_def)

lemma built_labels: "build i = Inr x \<Longrightarrow> meta_labels (meta_of x) = Some (labels_of i)"
  using built_metadata [of i x] extra_labels_only by fastforce

lemmas built = built_name built_owned built_labels

end

end
