(* ===== verification/Discovery.thy ===== *)
theory Discovery
  imports Resources "HOL-Library.Multiset"
begin

text \<open>
  The discovery config maps clients read: \<open>rust/operator-binary/src/discovery.rs\<close>. The hosts come
  from the addresses the listener operator published in the status of the bootstrap listeners.
\<close>

section \<open>Errors\<close>

datatype 'e discovery_error =
    DiscoveryObjectMissingMetadataForOwnerRef 'e object_ref
  | DiscoveryNoName
  | DiscoveryNoNamespace
  | NoServicePort string
  | NoNodePort string
  | FindEndpoints 'e object_ref
  | InvalidNodePort
  | BuildConfigMap 'e
  | DiscoveryMetadataBuild 'e

section \<open>Hosts\<close>

text \<open>\<open>u16::try_from\<close> on a 32-bit port.\<close>

definition u16_try_from :: "32 word \<Rightarrow> 16 word option" where
  "u16_try_from p = (if 0 \<le> sint p \<and> sint p < 65536 then Some (ucast p) else None)"

definition ingress_addresses :: "listener_object list \<Rightarrow> listener_ingress list" where
  "ingress_addresses listeners =
     concat (map (\<lambda>l. case lo_status l of None \<Rightarrow> []
       | Some st \<Rightarrow> (case ls_ingress_addresses st of None \<Rightarrow> [] | Some as \<Rightarrow> as)) listeners)"

definition ingress_host :: "string \<Rightarrow> listener_ingress \<Rightarrow> 'e discovery_error + string \<times> 16 word" where
  "ingress_host port_name addr =
     and_then (ok_or (NoServicePort port_name) (bt_get (ingress_ports addr) port_name)) (\<lambda>p.
     and_then (ok_or InvalidNodePort (u16_try_from p)) (\<lambda>q.
     Inr (ingress_address addr, q)))"

definition listener_hosts ::
  "listener_object list \<Rightarrow> string \<Rightarrow> 'e discovery_error + (string \<times> 16 word) list" where
  "listener_hosts listeners port_name =
     collect_results (map (ingress_host port_name) (ingress_addresses listeners))"

section \<open>Config maps\<close>

definition host_to_string :: "string \<times> 16 word \<Rightarrow> string" where
  "host_to_string h = fst h @ '':'' @ u16_to_string (snd h)"

definition bootstrap_servers :: "(string \<times> 16 word) list \<Rightarrow> string" where
  "bootstrap_servers hosts = join '','' (map host_to_string hosts)"

text \<open>
  \<open>build_error\<close> is what \<open>ConfigMapBuilder::build\<close> answers. The reference to the cluster in the
  error for the owner reference is made from its name, which panics for an object without one.
\<close>

definition build_discovery_configmap ::
  "'e meta_lib \<Rightarrow> (config_map_builder \<Rightarrow> 'e option) \<Rightarrow> kafka_cluster \<Rightarrow> object_meta \<Rightarrow>
     resolved_product_image \<Rightarrow> string \<Rightarrow> (string \<times> 16 word) list \<Rightarrow>
     'e discovery_error fault + config_map_builder" where
  "build_discovery_configmap lib build_error kafka owner img name hosts =
     and_then
       (owned_metadata lib
         (\<lambda>e. case metadata_name (metadata kafka) of
            None \<Rightarrow> Panic
          | Some n \<Rightarrow> Fail (DiscoveryObjectMissingMetadataForOwnerRef e (metadata kafka)))
         (\<lambda>e. Fail (DiscoveryMetadataBuild e))
         kafka owner name
         (build_recommended_labels kafka KAFKA_CONTROLLER_NAME (product_version img)
           (kafka_role_to_string Broker) ''discovery''))
       (\<lambda>meta. let b = [CmMetadata meta, CmAddData ''KAFKA'' (bootstrap_servers hosts)]
         in fails (with_context BuildConfigMap (unless_error (build_error b) b)))"

definition discovery_port_name :: "kafka_tls_security \<Rightarrow> string" where
  "discovery_port_name sec =
     (if has_kerberos_enabled sec then bootstrap_port_name sec else client_port_name sec)"

definition build_discovery_configmaps ::
  "'e meta_lib \<Rightarrow> (config_map_builder \<Rightarrow> 'e option) \<Rightarrow> kafka_cluster \<Rightarrow> object_meta \<Rightarrow>
     resolved_product_image \<Rightarrow> kafka_tls_security \<Rightarrow> listener_object list \<Rightarrow>
     'e discovery_error fault + config_map_builder list" where
  "build_discovery_configmaps lib build_error kafka owner img sec listeners =
     and_then (name_unchecked owner) (\<lambda>name.
     let port_name = discovery_port_name sec in
     and_then (fails (listener_hosts listeners port_name)) (\<lambda>hosts.
     and_then (build_discovery_configmap lib build_error kafka owner img name hosts) (\<lambda>cm.
     and_then (fails (listener_hosts listeners port_name)) (\<lambda>hosts.
     and_then (build_discovery_configmap lib build_error kafka owner img (name @ ''-nodeport'') hosts)
     (\<lambda>cm_nodeport. Inr [cm, cm_nodeport])))))"

section \<open>Facts\<close>

lemma u16_try_from_eq_Some:
  "u16_try_from p = Some q \<longleftrightarrow> sint p = int (unat q)"
proof
  assume "u16_try_from p = Some q"
  then have r: "0 \<le> sint p" "sint p < 65536" and q: "q = ucast p"
    by (auto simp: u16_try_from_def split: if_splits)
  have u: "uint p = sint p"
    using r by (simp add: uint_sint take_bit_int_eq_self)
  have "uint q = take_bit 16 (uint p)" by (simp add: q unsigned_ucast_eq)
  also have "\<dots> = sint p" using r u by (simp add: take_bit_int_eq_self)
  finally show "sint p = int (unat q)" by simp
next
  assume s: "sint p = int (unat q)"
  have lt: "uint q < 65536" using unsigned_less [where ?'a = int, of q] by simp
  have "sint p = sint (u16_into_i32 q)" by (simp only: s sint_u16_into_i32)
  then have "p = u16_into_i32 q" by (rule signed_word_eqI)
  then have "ucast p = q" by (simp add: u16_into_i32_def ucast_up_ucast_id is_up)
  with s lt show "u16_try_from p = Some q" by (simp add: u16_try_from_def)
qed

lemma u16_try_from_into [simp]: "u16_try_from (u16_into_i32 p) = Some p"
  by (simp add: u16_try_from_eq_Some sint_u16_into_i32)

lemma u16_try_from_None: "u16_try_from p = None \<longleftrightarrow> sint p < 0 \<or> 65536 \<le> sint p"
  by (auto simp: u16_try_from_def)

lemma ingress_host_eq_Inr:
  "ingress_host port_name a = Inr (h, p) \<longleftrightarrow>
     h = ingress_address a \<and>
     (\<exists>q. bt_get (ingress_ports a) port_name = Some q \<and> sint q = int (unat p))"
  by (auto simp: ingress_host_def result_simps u16_try_from_eq_Some)

lemma ingress_host_eq_Inl:
  "ingress_host port_name a = Inl e \<longleftrightarrow>
     bt_get (ingress_ports a) port_name = None \<and> e = NoServicePort port_name \<or>
     (\<exists>q. bt_get (ingress_ports a) port_name = Some q \<and> (sint q < 0 \<or> 65536 \<le> sint q) \<and>
          e = InvalidNodePort)"
  by (auto simp: ingress_host_def result_simps u16_try_from_None)

lemma listener_hosts_eq_Inr:
  "(listener_hosts ls pn :: 'e discovery_error + _) = Inr hs \<longleftrightarrow>
     list_all2 (\<lambda>a h. (ingress_host pn a :: 'e discovery_error + _) = Inr h)
       (ingress_addresses ls) hs"
  by (auto simp: listener_hosts_def collect_results_eq_Inr list_all2_conv_all_nth list_eq_iff_nth_eq)

subsection \<open>Reading the bootstrap servers\<close>

text \<open>How a client reads the value: servers separated by commas, the port after the last colon.\<close>

definition read_host :: "string \<Rightarrow> string \<times> nat" where
  "read_host s =
     (let p = takeWhile (\<lambda>c. c \<noteq> CHR '':'') (rev s)
      in (rev (drop (length p + 1) (rev s)), dec_to_nat (rev p)))"

definition read_bootstrap_servers :: "string \<Rightarrow> (string \<times> nat) list" where
  "read_bootstrap_servers s = map read_host (split_on CHR '','' s)"

lemma separators_not_digits: "\<not> is_digit CHR '':''" "\<not> is_digit CHR '',''"
  by (simp_all add: is_digit_def)

lemma read_host_print: "read_host (host_to_string (h, p)) = (h, unat p)"
proof -
  have "CHR '':'' \<notin> set (u16_to_string p)"
    using non_digit_notin_dec [OF separators_not_digits(1)] by (simp add: u16_to_string_def)
  then have "takeWhile (\<lambda>c. c \<noteq> CHR '':'') (rev (u16_to_string p) @ CHR '':'' # rev h) =
      rev (u16_to_string p)"
    by (subst takeWhile_append2) auto
  then show ?thesis by (simp add: read_host_def host_to_string_def u16_to_string_unat)
qed

lemma comma_free_host: "CHR '','' \<notin> set h \<Longrightarrow> CHR '','' \<notin> set (host_to_string (h, p))"
  using non_digit_notin_dec [OF separators_not_digits(2)]
  by (simp add: host_to_string_def u16_to_string_def)

lemma read_bootstrap_servers_print:
  assumes "hs \<noteq> []" and "\<And>h p. (h, p) \<in> set hs \<Longrightarrow> CHR '','' \<notin> set h"
  shows "read_bootstrap_servers (bootstrap_servers hs) = map (\<lambda>(h, p). (h, unat p)) hs"
proof -
  have "split_on CHR '','' (bootstrap_servers hs) = map host_to_string hs"
    unfolding bootstrap_servers_def
    by (rule split_on_join) (use assms in \<open>auto simp: comma_free_host\<close>)
  then show ?thesis by (auto simp: read_bootstrap_servers_def read_host_print)
qed

subsection \<open>The config maps\<close>

text \<open>The builder of one config map keeps the contract of owned objects.\<close>

definition discovery_labels :: "kafka_cluster \<Rightarrow> resolved_product_image \<Rightarrow> object_labels" where
  "discovery_labels kafka img =
     build_recommended_labels kafka KAFKA_CONTROLLER_NAME (product_version img) ''broker'' ''discovery''"

lemma build_discovery_configmap_eq_Inr:
  "build_discovery_configmap lib build_error kafka owner img name hosts = Inr cm \<longleftrightarrow>
     ownerreference_error lib owner = None \<and>
     recommended_labels_error lib (discovery_labels kafka img) = None \<and>
     build_error cm = None \<and>
     cm = [CmMetadata [MetaNameAndNamespace (metadata kafka), MetaName name,
             MetaOwnerReference owner None (Some True),
             MetaRecommendedLabels (discovery_labels kafka img)],
           CmAddData ''KAFKA'' (bootstrap_servers hosts)]"
  by (auto simp: build_discovery_configmap_def discovery_labels_def Let_def result_simps)

type_synonym discovery_input =
  "kafka_cluster \<times> resolved_product_image \<times> string \<times> (string \<times> 16 word) list"

definition build_discovery ::
  "'e meta_lib \<Rightarrow> (config_map_builder \<Rightarrow> 'e option) \<Rightarrow> discovery_input \<Rightarrow>
     'e discovery_error fault + config_map_builder" where
  "build_discovery lib build_error i =
     (case i of (kafka, img, name, hosts) \<Rightarrow>
        build_discovery_configmap lib build_error kafka (metadata kafka) img name hosts)"

interpretation discovery_object: owned_object "build_discovery lib build_error" cm_metadata fst
  "\<lambda>(kafka, img, name, hosts). name" "\<lambda>(kafka, img, name, hosts). discovery_labels kafka img"
  by unfold_locales
    (auto simp: build_discovery_def build_discovery_configmap_eq_Inr split: prod.splits)

lemma build_discovery_configmaps_eq_Inr:
  "build_discovery_configmaps lib build_error kafka owner img sec ls = Inr cms \<longleftrightarrow>
     (\<exists>name hosts cm cm_nodeport. metadata_name owner = Some name \<and>
        (listener_hosts ls (discovery_port_name sec) :: 'e discovery_error + _) = Inr hosts \<and>
        build_discovery_configmap lib build_error kafka owner img name hosts = Inr cm \<and>
        build_discovery_configmap lib build_error kafka owner img (name @ ''-nodeport'') hosts =
          Inr cm_nodeport \<and>
        cms = [cm, cm_nodeport])"
  for lib :: "'e meta_lib"
  by (auto simp: build_discovery_configmaps_def name_unchecked_def Let_def result_simps)

section \<open>Properties\<close>

text \<open>
  C27. Collecting the hosts is exact: on success there is one host per published address, in
  order, and its 16-bit port is the value of the published 32-bit port; otherwise the error is
  that of the first address without the port (\<open>NoServicePort\<close>) or with a port outside 0 to 65535
  (\<open>InvalidNodePort\<close>).
\<close>

theorem listener_hosts_exact:
  "case listener_hosts ls pn of
     Inr hs \<Rightarrow> list_all2 (\<lambda>a (h, p). h = ingress_address a \<and>
         (\<exists>q. bt_get (ingress_ports a) pn = Some q \<and> sint q = int (unat p)))
       (ingress_addresses ls) hs
   | Inl e \<Rightarrow> \<exists>as a bs. ingress_addresses ls = as @ a # bs \<and>
       list_all (\<lambda>a. \<exists>q p. bt_get (ingress_ports a) pn = Some q \<and> u16_try_from q = Some p) as \<and>
       (case bt_get (ingress_ports a) pn of
          None \<Rightarrow> e = NoServicePort pn
        | Some q \<Rightarrow> (sint q < 0 \<or> 65536 \<le> sint q) \<and> e = InvalidNodePort)"
proof (cases "listener_hosts ls pn :: 'a discovery_error + _")
  case (Inr hs)
  then have "list_all2 (\<lambda>a h. (ingress_host pn a :: 'a discovery_error + _) = Inr h)
      (ingress_addresses ls) hs" by (simp add: listener_hosts_eq_Inr)
  then show ?thesis
    by (auto simp: Inr ingress_host_eq_Inr elim: list_all2_mono)
next
  case (Inl e)
  then obtain xs ss where
    eq: "map (ingress_host pn) (ingress_addresses ls) = map Inr xs @ (Inl e :: 'a discovery_error + _) # ss"
    unfolding listener_hosts_def collect_results_eq_Inl by blast
  then obtain as a bs where split: "ingress_addresses ls = as @ a # bs"
    and as: "map (ingress_host pn) as = map (Inr :: _ \<Rightarrow> 'a discovery_error + _) xs"
    and a: "ingress_host pn a = (Inl e :: 'a discovery_error + _)"
    by (auto simp: map_eq_append_conv Cons_eq_map_conv)
  have "\<exists>q p. bt_get (ingress_ports b) pn = Some q \<and> u16_try_from q = Some p" if "b \<in> set as" for b
  proof -
    have "(ingress_host pn b :: 'a discovery_error + _) \<in> Inr ` set xs"
      using that arg_cong [OF as, of set] by auto
    then show ?thesis by (auto simp: ingress_host_eq_Inr u16_try_from_eq_Some) blast
  qed
  then have "list_all (\<lambda>a. \<exists>q p. bt_get (ingress_ports a) pn = Some q \<and> u16_try_from q = Some p) as"
    by (simp add: list_all_iff)
  moreover have "case bt_get (ingress_ports a) pn of
          None \<Rightarrow> e = NoServicePort pn
        | Some q \<Rightarrow> (sint q < 0 \<or> 65536 \<le> sint q) \<and> e = InvalidNodePort"
    using a by (auto simp: ingress_host_eq_Inl)
  ultimately show ?thesis using split by (auto simp: Inl)
qed

text \<open>
  C28. Round trip of the discovery entry: reading the \<open>KAFKA\<close> value of a built config map (servers
  separated by commas, port after the last colon) gives back the hosts and ports it was built
  from, when there is at least one and no host contains a comma.
\<close>

theorem discovery_roundtrip:
  assumes "build_discovery_configmap lib build_error kafka owner img name hosts = Inr cm"
    and "hosts \<noteq> []" and "list_all (\<lambda>h. CHR '','' \<notin> set (fst h)) hosts"
  shows "map_option read_bootstrap_servers (cm_data cm ''KAFKA'') =
           Some (map (\<lambda>(h, p). (h, unat p)) hosts)"
proof -
  have "cm_data cm ''KAFKA'' = Some (bootstrap_servers hosts)"
    using assms(1) by (simp add: build_discovery_configmap_eq_Inr)
  moreover have "read_bootstrap_servers (bootstrap_servers hosts) = map (\<lambda>(h, p). (h, unat p)) hosts"
    using assms(2,3) by (intro read_bootstrap_servers_print) (auto simp: list_all_iff)
  ultimately show ?thesis by simp
qed

text \<open>
  The order of the bootstrap listeners, which is the iteration order of a hash map, shows in the entry:
\<close>

lemma listener_hosts_projection:
  "(listener_hosts ls pn :: 'e discovery_error + _) = Inr hs \<longleftrightarrow>
     (\<forall>a\<in>set (ingress_addresses ls). \<exists>h. (ingress_host pn a :: 'e discovery_error + _) = Inr h) \<and>
     hs = map (\<lambda>a. projr (ingress_host pn a :: 'e discovery_error + _)) (ingress_addresses ls)"
proof -
  have "map f as = map Inr hs \<longleftrightarrow> (\<forall>a\<in>set as. \<exists>h. f a = Inr h) \<and> hs = map (\<lambda>a. projr (f a)) as"
    for f :: "listener_ingress \<Rightarrow> 'e discovery_error + string \<times> 16 word" and as
    by (induction as arbitrary: hs) (auto simp: map_eq_Cons_conv Cons_eq_map_conv)
  then show ?thesis by (simp add: listener_hosts_def collect_results_eq_Inr)
qed

lemma mset_ingress_addresses: "mset ls = mset ls' \<Longrightarrow> mset (ingress_addresses ls) = mset (ingress_addresses ls')"
  unfolding ingress_addresses_def mset_concat by (simp flip: sum_mset_sum_list multiset.map_comp)

lemma bootstrap_servers_inject:
  assumes "hs \<noteq> []" "hs' \<noteq> []" and "\<forall>h\<in>set hs \<union> set hs'. CHR '','' \<notin> set (fst h)"
  shows "bootstrap_servers hs = bootstrap_servers hs' \<longleftrightarrow> hs = hs'"
proof
  assume "bootstrap_servers hs = bootstrap_servers hs'"
  then have "map (\<lambda>(h, p). (h, unat p)) hs = map (\<lambda>(h, p). (h, unat p)) hs'"
    using read_bootstrap_servers_print [of hs] read_bootstrap_servers_print [of hs'] assms
    by (metis (no_types, lifting) Un_iff fst_conv)
  moreover have "inj (\<lambda>(h :: string, p :: 16 word). (h, unat p))"
    by (auto simp: inj_def word_unat_eq_iff)
  ultimately show "hs = hs'" by (simp add: inj_map_eq_map)
qed simp

text \<open>
  C29. The discovery entry depends on the order of the role groups, and on nothing else about it: with
  the bootstrap listeners in another order collecting the hosts succeeds as before and gives the same
  servers in another order, and the text of the \<open>KAFKA\<close> entry is the same only if that order is.
\<close>

theorem discovery_entry_order:
  fixes hs :: "(string \<times> 16 word) list"
  assumes "mset ls' = mset ls" and "(listener_hosts ls pn :: 'e discovery_error + _) = Inr hs"
  shows "\<exists>hs'. (listener_hosts ls' pn :: 'e discovery_error + _) = Inr hs' \<and> mset hs' = mset hs \<and>
           (hs \<noteq> [] \<and> list_all (\<lambda>h. CHR '','' \<notin> set (fst h)) hs \<longrightarrow>
              (bootstrap_servers hs' = bootstrap_servers hs \<longleftrightarrow> hs' = hs))"
proof -
  let ?h = "\<lambda>a. projr (ingress_host pn a :: 'e discovery_error + _)"
  let ?hs' = "map ?h (ingress_addresses ls')"
  note addresses = mset_ingress_addresses [OF assms(1)]
  have same: "(listener_hosts ls' pn :: 'e discovery_error + _) = Inr ?hs'"
    using assms(2) mset_eq_setD [OF addresses] by (simp add: listener_hosts_projection)
  have perm: "mset ?hs' = mset hs"
    using assms(2) addresses by (simp add: listener_hosts_projection)
  have "hs \<noteq> [] \<and> list_all (\<lambda>h. CHR '','' \<notin> set (fst h)) hs \<longrightarrow>
      (bootstrap_servers ?hs' = bootstrap_servers hs \<longleftrightarrow> ?hs' = hs)"
  proof (intro impI)
    assume hs: "hs \<noteq> [] \<and> list_all (\<lambda>h. CHR '','' \<notin> set (fst h)) hs"
    moreover have "?hs' \<noteq> []" "set ?hs' = set hs"
      using hs perm mset_eq_setD [OF perm] by (metis mset_zero_iff, blast)
    ultimately show "bootstrap_servers ?hs' = bootstrap_servers hs \<longleftrightarrow> ?hs' = hs"
      by (intro bootstrap_servers_inject) (simp_all add: list_all_iff)
  qed
  with same perm show ?thesis by blast
qed

text \<open>
  Discovery publishes two config maps, named after the cluster and with the suffix
  \<open>-nodeport\<close>, with the same servers; both are owned by the cluster and labelled as discovery.
\<close>

theorem discovery_configmaps_pair:
  assumes "build_discovery_configmaps lib build_error kafka (metadata kafka) img sec ls = Inr cms"
  shows "\<exists>name cm cm_nodeport. metadata_name (metadata kafka) = Some name \<and> cms = [cm, cm_nodeport] \<and>
           meta_name (cm_metadata cm) = Some name \<and>
           meta_name (cm_metadata cm_nodeport) = Some (name @ ''-nodeport'') \<and>
           cm_data cm = cm_data cm_nodeport \<and>
           list_all (\<lambda>c. owned_by kafka (cm_metadata c) \<and>
             meta_labels (cm_metadata c) = Some (discovery_labels kafka img)) cms"
proof -
  from assms obtain name hosts cm cm2 where
    n: "metadata_name (metadata kafka) = Some name" and cms: "cms = [cm, cm2]" and
    b: "build_discovery lib build_error (kafka, img, name, hosts) = Inr cm"
      "build_discovery lib build_error (kafka, img, name @ ''-nodeport'', hosts) = Inr cm2"
    by (auto simp: build_discovery_configmaps_eq_Inr build_discovery_def)
  have "cm_data cm = cm_data cm2"
    using b by (auto simp: build_discovery_def build_discovery_configmap_eq_Inr fun_eq_iff)
  with n cms discovery_object.built [OF b(1)] discovery_object.built [OF b(2)]
  show ?thesis by (simp add: case_prod_unfold)
qed

section \<open>Witnesses\<close>

definition example_image :: resolved_product_image where
  "example_image = \<lparr>product_version = ''3.7.1'', app_version_label = ''3.7.1-stackable0.0.0-dev'',
     image_details = ''{}''\<rparr>"

definition example_meta_lib :: "string meta_lib" where
  "example_meta_lib = \<lparr>
     ownerreference_error = (\<lambda>m. if metadata_name m = None then Some ''no name'' else None),
     recommended_labels_error = (\<lambda>l. None),
     label_try_from_error = (\<lambda>k v. None),
     labels_recommended = (\<lambda>l. Inr ''labels''),
     labels_role_group_selector = (\<lambda>m a r g. Inr ''selector'')\<rparr>"

definition example_hosts :: "(string \<times> 16 word) list" where
  "example_hosts = [(''10.0.0.1'', 9092), (''::1'', 30000)]"

lemma example_discovery_configmap:
  "build_discovery_configmap example_meta_lib (\<lambda>b. None) example_kafka (metadata example_kafka)
     example_image name hosts =
     Inr [CmMetadata [MetaNameAndNamespace (metadata example_kafka), MetaName name,
             MetaOwnerReference (metadata example_kafka) None (Some True),
             MetaRecommendedLabels (discovery_labels example_kafka example_image)],
           CmAddData ''KAFKA'' (bootstrap_servers hosts)]"
  by (simp add: build_discovery_configmap_eq_Inr example_meta_lib_def example_kafka_def)

theorem discovery_roundtrip_witness:
  "read_bootstrap_servers (bootstrap_servers example_hosts) = [(''10.0.0.1'', 9092), (''::1'', 30000)]"
proof -
  have "example_hosts \<noteq> []" and "list_all (\<lambda>h. CHR '','' \<notin> set (fst h)) example_hosts"
    by (simp_all add: example_hosts_def)
  from discovery_roundtrip [OF example_discovery_configmap this, of x]
  show ?thesis by (simp add: example_hosts_def)
qed

definition example_listener :: listener_object where
  "example_listener = \<lparr>lo_metadata = [], lo_class_name = None, lo_ports = None,
     lo_status = Some \<lparr>ls_ingress_addresses = Some
       [\<lparr>ingress_address = ''10.0.0.1'', ingress_ports = [(''bootstrap'', 9095), (''kafka-tls'', 9093)]\<rparr>]\<rparr>\<rparr>"

definition other_listener :: listener_object where
  "other_listener = example_listener\<lparr>lo_status := Some \<lparr>ls_ingress_addresses = Some
       [\<lparr>ingress_address = ''10.0.0.2'', ingress_ports = [(''bootstrap'', 9095)]\<rparr>]\<rparr>\<rparr>"

lemma example_listener_hosts:
  "listener_hosts [example_listener] ''bootstrap'' = Inr [(''10.0.0.1'', 9095)]"
proof -
  have "u16_try_from 9095 = Some 9095" by (simp add: u16_try_from_def)
  then show ?thesis
    by (simp add: listener_hosts_def ingress_addresses_def example_listener_def ingress_host_def
        bt_get_def)
qed

theorem discovery_entry_order_witness:
  "\<exists>hs hs'. listener_hosts [example_listener, other_listener] ''bootstrap'' =
       (Inr hs :: string discovery_error + _) \<and>
     listener_hosts [other_listener, example_listener] ''bootstrap'' =
       (Inr hs' :: string discovery_error + _) \<and>
     mset hs' = mset hs \<and> bootstrap_servers hs' \<noteq> bootstrap_servers hs"
proof -
  have ports: "u16_try_from 9095 = Some 9095" by (simp add: u16_try_from_def)
  have two: "listener_hosts [example_listener, other_listener] ''bootstrap'' =
      (Inr [(''10.0.0.1'', 9095), (''10.0.0.2'', 9095)] :: string discovery_error + _)"
    by (simp add: listener_hosts_def ingress_addresses_def example_listener_def other_listener_def
        ingress_host_def bt_get_def ports)
  have swapped: "listener_hosts [other_listener, example_listener] ''bootstrap'' =
      (Inr [(''10.0.0.2'', 9095), (''10.0.0.1'', 9095)] :: string discovery_error + _)"
    by (simp add: listener_hosts_def ingress_addresses_def example_listener_def other_listener_def
        ingress_host_def bt_get_def ports)
  have "mset [other_listener, example_listener] = mset [example_listener, other_listener]" by simp
  from discovery_entry_order [OF this two] two swapped show ?thesis by auto
qed

theorem discovery_configmaps_pair_witness:
  "\<exists>cms. build_discovery_configmaps example_meta_lib (\<lambda>b. None) example_kafka (metadata example_kafka)
     example_image (example_security [example_kerberos_class] ''tls'' (Some ''tls''))
     [example_listener] = Inr cms \<and> length cms = 2"
proof -
  let ?sec = "example_security [example_kerberos_class] ''tls'' (Some ''tls'')"
  have "discovery_port_name ?sec = ''bootstrap''"
    by (simp add: discovery_port_name_def example_security_defs bootstrap_port_name_def
        BOOTSTRAP_PORT_NAME_def)
  moreover have "metadata_name (metadata example_kafka) = Some ''simple-kafka''"
    by (simp add: example_kafka_def)
  ultimately have "\<exists>cms. build_discovery_configmaps example_meta_lib (\<lambda>b. None) example_kafka
     (metadata example_kafka) example_image ?sec [example_listener] = Inr cms"
    by (simp add: build_discovery_configmaps_def name_unchecked_def example_listener_hosts
        example_discovery_configmap)
  then show ?thesis using discovery_configmaps_pair by fastforce
qed

end
