(* ===== verification/Operations.thy ===== *)
theory Operations
  imports Resources
begin

text \<open>
  Cluster operations: the disruption budget (\<open>rust/operator-binary/src/operations/pdb.rs\<close>) and
  the graceful shutdown (\<open>graceful_shutdown.rs\<close>).
\<close>

section \<open>Disruption budget\<close>

datatype 'e pdb_error =
    CreatePdb 'e string
  | ApplyPdb 'e string

text \<open>The builder of the library may refuse a role; the applied object has a name.\<close>

record 'e pdb_lib =
  pdb_new_error :: "object_meta \<Rightarrow> string \<Rightarrow> string \<Rightarrow> string \<Rightarrow> string \<Rightarrow> 'e option"
  pdb_name_any :: "pod_disruption_budget \<Rightarrow> string"

definition max_unavailable_brokers :: "16 word" where
  "max_unavailable_brokers = 1"

definition add_pdbs ::
  "'e server \<Rightarrow> 'e pdb_lib \<Rightarrow> pdb_config \<Rightarrow> kafka_cluster \<Rightarrow> kafka_role \<Rightarrow>
     (trace, 'e pdb_error, unit) io" where
  "add_pdbs srv lib pdb kafka r =
     (if \<not> pdb_enabled pdb then io_return ()
      else
        let max_unavailable = (case pdb_max_unavailable pdb of Some n \<Rightarrow> n
              | None \<Rightarrow> (case r of Broker \<Rightarrow> max_unavailable_brokers))
        in io_bind
          (io_lift (with_context (\<lambda>e. CreatePdb e (kafka_role_to_string r))
            (unless_error
              (pdb_new_error lib (metadata kafka) APP_NAME (kafka_role_to_string r) OPERATOR_NAME
                KAFKA_CONTROLLER_NAME)
              \<lparr>pdb_cluster = metadata kafka, pdb_role = kafka_role_to_string r,
               pdb_max = max_unavailable\<rparr>)))
          (\<lambda>p. io_context (\<lambda>e. ApplyPdb e (pdb_name_any lib p))
            (apply_object srv (PdbObject p) (\<lambda>_. ()))))"

section \<open>Graceful shutdown\<close>

datatype 'e graceful_shutdown_error = SetTerminationGracePeriod 'e

definition graceful_shutdown_config_properties :: "(string, string) btree_map" where
  "graceful_shutdown_config_properties = bt_extend [] [(''controlled.shutdown.enable'', ''true'')]"

definition add_graceful_shutdown_config ::
  "'e pod_lib \<Rightarrow> kafka_config \<Rightarrow> pod_builder \<Rightarrow> 'e graceful_shutdown_error + pod_builder" where
  "add_graceful_shutdown_config lib config pb =
     (case kc_graceful_shutdown_timeout config of
        None \<Rightarrow> Inr pb
      | Some d \<Rightarrow> with_context SetTerminationGracePeriod
          (unless_error (termination_grace_period_error lib pb d) (pb @ [PbTerminationGracePeriod d])))"

section \<open>Facts\<close>

lemma emits_add_pdbs:
  assumes "\<And>p. P (Apply (PdbObject p))"
  shows "emits P (add_pdbs srv lib pdb kafka r)"
  using assms by (auto simp: add_pdbs_def Let_def intro!: emits_intros)

lemma graceful_shutdown_get:
  "bt_get graceful_shutdown_config_properties k =
     (if k = ''controlled.shutdown.enable'' then Some ''true'' else None)"
  by (simp add: graceful_shutdown_config_properties_def bt_extend_def bt_get_def)

lemma add_graceful_shutdown_config_eq_Inr [result_simps]:
  "add_graceful_shutdown_config lib config pb = Inr pb' \<longleftrightarrow>
     (case kc_graceful_shutdown_timeout config of
        None \<Rightarrow> pb' = pb
      | Some d \<Rightarrow> termination_grace_period_error lib pb d = None \<and>
          pb' = pb @ [PbTerminationGracePeriod d])"
  by (auto simp: add_graceful_shutdown_config_def result_simps split: option.splits)

section \<open>Properties\<close>

text \<open>
  The disruption budget on every branch: a disabled budget makes no request and succeeds; an
  enabled one applies exactly one budget for the role, with the user's maximum or else one
  unavailable broker, and the request is made even when the server then refuses it; when the
  budget cannot be built no request is made.
\<close>

theorem add_pdbs_behaviour:
  "add_pdbs srv lib pdb kafka r w =
     (if \<not> pdb_enabled pdb then (Inr (), w)
      else
        let p = \<lparr>pdb_cluster = metadata kafka, pdb_role = ''broker'',
                 pdb_max = (case pdb_max_unavailable pdb of Some n \<Rightarrow> n | None \<Rightarrow> 1)\<rparr>
        in case pdb_new_error lib (metadata kafka) ''kafka'' ''broker'' ''kafka.stackable.tech''
                  ''kafkacluster'' of
             Some e \<Rightarrow> (Inl (CreatePdb e ''broker''), w)
           | None \<Rightarrow> (case srv_apply_error srv w (PdbObject p) of
                 Some e \<Rightarrow> (Inl (ApplyPdb e (pdb_name_any lib p)), w @ [Apply (PdbObject p)])
               | None \<Rightarrow> (Inr (), w @ [Apply (PdbObject p)])))"
  by (cases r)
    (auto simp: add_pdbs_def Let_def io_bind_def io_context_def apply_object_def request_def
      max_unavailable_brokers_def APP_NAME_def OPERATOR_NAME_def KAFKA_CONTROLLER_NAME_def
      split: option.splits)

text \<open>
  C40. Graceful shutdown cannot be switched off: when a role group's configuration was merged over
  the defaults, adding the graceful shutdown sets a termination grace period, the one of the role
  group, else of the role, else thirty minutes; it fails only when the builder refuses it.
\<close>

theorem graceful_shutdown_always_set:
  assumes "merge_prefers_self crd" and "validate_copies crd"
    and "spec_brokers (spec kafka) = Some rl" and "map_of (role_groups rl) g = Some rg"
    and "merged_config crd kafka Broker (broker_rolegroup_ref kafka g) = Inr config"
  shows "\<exists>d. Some d = opt_or (cf_graceful_shutdown_timeout (com_config (rg_config rg)))
               (opt_or (cf_graceful_shutdown_timeout (com_config (role_common rl)))
                 (Some (30 * 60 * 10 ^ 9))) \<and>
             add_graceful_shutdown_config lib config pb =
               with_context SetTerminationGracePeriod
                 (unless_error (termination_grace_period_error lib pb d)
                   (pb @ [PbTerminationGracePeriod d]))"
proof -
  have t: "kc_graceful_shutdown_timeout config =
      opt_or (cf_graceful_shutdown_timeout (com_config (rg_config rg)))
        (opt_or (cf_graceful_shutdown_timeout (com_config (role_common rl)))
          (Some DEFAULT_BROKER_GRACEFUL_SHUTDOWN_TIMEOUT))"
    by (rule merged_config_fields(3) [OF assms])
  also have "\<dots> \<noteq> None" by (simp add: opt_or_not_None)
  finally obtain d where d: "kc_graceful_shutdown_timeout config = Some d" by blast
  have "add_graceful_shutdown_config lib config pb =
      with_context SetTerminationGracePeriod
        (unless_error (termination_grace_period_error lib pb d) (pb @ [PbTerminationGracePeriod d]))"
    by (simp add: add_graceful_shutdown_config_def d)
  moreover have "Some d = opt_or (cf_graceful_shutdown_timeout (com_config (rg_config rg)))
      (opt_or (cf_graceful_shutdown_timeout (com_config (role_common rl)))
        (Some (30 * 60 * 10 ^ 9)))"
    using t d by (simp add: DEFAULT_BROKER_GRACEFUL_SHUTDOWN_TIMEOUT_def duration_from_secs_def)
  ultimately show ?thesis by blast
qed

theorem graceful_shutdown_always_set_witness:
  "\<exists>c. merged_config example_lib example_kafka Broker (broker_rolegroup_ref example_kafka ''blue'')
          = Inr c \<and>
       add_graceful_shutdown_config collision_lib c [] = Inr [PbTerminationGracePeriod (1800 * 10 ^ 9)]"
proof -
  obtain c where c: "merged_config example_lib example_kafka Broker
      (broker_rolegroup_ref example_kafka ''blue'') = Inr c"
    using example_merged by blast
  from graceful_shutdown_always_set [OF example_lib_merge example_lib_validate example_brokers
      example_blue c, of collision_lib "[]"]
  have "add_graceful_shutdown_config collision_lib c [] = Inr [PbTerminationGracePeriod (1800 * 10 ^ 9)]"
    by (simp add: example_group_def example_common_def empty_fragment_def example_role_def
        collision_lib_def)
  with c show ?thesis by blast
qed

end
