(* ===== verification/ProductLogging.thy ===== *)
theory ProductLogging
  imports Complex_Main Resources
begin

text \<open>
  Logging: \<open>rust/operator-binary/src/product_logging.rs\<close>. The texts of the log4j and Vector
  configuration come from the operator library (\<open>logging_lib\<close>). A memory quantity's 32-bit
  floating point value is the rational number it denotes.
\<close>

section \<open>Constants and errors\<close>

definition LOG4J_CONFIG_FILE :: string where "LOG4J_CONFIG_FILE = ''log4j.properties''"
definition KAFKA_LOG_FILE :: string where "KAFKA_LOG_FILE = ''kafka.log4j.xml''"

datatype binary_multiple = Kibi | Mebi | Gibi | Tebi | Pebi | Exbi

record memory_quantity =
  mq_value :: rat
  mq_unit :: binary_multiple

definition MAX_KAFKA_LOG_FILES_SIZE :: memory_quantity where
  "MAX_KAFKA_LOG_FILES_SIZE = \<lparr>mq_value = 10, mq_unit = Mebi\<rparr>"

definition VECTOR_AGGREGATOR_CM_ENTRY :: string where "VECTOR_AGGREGATOR_CM_ENTRY = ''ADDRESS''"
definition CONSOLE_CONVERSION_PATTERN :: string where
  "CONSOLE_CONVERSION_PATTERN = ''[%d] %p %m (%c)%n''"

datatype 'e logging_error =
    LoggingObjectHasNoNamespace
  | ConfigMapNotFound 'e string
  | MissingConfigMapEntry string string
  | LoggingCrdValidationFailure "'e crd_error"
  | MissingVectorAggregatorAddress

section \<open>Library functions\<close>

record 'e memory_lib =
  mem_try_from :: "string \<Rightarrow> 'e + memory_quantity"
  mem_scale_to :: "memory_quantity \<Rightarrow> binary_multiple \<Rightarrow> memory_quantity"
  mem_floor :: "memory_quantity \<Rightarrow> memory_quantity"
  mem_mul :: "memory_quantity \<Rightarrow> rat \<Rightarrow> memory_quantity"
  mem_format_for_java :: "memory_quantity \<Rightarrow> 'e + string"

record logging_lib =
  create_log4j_config :: "string \<Rightarrow> string \<Rightarrow> 32 word \<Rightarrow> string \<Rightarrow> json \<Rightarrow> string"
  create_vector_config :: "role_group_ref \<Rightarrow> string \<Rightarrow> json option \<Rightarrow> string"
  VECTOR_CONFIG_FILE :: string

text \<open>The cast \<open>as u32\<close> of a floating point number truncates and saturates.\<close>

definition f32_as_u32 :: "rat \<Rightarrow> 32 word" where
  "f32_as_u32 q =
     (if q \<le> 0 then 0 else if 4294967295 \<le> q then 4294967295 else word_of_int \<lfloor>q\<rfloor>)"

section \<open>Operations\<close>

definition resolve_vector_aggregator_address ::
  "'e server \<Rightarrow> kafka_cluster \<Rightarrow> (trace, 'e logging_error, string option) io" where
  "resolve_vector_aggregator_address srv kafka =
     (case cc_vector_aggregator_config_map_name (spec_cluster_config (spec kafka)) of
        None \<Rightarrow> io_return None
      | Some cm_name \<Rightarrow>
          io_bind (io_lift (ok_or LoggingObjectHasNoNamespace (namespace kafka))) (\<lambda>ns.
          io_bind (io_context (\<lambda>e. ConfigMapNotFound e cm_name)
              (request (GetConfigMap cm_name ns) (\<lambda>w. srv_config_map_data srv w cm_name ns)))
            (\<lambda>d. io_bind
              (io_lift (ok_or (MissingConfigMapEntry VECTOR_AGGREGATOR_CM_ENTRY cm_name)
                (Option.bind d (\<lambda>m. bt_get m VECTOR_AGGREGATOR_CM_ENTRY))))
              (\<lambda>address. io_return (Some address)))))"

text \<open>The log configuration a container was given, when it is an automatic one.\<close>

definition automatic_log_config :: "logging \<Rightarrow> container \<Rightarrow> json option" where
  "automatic_log_config logging c =
     (case bt_get (log_containers logging) c of
        Some cfg \<Rightarrow> (case clc_choice cfg of Some (Automatic log_config) \<Rightarrow> Some log_config | _ \<Rightarrow> None)
      | None \<Rightarrow> None)"

definition extend_role_group_config_map ::
  "logging_lib \<Rightarrow> 'q memory_lib \<Rightarrow> role_group_ref \<Rightarrow> string option \<Rightarrow> logging \<Rightarrow>
     config_map_builder \<Rightarrow> 'e logging_error + config_map_builder" where
  "extend_role_group_config_map lib mem rolegroup vector_aggregator_address logging cm_builder =
     (let cm_builder =
            (case automatic_log_config logging Kafka of
               Some log_config \<Rightarrow> cm_builder @ [CmAddData LOG4J_CONFIG_FILE
                 (create_log4j_config lib
                   (STACKABLE_LOG_DIR @ ''/'' @ container_to_string Kafka)
                   KAFKA_LOG_FILE
                   (f32_as_u32 (mq_value (mem_floor mem
                     (mem_scale_to mem MAX_KAFKA_LOG_FILES_SIZE Mebi))))
                   CONSOLE_CONVERSION_PATTERN
                   log_config)]
             | None \<Rightarrow> cm_builder);
          vector_log_config = automatic_log_config logging Vector
      in if enable_vector_agent logging then
           and_then (ok_or MissingVectorAggregatorAddress vector_aggregator_address) (\<lambda>address.
             Inr (cm_builder @ [CmAddData (VECTOR_CONFIG_FILE lib)
               (create_vector_config lib rolegroup address vector_log_config)]))
         else Inr cm_builder)"

section \<open>Facts\<close>

lemma emits_resolve_vector_aggregator_address:
  assumes "\<And>n ns. P (GetConfigMap n ns)"
  shows "emits P (resolve_vector_aggregator_address srv kafka)"
  using assms by (auto simp: resolve_vector_aggregator_address_def split: option.splits
      intro!: emits_intros)

lemma extend_role_group_config_map_eq_Inr:
  "extend_role_group_config_map lib mem rg addr logging cmb = Inr cmb' \<Longrightarrow>
     \<exists>extra. cmb' = cmb @ extra \<and> (\<forall>c\<in>set extra. \<exists>k v. c = CmAddData k v \<and>
       k \<in> {''log4j.properties'', VECTOR_CONFIG_FILE lib})"
  by (auto simp: extend_role_group_config_map_def Let_def result_simps LOG4J_CONFIG_FILE_def
      split: option.splits if_splits)

lemma data_only_metadata:
  "\<forall>c\<in>set extra. \<exists>k v. c = CmAddData k v \<and> Q k \<Longrightarrow> cm_metadata extra = []"
  by (induction extra) auto

lemma extend_role_group_config_map_keeps:
  assumes "extend_role_group_config_map lib mem rg addr logging cmb = Inr cmb'"
  shows "cm_metadata cmb' = cm_metadata cmb"
    and "k \<notin> {''log4j.properties'', VECTOR_CONFIG_FILE lib} \<Longrightarrow> cm_data cmb' k = cm_data cmb k"
proof -
  obtain extra where e: "cmb' = cmb @ extra" "\<forall>c\<in>set extra. \<exists>k v. c = CmAddData k v \<and>
       k \<in> {''log4j.properties'', VECTOR_CONFIG_FILE lib}"
    using extend_role_group_config_map_eq_Inr [OF assms] by blast
  show "cm_metadata cmb' = cm_metadata cmb"
    using data_only_metadata [OF e(2)] by (simp add: e(1) cm_metadata_append)
  assume k: "k \<notin> {''log4j.properties'', VECTOR_CONFIG_FILE lib}"
  have "cm_data extra k = None" using e(2) k by (induction extra) auto
  then show "cm_data cmb' k = cm_data cmb k" by (simp add: e(1) cm_data_append)
qed

section \<open>Properties\<close>

text \<open>
  Extending the config map of a role group on every branch: it fails exactly when the Vector
  agent is enabled without an aggregator address; otherwise the log4j file is added exactly for an
  automatic log configuration of the broker container, the Vector file exactly when the agent is
  enabled, and every other entry and the metadata stay as they were.
\<close>

theorem extend_config_map_behaviour:
  "case extend_role_group_config_map lib mem rg addr logging cmb of
     Inl e \<Rightarrow> enable_vector_agent logging \<and> addr = None \<and> e = MissingVectorAggregatorAddress
   | Inr cmb' \<Rightarrow>
       (enable_vector_agent logging \<longrightarrow> addr \<noteq> None) \<and> cm_metadata cmb' = cm_metadata cmb \<and>
       (\<forall>k. k \<noteq> ''log4j.properties'' \<and> k \<noteq> VECTOR_CONFIG_FILE lib \<longrightarrow> cm_data cmb' k = cm_data cmb k) \<and>
       (VECTOR_CONFIG_FILE lib \<noteq> ''log4j.properties'' \<longrightarrow>
         (automatic_log_config logging Kafka = None \<longrightarrow>
            cm_data cmb' ''log4j.properties'' = cm_data cmb ''log4j.properties'') \<and>
         (automatic_log_config logging Kafka \<noteq> None \<longrightarrow> cm_data cmb' ''log4j.properties'' \<noteq> None) \<and>
         (enable_vector_agent logging \<longrightarrow> cm_data cmb' (VECTOR_CONFIG_FILE lib) =
            Some (create_vector_config lib rg (the addr) (automatic_log_config logging Vector))) \<and>
         (\<not> enable_vector_agent logging \<longrightarrow>
            cm_data cmb' (VECTOR_CONFIG_FILE lib) = cm_data cmb (VECTOR_CONFIG_FILE lib)))"
proof (cases "extend_role_group_config_map lib mem rg addr logging cmb :: 'a logging_error + _")
  case (Inl e)
  then show ?thesis
    by (auto simp: extend_role_group_config_map_def Let_def result_simps split: option.splits if_splits)
next
  case (Inr cmb')
  note keep = extend_role_group_config_map_keeps [OF Inr]
  have "enable_vector_agent logging \<longrightarrow> addr \<noteq> None"
    using Inr by (auto simp: extend_role_group_config_map_def Let_def result_simps split: if_splits)
  moreover have "cm_data cmb' ''log4j.properties'' = cm_data cmb ''log4j.properties''"
    if "automatic_log_config logging Kafka = None" "VECTOR_CONFIG_FILE lib \<noteq> ''log4j.properties''"
    using Inr that by (auto simp: extend_role_group_config_map_def Let_def result_simps cm_data_append
        split: if_splits)
  moreover have "cm_data cmb' ''log4j.properties'' \<noteq> None"
    if "automatic_log_config logging Kafka \<noteq> None" "VECTOR_CONFIG_FILE lib \<noteq> ''log4j.properties''"
    using Inr that by (auto simp: extend_role_group_config_map_def Let_def result_simps cm_data_append
        LOG4J_CONFIG_FILE_def split: if_splits)
  moreover have "cm_data cmb' (VECTOR_CONFIG_FILE lib) =
      Some (create_vector_config lib rg (the addr) (automatic_log_config logging Vector))"
    if "enable_vector_agent logging"
    using Inr that by (auto simp: extend_role_group_config_map_def Let_def result_simps cm_data_append)
  moreover have "cm_data cmb' (VECTOR_CONFIG_FILE lib) = cm_data cmb (VECTOR_CONFIG_FILE lib)"
    if "\<not> enable_vector_agent logging" "VECTOR_CONFIG_FILE lib \<noteq> ''log4j.properties''"
    using Inr that by (auto simp: extend_role_group_config_map_def Let_def result_simps cm_data_append
        LOG4J_CONFIG_FILE_def split: option.splits)
  ultimately show ?thesis using keep by (simp add: Inr)
qed

definition example_logging_lib :: logging_lib where
  "example_logging_lib = \<lparr>
     create_log4j_config = (\<lambda>dir file size pattern cfg. dir @ ''/'' @ file),
     create_vector_config = (\<lambda>rg address cfg. address),
     VECTOR_CONFIG_FILE = ''vector.yaml''\<rparr>"

definition example_memory_lib :: "string memory_lib" where
  "example_memory_lib = \<lparr>
     mem_try_from = (\<lambda>s. if s = [] then Inl ''no unit'' else Inr \<lparr>mq_value = 1, mq_unit = Gibi\<rparr>),
     mem_scale_to = (\<lambda>q u. if mq_unit q = Gibi \<and> u = Mebi
       then \<lparr>mq_value = 1024 * mq_value q, mq_unit = Mebi\<rparr> else q),
     mem_floor = (\<lambda>q. q\<lparr>mq_value := of_int \<lfloor>mq_value q\<rfloor>\<rparr>),
     mem_mul = (\<lambda>q r. q\<lparr>mq_value := mq_value q * r\<rparr>),
     mem_format_for_java = (\<lambda>q. Inr ''819m'')\<rparr>"

definition example_logging :: logging where
  "example_logging = \<lparr>enable_vector_agent = True,
     log_containers = [(Kafka, \<lparr>clc_choice = Some (Automatic ''{}'')\<rparr>)]\<rparr>"

theorem extend_config_map_behaviour_witness:
  "\<exists>cmb. (extend_role_group_config_map example_logging_lib example_memory_lib
       (broker_rolegroup_ref example_kafka ''red'') (Some ''vector:6000'') example_logging
       [CmAddData ''server.properties'' ''x=y''] :: string logging_error + _) = Inr cmb \<and>
     cm_data cmb ''vector.yaml'' = Some ''vector:6000'' \<and>
     cm_data cmb ''server.properties'' = Some ''x=y'' \<and> cm_data cmb ''log4j.properties'' \<noteq> None"
proof -
  let ?r = "extend_role_group_config_map example_logging_lib example_memory_lib
       (broker_rolegroup_ref example_kafka ''red'') (Some ''vector:6000'') example_logging
       [CmAddData ''server.properties'' ''x=y''] :: string logging_error + _"
  note spec = extend_config_map_behaviour [where ?'a = string and lib = example_logging_lib
      and mem = example_memory_lib and rg = "broker_rolegroup_ref example_kafka ''red''"
      and addr = "Some ''vector:6000''" and logging = example_logging
      and cmb = "[CmAddData ''server.properties'' ''x=y'']"]
  have auto: "automatic_log_config example_logging Kafka \<noteq> None"
    by (simp add: automatic_log_config_def example_logging_def bt_get_def)
  show ?thesis
  proof (cases ?r)
    case (Inl e)
    with spec show ?thesis by simp
  next
    case (Inr cmb)
    with spec auto show ?thesis by (simp add: example_logging_lib_def example_logging_def)
  qed
qed

end
