(* ===== verification/ControllerError.thy ===== *)
theory ControllerError
  imports Listener PodSecurity Discovery Operations ProductLogging
begin

text \<open>
  The errors of a reconciliation: \<open>Error\<close> of \<open>rust/operator-binary/src/kafka_controller.rs\<close> with
  its \<open>ReconcilerError\<close> implementation. Variants whose name another enum has carry the prefix
  \<open>Controller\<close>.
\<close>

datatype (plugins only:) (dead 'e) controller_error =
    MissingSecretLifetime
  | ObjectHasNoName
  | ControllerObjectHasNoNamespace
  | NoBrokerRole
  | ApplyRoleService 'e
  | ApplyRoleServiceAccount 'e
  | ApplyRoleRoleBinding 'e
  | ApplyRoleGroupService 'e role_group_ref
  | BuildRoleGroupConfig 'e role_group_ref
  | ApplyRoleGroupConfig 'e role_group_ref
  | ApplyRoleGroupStatefulSet 'e role_group_ref
  | GenerateProductConfig 'e
  | InvalidProductConfig 'e
  | SerializeZooCfg 'e role_group_ref
  | ObjectMissingMetadataForOwnerRef 'e
  | BuildDiscoveryConfig "'e discovery_error"
  | ApplyDiscoveryConfig 'e
  | RoleGroupNotFound role_group_ref
  | InvalidOpaConfig 'e
  | ControllerAuthenticationClassRetrieval 'e object_ref
  | ControllerAuthenticationProviderNotSupported object_ref "string list" string
  | InvalidKafkaListeners kafka_listener_error
  | AddListenerVolume 'e
  | InvalidContainerName string 'e
  | DeleteOrphansFailed 'e
  | FailedToInitializeSecurityContext "'e security_error"
  | InvalidHeapConfig 'e
  | CreateClusterResources 'e
  | FailedToResolveConfig "'e crd_error"
  | ResolveVectorAggregatorAddress "'e logging_error"
  | InvalidLoggingConfig "'e logging_error" string
  | ApplyServiceAccount 'e
  | ApplyRoleBinding 'e
  | ApplyStatus 'e
  | BuildRbacResources 'e
  | InternalOperatorError "'e crd_error"
  | JvmSecurityPoperties 'e string
  | FailedToCreatePdb "'e pdb_error"
  | GracefulShutdown "'e graceful_shutdown_error"
  | GetRequiredLabels 'e
  | MetadataBuild 'e
  | LabelBuild 'e
  | AddVolumesAndVolumeMounts "'e security_error"
  | ResolveNamespace kafka_listener_error
  | AddKerberosConfig "'e kerberos_error"
  | FailedToValidateAuthenticationMethod "'e security_error"
  | AddVolume 'e
  | AddVolumeMount 'e
  | ConfigureLogging 'e
  | InvalidKafkaCluster 'e

text \<open>
  The category under which an error is reported: the name of its variant (\<open>ErrorDiscriminants\<close> as
  a static string).
\<close>

definition category :: "'e controller_error \<Rightarrow> string" where
  "category e =
     (case e of
        MissingSecretLifetime \<Rightarrow> ''MissingSecretLifetime''
      | ObjectHasNoName \<Rightarrow> ''ObjectHasNoName''
      | ControllerObjectHasNoNamespace \<Rightarrow> ''ObjectHasNoNamespace''
      | NoBrokerRole \<Rightarrow> ''NoBrokerRole''
      | ApplyRoleService _ \<Rightarrow> ''ApplyRoleService''
      | ApplyRoleServiceAccount _ \<Rightarrow> ''ApplyRoleServiceAccount''
      | ApplyRoleRoleBinding _ \<Rightarrow> ''ApplyRoleRoleBinding''
      | ApplyRoleGroupService _ _ \<Rightarrow> ''ApplyRoleGroupService''
      | BuildRoleGroupConfig _ _ \<Rightarrow> ''BuildRoleGroupConfig''
      | ApplyRoleGroupConfig _ _ \<Rightarrow> ''ApplyRoleGroupConfig''
      | ApplyRoleGroupStatefulSet _ _ \<Rightarrow> ''ApplyRoleGroupStatefulSet''
      | GenerateProductConfig _ \<Rightarrow> ''GenerateProductConfig''
      | InvalidProductConfig _ \<Rightarrow> ''InvalidProductConfig''
      | SerializeZooCfg _ _ \<Rightarrow> ''SerializeZooCfg''
      | ObjectMissingMetadataForOwnerRef _ \<Rightarrow> ''ObjectMissingMetadataForOwnerRef''
      | BuildDiscoveryConfig _ \<Rightarrow> ''BuildDiscoveryConfig''
      | ApplyDiscoveryConfig _ \<Rightarrow> ''ApplyDiscoveryConfig''
      | RoleGroupNotFound _ \<Rightarrow> ''RoleGroupNotFound''
      | InvalidOpaConfig _ \<Rightarrow> ''InvalidOpaConfig''
      | ControllerAuthenticationClassRetrieval _ _ \<Rightarrow> ''AuthenticationClassRetrieval''
      | ControllerAuthenticationProviderNotSupported _ _ _ \<Rightarrow>
          ''AuthenticationProviderNotSupported''
      | InvalidKafkaListeners _ \<Rightarrow> ''InvalidKafkaListeners''
      | AddListenerVolume _ \<Rightarrow> ''AddListenerVolume''
      | InvalidContainerName _ _ \<Rightarrow> ''InvalidContainerName''
      | DeleteOrphansFailed _ \<Rightarrow> ''DeleteOrphans''
      | FailedToInitializeSecurityContext _ \<Rightarrow> ''FailedToInitializeSecurityContext''
      | InvalidHeapConfig _ \<Rightarrow> ''InvalidHeapConfig''
      | CreateClusterResources _ \<Rightarrow> ''CreateClusterResources''
      | FailedToResolveConfig _ \<Rightarrow> ''FailedToResolveConfig''
      | ResolveVectorAggregatorAddress _ \<Rightarrow> ''ResolveVectorAggregatorAddress''
      | InvalidLoggingConfig _ _ \<Rightarrow> ''InvalidLoggingConfig''
      | ApplyServiceAccount _ \<Rightarrow> ''ApplyServiceAccount''
      | ApplyRoleBinding _ \<Rightarrow> ''ApplyRoleBinding''
      | ApplyStatus _ \<Rightarrow> ''ApplyStatus''
      | BuildRbacResources _ \<Rightarrow> ''BuildRbacResources''
      | InternalOperatorError _ \<Rightarrow> ''InternalOperatorError''
      | JvmSecurityPoperties _ _ \<Rightarrow> ''JvmSecurityPoperties''
      | FailedToCreatePdb _ \<Rightarrow> ''FailedToCreatePdb''
      | GracefulShutdown _ \<Rightarrow> ''GracefulShutdown''
      | GetRequiredLabels _ \<Rightarrow> ''GetRequiredLabels''
      | MetadataBuild _ \<Rightarrow> ''MetadataBuild''
      | LabelBuild _ \<Rightarrow> ''LabelBuild''
      | AddVolumesAndVolumeMounts _ \<Rightarrow> ''AddVolumesAndVolumeMounts''
      | ResolveNamespace _ \<Rightarrow> ''ResolveNamespace''
      | AddKerberosConfig _ \<Rightarrow> ''AddKerberosConfig''
      | FailedToValidateAuthenticationMethod _ \<Rightarrow>
          ''FailedToValidateAuthenticationMethod''
      | AddVolume _ \<Rightarrow> ''AddVolume''
      | AddVolumeMount _ \<Rightarrow> ''AddVolumeMount''
      | ConfigureLogging _ \<Rightarrow> ''ConfigureLogging''
      | InvalidKafkaCluster _ \<Rightarrow> ''InvalidKafkaCluster'')"

text \<open>
  The message of an error. The display of role group and object references belongs to the
  operator library; \<open>debug_strings\<close> is Rust's \<open>{:?}\<close> of a vector of strings, for the characters of
  ASCII.
\<close>

record display_lib =
  show_rolegroup :: "role_group_ref \<Rightarrow> string"
  show_object_ref :: "object_ref \<Rightarrow> string"

definition hex_digit :: "nat \<Rightarrow> char" where
  "hex_digit n = ''0123456789abcdef'' ! n"

definition escape_debug :: "char \<Rightarrow> string" where
  "escape_debug c =
     (if c \<in> {CHR 0x22, CHR 0x5C} then [CHR 0x5C, c]
      else if c = CHR 0x09 then [CHR 0x5C, CHR ''t'']
      else if c = CHR 0x0A then [CHR 0x5C, CHR ''n'']
      else if c = CHR 0x0D then [CHR 0x5C, CHR ''r'']
      else if c = CHR 0x00 then [CHR 0x5C, CHR ''0'']
      else if of_char c < (32::nat) \<or> of_char c = (127::nat) then
        [CHR 0x5C, CHR ''u'', CHR 0x7B]
          @ (if of_char c < (16::nat) then [] else [hex_digit (of_char c div 16)])
          @ [hex_digit (of_char c mod 16), CHR 0x7D]
      else [c])"

definition debug_strings :: "string list \<Rightarrow> string" where
  "debug_strings ss =
     ''['' @ join '', '' (map (\<lambda>s. [CHR 0x22] @ concat (map escape_debug s) @ [CHR 0x22]) ss) @ '']''"

definition error_to_string :: "display_lib \<Rightarrow> 'e controller_error \<Rightarrow> string" where
  "error_to_string d e =
     (case e of
        MissingSecretLifetime \<Rightarrow> ''missing secret lifetime''
      | ObjectHasNoName \<Rightarrow> ''object has no name''
      | ControllerObjectHasNoNamespace \<Rightarrow> ''object has no namespace''
      | NoBrokerRole \<Rightarrow> ''object defines no broker role''
      | ApplyRoleService _ \<Rightarrow> ''failed to apply role Service''
      | ApplyRoleServiceAccount _ \<Rightarrow> ''failed to apply role ServiceAccount''
      | ApplyRoleRoleBinding _ \<Rightarrow> ''failed to apply global RoleBinding''
      | ApplyRoleGroupService _ rolegroup \<Rightarrow>
          ''failed to apply Service for '' @ show_rolegroup d rolegroup
      | BuildRoleGroupConfig _ rolegroup \<Rightarrow>
          ''failed to build ConfigMap for '' @ show_rolegroup d rolegroup
      | ApplyRoleGroupConfig _ rolegroup \<Rightarrow>
          ''failed to apply ConfigMap for '' @ show_rolegroup d rolegroup
      | ApplyRoleGroupStatefulSet _ rolegroup \<Rightarrow>
          ''failed to apply StatefulSet for '' @ show_rolegroup d rolegroup
      | GenerateProductConfig _ \<Rightarrow> ''failed to generate product config''
      | InvalidProductConfig _ \<Rightarrow> ''invalid product config''
      | SerializeZooCfg _ rolegroup \<Rightarrow>
          ''failed to serialize zoo.cfg for '' @ show_rolegroup d rolegroup
      | ObjectMissingMetadataForOwnerRef _ \<Rightarrow>
          ''object is missing metadata to build owner reference''
      | BuildDiscoveryConfig _ \<Rightarrow> ''failed to build discovery ConfigMap''
      | ApplyDiscoveryConfig _ \<Rightarrow> ''failed to apply discovery ConfigMap''
      | RoleGroupNotFound rolegroup \<Rightarrow>
          ''failed to find rolegroup '' @ show_rolegroup d rolegroup
      | InvalidOpaConfig _ \<Rightarrow> ''invalid OpaConfig''
      | ControllerAuthenticationClassRetrieval _ authentication_class \<Rightarrow>
          ''failed to retrieve '' @ show_object_ref d authentication_class
      | ControllerAuthenticationProviderNotSupported _ supported provider \<Rightarrow>
          ''failed to use authentication provider '' @ provider @ '' - supported methods: ''
            @ debug_strings supported
      | InvalidKafkaListeners _ \<Rightarrow> ''invalid kafka listeners''
      | AddListenerVolume _ \<Rightarrow> ''failed to add listener volume''
      | InvalidContainerName name _ \<Rightarrow> ''invalid container name ['' @ name @ '']''
      | DeleteOrphansFailed _ \<Rightarrow> ''failed to delete orphaned resources''
      | FailedToInitializeSecurityContext _ \<Rightarrow> ''failed to initialize security context''
      | InvalidHeapConfig _ \<Rightarrow> ''invalid memory resource configuration''
      | CreateClusterResources _ \<Rightarrow> ''failed to create cluster resources''
      | FailedToResolveConfig _ \<Rightarrow>
          ''failed to resolve and merge config for role and role group''
      | ResolveVectorAggregatorAddress _ \<Rightarrow>
          ''failed to resolve the Vector aggregator address''
      | InvalidLoggingConfig _ cm_name \<Rightarrow>
          ''failed to add the logging configuration to the ConfigMap ['' @ cm_name @ '']''
      | ApplyServiceAccount _ \<Rightarrow> ''failed to patch service account''
      | ApplyRoleBinding _ \<Rightarrow> ''failed to patch role binding''
      | ApplyStatus _ \<Rightarrow> ''failed to update status''
      | BuildRbacResources _ \<Rightarrow> ''failed to build RBAC resources''
      | InternalOperatorError _ \<Rightarrow> ''internal operator failure''
      | JvmSecurityPoperties _ rolegroup \<Rightarrow>
          ''failed to serialize ['' @ JVM_SECURITY_PROPERTIES_FILE @ ''] for '' @ rolegroup
      | FailedToCreatePdb _ \<Rightarrow> ''failed to create PodDisruptionBudget''
      | GracefulShutdown _ \<Rightarrow> ''failed to configure graceful shutdown''
      | GetRequiredLabels _ \<Rightarrow> ''failed to get required Labels''
      | MetadataBuild _ \<Rightarrow> ''failed to build Metadata''
      | LabelBuild _ \<Rightarrow> ''failed to build Labels''
      | AddVolumesAndVolumeMounts _ \<Rightarrow> ''failed to add Secret Volumes and VolumeMounts''
      | ResolveNamespace _ \<Rightarrow> ''failed to resolve the fully-qualified pod name''
      | AddKerberosConfig _ \<Rightarrow> ''failed to add kerberos config''
      | FailedToValidateAuthenticationMethod _ \<Rightarrow>
          ''failed to validate authentication method''
      | AddVolume _ \<Rightarrow> ''failed to add needed volume''
      | AddVolumeMount _ \<Rightarrow> ''failed to add needed volumeMount''
      | ConfigureLogging _ \<Rightarrow> ''failed to configure logging''
      | InvalidKafkaCluster _ \<Rightarrow> ''KafkaCluster object is invalid'')"

definition secondary_object :: "'e controller_error \<Rightarrow> object_ref option" where
  "secondary_object e =
     (case e of
        ControllerAuthenticationClassRetrieval _ authentication_class \<Rightarrow> Some authentication_class
      | ControllerAuthenticationProviderNotSupported authentication_class _ _ \<Rightarrow>
          Some authentication_class
      | _ \<Rightarrow> None)"

text \<open>What the controller does after a reconciliation.\<close>

datatype action = AwaitChange | Requeue duration

definition error_policy :: "'e controller_error \<Rightarrow> action" where
  "error_policy e =
     (case e of
        InvalidKafkaCluster _ \<Rightarrow> AwaitChange
      | _ \<Rightarrow> Requeue (duration_from_secs 5))"

lemma error_policy_cases:
  "error_policy e = (if \<exists>x. e = InvalidKafkaCluster x then AwaitChange else Requeue (5 * 10 ^ 9))"
  by (cases e) (simp_all add: error_policy_def duration_from_secs_def)

text \<open>The category alone decides whether an error is retried.\<close>

lemma error_policy_category:
  "error_policy e = (if category e = ''InvalidKafkaCluster'' then AwaitChange else Requeue (5 * 10 ^ 9))"
  by (cases e) (simp_all add: error_policy_def category_def duration_from_secs_def)

lemma error_to_string_nonempty: "error_to_string d e \<noteq> []"
  by (cases e) (simp_all add: error_to_string_def)

text \<open>Errors of one category agree on whether they name a secondary object.\<close>

lemma secondary_object_category:
  "secondary_object e \<noteq> None \<longleftrightarrow>
     category e = ''AuthenticationClassRetrieval'' \<or> category e = ''AuthenticationProviderNotSupported''"
  by (cases e) (simp_all add: secondary_object_def category_def)

end
