(* ===== verification/Commands.thy ===== *)
theory Commands
  imports Listener PodSecurity
begin

text \<open>
  The command lines of the two containers: \<open>kcat_prober_container_commands\<close> and
  \<open>kafka_container_commands\<close> of \<open>rust/crd/src/security.rs\<close>. The shell functions the operator
  library supplies are the fields of \<open>bash_lib\<close>.
\<close>

section \<open>Readiness probe\<close>

abbreviation backslash :: string where "backslash \<equiv> [CHR 0x5C]"
abbreviation newline :: string where "newline \<equiv> [CHR 0x0A]"

definition kcat_client_auth_ssl :: "string \<Rightarrow> string list" where
  "kcat_client_auth_ssl cert_directory =
     [''-X'', ''security.protocol=SSL'',
      ''-X'', ''ssl.key.location='' @ cert_directory @ ''/tls.key'',
      ''-X'', ''ssl.certificate.location='' @ cert_directory @ ''/tls.crt'',
      ''-X'', ''ssl.ca.location='' @ cert_directory @ ''/ca.crt'']"

definition kcat_client_ssl :: "string \<Rightarrow> string list" where
  "kcat_client_ssl cert_directory =
     [''-X'', ''security.protocol=SSL'',
      ''-X'', ''ssl.ca.location='' @ cert_directory @ ''/ca.crt'']"

definition kcat_client_sasl_ssl :: "string \<Rightarrow> string \<Rightarrow> string \<Rightarrow> string list" where
  "kcat_client_sasl_ssl cert_directory service_name fqdn =
     [''-X'', ''security.protocol=SASL_SSL'',
      ''-X'', ''ssl.ca.location='' @ cert_directory @ ''/ca.crt'',
      ''-X'', ''sasl.kerberos.keytab=/stackable/kerberos/keytab'',
      ''-X'', ''sasl.mechanism=GSSAPI'',
      ''-X'', ''sasl.kerberos.service.name='' @ service_name,
      ''-X'', ''sasl.kerberos.principal='' @ service_name @ ''/'' @ fqdn @ ''@$KERBEROS_REALM'']"

definition kcat_prober_container_commands :: "kafka_tls_security \<Rightarrow> string \<Rightarrow> string list" where
  "kcat_prober_container_commands sec fqdn =
     (let args = [];
          port = client_port sec;
          args =
            (if tls_client_authentication_class sec \<noteq> None then
               args @ [''/stackable/kcat'', ''-b'', ''localhost:'' @ u16_to_string port] @
                 kcat_client_auth_ssl STACKABLE_TLS_KCAT_DIR
             else if has_kerberos_enabled sec then
               let service_name = kerberos_service_name Broker
               in args @ [''/bin/bash'', ''-x'', ''-euo'', ''pipefail'', ''-c'',
                   ''export KERBEROS_REALM=$(grep -oP 'default_realm = '' @ backslash @ ''K.*' ''
                     @ STACKABLE_KERBEROS_KRB5_PATH @ '');'',
                   ''/stackable/kcat'', ''-b'', fqdn @ '':'' @ u16_to_string port] @
                 kcat_client_sasl_ssl STACKABLE_TLS_KCAT_DIR service_name fqdn
             else if tls_server_secret_class sec \<noteq> None then
               args @ [''/stackable/kcat'', ''-b'', ''localhost:'' @ u16_to_string port] @
                 kcat_client_ssl STACKABLE_TLS_KCAT_DIR
             else
               args @ [''/stackable/kcat'', ''-b'', ''localhost:'' @ u16_to_string port])
      in args @ [''-L''])"

section \<open>Start of the broker\<close>

record bash_lib =
  COMMON_BASH_TRAP_FUNCTIONS :: string
  remove_vector_shutdown_file_command :: "string \<Rightarrow> string"
  create_vector_shutdown_file_command :: "string \<Rightarrow> string"

definition set_realm_env :: "bool \<Rightarrow> string" where
  "set_realm_env kerberos_enabled =
     (if kerberos_enabled then
        ''export KERBEROS_REALM=$(grep -oP 'default_realm = '' @ backslash @ ''K.*' ''
          @ STACKABLE_KERBEROS_KRB5_PATH @ '')''
      else [])"

definition opa_config :: "string option \<Rightarrow> string" where
  \<open>opa_config opa_connect_string =
     (case opa_connect_string of
        None \<Rightarrow> []
      | Some s \<Rightarrow> '' --override "opa.authorizer.url='' @ s @ ''"'')\<close>

definition jaas_config :: "bool \<Rightarrow> string" where
  \<open>jaas_config kerberos_enabled =
     (if kerberos_enabled then
        let service_name = kerberos_service_name Broker;
            broker_address = node_address_cmd STACKABLE_LISTENER_BROKER_DIR;
            bootstrap_address = node_address_cmd STACKABLE_LISTENER_BOOTSTRAP_DIR
        in '' --override "listener.name.client.gssapi.sasl.jaas.config=com.sun.security.auth.module.Krb5LoginModule required useKeyTab=true storeKey=true isInitiator=false keyTab=''
          @ backslash @ ''"/stackable/kerberos/keytab'' @ backslash @ ''" principal=''
          @ backslash @ ''"'' @ service_name @ ''/'' @ broker_address @ ''@$KERBEROS_REALM''
          @ backslash @ ''";" --override "listener.name.bootstrap.gssapi.sasl.jaas.config=com.sun.security.auth.module.Krb5LoginModule required useKeyTab=true storeKey=true isInitiator=false keyTab=''
          @ backslash @ ''"/stackable/kerberos/keytab'' @ backslash @ ''" principal=''
          @ backslash @ ''"'' @ service_name @ ''/'' @ bootstrap_address @ ''@$KERBEROS_REALM''
          @ backslash @ ''";"''
      else [])\<close>

text \<open>The line that starts the server, and the script: the lines of the template.\<close>

definition start_command :: "kafka_listener_config \<Rightarrow> string option \<Rightarrow> bool \<Rightarrow> string" where
  \<open>start_command kafka_listeners opa_connect_string kerberos_enabled =
     ''bin/kafka-server-start.sh '' @ STACKABLE_CONFIG_DIR @ ''/'' @ SERVER_PROPERTIES_FILE
     @ '' --override "zookeeper.connect=$ZOOKEEPER" --override "listeners=''
     @ listeners_value kafka_listeners @ ''" --override "advertised.listeners=''
     @ advertised_listeners_value kafka_listeners
     @ ''" --override "listener.security.protocol.map=''
     @ listener_security_protocol_map_value kafka_listeners @ ''"''
     @ opa_config opa_connect_string @ jaas_config kerberos_enabled @ '' &''\<close>

definition kafka_container_commands ::
  "bash_lib \<Rightarrow> kafka_listener_config \<Rightarrow> string option \<Rightarrow> bool \<Rightarrow> string list" where
  "kafka_container_commands bash kafka_listeners opa_connect_string kerberos_enabled =
     [COMMON_BASH_TRAP_FUNCTIONS bash @ newline
      @ remove_vector_shutdown_file_command bash STACKABLE_LOG_DIR @ newline
      @ ''prepare_signal_handlers'' @ newline
      @ ''containerdebug --output='' @ STACKABLE_LOG_DIR @ ''/containerdebug-state.json --loop &'' @ newline
      @ set_realm_env kerberos_enabled @ newline
      @ start_command kafka_listeners opa_connect_string kerberos_enabled @ newline
      @ ''wait_for_termination $!'' @ newline
      @ create_vector_shutdown_file_command bash STACKABLE_LOG_DIR @ newline]"

section \<open>Reading a command line\<close>

text \<open>The argument after the first occurrence of an option, and the property set by \<open>-X key=value\<close>.\<close>

fun arg_after :: "string \<Rightarrow> string list \<Rightarrow> string option" where
  "arg_after opt (a # b # args) = (if a = opt then Some b else arg_after opt (b # args))"
| "arg_after opt _ = None"

fun x_property :: "string \<Rightarrow> string list \<Rightarrow> string option" where
  "x_property key (a # b # args) =
     (if a = ''-X'' \<and> take (length key + 1) b = key @ ''='' then Some (drop (length key + 1) b)
      else x_property key (b # args))"
| "x_property key _ = None"

lemma x_property_other: "a \<noteq> ''-X'' \<Longrightarrow> x_property key (a # args) = x_property key args"
  by (cases args) simp_all

text \<open>The probe command of each mode.\<close>

definition probe_kerberos_script :: string where
  "probe_kerberos_script =
     ''export KERBEROS_REALM=$(grep -oP 'default_realm = '' @ backslash @ ''K.*' '' @
        STACKABLE_KERBEROS_KRB5_PATH @ '');''"

definition probe_command :: "client_mode \<Rightarrow> string \<Rightarrow> string list" where
  "probe_command m fqdn =
     (case m of
        MutualTls \<Rightarrow> [''/stackable/kcat'', ''-b'', ''localhost:'' @ u16_to_string 9093] @
          kcat_client_auth_ssl STACKABLE_TLS_KCAT_DIR
      | Kerberized \<Rightarrow> [''/bin/bash'', ''-x'', ''-euo'', ''pipefail'', ''-c'', probe_kerberos_script,
          ''/stackable/kcat'', ''-b'', fqdn @ '':'' @ u16_to_string 9093] @
          kcat_client_sasl_ssl STACKABLE_TLS_KCAT_DIR ''kafka'' fqdn
      | ServerTls \<Rightarrow> [''/stackable/kcat'', ''-b'', ''localhost:'' @ u16_to_string 9093] @
          kcat_client_ssl STACKABLE_TLS_KCAT_DIR
      | Unsecured \<Rightarrow> [''/stackable/kcat'', ''-b'', ''localhost:'' @ u16_to_string 9092]) @ [''-L'']"

lemma kcat_prober_container_commands_mode:
  assumes "sec_valid sec"
  shows "kcat_prober_container_commands sec fqdn = probe_command (client_mode sec) fqdn"
  using client_mode_eqs(3) [OF assms]
  by (auto simp: kcat_prober_container_commands_def probe_command_def client_mode_def
      client_port_def port_number_defs probe_kerberos_script_def Let_def split: if_splits)

lemma kerberized_probe:
  assumes "sec_valid sec" and "has_kerberos_enabled sec"
  shows "kcat_prober_container_commands sec fqdn = probe_command Kerberized fqdn"
  using kcat_prober_container_commands_mode [OF assms(1)] client_mode_eqs(2) [OF assms(1)] assms(2)
  by simp

definition probe_host :: "client_mode \<Rightarrow> string \<Rightarrow> string" where
  "probe_host m fqdn = (if m = Kerberized then fqdn else ''localhost'')"

lemma script_neq_option:
  "probe_kerberos_script \<noteq> ''-b''" "probe_kerberos_script \<noteq> ''-X''"
  "probe_kerberos_script \<noteq> ''-c''"
  by (simp_all add: probe_kerberos_script_def)

lemma probe_target:
  "arg_after ''-b'' (probe_command m fqdn) =
     Some (probe_host m fqdn @ '':'' @ u16_to_string (if m = Unsecured then 9092 else 9093))"
  by (cases m) (simp_all add: probe_command_def probe_host_def script_neq_option)

lemma probe_protocol:
  "x_property ''security.protocol'' (probe_command m fqdn) =
     (case m of Kerberized \<Rightarrow> Some ''SASL_SSL'' | Unsecured \<Rightarrow> None | _ \<Rightarrow> Some ''SSL'')"
proof (cases m)
  case Kerberized
  then show ?thesis
    by (simp add: probe_command_def kcat_client_sasl_ssl_def script_neq_option)
next
  case Unsecured
  then show ?thesis by (simp add: probe_command_def u16_to_string_def nat_to_dec_eval)
qed (simp_all add: probe_command_def kcat_client_auth_ssl_def kcat_client_ssl_def)

section \<open>The start script\<close>

definition krb5_login :: "string \<Rightarrow> string" where
  \<open>krb5_login directory =
     ''=com.sun.security.auth.module.Krb5LoginModule required useKeyTab=true storeKey=true isInitiator=false keyTab=''
       @ backslash @ ''"/stackable/kerberos/keytab'' @ backslash @ ''" principal=''
       @ backslash @ ''"kafka/'' @ node_address_cmd directory @ ''@$KERBEROS_REALM''
       @ backslash @ ''";"''\<close>

definition jaas_override :: "kafka_listener_name \<Rightarrow> string \<Rightarrow> string" where
  \<open>jaas_override n directory =
     '' --override "'' @ listener_property n ''gssapi.sasl.jaas.config'' @ krb5_login directory\<close>

lemma jaas_config_eq:
  "jaas_config kerberos_enabled =
     (if kerberos_enabled
      then jaas_override Client STACKABLE_LISTENER_BROKER_DIR @
           jaas_override Bootstrap STACKABLE_LISTENER_BOOTSTRAP_DIR
      else [])"
  by (simp add: jaas_config_def jaas_override_def krb5_login_def listener_property_eqs)

definition keytab_dir :: "kafka_listener_name \<Rightarrow> string" where
  "keytab_dir n =
     (if n = Bootstrap then STACKABLE_LISTENER_BOOTSTRAP_DIR else STACKABLE_LISTENER_BROKER_DIR)"

lemma jaas_config_has_override:
  assumes "n = Client \<or> n = Bootstrap"
  shows "\<exists>pre post. jaas_config True = pre @ jaas_override n (keytab_dir n) @ post"
proof -
  have "jaas_config True = [] @ jaas_override Client (keytab_dir Client) @
      jaas_override Bootstrap STACKABLE_LISTENER_BOOTSTRAP_DIR"
    by (simp add: jaas_config_eq keytab_dir_def)
  moreover have "jaas_config True = jaas_override Client STACKABLE_LISTENER_BROKER_DIR @
      jaas_override Bootstrap (keytab_dir Bootstrap) @ []"
    by (simp add: jaas_config_eq keytab_dir_def)
  ultimately show ?thesis using assms by blast
qed

text \<open>The script up to and after the server's own arguments.\<close>

lemma kafka_container_commands_split:
  "\<exists>pre post. kafka_container_commands bash c url k = [pre @ start_command c url k @ post]"
proof -
  have "kafka_container_commands bash c url k =
     [(COMMON_BASH_TRAP_FUNCTIONS bash @ newline
      @ remove_vector_shutdown_file_command bash STACKABLE_LOG_DIR @ newline
      @ ''prepare_signal_handlers'' @ newline
      @ ''containerdebug --output='' @ STACKABLE_LOG_DIR @ ''/containerdebug-state.json --loop &'' @ newline
      @ set_realm_env k @ newline)
      @ start_command c url k @ (newline
      @ ''wait_for_termination $!'' @ newline
      @ create_vector_shutdown_file_command bash STACKABLE_LOG_DIR @ newline)]"
    by (simp add: kafka_container_commands_def)
  then show ?thesis by blast
qed

lemma start_command_jaas:
  "\<exists>pre. start_command c url k = pre @ jaas_config k @ '' &''"
  unfolding start_command_def by (metis append_assoc)

lemma start_command_protocol_map:
  \<open>\<exists>pre post. start_command c url k =
     pre @ ''--override "listener.security.protocol.map='' @
     listener_security_protocol_map_value c @ ''"'' @ post\<close>
proof -
  have \<open>start_command c url k =
     (''bin/kafka-server-start.sh '' @ STACKABLE_CONFIG_DIR @ ''/'' @ SERVER_PROPERTIES_FILE
     @ '' --override "zookeeper.connect=$ZOOKEEPER" --override "listeners=''
     @ listeners_value c @ ''" --override "advertised.listeners=''
     @ advertised_listeners_value c @ ''" '') @ ''--override "listener.security.protocol.map=''
     @ listener_security_protocol_map_value c @ ''"'' @ (opa_config url @ jaas_config k @ '' &'')\<close>
    by (simp add: start_command_def)
  then show ?thesis by blast
qed

section \<open>Properties\<close>

text \<open>
  C32. Without Kerberos the readiness probe asks the listener clients use: with validated settings it
  runs \<open>kcat\<close> directly, on this host and the port of the first bound listener, and with the security
  protocol the protocol map assigns to that listener (none for PLAINTEXT, kcat's default). With
  Kerberos the same words are in the command, but they are not what runs.
\<close>

theorem probe_matches_client_listener:
  assumes "get_kafka_listener_config kafka sec obj cdom = Inr c" and "sec_valid sec"
    and "\<not> has_kerberos_enabled sec"
  shows "\<exists>n p pr. hd (concrete_listeners c) = (n, p, Some pr) \<and>
           take 3 (kcat_prober_container_commands sec fqdn) =
             [''/stackable/kcat'', ''-b'', ''localhost:'' @ p] \<and>
           last (kcat_prober_container_commands sec fqdn) = ''-L'' \<and>
           x_property ''security.protocol'' (kcat_prober_container_commands sec fqdn) =
             (if pr = Plaintext then None else Some (protocol_to_string pr))"
proof -
  obtain n p pr where a: "client_listener (client_mode sec) = (n, p, pr)"
    by (cases "client_listener (client_mode sec)")
  have mode: "client_mode sec \<noteq> Kerberized" using assms(3) client_mode_eqs(2) [OF assms(2)] by simp
  have "hd (concrete_listeners c) = (n, u16_to_string p, Some pr)"
    by (simp add: concrete_listeners_abstract [OF assms(1,2)] abstract_listeners_def a)
  moreover have "take 3 (probe_command (client_mode sec) fqdn) =
      [''/stackable/kcat'', ''-b'', ''localhost:'' @ u16_to_string p]"
    using a mode by (cases "client_mode sec") (simp_all add: client_listener_def probe_command_def)
  moreover have "x_property ''security.protocol'' (probe_command (client_mode sec) fqdn) =
      (if pr = Plaintext then None else Some (protocol_to_string pr))"
    using a by (cases "client_mode sec") (simp_all add: client_listener_def probe_protocol)
  ultimately show ?thesis
    by (simp add: kcat_prober_container_commands_mode [OF assms(2)]) (simp add: probe_command_def)
qed

theorem probe_matches_client_listener_witness:
  "take 3 (kcat_prober_container_commands (example_security [] ''tls'' (Some ''tls'')) ''x'') =
     [''/stackable/kcat'', ''-b'', ''localhost:9093'']"
proof -
  let ?sec = "example_security [] ''tls'' (Some ''tls'')"
  have valid: "sec_valid ?sec" and "\<not> has_kerberos_enabled ?sec"
    by (simp_all add: sec_valid_iff classes_valid_def example_security_defs)
  obtain c where c: "get_kafka_listener_config example_kafka ?sec
      ''simple-kafka-broker-default'' ''cluster.local'' = Inr c"
    using example_listener_config by blast
  have port: "u16_to_string 9093 = ''9093''" by (simp add: u16_to_string_def nat_to_dec_eval)
  have "client_mode ?sec = ServerTls" by (simp add: client_mode_def example_security_defs)
  with probe_matches_client_listener [OF c valid \<open>\<not> has_kerberos_enabled ?sec\<close>, of "''x''"] port
  show ?thesis
    by (auto simp: concrete_listeners_abstract [OF c valid] abstract_listeners_def client_listener_def)
qed

text \<open>
  C33. With Kerberos the probe does not run \<open>kcat\<close>: the script the shell executes (the argument
  of \<open>-c\<close>) is the assignment of the realm alone; \<open>kcat\<close> and its arguments follow as separate
  arguments of the shell, which are the script's positional parameters.
\<close>

theorem kerberos_probe_runs_assignment_only:
  assumes "sec_valid sec" and "has_kerberos_enabled sec"
  shows "arg_after ''-c'' (kcat_prober_container_commands sec fqdn) =
           Some (''export KERBEROS_REALM=$(grep -oP 'default_realm = '' @ backslash @
             ''K.*' /stackable/kerberos/krb5.conf);'') \<and>
         take 4 (kcat_prober_container_commands sec fqdn) =
           [''/bin/bash'', ''-x'', ''-euo'', ''pipefail''] \<and>
         kcat_prober_container_commands sec fqdn ! 6 = ''/stackable/kcat''"
  by (simp add: kerberized_probe [OF assms] probe_command_def probe_kerberos_script_def
      STACKABLE_KERBEROS_KRB5_PATH_def numeral_eq_Suc)

theorem kerberos_probe_runs_assignment_only_witness:
  "arg_after ''-c'' (kcat_prober_container_commands kerberos_security ''x'') \<noteq> None"
proof -
  have "has_kerberos_enabled kerberos_security" by (simp add: example_security_defs)
  from kerberos_probe_runs_assignment_only [OF example_kerberos_valid this, of "''x''"]
  show ?thesis by simp
qed

text \<open>
  C31. Every listener that authenticates by SASL is given its login configuration: when the
  protocol map assigns SASL_SSL to a listener, the server is started with an override of that
  listener's \<open>gssapi.sasl.jaas.config\<close>.
\<close>

theorem sasl_listeners_have_jaas:
  assumes "get_kafka_listener_config kafka sec obj cdom = Inr c" and "sec_valid sec"
    and "(n, SaslSsl) \<in> set (lc_security_protocol_map c)"
  shows "\<exists>pre post. kafka_container_commands bash c opa_url (has_kerberos_enabled sec) =
           [pre @ jaas_override n (keytab_dir n) @ post]"
proof -
  obtain p where p: "(n, p, SaslSsl) \<in> set (abstract_listeners sec)"
    using assms(3) by (auto simp: abstract_listener_protocols [OF assms(1,2)])
  then have mode: "client_mode sec = Kerberized" and n: "n = Client \<or> n = Bootstrap"
    by (cases "client_mode sec"; auto simp: abstract_listeners_def client_listener_def
        internal_listener_def bootstrap_listeners_def split: if_splits)+
  have "has_kerberos_enabled sec" using mode client_mode_eqs(2) [OF assms(2)] by simp
  moreover obtain q r where "jaas_config True = q @ jaas_override n (keytab_dir n) @ r"
    using jaas_config_has_override [OF n] by blast
  moreover obtain s where "start_command c opa_url True = s @ jaas_config True @ '' &''"
    using start_command_jaas by blast
  moreover obtain t u where
    "kafka_container_commands bash c opa_url True = [t @ start_command c opa_url True @ u]"
    using kafka_container_commands_split by blast
  ultimately have "kafka_container_commands bash c opa_url (has_kerberos_enabled sec) =
      [(t @ s @ q) @ jaas_override n (keytab_dir n) @ (r @ '' &'' @ u)]" by simp
  then show ?thesis by blast
qed

theorem sasl_listeners_have_jaas_witness:
  "\<exists>c. get_kafka_listener_config example_kafka kerberos_security
          ''simple-kafka-broker-default'' ''cluster.local'' = Inr c \<and>
       (\<exists>pre post. kafka_container_commands
          \<lparr>COMMON_BASH_TRAP_FUNCTIONS = ''true'', remove_vector_shutdown_file_command = (\<lambda>d. d),
           create_vector_shutdown_file_command = (\<lambda>d. d)\<rparr> c None (has_kerberos_enabled kerberos_security)
          = [pre @ jaas_override Bootstrap (keytab_dir Bootstrap) @ post])"
proof -
  obtain c where c: "get_kafka_listener_config example_kafka kerberos_security
      ''simple-kafka-broker-default'' ''cluster.local'' = Inr c"
    using example_listener_config by blast
  have "(Bootstrap, SaslSsl) \<in> set (lc_security_protocol_map c)"
    by (simp add: abstract_listener_protocols [OF c example_kerberos_valid]
        kerberos_abstract_listeners)
  from sasl_listeners_have_jaas [OF c example_kerberos_valid this] c show ?thesis by blast
qed

end
