(* ===== verification/Objects.thy ===== *)
theory Objects
  imports ControllerError Commands
begin

text \<open>
  The bootstrap listener, the config map and the service of a role group, and the ports they
  expose: \<open>rust/operator-binary/src/kafka_controller.rs\<close>. The library functions the controller's
  builders call are the fields of \<open>operator_lib\<close>.
\<close>

section \<open>Library functions\<close>

datatype property_name_kind = File string | Env | Cli

type_synonym role_group_config = "(property_name_kind \<times> (string, string) btree_map) list"

record 'e operator_lib =
  op_crd :: "'e crd_lib"
  op_meta :: "'e meta_lib"
  op_pod :: "'e pod_lib"
  op_logging :: logging_lib
  op_memory :: "'e memory_lib"
  op_bash :: bash_lib
  op_pdb :: "'e pdb_lib"
  to_java_properties_string :: "(string \<times> string option) list \<Rightarrow> 'e + string"
  config_map_build_error :: "config_map_builder \<Rightarrow> 'e option"
  listener_pvc_error :: "string \<Rightarrow> labels \<Rightarrow> string \<Rightarrow> 'e option"
  calculate_log_volume_size_limit :: "memory_quantity list \<Rightarrow> json"
  vector_container :: "resolved_product_image \<Rightarrow> string \<Rightarrow> string \<Rightarrow> container_log_config option \<Rightarrow>
    resource_requirements \<Rightarrow> 'e + built_container"
  cluster_domain :: string

section \<open>Ports\<close>

definition listener_ports :: "kafka_tls_security \<Rightarrow> listener_port list" where
  "listener_ports sec =
     (let ports =
            [\<lparr>lp_name = METRICS_PORT_NAME, lp_port = u16_into_i32 METRICS_PORT,
              lp_protocol = Some ''TCP''\<rparr>,
             \<lparr>lp_name = client_port_name sec, lp_port = u16_into_i32 (client_port sec),
              lp_protocol = Some ''TCP''\<rparr>]
      in if has_kerberos_enabled sec then
           ports @ [\<lparr>lp_name = bootstrap_port_name sec, lp_port = u16_into_i32 (bootstrap_port sec),
                     lp_protocol = Some ''TCP''\<rparr>]
         else ports)"

definition container_ports :: "kafka_tls_security \<Rightarrow> container_port list" where
  "container_ports sec =
     (let ports =
            [\<lparr>cp_name = Some METRICS_PORT_NAME, cp_container_port = u16_into_i32 METRICS_PORT,
              cp_protocol = Some ''TCP''\<rparr>,
             \<lparr>cp_name = Some (client_port_name sec),
              cp_container_port = u16_into_i32 (client_port sec), cp_protocol = Some ''TCP''\<rparr>]
      in if has_kerberos_enabled sec then
           ports @ [\<lparr>cp_name = Some (bootstrap_port_name sec),
                     cp_container_port = u16_into_i32 (bootstrap_port sec),
                     cp_protocol = Some ''TCP''\<rparr>]
         else ports)"

section \<open>Bootstrap listener\<close>

definition rolegroup_labels ::
  "kafka_cluster \<Rightarrow> resolved_product_image \<Rightarrow> role_group_ref \<Rightarrow> object_labels" where
  "rolegroup_labels kafka img rolegroup =
     build_recommended_labels kafka KAFKA_CONTROLLER_NAME (app_version_label img)
       (rgr_role rolegroup) (rgr_role_group rolegroup)"

definition build_broker_rolegroup_bootstrap_listener ::
  "'e operator_lib \<Rightarrow> kafka_cluster \<Rightarrow> resolved_product_image \<Rightarrow> kafka_tls_security \<Rightarrow>
     role_group_ref \<Rightarrow> kafka_config \<Rightarrow> 'e controller_error + listener_object" where
  "build_broker_rolegroup_bootstrap_listener lib kafka img sec rolegroup config =
     and_then
       (owned_metadata (op_meta lib) ObjectMissingMetadataForOwnerRef MetadataBuild kafka
         (metadata kafka) (bootstrap_service_name (op_crd lib) rolegroup)
         (rolegroup_labels kafka img rolegroup))
       (\<lambda>meta. Inr \<lparr>
          lo_metadata = meta,
          lo_class_name = Some (kc_bootstrap_listener_class config),
          lo_ports = Some (listener_ports sec),
          lo_status = None\<rparr>)"

section \<open>Config map\<close>

definition file_config :: "role_group_config \<Rightarrow> string \<Rightarrow> (string, string) btree_map" where
  "file_config broker_config file =
     (case map_of broker_config (File file) of None \<Rightarrow> [] | Some m \<Rightarrow> m)"

definition with_some_values :: "(string, string) btree_map \<Rightarrow> (string \<times> string option) list" where
  "with_some_values m = map (\<lambda>(k, v). (k, Some v)) m"

definition server_properties ::
  "kafka_tls_security \<Rightarrow> role_group_config \<Rightarrow> (string, string) btree_map" where
  "server_properties sec broker_config =
     (let server_cfg = file_config broker_config SERVER_PROPERTIES_FILE;
          server_cfg = bt_extend server_cfg (config_settings sec)
      in bt_extend server_cfg graceful_shutdown_config_properties)"

definition build_broker_rolegroup_config_map ::
  "'e operator_lib \<Rightarrow> kafka_cluster \<Rightarrow> resolved_product_image \<Rightarrow> kafka_tls_security \<Rightarrow>
     role_group_ref \<Rightarrow> role_group_config \<Rightarrow> kafka_config \<Rightarrow> string option \<Rightarrow>
     'e controller_error + config_map_builder" where
  "build_broker_rolegroup_config_map lib kafka img sec rolegroup broker_config config address =
     (let server_cfg = with_some_values (server_properties sec broker_config);
          jvm_sec_props = bt_extend []
            (with_some_values (file_config broker_config JVM_SECURITY_PROPERTIES_FILE))
      in and_then
           (owned_metadata (op_meta lib) ObjectMissingMetadataForOwnerRef MetadataBuild kafka
             (metadata kafka) (lib_object_name (op_crd lib) rolegroup)
             (rolegroup_labels kafka img rolegroup))
         (\<lambda>meta. and_then
           (with_context (\<lambda>e. SerializeZooCfg e rolegroup) (to_java_properties_string lib server_cfg))
         (\<lambda>server_text. and_then
           (with_context (\<lambda>e. JvmSecurityPoperties e (rgr_role_group rolegroup))
             (to_java_properties_string lib jvm_sec_props))
         (\<lambda>jvm_text. and_then
           (with_context (\<lambda>e. InvalidLoggingConfig e (lib_object_name (op_crd lib) rolegroup))
             (extend_role_group_config_map (op_logging lib) (op_memory lib) rolegroup address
               (kc_logging config)
               [CmMetadata meta, CmAddData SERVER_PROPERTIES_FILE server_text,
                CmAddData JVM_SECURITY_PROPERTIES_FILE jvm_text]))
         (\<lambda>cm_builder. with_context (\<lambda>e. BuildRoleGroupConfig e rolegroup)
           (unless_error (config_map_build_error lib cm_builder) cm_builder))))))"

section \<open>Service\<close>

definition build_broker_rolegroup_service ::
  "'e operator_lib \<Rightarrow> kafka_cluster \<Rightarrow> resolved_product_image \<Rightarrow> role_group_ref \<Rightarrow>
     'e controller_error + service" where
  "build_broker_rolegroup_service lib kafka img rolegroup =
     and_then
       (owned_metadata (op_meta lib) ObjectMissingMetadataForOwnerRef MetadataBuild kafka
         (metadata kafka) (lib_object_name (op_crd lib) rolegroup)
         (rolegroup_labels kafka img rolegroup))
       (\<lambda>meta. and_then
         (with_context LabelBuild
           (unless_error (label_try_from_error (op_meta lib) ''prometheus.io/scrape'' ''true'')
             (meta @ [MetaLabel ''prometheus.io/scrape'' ''true''])))
       (\<lambda>meta. and_then
         (with_context LabelBuild
           (labels_role_group_selector (op_meta lib) (metadata kafka) APP_NAME
             (rgr_role rolegroup) (rgr_role_group rolegroup)))
       (\<lambda>selector. Inr \<lparr>
          svc_metadata = meta,
          svc_cluster_ip = Some ''None'',
          svc_selector = Some selector,
          svc_publish_not_ready_addresses = Some True\<rparr>)))"

section \<open>Facts\<close>

lemma build_bootstrap_listener_eq_Inr:
  "build_broker_rolegroup_bootstrap_listener lib kafka img sec rg config = Inr l \<longleftrightarrow>
     ownerreference_error (op_meta lib) (metadata kafka) = None \<and>
     recommended_labels_error (op_meta lib) (rolegroup_labels kafka img rg) = None \<and>
     l = \<lparr>lo_metadata = [MetaNameAndNamespace (metadata kafka),
            MetaName (bootstrap_service_name (op_crd lib) rg),
            MetaOwnerReference (metadata kafka) None (Some True),
            MetaRecommendedLabels (rolegroup_labels kafka img rg)],
          lo_class_name = Some (kc_bootstrap_listener_class config),
          lo_ports = Some (listener_ports sec), lo_status = None\<rparr>"
  by (auto simp: build_broker_rolegroup_bootstrap_listener_def result_simps)

lemma build_service_eq_Inr:
  "build_broker_rolegroup_service lib kafka img rg = Inr s \<longleftrightarrow>
     ownerreference_error (op_meta lib) (metadata kafka) = None \<and>
     recommended_labels_error (op_meta lib) (rolegroup_labels kafka img rg) = None \<and>
     label_try_from_error (op_meta lib) ''prometheus.io/scrape'' ''true'' = None \<and>
     (\<exists>selector.
       labels_role_group_selector (op_meta lib) (metadata kafka) ''kafka'' (rgr_role rg)
         (rgr_role_group rg) = Inr selector \<and>
       s = \<lparr>svc_metadata = [MetaNameAndNamespace (metadata kafka),
              MetaName (lib_object_name (op_crd lib) rg),
              MetaOwnerReference (metadata kafka) None (Some True),
              MetaRecommendedLabels (rolegroup_labels kafka img rg),
              MetaLabel ''prometheus.io/scrape'' ''true''],
            svc_cluster_ip = Some ''None'', svc_selector = Some selector,
            svc_publish_not_ready_addresses = Some True\<rparr>)"
  by (auto simp: build_broker_rolegroup_service_def APP_NAME_def result_simps)

lemma build_config_map_eq_Inr:
  fixes lib :: "'e operator_lib"
  assumes "build_broker_rolegroup_config_map lib kafka img sec rg bc config address = Inr cm"
  obtains server_text jvm_text where
    "ownerreference_error (op_meta lib) (metadata kafka) = None"
    "to_java_properties_string lib (with_some_values (server_properties sec bc)) = Inr server_text"
    "(extend_role_group_config_map (op_logging lib) (op_memory lib) rg address (kc_logging config)
       [CmMetadata [MetaNameAndNamespace (metadata kafka),
          MetaName (lib_object_name (op_crd lib) rg),
          MetaOwnerReference (metadata kafka) None (Some True),
          MetaRecommendedLabels (rolegroup_labels kafka img rg)],
        CmAddData SERVER_PROPERTIES_FILE server_text,
        CmAddData JVM_SECURITY_PROPERTIES_FILE jvm_text] :: 'e logging_error + _) = Inr cm"
  using assms by (auto simp: build_broker_rolegroup_config_map_def Let_def result_simps)

text \<open>The three builders keep the contract of owned objects.\<close>

interpretation bootstrap_listener_object: owned_object
  "\<lambda>(kafka, img, sec, rg, config).
     build_broker_rolegroup_bootstrap_listener lib kafka img sec rg config"
  lo_metadata fst "\<lambda>(kafka, img, sec, rg, config). bootstrap_service_name (op_crd lib) rg"
  "\<lambda>(kafka, img, sec, rg, config). rolegroup_labels kafka img rg"
  by unfold_locales (auto simp: build_bootstrap_listener_eq_Inr split: prod.splits)

interpretation service_object: owned_object
  "\<lambda>(kafka, img, rg). build_broker_rolegroup_service lib kafka img rg"
  svc_metadata fst "\<lambda>(kafka, img, rg). lib_object_name (op_crd lib) rg"
  "\<lambda>(kafka, img, rg). rolegroup_labels kafka img rg"
  by unfold_locales (auto simp: build_service_eq_Inr split: prod.splits)

lemma config_map_metadata:
  assumes "build_broker_rolegroup_config_map lib kafka img sec rg bc config address = Inr cm"
  shows "cm_metadata cm = [MetaNameAndNamespace (metadata kafka),
          MetaName (lib_object_name (op_crd lib) rg),
          MetaOwnerReference (metadata kafka) None (Some True),
          MetaRecommendedLabels (rolegroup_labels kafka img rg)]"
  by (rule build_config_map_eq_Inr [OF assms])
    (simp add: extend_role_group_config_map_keeps(1))

interpretation config_map_object: owned_object
  "\<lambda>(kafka, img, sec, rg, bc, config, address).
     build_broker_rolegroup_config_map lib kafka img sec rg bc config address"
  cm_metadata fst "\<lambda>(kafka, img, sec, rg, bc, config, address). lib_object_name (op_crd lib) rg"
  "\<lambda>(kafka, img, sec, rg, bc, config, address). rolegroup_labels kafka img rg"
  by unfold_locales (auto simp: config_map_metadata split: prod.splits)

subsection \<open>Server properties\<close>

lemma config_settings_extend:
  "bt_get (bt_extend m (config_settings sec)) k =
     (case bt_get (config_settings sec) k of Some v \<Rightarrow> Some v | None \<Rightarrow> bt_get m k)"
proof -
  have "distinct (map fst (config_settings sec))"
    by (rule bt.entries_distinct [OF config_settings_wf])
  then have "map_of (rev (config_settings sec)) = map_of (config_settings sec)"
    by (simp add: map_of_inject_set rev_map [symmetric])
  then show ?thesis unfolding bt_get_extend by (simp add: bt_get_def)
qed

lemma server_properties_get:
  "bt_get (server_properties sec bc) k =
     (if k = ''controlled.shutdown.enable'' then Some ''true''
      else case bt_get (config_settings sec) k of
             Some v \<Rightarrow> Some v
           | None \<Rightarrow> bt_get (file_config bc ''server.properties'') k)"
  by (auto simp: server_properties_def Let_def graceful_shutdown_config_properties_def
      bt_extend_insert [symmetric] bt_get_insert config_settings_extend SERVER_PROPERTIES_FILE_def
      simp flip: bt_extend_insert)

lemma server_properties_wf:
  "bt_wf (file_config bc ''server.properties'') \<Longrightarrow> bt_wf (server_properties sec bc)"
  by (simp add: server_properties_def Let_def SERVER_PROPERTIES_FILE_def bt.wf_extend)

lemma map_of_with_some_values:
  "map_of (with_some_values m) k = map_option Some (bt_get m k)"
  by (induction m) (auto simp: with_some_values_def bt_get_def)

section \<open>Exposed ports\<close>

lemma container_ports_as_listener_ports:
  "map (\<lambda>p. (cp_name p, cp_container_port p, cp_protocol p)) (container_ports sec) =
   map (\<lambda>p. (Some (lp_name p), lp_port p, lp_protocol p)) (listener_ports sec)"
  by (simp add: container_ports_def listener_ports_def Let_def)

definition i32_to_dec :: "32 word \<Rightarrow> string" where
  "i32_to_dec p = nat_to_dec (nat (sint p))"

lemma i32_to_dec_into [simp]: "i32_to_dec (u16_into_i32 p) = u16_to_string p"
  by (simp add: i32_to_dec_def sint_u16_into_i32 u16_to_string_def)

lemma exposed_ports_bound:
  assumes "get_kafka_listener_config kafka sec obj cdom = Inr c" and "sec_valid sec"
  shows "map (\<lambda>p. i32_to_dec (cp_container_port p)) (tl (container_ports sec)) =
         map listener_port (filter (\<lambda>l. listener_name l \<noteq> Internal) (lc_listeners c))"
proof -
  obtain fqdn where c: "c = listener_layout sec fqdn"
    using get_kafka_listener_config_Inr [OF assms(1)] by blast
  show ?thesis
    using client_mode_eqs [OF assms(2)]
    by (cases "client_mode sec"; cases "internal_encrypted sec")
      (simp_all add: c container_ports_def listener_layout_def Let_def client_port_def
        bootstrap_port_def)
qed

lemma listener_port_names:
  "map lp_name (listener_ports sec) =
     [''metrics'', client_port_name sec] @ (if has_kerberos_enabled sec then [''bootstrap''] else [])"
  by (simp add: listener_ports_def Let_def METRICS_PORT_NAME_def bootstrap_port_name_def
      BOOTSTRAP_PORT_NAME_def)

lemma discovery_port_exposed: "discovery_port_name sec \<in> lp_name ` set (listener_ports sec)"
  using arg_cong [OF listener_port_names [of sec], of set]
  by (auto simp: discovery_port_name_def bootstrap_port_name_def BOOTSTRAP_PORT_NAME_def)

section \<open>Properties\<close>

text \<open>
  C20. The exposed ports are the bound ones: the container ports are the ports of the bootstrap
  listener object, one by one; the first is the metrics port and the others are, in order, the
  ports the broker binds for its listeners except the internal one; no two have the same name.
\<close>

theorem exposed_ports_match_listeners:
  assumes "get_kafka_listener_config kafka sec obj cdom = Inr c" and "sec_valid sec"
  shows "map (\<lambda>p. (cp_name p, cp_container_port p, cp_protocol p)) (container_ports sec) =
           map (\<lambda>p. (Some (lp_name p), lp_port p, lp_protocol p)) (listener_ports sec) \<and>
         sint (cp_container_port (hd (container_ports sec))) = 9606 \<and>
         map (\<lambda>p. i32_to_dec (cp_container_port p)) (tl (container_ports sec)) =
           map listener_port (filter (\<lambda>l. listener_name l \<noteq> Internal) (lc_listeners c)) \<and>
         distinct (map lp_name (listener_ports sec))"
proof -
  have "sint (cp_container_port (hd (container_ports sec))) = 9606"
    by (simp add: container_ports_def Let_def sint_u16_into_i32 METRICS_PORT_def)
  moreover have "distinct (map lp_name (listener_ports sec))"
    by (simp add: listener_port_names client_port_name_def SECURE_CLIENT_PORT_NAME_def
        CLIENT_PORT_NAME_def)
  ultimately show ?thesis
    using container_ports_as_listener_ports exposed_ports_bound [OF assms] by blast
qed

theorem exposed_ports_match_listeners_witness:
  "map (\<lambda>p. i32_to_dec (cp_container_port p)) (tl (container_ports kerberos_security)) =
     [''9093'', ''9095'']"
proof -
  obtain c where c: "get_kafka_listener_config example_kafka kerberos_security
      ''simple-kafka-broker-default'' ''cluster.local'' = Inr c"
    using example_listener_config by blast
  have "map listener_name (lc_listeners c) = [Client, Internal, Bootstrap]"
    "map listener_port (lc_listeners c) = [''9093'', ''19093'', ''9095'']"
    by (simp_all add: abstract_listener_names [OF c example_kerberos_valid]
        get_kafka_listener_config_ports [OF c example_kerberos_valid] kerberos_abstract_listeners
        u16_to_string_def nat_to_dec_eval)
  then have "map listener_port (filter (\<lambda>l. listener_name l \<noteq> Internal) (lc_listeners c)) =
      [''9093'', ''9095'']"
    by (auto simp: map_eq_Cons_conv)
  with exposed_ports_match_listeners [OF c example_kerberos_valid] show ?thesis by simp
qed

text \<open>
  C30. Discovery finds its port: when the listener operator publishes, for every address, a 16-bit
  port under each port name of the listener object it was given, collecting the hosts succeeds,
  with one host per address.
\<close>

theorem discovery_port_published:
  assumes "\<forall>a\<in>set (ingress_addresses ls). \<forall>p\<in>set (listener_ports sec).
             \<exists>q. bt_get (ingress_ports a) (lp_name p) = Some (u16_into_i32 q)"
  shows "\<exists>hs. listener_hosts ls (discovery_port_name sec) = Inr hs \<and>
           map fst hs = map ingress_address (ingress_addresses ls)"
proof -
  have "\<exists>q. bt_get (ingress_ports a) (discovery_port_name sec) = Some (u16_into_i32 q)"
    if "a \<in> set (ingress_addresses ls)" for a
    using assms that discovery_port_exposed [of sec] by fastforce
  then obtain f where f: "\<And>a. a \<in> set (ingress_addresses ls) \<Longrightarrow>
      bt_get (ingress_ports a) (discovery_port_name sec) = Some (u16_into_i32 (f a))"
    by metis
  let ?hs = "map (\<lambda>a. (ingress_address a, f a)) (ingress_addresses ls)"
  have "map (ingress_host (discovery_port_name sec)) (ingress_addresses ls) = map Inr ?hs"
    by (simp add: ingress_host_def f)
  then have "listener_hosts ls (discovery_port_name sec) = Inr ?hs"
    unfolding listener_hosts_def collect_results_eq_Inr .
  then show ?thesis by (intro exI [of _ ?hs]) (simp add: comp_def)
qed

text \<open>
  C21. What the operator sets wins over what the user overrides: in the generated server properties
  the security settings take precedence over the product configuration (which includes the
  user's overrides), graceful shutdown over both, and other keys keep the configured value. The
  config map's \<open>server.properties\<close> is the serialization of exactly this map.
\<close>

theorem server_properties_precedence:
  assumes "build_broker_rolegroup_config_map lib kafka img sec rg bc config address = Inr cm"
    and "VECTOR_CONFIG_FILE (op_logging lib) \<notin> {''server.properties'', ''security.properties''}"
  shows "\<exists>props text. cm_data cm ''server.properties'' = Some text \<and>
           to_java_properties_string lib props = Inr text \<and>
           (\<forall>k. map_of props k = map_option Some
              (if k = ''controlled.shutdown.enable'' then Some ''true''
               else case bt_get (config_settings sec) k of
                      Some v \<Rightarrow> Some v
                    | None \<Rightarrow> bt_get (file_config bc ''server.properties'') k))"
proof -
  obtain server_text jvm_text where
    ser: "to_java_properties_string lib (with_some_values (server_properties sec bc)) = Inr server_text"
    and ext: "(extend_role_group_config_map (op_logging lib) (op_memory lib) rg address
       (kc_logging config)
       [CmMetadata [MetaNameAndNamespace (metadata kafka),
          MetaName (lib_object_name (op_crd lib) rg),
          MetaOwnerReference (metadata kafka) None (Some True),
          MetaRecommendedLabels (rolegroup_labels kafka img rg)],
        CmAddData SERVER_PROPERTIES_FILE server_text,
        CmAddData JVM_SECURITY_PROPERTIES_FILE jvm_text] :: 'a logging_error + _) = Inr cm"
    by (rule build_config_map_eq_Inr [OF assms(1)])
  have "cm_data cm ''server.properties'' = Some server_text"
    using extend_role_group_config_map_keeps(2) [OF ext, of "''server.properties''"] assms(2)
    by (auto simp: SERVER_PROPERTIES_FILE_def JVM_SECURITY_PROPERTIES_FILE_def)
  with ser show ?thesis
    by (intro exI [of _ "with_some_values (server_properties sec bc)"])
      (simp add: map_of_with_some_values server_properties_get)
qed

section \<open>Witnesses\<close>

definition print_properties :: "(string \<times> string option) list \<Rightarrow> string" where
  "print_properties ps =
     join newline (map (\<lambda>(k, v). k @ ''='' @ (case v of None \<Rightarrow> [] | Some x \<Rightarrow> x)) ps)"

definition example_operator_lib :: "string operator_lib" where
  "example_operator_lib = \<lparr>
     op_crd = example_lib,
     op_meta = example_meta_lib,
     op_pod = collision_lib,
     op_logging = example_logging_lib,
     op_memory = example_memory_lib,
     op_bash = \<lparr>COMMON_BASH_TRAP_FUNCTIONS = ''true'',
       remove_vector_shutdown_file_command = (\<lambda>d. ''rm -f '' @ d),
       create_vector_shutdown_file_command = (\<lambda>d. ''touch '' @ d)\<rparr>,
     op_pdb = \<lparr>pdb_new_error = (\<lambda>m a r p c. None), pdb_name_any = pdb_role\<rparr>,
     to_java_properties_string = (\<lambda>ps. Inr (print_properties ps)),
     config_map_build_error = (\<lambda>b. None),
     listener_pvc_error = (\<lambda>l ls n. None),
     calculate_log_volume_size_limit = (\<lambda>qs. ''30Mi''),
     vector_container = (\<lambda>img c l cfg r. Inr (VectorContainer ''{}'')),
     cluster_domain = ''cluster.local''\<rparr>"

lemma example_operator_lib_sel [simp]:
  "op_crd example_operator_lib = example_lib"
  "op_meta example_operator_lib = example_meta_lib"
  "op_pod example_operator_lib = collision_lib"
  "op_logging example_operator_lib = example_logging_lib"
  "op_memory example_operator_lib = example_memory_lib"
  "op_pdb example_operator_lib = \<lparr>pdb_new_error = (\<lambda>m a r p c. None), pdb_name_any = pdb_role\<rparr>"
  "to_java_properties_string example_operator_lib ps = Inr (print_properties ps)"
  "config_map_build_error example_operator_lib b = None"
  "listener_pvc_error example_operator_lib l ls n = None"
  "calculate_log_volume_size_limit example_operator_lib qs = ''30Mi''"
  "vector_container example_operator_lib img c v cfg r = Inr (VectorContainer ''{}'')"
  "cluster_domain example_operator_lib = ''cluster.local''"
  by (simp_all add: example_operator_lib_def)

lemma example_meta_lib_ok:
  "ownerreference_error example_meta_lib (metadata example_kafka) = None"
  "recommended_labels_error example_meta_lib l = None"
  "label_try_from_error example_meta_lib k v = None"
  "labels_recommended example_meta_lib l = Inr ''labels''"
  "labels_role_group_selector example_meta_lib m a r g = Inr ''selector''"
  by (simp_all add: example_meta_lib_def example_kafka_def)

definition example_config :: kafka_config where
  "example_config = \<lparr>
     kc_logging = \<lparr>enable_vector_agent = False, log_containers = []\<rparr>,
     kc_resources = \<lparr>res_cpu_min = Some ''250m'', res_cpu_max = Some ''1000m'',
       res_memory_limit = Some ''1Gi'',
       res_storage = \<lparr>st_log_dirs = \<lparr>pvc_capacity = Some ''2Gi'', pvc_storage_class = None,
         pvc_selectors = None\<rparr>\<rparr>\<rparr>,
     kc_affinity = ''{}'',
     kc_graceful_shutdown_timeout = Some 1800,
     kc_bootstrap_listener_class = ''cluster-internal'',
     kc_broker_listener_class = ''cluster-internal'',
     kc_requested_secret_lifetime = Some 86400\<rparr>"

definition example_role_group_config :: role_group_config where
  "example_role_group_config =
     [(File ''server.properties'', [(''inter.broker.listener.name'', ''CLIENT''), (''log.dirs'', ''/stackable/data'')])]"

lemma example_config_map:
  "\<exists>cm. build_broker_rolegroup_config_map example_operator_lib example_kafka example_image sec
     (broker_rolegroup_ref example_kafka g) bc example_config address = Inr cm"
  by (auto simp: build_broker_rolegroup_config_map_def Let_def example_meta_lib_ok result_simps
      extend_role_group_config_map_def example_config_def automatic_log_config_def)

theorem server_properties_precedence_witness:
  "\<exists>cm props. build_broker_rolegroup_config_map example_operator_lib example_kafka example_image
       kerberos_security (broker_rolegroup_ref example_kafka ''blue'') example_role_group_config
       example_config None = Inr cm \<and>
     cm_data cm ''server.properties'' = Some (print_properties props) \<and>
     map_of props ''inter.broker.listener.name'' = Some (Some ''INTERNAL'') \<and>
     map_of props ''log.dirs'' = Some (Some ''/stackable/data'')"
proof -
  obtain cm where cm: "build_broker_rolegroup_config_map example_operator_lib example_kafka
      example_image kerberos_security (broker_rolegroup_ref example_kafka ''blue'')
      example_role_group_config example_config None = Inr cm"
    using example_config_map by blast
  have v: "VECTOR_CONFIG_FILE (op_logging example_operator_lib) \<notin>
      {''server.properties'', ''security.properties''}" by (simp add: example_logging_lib_def)
  obtain props where p: "cm_data cm ''server.properties'' = Some (print_properties props)"
    and get: "\<And>k. map_of props k = map_option Some
        (if k = ''controlled.shutdown.enable'' then Some ''true''
         else case bt_get (config_settings kerberos_security) k of
                Some v \<Rightarrow> Some v
              | None \<Rightarrow> bt_get (file_config example_role_group_config ''server.properties'') k)"
    using server_properties_precedence [OF cm v] by auto
  have "map_of props ''inter.broker.listener.name'' = Some (Some ''INTERNAL'')"
    by (simp add: get config_settings_sasl)
  moreover have "bt_get (config_settings kerberos_security) ''log.dirs'' = None"
    by (subst config_settings_other) (simp_all add: listener_property_def sasl_block_def)
  then have "map_of props ''log.dirs'' = Some (Some ''/stackable/data'')"
    by (simp add: get file_config_def example_role_group_config_def bt_get_def)
  ultimately show ?thesis using cm p by blast
qed

definition example_tls_listener :: listener_object where
  "example_tls_listener = \<lparr>lo_metadata = [], lo_class_name = None, lo_ports = None,
     lo_status = Some \<lparr>ls_ingress_addresses = Some
       [\<lparr>ingress_address = ''10.0.0.1'',
         ingress_ports = [(''bootstrap'', u16_into_i32 9095), (''kafka-tls'', u16_into_i32 9093),
           (''metrics'', u16_into_i32 9606)]\<rparr>]\<rparr>\<rparr>"

theorem discovery_port_published_witness:
  "\<exists>hs. listener_hosts [example_tls_listener] (discovery_port_name kerberos_security) = Inr hs \<and>
     map fst hs = [''10.0.0.1'']"
proof -
  have addr: "ingress_addresses [example_tls_listener] = [\<lparr>ingress_address = ''10.0.0.1'',
      ingress_ports = [(''bootstrap'', u16_into_i32 9095), (''kafka-tls'', u16_into_i32 9093),
           (''metrics'', u16_into_i32 9606)]\<rparr>]"
    by (simp add: ingress_addresses_def example_tls_listener_def)
  have tls: "client_port_name kerberos_security = ''kafka-tls''" "has_kerberos_enabled kerberos_security"
    by (simp_all add: client_port_name_def tls_enabled_def SECURE_CLIENT_PORT_NAME_def
        example_security_defs)
  have "lp_name p \<in> {''metrics'', ''kafka-tls'', ''bootstrap''}"
    if "p \<in> set (listener_ports kerberos_security)" for p
    using that listener_port_names [of kerberos_security] tls
      arg_cong [OF listener_port_names [of kerberos_security], of set] by force
  then have "\<forall>a\<in>set (ingress_addresses [example_tls_listener]).
      \<forall>p\<in>set (listener_ports kerberos_security).
        \<exists>q. bt_get (ingress_ports a) (lp_name p) = Some (u16_into_i32 q)"
    by (fastforce simp: addr bt_get_def)
  from discovery_port_published [OF this] addr show ?thesis by simp
qed

end
