(* ===== verification/StatefulSet.thy ===== *)
theory StatefulSet
  imports Objects
begin

text \<open>
  The stateful set of a role group: \<open>build_broker_rolegroup_statefulset\<close> of
  \<open>rust/operator-binary/src/kafka_controller.rs\<close>, in the stages of the code: the environment of the
  broker, its container, the prober container, the pod and the stateful set itself.
\<close>

section \<open>Environment\<close>

definition KAFKA_UID :: int where "KAFKA_UID = 1000"

text \<open>The ratio 0.8 as the 32-bit floating point number nearest to it.\<close>

definition JAVA_HEAP_RATIO :: rat where "JAVA_HEAP_RATIO = 13421773 / 16777216"

definition env_literal :: "string \<Rightarrow> string \<Rightarrow> env_var" where
  "env_literal name v = \<lparr>env_name = name, env_value = Some v, env_value_from = None\<rparr>"

definition env_pod_name :: env_var where
  "env_pod_name = \<lparr>env_name = ''POD_NAME'', env_value = None,
     env_value_from = Some (FieldRef ''v1'' ''metadata.name'')\<rparr>"

definition heap_env :: "'e memory_lib \<Rightarrow> kafka_config \<Rightarrow> 'e controller_error + env_var list" where
  "heap_env mem config =
     (case res_memory_limit (kc_resources config) of
        None \<Rightarrow> Inr []
      | Some limit \<Rightarrow>
          and_then (with_context InvalidHeapConfig (mem_try_from mem limit)) (\<lambda>q.
            let heap_size = mem_mul mem (mem_scale_to mem q Mebi) JAVA_HEAP_RATIO
            in and_then (with_context InvalidHeapConfig (mem_format_for_java mem heap_size)) (\<lambda>heap.
                 Inr [env_literal KAFKA_HEAP_OPTS (''-Xmx'' @ heap)])))"

definition broker_env ::
  "'e memory_lib \<Rightarrow> kafka_cluster \<Rightarrow> role_group_config \<Rightarrow> kafka_config \<Rightarrow>
     'e controller_error + env_var list" where
  "broker_env mem kafka broker_config config =
     (let env = map (\<lambda>(k, v). env_literal k v)
            (case map_of broker_config Env of None \<Rightarrow> [] | Some m \<Rightarrow> m)
      in and_then (heap_env mem config) (\<lambda>heap.
           Inr (env @ heap @
             [\<lparr>env_name = ''ZOOKEEPER'', env_value = None,
               env_value_from = Some (ConfigMapKeyRef
                 (cc_zookeeper_config_map_name (spec_cluster_config (spec kafka))) ''ZOOKEEPER'')\<rparr>,
              env_pod_name,
              env_literal ''CONTAINERDEBUG_LOG_DIRECTORY'' (STACKABLE_LOG_DIR @ ''/containerdebug'')])))"

section \<open>Containers\<close>

definition jvm_args :: string where
  "jvm_args =
     ''-Djava.security.properties='' @ STACKABLE_CONFIG_DIR @ ''/'' @ JVM_SECURITY_PROPERTIES_FILE
     @ '' -javaagent:/stackable/jmx/jmx_prometheus_javaagent.jar='' @ u16_to_string METRICS_PORT
     @ '':/stackable/jmx/broker.yaml''"

text \<open>A run of \<open>add_volume_mount(..).context(AddVolumeMountSnafu)?\<close>.\<close>

fun add_volume_mounts ::
  "'e pod_lib \<Rightarrow> (string \<times> string) list \<Rightarrow> container_builder \<Rightarrow>
     'e controller_error + container_builder" where
  "add_volume_mounts lib [] cb = Inr cb"
| "add_volume_mounts lib ((name, path) # ms) cb =
     and_then (with_context AddVolumeMount (add_volume_mount lib name path cb))
       (add_volume_mounts lib ms)"

definition build_kafka_container ::
  "'e operator_lib \<Rightarrow> resolved_product_image \<Rightarrow> kafka_tls_security \<Rightarrow> kafka_listener_config \<Rightarrow>
     string option \<Rightarrow> env_var list \<Rightarrow> kafka_config \<Rightarrow> container_builder \<Rightarrow>
     'e controller_error + container_builder" where
  "build_kafka_container lib img sec kafka_listeners opa_connect_string env config cb_kafka =
     (let cb = cb_call (CbImage img) cb_kafka;
          cb = cb_call (CbCommand [''/bin/bash'', ''-x'', ''-euo'', ''pipefail'', ''-c'']) cb;
          cb = cb_call (CbArgs [join newline
                 (kafka_container_commands (op_bash lib) kafka_listeners opa_connect_string
                   (has_kerberos_enabled sec))]) cb;
          cb = cb_call (CbAddEnvVar ''EXTRA_ARGS'' jvm_args) cb;
          cb = cb_call (CbAddEnvVar ''KAFKA_LOG4J_OPTS''
                 (''-Dlog4j.configuration=file:'' @ STACKABLE_LOG_CONFIG_DIR @ ''/'' @ LOG4J_CONFIG_FILE)) cb;
          cb = cb_call (CbAddEnvVars env) cb;
          cb = cb_call (CbAddContainerPorts (container_ports sec)) cb
      in and_then
           (add_volume_mounts (op_pod lib)
             [(LOG_DIRS_VOLUME_NAME, STACKABLE_DATA_DIR),
              (''config'', STACKABLE_CONFIG_DIR),
              (LISTENER_BOOTSTRAP_VOLUME_NAME, STACKABLE_LISTENER_BOOTSTRAP_DIR),
              (LISTENER_BROKER_VOLUME_NAME, STACKABLE_LISTENER_BROKER_DIR),
              (''log-config'', STACKABLE_LOG_CONFIG_DIR),
              (''log'', STACKABLE_LOG_DIR)] cb)
           (\<lambda>cb. Inr (cb_call (CbResources (ResourcesFromConfig (kc_resources config))) cb)))"

definition build_kcat_container ::
  "resolved_product_image \<Rightarrow> kafka_tls_security \<Rightarrow> string \<Rightarrow> container_builder \<Rightarrow> container_builder"
where
  "build_kcat_container img sec fqdn cb_kcat_prober =
     (let cb = cb_call (CbImage img) cb_kcat_prober;
          cb = cb_call (CbCommand [''sleep'', ''infinity'']) cb;
          cb = cb_call (CbAddEnvVars [env_pod_name]) cb;
          cb = cb_call (CbResources (ResourcesExplicit ''100m'' ''200m'' ''128Mi'' ''128Mi'')) cb
      in cb_call (CbReadinessProbe \<lparr>
           probe_exec_command = Some (kcat_prober_container_commands sec fqdn),
           probe_timeout_seconds = Some 5,
           probe_period_seconds = Some 2\<rparr>) cb)"

section \<open>Pod\<close>

definition log_config_source :: "'e operator_lib \<Rightarrow> kafka_config \<Rightarrow> role_group_ref \<Rightarrow> string" where
  "log_config_source lib config rg =
     (case bt_get (log_containers (kc_logging config)) Kafka of
        Some cfg \<Rightarrow> (case clc_choice cfg of
            Some (Custom config_map) \<Rightarrow> config_map
          | _ \<Rightarrow> lib_object_name (op_crd lib) rg)
      | None \<Rightarrow> lib_object_name (op_crd lib) rg)"

definition build_pod ::
  "'e operator_lib \<Rightarrow> resolved_product_image \<Rightarrow> role_group_ref \<Rightarrow> kafka_config \<Rightarrow>
     service_account \<Rightarrow> object_labels \<Rightarrow> labels \<Rightarrow> builders \<Rightarrow> 'e controller_error + pod_builder" where
  "build_pod lib img rg config account object_labels recommended_labels b =
     (case b of (pb, cb_kcat_prober, cb_kafka) \<Rightarrow>
        and_then (with_context AddVolume (add_volume (op_pod lib)
            \<lparr>volume_name = ''log-config'', volume_source = VolumeConfigMap (log_config_source lib config rg)\<rparr> pb))
        (\<lambda>pb. and_then (with_context MetadataBuild
            (unless_error (recommended_labels_error (op_meta lib) object_labels)
              [MetaRecommendedLabels object_labels]))
        (\<lambda>meta. and_then (with_context AddVolume (add_volume (op_pod lib)
            \<lparr>volume_name = ''config'', volume_source = VolumeConfigMap (lib_object_name (op_crd lib) rg)\<rparr>
            (pb @ [PbMetadata meta, PbImagePullSecrets img,
               PbAddContainer (BuiltContainer cb_kafka), PbAddContainer (BuiltContainer cb_kcat_prober),
               PbAffinity (kc_affinity config)])))
        (\<lambda>pb. and_then (with_context AddListenerVolume
            (unless_error
              (add_listener_volume_error (op_pod lib) pb LISTENER_BROKER_VOLUME_NAME
                (kc_broker_listener_class config) recommended_labels)
              (pb @ [PbAddListenerVolumeByClass LISTENER_BROKER_VOLUME_NAME
                (kc_broker_listener_class config) recommended_labels])))
        (\<lambda>pb. let size = calculate_log_volume_size_limit lib [MAX_KAFKA_LOG_FILES_SIZE]
           in and_then (with_context AddVolume
            (unless_error (add_empty_dir_error (op_pod lib) pb ''log'' size)
              (pb @ [PbAddEmptyDirVolume ''log'' size])))
        (\<lambda>pb. let pb = pb @ [PbServiceAccountName (lib_name_any (op_crd lib) (sa_metadata account)),
                           PbSecurityContext KAFKA_UID 0 1000]
           in if enable_vector_agent (kc_logging config) then
                and_then (with_context ConfigureLogging
                  (vector_container lib img ''config'' ''log''
                    (bt_get (log_containers (kc_logging config)) Vector)
                    (ResourcesExplicit ''250m'' ''500m'' ''128Mi'' ''128Mi'')))
                (\<lambda>c. Inr (pb @ [PbAddContainer c]))
              else Inr pb))))))"

section \<open>Stateful set\<close>

definition new_container :: "'e pod_lib \<Rightarrow> container \<Rightarrow> 'e controller_error + container_builder" where
  "new_container lib c =
     with_context (InvalidContainerName (container_to_string c))
       (unless_error (container_new_error lib (container_to_string c))
         \<lparr>cb_name = container_to_string c, cb_calls = []\<rparr>)"

text \<open>The secret volumes and the persistent volume claims; a failing listener claim panics.\<close>

definition secure_pod ::
  "'e operator_lib \<Rightarrow> kafka_role \<Rightarrow> role_group_ref \<Rightarrow> kafka_tls_security \<Rightarrow> kafka_config \<Rightarrow>
     labels \<Rightarrow> builders \<Rightarrow> 'e controller_error fault + builders \<times> pvc_template list" where
  "secure_pod lib kafka_role rg sec config unversioned_labels b =
     and_then (fails (ok_or MissingSecretLifetime (kc_requested_secret_lifetime config))) (\<lambda>lifetime.
     and_then (fails (with_context AddVolumesAndVolumeMounts
         (add_volume_and_volume_mounts (op_pod lib) sec lifetime b))) (\<lambda>b.
     let pvcs = map DataPvc (build_pvcs (res_storage (kc_resources config)));
         listener = bootstrap_service_name (op_crd lib) rg in
     and_then (unwrap (unless_error
         (listener_pvc_error lib listener unversioned_labels LISTENER_BOOTSTRAP_VOLUME_NAME)
         (ListenerPvc LISTENER_BOOTSTRAP_VOLUME_NAME listener unversioned_labels))) (\<lambda>pvc.
     let pvcs = pvcs @ [pvc] in
     if has_kerberos_enabled sec then
       and_then (fails (with_context AddKerberosConfig
           (add_kerberos_pod_config (op_pod lib) sec kafka_role b))) (\<lambda>b. Inr (b, pvcs))
     else Inr (b, pvcs))))"

text \<open>The metadata, the selector and the remaining fields of the set.\<close>

definition finish_stateful_set ::
  "'e operator_lib \<Rightarrow> kafka_cluster \<Rightarrow> resolved_product_image \<Rightarrow> role_group_ref \<Rightarrow> role \<Rightarrow>
     role_group \<Rightarrow> pod_builder \<Rightarrow> pvc_template list \<Rightarrow> 'e controller_error + stateful_set" where
  "finish_stateful_set lib kafka img rg role_spec rolegroup pb pvcs =
     (let pod_template = \<lparr>
            pt_builder = pb,
            pt_share_process_namespace = Some True,
            pt_overrides = [com_pod_overrides (role_common role_spec),
                            com_pod_overrides (rg_config rolegroup)]\<rparr>
      in and_then
           (owned_metadata (op_meta lib) ObjectMissingMetadataForOwnerRef MetadataBuild kafka
             (metadata kafka) (lib_object_name (op_crd lib) rg) (rolegroup_labels kafka img rg))
         (\<lambda>meta. and_then
           (with_context LabelBuild
             (labels_role_group_selector (op_meta lib) (metadata kafka) APP_NAME (rgr_role rg)
               (rgr_role_group rg)))
         (\<lambda>selector. Inr \<lparr>
            ss_metadata = meta,
            ss_pod_management_policy = Some ''Parallel'',
            ss_replicas = map_option u16_into_i32 (rg_replicas rolegroup),
            ss_selector = Some selector,
            ss_service_name = lib_object_name (op_crd lib) rg,
            ss_template = pod_template,
            ss_volume_claim_templates = Some pvcs\<rparr>)))"

definition build_broker_rolegroup_statefulset ::
  "'e operator_lib \<Rightarrow> kafka_cluster \<Rightarrow> kafka_role \<Rightarrow> resolved_product_image \<Rightarrow> role_group_ref \<Rightarrow>
     role_group_config \<Rightarrow> string option \<Rightarrow> kafka_tls_security \<Rightarrow> kafka_config \<Rightarrow>
     service_account \<Rightarrow> 'e controller_error fault + stateful_set" where
  "build_broker_rolegroup_statefulset lib kafka kafka_role img rg broker_config opa_connect sec
       config account =
     and_then (fails (with_context InternalOperatorError (cluster_role kafka kafka_role))) (\<lambda>role_spec.
     and_then (fails (with_context InternalOperatorError (cluster_rolegroup kafka rg))) (\<lambda>rolegroup.
     let object_labels = rolegroup_labels kafka img rg in
     and_then (fails (with_context LabelBuild (labels_recommended (op_meta lib) object_labels)))
       (\<lambda>recommended_labels.
     and_then (fails (with_context LabelBuild (labels_recommended (op_meta lib)
         (build_recommended_labels kafka KAFKA_CONTROLLER_NAME ''none'' (rgr_role rg)
           (rgr_role_group rg))))) (\<lambda>unversioned_labels.
     and_then (fails (new_container (op_pod lib) KcatProber)) (\<lambda>cb_kcat_prober.
     and_then (fails (new_container (op_pod lib) Kafka)) (\<lambda>cb_kafka.
     and_then (secure_pod lib kafka_role rg sec config unversioned_labels
         ([], cb_kcat_prober, cb_kafka)) (\<lambda>(b, pvcs).
     case b of (pb, cb_kcat_prober, cb_kafka) \<Rightarrow>
     and_then (fails (broker_env (op_memory lib) kafka broker_config config)) (\<lambda>env.
     and_then (fails (with_context InvalidKafkaListeners
         (get_kafka_listener_config kafka sec (lib_object_name (op_crd lib) rg) (cluster_domain lib))))
       (\<lambda>kafka_listeners.
     and_then (fails (build_kafka_container lib img sec kafka_listeners opa_connect env config cb_kafka))
       (\<lambda>cb_kafka.
     and_then (fails (with_context ResolveNamespace
         (pod_fqdn kafka (lib_object_name (op_crd lib) rg) (cluster_domain lib)))) (\<lambda>fqdn.
     let cb_kcat_prober = build_kcat_container img sec fqdn cb_kcat_prober in
     and_then (fails (build_pod lib img rg config account object_labels recommended_labels
         (pb, cb_kcat_prober, cb_kafka))) (\<lambda>pb.
     and_then (fails (with_context GracefulShutdown
         (add_graceful_shutdown_config (op_pod lib) config pb))) (\<lambda>pb.
     fails (finish_stateful_set lib kafka img rg role_spec rolegroup pb pvcs))))))))))))))"

section \<open>Reading the pod\<close>

fun container_of_call :: "pod_call \<Rightarrow> built_container list" where
  "container_of_call (PbAddContainer c) = [c]"
| "container_of_call _ = []"

definition pod_containers :: "pod_builder \<Rightarrow> built_container list" where
  "pod_containers pb = concat (map container_of_call pb)"

fun pvc_template_name :: "pvc_template \<Rightarrow> string" where
  "pvc_template_name (DataPvc p) = pvc_name p"
| "pvc_template_name (ListenerPvc n l ls) = n"

definition claim_names :: "stateful_set \<Rightarrow> string list" where
  "claim_names ss =
     (case ss_volume_claim_templates ss of None \<Rightarrow> [] | Some ps \<Rightarrow> map pvc_template_name ps)"

lemma pod_containers_append [simp]:
  "pod_containers (pb @ pb') = pod_containers pb @ pod_containers pb'"
  by (simp add: pod_containers_def)

lemma pod_containers_Cons [simp]:
  "pod_containers (c # pb) = container_of_call c @ pod_containers pb"
  by (simp add: pod_containers_def)

lemma pod_containers_Nil [simp]: "pod_containers [] = []"
  by (simp add: pod_containers_def)

lemma pod_containers_volumes [simp]: "pod_containers (map PbAddVolume vs) = []"
  by (induction vs) simp_all

section \<open>Effects of the stages\<close>

lemma add_volume_mounts_effect:
  "add_volume_mounts lib ms cb = Inr cb' \<Longrightarrow> mounts cb' = mounts cb @ ms \<and> cb_name cb' = cb_name cb"
proof (induction lib ms cb rule: add_volume_mounts.induct)
  case (2 lib name path ms cb)
  then show ?case by (auto simp: result_simps cb_call_def mounts_def)
qed simp

lemma cb_name_cb_call [simp]: "cb_name (cb_call c cb) = cb_name cb"
  by (simp add: cb_call_def)

definition kafka_base_mounts :: "(string \<times> string) list" where
  "kafka_base_mounts =
     [(''log-dirs'', ''/stackable/data''), (''config'', ''/stackable/config''),
      (''listener-bootstrap'', ''/stackable/listener-bootstrap''),
      (''listener-broker'', ''/stackable/listener-broker''),
      (''log-config'', ''/stackable/log_config''), (''log'', ''/stackable/log'')]"

lemma build_kafka_container_effect:
  assumes "build_kafka_container lib img sec ls opa_url env config cb = Inr cb'"
  shows "mounts cb' = mounts cb @ kafka_base_mounts" and "cb_name cb' = cb_name cb"
  using assms add_volume_mounts_effect
  by (fastforce simp: build_kafka_container_def Let_def result_simps kafka_base_mounts_def
      volume_name_defs directory_defs)+

lemma build_kcat_container_effect [simp]:
  "mounts (build_kcat_container img sec fqdn cb) = mounts cb"
  "cb_name (build_kcat_container img sec fqdn cb) = cb_name cb"
  by (simp_all add: build_kcat_container_def Let_def)

definition kerberos_mounts :: "kafka_tls_security \<Rightarrow> (string \<times> string) list" where
  "kerberos_mounts sec =
     (if has_kerberos_enabled sec then [(''kerberos'', ''/stackable/kerberos'')] else [])"

lemma add_kerberos_to_container_name:
  "add_kerberos_to_container lib cb = Inr cb' \<Longrightarrow> cb_name cb' = cb_name cb"
  by (auto simp: add_kerberos_to_container_def result_simps)

lemma add_kerberos_pod_config_shape:
  assumes "add_kerberos_pod_config lib sec r (pb, kcat, kafka) = Inr (pb', kcat', kafka')"
  shows "pod_containers pb' = pod_containers pb" "cb_name kcat' = cb_name kcat"
    "cb_name kafka' = cb_name kafka"
  using assms add_kerberos_to_container_name
  by (auto simp: add_kerberos_pod_config_def Let_def result_simps split: option.splits)

lemma add_server_volumes_names:
  assumes "add_server_volumes lib sec l (pb, kcat, kafka) = Inr (pb', kcat', kafka')"
  shows "cb_name kcat' = cb_name kcat \<and> cb_name kafka' = cb_name kafka"
  using assms by (auto simp: add_server_volumes_def result_simps split: option.splits)

lemma add_internal_volume_names:
  assumes "add_internal_volume lib sec l (pb, kcat, kafka) = Inr (pb', kcat', kafka')"
  shows "cb_name kcat' = cb_name kcat \<and> cb_name kafka' = cb_name kafka"
  using assms by (auto simp: add_internal_volume_def result_simps split: option.splits)

lemma add_volume_and_volume_mounts_names:
  assumes "add_volume_and_volume_mounts lib sec l (pb, kcat, kafka) = Inr (pb', kcat', kafka')"
  shows "cb_name kcat' = cb_name kcat \<and> cb_name kafka' = cb_name kafka"
proof -
  obtain b where s: "add_server_volumes lib sec l (pb, kcat, kafka) = Inr b"
      and i: "add_internal_volume lib sec l b = Inr (pb', kcat', kafka')"
    using assms by (auto simp: add_volume_and_volume_mounts_def result_simps)
  obtain pb1 kcat1 kafka1 where b: "b = (pb1, kcat1, kafka1)" by (cases b)
  show ?thesis using add_server_volumes_names [OF s [unfolded b]]
      add_internal_volume_names [OF i [unfolded b]] by simp
qed

definition secret_volume_names :: "kafka_tls_security \<Rightarrow> string list" where
  "secret_volume_names sec =
     (case get_tls_secret_class sec of None \<Rightarrow> [] | Some s \<Rightarrow> [''tls-kcat'', ''tls-kafka-server'']) @
     (case tls_internal_secret_class sec of None \<Rightarrow> [] | Some s \<Rightarrow> [''tls-kafka-internal'']) @
     (if has_kerberos_enabled sec then [''kerberos''] else [])"

lemma tls_pod_volume_names:
  "map volume_name (tls_pod_volumes sec l) =
     (case get_tls_secret_class sec of None \<Rightarrow> [] | Some s \<Rightarrow> [''tls-kcat'', ''tls-kafka-server'']) @
     (case tls_internal_secret_class sec of None \<Rightarrow> [] | Some s \<Rightarrow> [''tls-kafka-internal''])"
  by (simp add: tls_pod_volumes_def split: option.split)

lemma secure_pod_effect:
  assumes "secure_pod lib r rg sec config ul ([], kcat, kafka) = Inr ((pb', kcat', kafka'), pvcs)"
  shows "volume_names pb' = secret_volume_names sec"
    and "pod_containers pb' = []"
    and "mounts kcat' = mounts kcat @ tls_kcat_mounts sec @ kerberos_mounts sec"
    and "mounts kafka' = mounts kafka @ tls_kafka_mounts sec @ kerberos_mounts sec"
    and "cb_name kcat' = cb_name kcat" and "cb_name kafka' = cb_name kafka"
    and "map pvc_template_name pvcs = [''log-dirs'', ''listener-bootstrap'']"
proof -
  from assms obtain l b pvc where
    t: "add_volume_and_volume_mounts (op_pod lib) sec l ([], kcat, kafka) = Inr b" and
    k: "(if has_kerberos_enabled sec
         then add_kerberos_pod_config (op_pod lib) sec r b else Inr b) = Inr (pb', kcat', kafka')" and
    pvcs: "pvcs = map DataPvc (build_pvcs (res_storage (kc_resources config))) @ [pvc]"
      "pvc_template_name pvc = LISTENER_BOOTSTRAP_VOLUME_NAME"
    unfolding secure_pod_def Let_def
    by (auto simp: result_simps split: if_splits)
  obtain pb1 kcat1 kafka1 where b: "b = (pb1, kcat1, kafka1)" by (cases b)
  note t1 = add_volume_and_volume_mounts_effect [OF t [unfolded b]]
    add_volume_and_volume_mounts_names [OF t [unfolded b]]
  have k1: "volume_names pb' = volume_names pb1 @ (if has_kerberos_enabled sec then [''kerberos''] else []) \<and>
    pod_containers pb' = pod_containers pb1 \<and>
    mounts kcat' = mounts kcat1 @ kerberos_mounts sec \<and>
    mounts kafka' = mounts kafka1 @ kerberos_mounts sec \<and>
    cb_name kcat' = cb_name kcat1 \<and> cb_name kafka' = cb_name kafka1"
  proof (cases "has_kerberos_enabled sec")
    case True
    then have k2: "add_kerberos_pod_config (op_pod lib) sec r (pb1, kcat1, kafka1) = Inr (pb', kcat', kafka')"
      using k b by simp
    show ?thesis
      using add_kerberos_pod_config_effect [OF k2] add_kerberos_pod_config_shape [OF k2]
      by (simp add: kerberos_mounts_def)
  next
    case False
    then show ?thesis using k b by (simp add: kerberos_mounts_def)
  qed
  show "volume_names pb' = secret_volume_names sec"
    using t1 by (simp add: k1 secret_volume_names_def tls_pod_volume_names)
  show "pod_containers pb' = []" using t1 by (simp add: k1)
  show "mounts kcat' = mounts kcat @ tls_kcat_mounts sec @ kerberos_mounts sec"
    and "mounts kafka' = mounts kafka @ tls_kafka_mounts sec @ kerberos_mounts sec"
    and "cb_name kcat' = cb_name kcat" and "cb_name kafka' = cb_name kafka"
    using t1 by (simp_all add: k1)
  show "map pvc_template_name pvcs = [''log-dirs'', ''listener-bootstrap'']"
    by (simp add: pvcs build_pvcs_def volume_name_defs)
qed

definition base_volume_names :: "string list" where
  "base_volume_names = [''log-config'', ''config'', ''listener-broker'', ''log'']"

lemma build_pod_effect:
  assumes "build_pod lib img rg config account ols ls (pb, kcat, kafka) = Inr pb'"
  shows "volume_names pb' = volume_names pb @ base_volume_names"
    and "\<exists>vector. pod_containers pb' = pod_containers pb @ [BuiltContainer kafka, BuiltContainer kcat] @ vector \<and>
           (vector = [] \<longleftrightarrow> \<not> enable_vector_agent (kc_logging config)) \<and>
           (\<forall>c\<in>set vector. vector_container lib img ''config'' ''log''
              (bt_get (log_containers (kc_logging config)) Vector)
              (ResourcesExplicit ''250m'' ''500m'' ''128Mi'' ''128Mi'') = Inr c)"
  using assms
  by (auto simp: build_pod_def Let_def result_simps base_volume_names_def volume_name_defs
      split: if_splits)

lemma add_graceful_shutdown_shape:
  assumes "add_graceful_shutdown_config lib config pb = Inr pb'"
  shows "volume_names pb' = volume_names pb" and "pod_containers pb' = pod_containers pb"
  using assms by (auto simp: result_simps split: option.splits)

lemma new_container_eq_Inr:
  "new_container lib c = Inr cb \<longleftrightarrow>
     container_new_error lib (container_to_string c) = None \<and>
     cb = \<lparr>cb_name = container_to_string c, cb_calls = []\<rparr>"
  by (auto simp: new_container_def result_simps)

text \<open>The stages of a successful build.\<close>

lemma build_statefulset_stages:
  fixes lib :: "'e operator_lib"
  assumes "build_broker_rolegroup_statefulset lib kafka r img rg bc url sec config account = Inr ss"
  obtains role_spec rolegroup pb kcat kafka_cb pvcs env c fqdn kafka_cb' pb1 pb2 labels unversioned where
    "cluster_role kafka r = (Inr role_spec :: 'e crd_error + role)"
    "cluster_rolegroup kafka rg = (Inr rolegroup :: 'e crd_error + role_group)"
    "labels_recommended (op_meta lib) (rolegroup_labels kafka img rg) = Inr labels"
    "secure_pod lib r rg sec config unversioned
       ([], \<lparr>cb_name = ''kcat-prober'', cb_calls = []\<rparr>, \<lparr>cb_name = ''kafka'', cb_calls = []\<rparr>) =
       Inr ((pb, kcat, kafka_cb), pvcs)"
    "broker_env (op_memory lib) kafka bc config = Inr env"
    "get_kafka_listener_config kafka sec (lib_object_name (op_crd lib) rg) (cluster_domain lib) = Inr c"
    "build_kafka_container lib img sec c url env config kafka_cb = Inr kafka_cb'"
    "pod_fqdn kafka (lib_object_name (op_crd lib) rg) (cluster_domain lib) = Inr fqdn"
    "build_pod lib img rg config account (rolegroup_labels kafka img rg) labels
       (pb, build_kcat_container img sec fqdn kcat, kafka_cb') = Inr pb1"
    "add_graceful_shutdown_config (op_pod lib) config pb1 = Inr pb2"
    "finish_stateful_set lib kafka img rg role_spec rolegroup pb2 pvcs = Inr ss"
  using assms
  unfolding build_broker_rolegroup_statefulset_def Let_def
  by (simp only: and_then_eq_Inr fails_eq_Inr with_context_eq_Inr split_paired_Ex prod.case
      new_container_eq_Inr container_to_string.simps)
    (elim exE conjE, hypsubst, rule that; assumption)

lemma finish_stateful_set_eq_Inr:
  "finish_stateful_set lib kafka img rg role_spec rolegroup pb pvcs = Inr ss \<longleftrightarrow>
     ownerreference_error (op_meta lib) (metadata kafka) = None \<and>
     recommended_labels_error (op_meta lib) (rolegroup_labels kafka img rg) = None \<and>
     (\<exists>selector.
       labels_role_group_selector (op_meta lib) (metadata kafka) ''kafka'' (rgr_role rg)
         (rgr_role_group rg) = Inr selector \<and>
       ss = \<lparr>
         ss_metadata = [MetaNameAndNamespace (metadata kafka),
           MetaName (lib_object_name (op_crd lib) rg),
           MetaOwnerReference (metadata kafka) None (Some True),
           MetaRecommendedLabels (rolegroup_labels kafka img rg)],
         ss_pod_management_policy = Some ''Parallel'',
         ss_replicas = map_option u16_into_i32 (rg_replicas rolegroup),
         ss_selector = Some selector,
         ss_service_name = lib_object_name (op_crd lib) rg,
         ss_template = \<lparr>pt_builder = pb, pt_share_process_namespace = Some True,
           pt_overrides = [com_pod_overrides (role_common role_spec),
                           com_pod_overrides (rg_config rolegroup)]\<rparr>,
         ss_volume_claim_templates = Some pvcs\<rparr>)"
  by (auto simp: finish_stateful_set_def Let_def APP_NAME_def result_simps)

interpretation stateful_set_object: owned_object
  "\<lambda>(kafka, r, img, rg, bc, url, sec, config, account).
     build_broker_rolegroup_statefulset lib kafka r img rg bc url sec config account"
  ss_metadata fst "\<lambda>(kafka, r, img, rg, _). lib_object_name (op_crd lib) rg"
  "\<lambda>(kafka, r, img, rg, _). rolegroup_labels kafka img rg"
proof unfold_locales
  fix i x
  assume run: "(case i of (kafka, r, img, rg, bc, url, sec, config, account) \<Rightarrow>
      build_broker_rolegroup_statefulset lib kafka r img rg bc url sec config account) = Inr x"
  obtain kafka r img rg rest where i1: "i = (kafka, r, img, rg, rest)" by (cases i)
  obtain bc url sec config account where "rest = (bc, url, sec, config, account)" by (cases rest)
  with i1 have i: "i = (kafka, r, img, rg, bc, url, sec, config, account)" by simp
  have "ss_metadata x = [MetaNameAndNamespace (metadata kafka),
           MetaName (lib_object_name (op_crd lib) rg),
           MetaOwnerReference (metadata kafka) None (Some True),
           MetaRecommendedLabels (rolegroup_labels kafka img rg)]"
    using run unfolding i prod.case
    by (rule build_statefulset_stages) (auto simp: finish_stateful_set_eq_Inr)
  then show "\<exists>extra. ss_metadata x = [MetaNameAndNamespace (metadata (fst i)),
        MetaName (case i of (kafka, r, img, rg, _) \<Rightarrow> lib_object_name (op_crd lib) rg),
        MetaOwnerReference (metadata (fst i)) None (Some True),
        MetaRecommendedLabels (case i of (kafka, r, img, rg, _) \<Rightarrow> rolegroup_labels kafka img rg)] @ extra \<and>
      (\<forall>c\<in>set extra. \<exists>k v. c = MetaLabel k v)"
    by (simp add: i)
qed

text \<open>The whole pod: containers, mounts, volumes and claims of a built stateful set.\<close>

lemma build_statefulset_pod:
  assumes "build_broker_rolegroup_statefulset lib kafka r img rg bc url sec config account = Inr ss"
  obtains kafka_cb kcat_cb vector where
    "pod_containers (pt_builder (ss_template ss)) =
       [BuiltContainer kafka_cb, BuiltContainer kcat_cb] @ vector"
    "vector = [] \<longleftrightarrow> \<not> enable_vector_agent (kc_logging config)"
    "\<forall>c\<in>set vector. vector_container lib img ''config'' ''log''
       (bt_get (log_containers (kc_logging config)) Vector)
       (ResourcesExplicit ''250m'' ''500m'' ''128Mi'' ''128Mi'') = Inr c"
    "cb_name kafka_cb = ''kafka''" "cb_name kcat_cb = ''kcat-prober''"
    "mounts kafka_cb = tls_kafka_mounts sec @ kerberos_mounts sec @ kafka_base_mounts"
    "mounts kcat_cb = tls_kcat_mounts sec @ kerberos_mounts sec"
    "volume_names (pt_builder (ss_template ss)) = secret_volume_names sec @ base_volume_names"
    "claim_names ss = [''log-dirs'', ''listener-bootstrap'']"
proof (rule build_statefulset_stages [OF assms])
  fix role_spec rolegroup pb kcat kafka_cb pvcs env c fqdn kafka_cb' pb1 pb2 labels unversioned
  assume s: "secure_pod lib r rg sec config unversioned
       ([], \<lparr>cb_name = ''kcat-prober'', cb_calls = []\<rparr>, \<lparr>cb_name = ''kafka'', cb_calls = []\<rparr>) =
       Inr ((pb, kcat, kafka_cb), pvcs)"
    and k: "build_kafka_container lib img sec c url env config kafka_cb = Inr kafka_cb'"
    and p: "build_pod lib img rg config account (rolegroup_labels kafka img rg) labels
       (pb, build_kcat_container img sec fqdn kcat, kafka_cb') = Inr pb1"
    and g: "add_graceful_shutdown_config (op_pod lib) config pb1 = Inr pb2"
    and f: "finish_stateful_set lib kafka img rg role_spec rolegroup pb2 pvcs = Inr ss"
  note eff = secure_pod_effect [OF s] build_kafka_container_effect [OF k] build_pod_effect(1) [OF p]
    add_graceful_shutdown_shape [OF g]
  obtain vector where v:
    "pod_containers pb1 = pod_containers pb @
       [BuiltContainer kafka_cb', BuiltContainer (build_kcat_container img sec fqdn kcat)] @ vector"
    "vector = [] \<longleftrightarrow> \<not> enable_vector_agent (kc_logging config)"
    "\<forall>c\<in>set vector. vector_container lib img ''config'' ''log''
       (bt_get (log_containers (kc_logging config)) Vector)
       (ResourcesExplicit ''250m'' ''500m'' ''128Mi'' ''128Mi'') = Inr c"
    using build_pod_effect(2) [OF p] by blast
  have ss: "pt_builder (ss_template ss) = pb2" "ss_volume_claim_templates ss = Some pvcs"
    using f by (auto simp: finish_stateful_set_eq_Inr)
  show thesis
    by (rule that [of kafka_cb' "build_kcat_container img sec fqdn kcat" vector])
      (use eff v in \<open>simp_all add: ss claim_names_def\<close>)
qed

text \<open>What the set refers to: the bootstrap listener in a claim, the config map in a volume.\<close>

lemma build_statefulset_references:
  assumes "build_broker_rolegroup_statefulset lib kafka r img rg bc url sec config account = Inr ss"
  shows "\<exists>ls data. ss_volume_claim_templates ss =
           Some [DataPvc data, ListenerPvc ''listener-bootstrap'' (bootstrap_service_name (op_crd lib) rg) ls]"
    and "\<lparr>volume_name = ''config'', volume_source = VolumeConfigMap (lib_object_name (op_crd lib) rg)\<rparr>
           \<in> set (pod_volumes (pt_builder (ss_template ss)))"
proof -
  have "(\<exists>ls data. ss_volume_claim_templates ss =
           Some [DataPvc data, ListenerPvc ''listener-bootstrap'' (bootstrap_service_name (op_crd lib) rg) ls]) \<and>
        \<lparr>volume_name = ''config'', volume_source = VolumeConfigMap (lib_object_name (op_crd lib) rg)\<rparr>
           \<in> set (pod_volumes (pt_builder (ss_template ss)))"
  proof (rule build_statefulset_stages [OF assms])
    fix role_spec rolegroup pb kcat kafka_cb pvcs fqdn kafka_cb' pb1 pb2 labels unversioned
    assume s: "secure_pod lib r rg sec config unversioned
         ([], \<lparr>cb_name = ''kcat-prober'', cb_calls = []\<rparr>, \<lparr>cb_name = ''kafka'', cb_calls = []\<rparr>) =
         Inr ((pb, kcat, kafka_cb), pvcs)"
      and p: "build_pod lib img rg config account (rolegroup_labels kafka img rg) labels
         (pb, build_kcat_container img sec fqdn kcat, kafka_cb') = Inr pb1"
      and g: "add_graceful_shutdown_config (op_pod lib) config pb1 = Inr pb2"
      and f: "finish_stateful_set lib kafka img rg role_spec rolegroup pb2 pvcs = Inr ss"
    have "\<exists>data ls. pvcs = [DataPvc data,
        ListenerPvc ''listener-bootstrap'' (bootstrap_service_name (op_crd lib) rg) ls]"
      using s unfolding secure_pod_def Let_def
      by (auto simp: result_simps build_pvcs_def LISTENER_BOOTSTRAP_VOLUME_NAME_def split: if_splits)
    moreover have "\<lparr>volume_name = ''config'',
        volume_source = VolumeConfigMap (lib_object_name (op_crd lib) rg)\<rparr> \<in> set (pod_volumes pb1)"
      using p by (auto simp: build_pod_def Let_def result_simps split: if_splits)
    moreover have "pod_volumes pb2 = pod_volumes pb1"
      using g by (auto simp: result_simps split: option.splits)
    moreover have "pt_builder (ss_template ss) = pb2" "ss_volume_claim_templates ss = Some pvcs"
      using f by (auto simp: finish_stateful_set_eq_Inr)
    ultimately show ?thesis by auto
  qed
  then show "\<exists>ls data. ss_volume_claim_templates ss =
           Some [DataPvc data, ListenerPvc ''listener-bootstrap'' (bootstrap_service_name (op_crd lib) rg) ls]"
    and "\<lparr>volume_name = ''config'', volume_source = VolumeConfigMap (lib_object_name (op_crd lib) rg)\<rparr>
           \<in> set (pod_volumes (pt_builder (ss_template ss)))" by blast+
qed

section \<open>Names and paths\<close>

lemma tls_mounts_covered:
  "list_all (\<lambda>m. fst m \<in> set (secret_volume_names sec)) (tls_kafka_mounts sec)"
  "list_all (\<lambda>m. fst m \<in> set (secret_volume_names sec)) (tls_kcat_mounts sec)"
  "list_all (\<lambda>m. fst m \<in> set (secret_volume_names sec)) (kerberos_mounts sec)"
  unfolding tls_kafka_mounts_def tls_kcat_mounts_def kerberos_mounts_def secret_volume_names_def
  by (simp_all split: option.split)

lemma kafka_base_mounts_covered:
  "list_all (\<lambda>m. fst m \<in> set base_volume_names \<or> fst m \<in> set [''log-dirs'', ''listener-bootstrap''])
     kafka_base_mounts"
  unfolding kafka_base_mounts_def base_volume_names_def by simp

lemma mounts_covered:
  "fst ` set (tls_kafka_mounts sec @ kerberos_mounts sec @ kafka_base_mounts) \<subseteq>
     set (secret_volume_names sec @ base_volume_names) \<union> set [''log-dirs'', ''listener-bootstrap'']"
  "fst ` set (tls_kcat_mounts sec @ kerberos_mounts sec) \<subseteq>
     set (secret_volume_names sec @ base_volume_names) \<union> set [''log-dirs'', ''listener-bootstrap'']"
  using tls_mounts_covered [of sec] kafka_base_mounts_covered
  unfolding set_append list_all_iff by blast+

lemma secret_volume_names_distinct:
  "distinct (secret_volume_names sec @ base_volume_names @ [''log-dirs'', ''listener-bootstrap''])"
  by (cases "get_tls_secret_class sec"; cases "tls_internal_secret_class sec";
      simp add: secret_volume_names_def base_volume_names_def)

lemma kafka_mount_paths_distinct:
  "distinct (map snd (tls_kafka_mounts sec @ kerberos_mounts sec @ kafka_base_mounts))"
  by (cases "get_tls_secret_class sec"; cases "tls_internal_secret_class sec";
      simp add: tls_kafka_mounts_def kerberos_mounts_def kafka_base_mounts_def)

lemma kcat_mount_paths_distinct: "distinct (map snd (tls_kcat_mounts sec @ kerberos_mounts sec))"
  by (cases "get_tls_secret_class sec"; simp add: tls_kcat_mounts_def kerberos_mounts_def)

section \<open>The effective environment\<close>

text \<open>Of several entries with one name the last counts.\<close>

definition env_lookup :: "env_var list \<Rightarrow> string \<Rightarrow> env_var option" where
  "env_lookup env n = find (\<lambda>e. env_name e = n) (rev env)"


lemma env_lookup_simps [simp]:
  "env_lookup [] n = None"
  "env_lookup [e] n = (if env_name e = n then Some e else None)"
  by (simp_all add: env_lookup_def)


lemma env_name_simps [simp]: "env_name (env_literal n v) = n" "env_name env_pod_name = ''POD_NAME''"
  by (simp_all add: env_literal_def env_pod_name_def)




text \<open>The variables a container builder was given, in the order of the calls.\<close>

fun env_of_call :: "container_call \<Rightarrow> env_var list" where
  "env_of_call (CbAddEnvVar name v) = [env_literal name v]"
| "env_of_call (CbAddEnvVars es) = es"
| "env_of_call _ = []"

definition container_env :: "container_builder \<Rightarrow> env_var list" where
  "container_env cb = concat (map env_of_call (cb_calls cb))"

lemma container_env_simps [simp]:
  "container_env (cb_call c cb) = container_env cb @ env_of_call c"
  "container_env \<lparr>cb_name = n, cb_calls = []\<rparr> = []"
  by (simp_all add: container_env_def cb_call_def)










section \<open>When the build succeeds\<close>

definition pod_lib_documented :: "'e pod_lib \<Rightarrow> bool" where
  "pod_lib_documented lib \<longleftrightarrow>
     volumes_fail_on_collision lib \<and> mounts_fail_on_collision lib \<and> secret_volumes_build lib \<and>
     container_new_error lib ''kafka'' = None \<and> container_new_error lib ''kcat-prober'' = None \<and>
     (\<forall>pb n c l. n \<notin> set (volume_names pb) \<longrightarrow> add_listener_volume_error lib pb n c l = None) \<and>
     (\<forall>pb n s. n \<notin> set (volume_names pb) \<longrightarrow> add_empty_dir_error lib pb n s = None)"

lemma add_volume_mounts_total:
  "mounts_fail_on_collision lib \<Longrightarrow> distinct (map snd (mounts cb @ ms)) \<Longrightarrow>
     is_ok (add_volume_mounts lib ms cb)"
proof (induction lib ms cb rule: add_volume_mounts.induct)
  case (2 lib name path ms cb)
  have "add_volume_mount lib name path cb = Inr (cb_call (CbAddVolumeMount name path) cb)"
    using 2 by (intro fresh_mount) auto
  then show ?case using 2 by simp
qed simp

lemma build_kafka_container_total:
  assumes "mounts_fail_on_collision (op_pod lib)" and "distinct (map snd (mounts cb @ kafka_base_mounts))"
  shows "is_ok (build_kafka_container lib img sec ls opa_url env config cb)"
proof -
  have "is_ok (add_volume_mounts (op_pod lib) kafka_base_mounts cb')" if "mounts cb' = mounts cb" for cb'
    using assms that by (intro add_volume_mounts_total) simp_all
  then show ?thesis
    unfolding build_kafka_container_def Let_def volume_name_defs directory_defs
      kafka_base_mounts_def [symmetric]
    by (auto simp: is_ok_iff and_then_eq_Inr)
qed

lemma add_kerberos_to_container_total:
  assumes "mounts_fail_on_collision lib" and "''/stackable/kerberos'' \<notin> snd ` set (mounts cb)"
  shows "is_ok (add_kerberos_to_container lib cb)"
  using assms by (simp add: add_kerberos_to_container_def fresh_mount STACKABLE_KERBEROS_DIR_def)

lemma add_kerberos_pod_config_total:
  assumes "volumes_fail_on_collision lib" and "mounts_fail_on_collision lib"
    and "secret_volumes_build lib" and "''kerberos'' \<notin> set (volume_names pb)"
    and "''/stackable/kerberos'' \<notin> snd ` set (mounts kcat)"
    and "''/stackable/kerberos'' \<notin> snd ` set (mounts kafka)"
  shows "is_ok (add_kerberos_pod_config lib sec r (pb, kcat, kafka))"
proof -
  obtain k1 k2 where "add_kerberos_to_container lib kafka = Inr k1"
    "add_kerberos_to_container lib kcat = Inr k2"
    using add_kerberos_to_container_total [OF assms(2,5)]
      add_kerberos_to_container_total [OF assms(2,6)] by (auto simp: is_ok_iff)
  then show ?thesis
    using assms(1,3,4)
    by (simp add: add_kerberos_pod_config_def Let_def secret_volumes_build_def fresh_volume
        split: option.split)
qed

lemma secure_pod_total:
  assumes "pod_lib_documented (op_pod lib)" and "kc_requested_secret_lifetime config = Some l"
    and "listener_pvc_error lib (bootstrap_service_name (op_crd lib) rg) ul ''listener-bootstrap'' = None"
    and "mounts kcat = []" and "mounts kafka = []"
  shows "is_ok (secure_pod lib r rg sec config ul ([], kcat, kafka))"
proof -
  note doc = assms(1) [unfolded pod_lib_documented_def]
  have "is_ok (add_volume_and_volume_mounts (op_pod lib) sec l ([], kcat, kafka))"
    using doc assms(4,5) by (intro add_volume_and_volume_mounts_total) simp_all
  then obtain pb1 kcat1 kafka1 where
    t: "add_volume_and_volume_mounts (op_pod lib) sec l ([], kcat, kafka) = Inr (pb1, kcat1, kafka1)"
    unfolding is_ok_iff by (metis prod_cases3)
  note eff = add_volume_and_volume_mounts_effect [OF t]
  have "''kerberos'' \<notin> set (map volume_name (tls_pod_volumes sec l))"
    unfolding tls_pod_volume_names by (simp split: option.split)
  moreover have "''/stackable/kerberos'' \<notin> snd ` set (tls_kcat_mounts sec)"
    by (cases "get_tls_secret_class sec") (simp_all add: tls_kcat_mounts_def)
  moreover have "''/stackable/kerberos'' \<notin> snd ` set (tls_kafka_mounts sec)"
    by (cases "get_tls_secret_class sec"; cases "tls_internal_secret_class sec")
      (simp_all add: tls_kafka_mounts_def)
  ultimately have "is_ok (add_kerberos_pod_config (op_pod lib) sec r (pb1, kcat1, kafka1))"
    using doc assms(4,5) eff by (intro add_kerberos_pod_config_total) simp_all
  then show ?thesis
    using assms(2,3) t
    by (auto simp: secure_pod_def Let_def is_ok_iff LISTENER_BOOTSTRAP_VOLUME_NAME_def)
qed

lemma fresh_base_names:
  "n \<in> set base_volume_names \<Longrightarrow> n \<notin> set (secret_volume_names sec)"
  using secret_volume_names_distinct [of sec] by auto

lemma build_pod_total:
  assumes "pod_lib_documented (op_pod lib)"
    and "recommended_labels_error (op_meta lib) ols = None"
    and "enable_vector_agent (kc_logging config) \<Longrightarrow> is_ok (vector_container lib img ''config'' ''log''
       (bt_get (log_containers (kc_logging config)) Vector)
       (ResourcesExplicit ''250m'' ''500m'' ''128Mi'' ''128Mi''))"
    and "volume_names pb = secret_volume_names sec"
  shows "is_ok (build_pod lib img rg config account ols ls (pb, kcat, kafka))"
proof -
  have fresh: "''log-config'' \<notin> set (secret_volume_names sec)" "''config'' \<notin> set (secret_volume_names sec)"
    "''listener-broker'' \<notin> set (secret_volume_names sec)" "''log'' \<notin> set (secret_volume_names sec)"
    using fresh_base_names [of _ sec] by (simp_all add: base_volume_names_def)
  show ?thesis
    using assms fresh
    by (auto simp: build_pod_def pod_lib_documented_def Let_def fresh_volume is_ok_iff
        LISTENER_BROKER_VOLUME_NAME_def)
qed

text \<open>
  What the library must accept for this role group: the owner reference to the cluster, the labels
  the operator computes for the group, the claim of its bootstrap listener, its memory limit, its
  Vector container and its grace period. Nothing is asked for other labels or durations, which the
  library does refuse.
\<close>

definition library_accepts ::
  "'e operator_lib \<Rightarrow> kafka_cluster \<Rightarrow> resolved_product_image \<Rightarrow> role_group_ref \<Rightarrow> kafka_config \<Rightarrow> bool"
where
  "library_accepts lib kafka img rg config \<longleftrightarrow>
     ownerreference_error (op_meta lib) (metadata kafka) = None \<and>
     recommended_labels_error (op_meta lib) (rolegroup_labels kafka img rg) = None \<and>
     is_ok (labels_recommended (op_meta lib) (rolegroup_labels kafka img rg)) \<and>
     (case labels_recommended (op_meta lib) (build_recommended_labels kafka KAFKA_CONTROLLER_NAME ''none''
             (rgr_role rg) (rgr_role_group rg)) of
        Inl _ \<Rightarrow> False
      | Inr unversioned_labels \<Rightarrow>
          listener_pvc_error lib (bootstrap_service_name (op_crd lib) rg) unversioned_labels
            ''listener-bootstrap'' = None) \<and>
     is_ok (labels_role_group_selector (op_meta lib) (metadata kafka) ''kafka'' (rgr_role rg)
       (rgr_role_group rg)) \<and>
     is_ok (heap_env (op_memory lib) config) \<and>
     (enable_vector_agent (kc_logging config) \<longrightarrow>
        is_ok (vector_container lib img ''config'' ''log''
          (bt_get (log_containers (kc_logging config)) Vector)
          (ResourcesExplicit ''250m'' ''500m'' ''128Mi'' ''128Mi''))) \<and>
     (\<forall>d pb. kc_graceful_shutdown_timeout config = Some d \<longrightarrow>
        termination_grace_period_error (op_pod lib) pb d = None)"

lemma build_statefulset_total:
  assumes doc: "pod_lib_documented (op_pod lib)"
    and acc: "library_accepts lib kafka img (broker_rolegroup_ref kafka g) config"
    and groups: "spec_brokers (spec kafka) = Some rl" "map_of (role_groups rl) g = Some rg"
    and ns: "namespace kafka = Some ns" and lifetime: "kc_requested_secret_lifetime config = Some l"
  shows "is_ok (build_broker_rolegroup_statefulset lib kafka Broker img (broker_rolegroup_ref kafka g)
    bc url sec config account)"
proof -
  let ?rg = "broker_rolegroup_ref kafka g"
  let ?kcat = "\<lparr>cb_name = ''kcat-prober'', cb_calls = []\<rparr>"
  let ?kafka = "\<lparr>cb_name = ''kafka'', cb_calls = []\<rparr>"
  note acc' = acc [unfolded library_accepts_def]
  obtain ls ul where labels: "labels_recommended (op_meta lib) (rolegroup_labels kafka img ?rg) = Inr ls"
    "labels_recommended (op_meta lib) (build_recommended_labels kafka KAFKA_CONTROLLER_NAME ''none''
           (rgr_role ?rg) (rgr_role_group ?rg)) = Inr ul"
    and claim: "listener_pvc_error lib (bootstrap_service_name (op_crd lib) ?rg) ul ''listener-bootstrap'' = None"
    using acc' by (auto simp: is_ok_iff split: sum.splits)
  have "is_ok (secure_pod lib Broker ?rg sec config ul ([], ?kcat, ?kafka))"
    by (rule secure_pod_total [OF doc lifetime claim]) simp_all
  then obtain pb kcat kafka_cb pvcs where
    s: "secure_pod lib Broker ?rg sec config ul ([], ?kcat, ?kafka) = Inr ((pb, kcat, kafka_cb), pvcs)"
    unfolding is_ok_iff by (metis surj_pair)
  note eff = secure_pod_effect [OF s]
  obtain env where env: "broker_env (op_memory lib) kafka bc config = Inr env"
    using acc' by (auto simp: is_ok_iff broker_env_def Let_def)
  obtain c where c: "get_kafka_listener_config kafka sec (lib_object_name (op_crd lib) ?rg)
      (cluster_domain lib) = Inr c"
    using get_kafka_listener_config_ok [OF ns] unfolding is_ok_iff by blast
  obtain fqdn where fqdn: "pod_fqdn kafka (lib_object_name (op_crd lib) ?rg) (cluster_domain lib) = Inr fqdn"
    using ns by (simp add: pod_fqdn_def)
  have "is_ok (build_kafka_container lib img sec c url env config kafka_cb)"
    using doc kafka_mount_paths_distinct [of sec]
    by (intro build_kafka_container_total) (simp_all add: eff pod_lib_documented_def)
  then obtain kafka_cb' where k: "build_kafka_container lib img sec c url env config kafka_cb = Inr kafka_cb'"
    by (auto simp: is_ok_iff)
  have "is_ok (build_pod lib img ?rg config account (rolegroup_labels kafka img ?rg) ls
      (pb, build_kcat_container img sec fqdn kcat, kafka_cb'))"
    by (rule build_pod_total [OF doc]) (use acc' eff in simp_all)
  then obtain pb1 where p: "build_pod lib img ?rg config account (rolegroup_labels kafka img ?rg) ls
      (pb, build_kcat_container img sec fqdn kcat, kafka_cb') = Inr pb1"
    by (auto simp: is_ok_iff)
  obtain pb2 where g: "add_graceful_shutdown_config (op_pod lib) config pb1 = Inr pb2"
    using acc' by (cases "kc_graceful_shutdown_timeout config")
      (auto simp: add_graceful_shutdown_config_def)
  have "is_ok (finish_stateful_set lib kafka img ?rg rl rg pb2 pvcs)"
    using acc' by (auto simp: finish_stateful_set_eq_Inr is_ok_iff)
  then show ?thesis
    using doc groups
    by (auto simp: build_broker_rolegroup_statefulset_def cluster_rolegroup_broker Let_def
        labels [unfolded Let_def] new_container_def pod_lib_documented_def s env c k fqdn p g is_ok_iff)
qed

section \<open>Properties\<close>

text \<open>
  C7. Every mount is backed: in a built stateful set each volume mount of each of the operator's
  containers refers to a volume of the pod or to a volume claim template; all volume and claim
  names are pairwise different, and no container mounts two volumes at one path.
\<close>

theorem statefulset_mounts_backed:
  assumes "build_broker_rolegroup_statefulset lib kafka r img rg bc url sec config account = Inr ss"
    and "BuiltContainer cb \<in> set (take 2 (pod_containers (pt_builder (ss_template ss))))"
  shows "fst ` set (mounts cb) \<subseteq>
           set (volume_names (pt_builder (ss_template ss))) \<union> set (claim_names ss) \<and>
         distinct (volume_names (pt_builder (ss_template ss)) @ claim_names ss) \<and>
         distinct (map snd (mounts cb))"
proof (rule build_statefulset_pod [OF assms(1)])
  fix kafka_cb kcat_cb vector
  assume c: "pod_containers (pt_builder (ss_template ss)) =
       [BuiltContainer kafka_cb, BuiltContainer kcat_cb] @ vector"
    and m: "mounts kafka_cb = tls_kafka_mounts sec @ kerberos_mounts sec @ kafka_base_mounts"
    "mounts kcat_cb = tls_kcat_mounts sec @ kerberos_mounts sec"
    and v: "volume_names (pt_builder (ss_template ss)) = secret_volume_names sec @ base_volume_names"
    and cl: "claim_names ss = [''log-dirs'', ''listener-bootstrap'']"
  have cb: "cb = kafka_cb \<or> cb = kcat_cb" using assms(2) c by (auto simp: numeral_2_eq_2)
  have "fst ` set (mounts cb) \<subseteq>
      set (volume_names (pt_builder (ss_template ss))) \<union> set (claim_names ss)"
    using cb mounts_covered [of sec] unfolding v cl by (elim disjE) (simp_all only: m)
  moreover have "distinct (volume_names (pt_builder (ss_template ss)) @ claim_names ss)"
    unfolding v cl using secret_volume_names_distinct [of sec] by (simp only: append_assoc)
  moreover have "distinct (map snd (mounts cb))"
    using cb kafka_mount_paths_distinct [of sec] kcat_mount_paths_distinct [of sec] m by auto
  ultimately show ?thesis by blast
qed

text \<open>
  The containers of a built stateful set: the broker container comes first, then the prober,
  then the Vector container exactly when the agent is enabled, the one the library builds for
  the shared volumes \<open>config\<close> and \<open>log\<close>.
\<close>

theorem statefulset_containers:
  assumes "build_broker_rolegroup_statefulset lib kafka r img rg bc url sec config account = Inr ss"
  shows "\<exists>kafka_cb kcat_cb vector.
           pod_containers (pt_builder (ss_template ss)) =
             BuiltContainer kafka_cb # BuiltContainer kcat_cb # vector \<and>
           cb_name kafka_cb = ''kafka'' \<and> cb_name kcat_cb = ''kcat-prober'' \<and>
           (vector \<noteq> []) = enable_vector_agent (kc_logging config) \<and>
           set vector \<subseteq> {c. vector_container lib img ''config'' ''log''
              (bt_get (log_containers (kc_logging config)) Vector)
              (ResourcesExplicit ''250m'' ''500m'' ''128Mi'' ''128Mi'') = Inr c}"
  by (rule build_statefulset_pod [OF assms]) auto

text \<open>
  C35. The service and the stateful set of a role group fit together: the set names the service as
  its governing service, both select by the same labels, and the set carries the number of
  replicas of the role group the reference names (16 bits widened to 32, the value unchanged).
\<close>

theorem statefulset_service_agree:
  fixes lib :: "'e operator_lib"
  assumes "build_broker_rolegroup_statefulset lib kafka r img rg bc url sec config account = Inr ss"
    and "build_broker_rolegroup_service lib kafka img rg = Inr svc"
  shows "meta_name (svc_metadata svc) = Some (ss_service_name ss) \<and>
         ss_selector ss = svc_selector svc \<and>
         (\<exists>rolegroup. (cluster_rolegroup kafka rg :: 'e crd_error + role_group) = Inr rolegroup \<and>
            map_option sint (ss_replicas ss) = map_option (\<lambda>n. int (unat n)) (rg_replicas rolegroup))"
proof (rule build_statefulset_stages [OF assms(1)])
  fix role_spec rolegroup pb2 pvcs
  assume g: "(cluster_rolegroup kafka rg :: 'e crd_error + role_group) = Inr rolegroup"
    and f: "finish_stateful_set lib kafka img rg role_spec rolegroup pb2 pvcs = Inr ss"
  have "map_option sint (map_option u16_into_i32 (rg_replicas rolegroup)) =
      map_option (\<lambda>n. int (unat n)) (rg_replicas rolegroup)"
    by (cases "rg_replicas rolegroup") (simp_all add: sint_u16_into_i32)
  then show ?thesis
    using f assms(2) g by (auto simp: finish_stateful_set_eq_Inr build_service_eq_Inr)
qed



section \<open>Witnesses\<close>

lemma collision_lib_documented: "pod_lib_documented collision_lib"
  by (simp add: pod_lib_documented_def collision_lib_volumes collision_lib_mounts
      collision_lib_secrets) (simp add: collision_lib_def)

lemma example_library_accepts:
  "library_accepts example_operator_lib example_kafka example_image rg example_config"
  by (auto simp: library_accepts_def example_meta_lib_ok heap_env_def example_config_def
      example_memory_lib_def Let_def collision_lib_def)

lemma example_namespace: "namespace example_kafka = Some ''default''"
  by (simp add: namespace_def example_kafka_def)

lemma example_lifetime: "kc_requested_secret_lifetime example_config = Some 86400"
  by (simp add: example_config_def)

definition example_account :: service_account where
  "example_account = \<lparr>sa_metadata = \<lparr>metadata_name = Some ''simple-kafka-serviceaccount'',
     metadata_namespace = Some ''default''\<rparr>, sa_body = ''{}''\<rparr>"

abbreviation example_build :: "kafka_tls_security \<Rightarrow> string controller_error fault + stateful_set" where
  "example_build sec \<equiv> build_broker_rolegroup_statefulset example_operator_lib example_kafka Broker
     example_image (broker_rolegroup_ref example_kafka ''blue'') [] None sec example_config
     example_account"

lemma example_build_ok: "\<exists>ss. example_build sec = Inr ss"
  using build_statefulset_total [of example_operator_lib, simplified, OF collision_lib_documented
      example_library_accepts example_brokers example_blue example_namespace example_lifetime]
  unfolding is_ok_iff by blast


theorem statefulset_mounts_backed_witness:
  "\<exists>ss cb. example_build kerberos_security = Inr ss \<and>
     BuiltContainer cb \<in> set (pod_containers (pt_builder (ss_template ss))) \<and>
     (''kerberos'', ''/stackable/kerberos'') \<in> set (mounts cb) \<and> distinct (map snd (mounts cb))"
proof -
  obtain ss where ss: "example_build kerberos_security = Inr ss" using example_build_ok by blast
  show ?thesis
  proof (rule build_statefulset_pod [OF ss])
    fix kafka_cb kcat_cb vector
    assume c: "pod_containers (pt_builder (ss_template ss)) =
         [BuiltContainer kafka_cb, BuiltContainer kcat_cb] @ vector"
      and m: "mounts kcat_cb = tls_kcat_mounts kerberos_security @ kerberos_mounts kerberos_security"
    have "BuiltContainer kcat_cb \<in> set (take 2 (pod_containers (pt_builder (ss_template ss))))"
      by (simp add: c numeral_2_eq_2)
    from statefulset_mounts_backed [OF ss this] have "distinct (map snd (mounts kcat_cb))" by blast
    moreover have "(''kerberos'', ''/stackable/kerberos'') \<in> set (mounts kcat_cb)"
      by (simp add: m kerberos_mounts_def example_security_defs)
    moreover have "BuiltContainer kcat_cb \<in> set (pod_containers (pt_builder (ss_template ss)))"
      by (simp add: c)
    ultimately show ?thesis using ss by blast
  qed
qed

theorem statefulset_containers_witness:
  "\<exists>ss kafka_cb kcat_cb. example_build kerberos_security = Inr ss \<and>
     pod_containers (pt_builder (ss_template ss)) = [BuiltContainer kafka_cb, BuiltContainer kcat_cb]"
proof -
  obtain ss where ss: "example_build kerberos_security = Inr ss" using example_build_ok by blast
  have "\<not> enable_vector_agent (kc_logging example_config)" by (simp add: example_config_def)
  with statefulset_containers [OF ss] ss show ?thesis by auto
qed

theorem statefulset_service_agree_witness:
  "\<exists>ss svc. example_build kerberos_security = Inr ss \<and>
     build_broker_rolegroup_service example_operator_lib example_kafka example_image
       (broker_rolegroup_ref example_kafka ''blue'') = Inr svc \<and> ss_selector ss = svc_selector svc"
proof -
  obtain ss where ss: "example_build kerberos_security = Inr ss" using example_build_ok by blast
  obtain svc where svc: "build_broker_rolegroup_service example_operator_lib example_kafka example_image
       (broker_rolegroup_ref example_kafka ''blue'') = Inr svc"
    by (auto simp: build_service_eq_Inr example_meta_lib_ok)
  from statefulset_service_agree [OF ss svc] ss svc show ?thesis by blast
qed


end
