(* ===== verification/Controller.thy ===== *)
theory Controller
  imports StatefulSet
begin

text \<open>
  The reconciliation: \<open>reconcile_kafka\<close> of \<open>rust/operator-binary/src/kafka_controller.rs\<close>. It runs
  over the trace of its requests to the API server, in four phases: the preparation, which only
  reads; the RBAC objects; one round per role group; the disruption budget, the discovery config
  maps, the deletion of orphaned resources and the status.
\<close>

section \<open>Library functions\<close>

type_synonym role_config_by_kind =
  "(string \<times> (string \<times> (property_name_kind \<times> (string, string option) btree_map) list) list) list"

type_synonym validated_role_config = "(string \<times> (string \<times> role_group_config) list) list"

record 'e controller_lib =
  ctl_op :: "'e operator_lib"
  resolve_image :: "json \<Rightarrow> string \<Rightarrow> resolved_product_image"
  apply_strategy :: "json \<Rightarrow> json"
  cluster_resources_error :: "object_meta \<Rightarrow> json \<Rightarrow> 'e option"
  transform_all_roles_to_config ::
    "kafka_cluster \<Rightarrow> string \<Rightarrow> property_name_kind list \<Rightarrow> role \<Rightarrow> 'e + role_config_by_kind"
  validate_all_roles_and_groups_config ::
    "string \<Rightarrow> role_config_by_kind \<Rightarrow> 'e + validated_role_config"
  authentication_provider_to_string :: "authentication_class_provider \<Rightarrow> string"
  get_required_labels :: "'e + labels"
  build_rbac_resources :: "kafka_cluster \<Rightarrow> string \<Rightarrow> labels \<Rightarrow> 'e + service_account \<times> json"
  compute_conditions :: "kafka_cluster \<Rightarrow> json list \<Rightarrow> json \<Rightarrow> json list"

section \<open>Preparation\<close>

definition io_fails :: "('e \<Rightarrow> 'f) \<Rightarrow> ('w, 'e, 'a) io \<Rightarrow> ('w, 'f fault, 'a) io" where
  "io_fails c m = io_context (\<lambda>e. Fail (c e)) m"

definition validated_product_config ::
  "'e controller_lib \<Rightarrow> kafka_cluster \<Rightarrow> resolved_product_image \<Rightarrow>
     'e controller_error + validated_role_config" where
  "validated_product_config lib kafka img =
     and_then (ok_or NoBrokerRole (spec_brokers (spec kafka))) (\<lambda>brokers.
     and_then (with_context GenerateProductConfig
       (transform_all_roles_to_config lib kafka (kafka_role_to_string Broker)
         [File SERVER_PROPERTIES_FILE, File JVM_SECURITY_PROPERTIES_FILE, Env] brokers)) (\<lambda>config.
     with_context InvalidProductConfig
       (validate_all_roles_and_groups_config lib (product_version img) config)))"

record prepared =
  pr_image :: resolved_product_image
  pr_role_config :: "(string \<times> role_group_config) list"
  pr_security :: kafka_tls_security
  pr_opa_connect :: "string option"
  pr_vector_aggregator :: "string option"

definition prepare ::
  "'e controller_lib \<Rightarrow> 'e server \<Rightarrow> kafka_cluster \<Rightarrow> (trace, 'e controller_error fault, prepared) io"
where
  "prepare lib srv kafka =
     (let img = resolve_image lib (spec_image (spec kafka)) DOCKER_IMAGE_BASE_NAME;
          strategy = apply_strategy lib (spec_cluster_operation (spec kafka)) in
      io_bind (io_fails CreateClusterResources (request (NewClusterResources strategy)
          (\<lambda>_. unless_error (cluster_resources_error lib (metadata kafka) strategy) ())))
      (\<lambda>_. io_bind (io_lift (fails (validated_product_config lib kafka img)))
      (\<lambda>validated. let role_broker_config =
           (case map_of validated (kafka_role_to_string Broker) of None \<Rightarrow> [] | Some c \<Rightarrow> c) in
      io_bind (io_fails FailedToInitializeSecurityContext
        (new_from_kafka_cluster
          (\<lambda>n. request (GetAuthenticationClass n) (\<lambda>w. srv_authentication_class srv w n))
          (authentication_provider_to_string lib) kafka))
      (\<lambda>sec. io_bind (io_lift (fails (with_context FailedToValidateAuthenticationMethod
          (validate_authentication_methods sec))))
      (\<lambda>_. io_bind (case opa (cc_authorization (spec_cluster_config (spec kafka))) of
          None \<Rightarrow> io_return None
        | Some opa_spec \<Rightarrow> io_bind (io_fails InvalidOpaConfig
            (request (GetOpaConfigMap opa_spec) (\<lambda>w. srv_opa_url srv w opa_spec)))
            (\<lambda>url. io_return (Some url)))
      (\<lambda>opa_connect. io_bind (io_fails ResolveVectorAggregatorAddress
          (resolve_vector_aggregator_address srv kafka))
      (\<lambda>address. io_return \<lparr>pr_image = img, pr_role_config = role_broker_config,
         pr_security = sec, pr_opa_connect = opa_connect, pr_vector_aggregator = address\<rparr>)))))))"

section \<open>RBAC\<close>

definition apply_rbac ::
  "'e controller_lib \<Rightarrow> 'e server \<Rightarrow> kafka_cluster \<Rightarrow>
     (trace, 'e controller_error fault, service_account) io" where
  "apply_rbac lib srv kafka =
     io_bind (io_lift (fails (with_context GetRequiredLabels (get_required_labels lib)))) (\<lambda>labels.
     io_bind (io_lift (fails (with_context BuildRbacResources
       (build_rbac_resources lib kafka APP_NAME labels)))) (\<lambda>(rbac_sa, rbac_rolebinding).
     io_bind (io_fails ApplyServiceAccount (apply_object srv (ServiceAccountObject rbac_sa)
       (\<lambda>w. srv_service_account srv w rbac_sa))) (\<lambda>rbac_sa.
     io_bind (io_fails ApplyRoleBinding (apply_object srv (RoleBindingObject rbac_rolebinding)
       (\<lambda>_. ()))) (\<lambda>_. io_return rbac_sa))))"

section \<open>Role groups\<close>

record rolegroup_objects =
  ro_service :: service
  ro_config_map :: config_map_builder
  ro_stateful_set :: stateful_set
  ro_listener :: listener_object

definition build_rolegroup ::
  "'e controller_lib \<Rightarrow> kafka_cluster \<Rightarrow> prepared \<Rightarrow> service_account \<Rightarrow> string \<Rightarrow> role_group_config \<Rightarrow>
     'e controller_error fault + rolegroup_objects" where
  "build_rolegroup lib kafka pr rbac_sa rolegroup_name rolegroup_config =
     (let rolegroup_ref = broker_rolegroup_ref kafka rolegroup_name;
          img = pr_image pr;
          sec = pr_security pr
      in and_then (fails (with_context FailedToResolveConfig
           (merged_config (op_crd (ctl_op lib)) kafka Broker rolegroup_ref))) (\<lambda>config.
         and_then (fails (build_broker_rolegroup_service (ctl_op lib) kafka img rolegroup_ref))
         (\<lambda>rg_service. and_then (fails (build_broker_rolegroup_config_map (ctl_op lib) kafka img sec
           rolegroup_ref rolegroup_config config (pr_vector_aggregator pr)))
         (\<lambda>rg_configmap. and_then (build_broker_rolegroup_statefulset (ctl_op lib) kafka Broker img
           rolegroup_ref rolegroup_config (pr_opa_connect pr) sec config rbac_sa)
         (\<lambda>rg_statefulset. and_then (fails (build_broker_rolegroup_bootstrap_listener (ctl_op lib)
           kafka img sec rolegroup_ref config))
         (\<lambda>rg_bootstrap_listener. Inr \<lparr>ro_service = rg_service, ro_config_map = rg_configmap,
            ro_stateful_set = rg_statefulset, ro_listener = rg_bootstrap_listener\<rparr>))))))"

definition apply_rolegroup ::
  "'e server \<Rightarrow> role_group_ref \<Rightarrow> rolegroup_objects \<Rightarrow>
     (trace, 'e controller_error fault, listener_object \<times> json) io" where
  "apply_rolegroup srv rolegroup_ref ro =
     io_bind (io_fails ApplyRoleService (apply_object srv (ListenerObject (ro_listener ro))
       (\<lambda>w. srv_listener srv w (ro_listener ro)))) (\<lambda>listener.
     io_bind (io_fails (\<lambda>e. ApplyRoleGroupService e rolegroup_ref)
       (apply_object srv (ServiceObject (ro_service ro)) (\<lambda>_. ()))) (\<lambda>_.
     io_bind (io_fails (\<lambda>e. ApplyRoleGroupConfig e rolegroup_ref)
       (apply_object srv (ConfigMapObject (ro_config_map ro)) (\<lambda>_. ()))) (\<lambda>_.
     io_bind (io_fails (\<lambda>e. ApplyRoleGroupStatefulSet e rolegroup_ref)
       (apply_object srv (StatefulSetObject (ro_stateful_set ro))
         (\<lambda>w. srv_stateful_set srv w (ro_stateful_set ro)))) (\<lambda>ss.
     io_return (listener, ss)))))"

text \<open>
  One round of the loop. Its first line, \<open>broker_rolegroup_ref\<close>, takes the reference of the cluster
  object, which panics for an object without a name.
\<close>

definition reconcile_rolegroup ::
  "'e controller_lib \<Rightarrow> 'e server \<Rightarrow> kafka_cluster \<Rightarrow> prepared \<Rightarrow> service_account \<Rightarrow>
     string \<times> role_group_config \<Rightarrow> (trace, 'e controller_error fault, listener_object \<times> json) io" where
  "reconcile_rolegroup lib srv kafka pr rbac_sa rg =
     io_bind (io_lift (and_then (name_unchecked (metadata kafka)) (\<lambda>_.
         build_rolegroup lib kafka pr rbac_sa (fst rg) (snd rg))))
       (apply_rolegroup srv (broker_rolegroup_ref kafka (fst rg)))"

section \<open>Cluster-wide objects and the end\<close>

definition apply_pdb ::
  "'e controller_lib \<Rightarrow> 'e server \<Rightarrow> kafka_cluster \<Rightarrow> (trace, 'e controller_error fault, unit) io" where
  "apply_pdb lib srv kafka =
     (case cluster_role_config kafka Broker of
        None \<Rightarrow> io_return ()
      | Some role_config \<Rightarrow> io_fails FailedToCreatePdb
          (add_pdbs srv (op_pdb (ctl_op lib)) (pod_disruption_budget role_config) kafka Broker))"

definition apply_discovery ::
  "'e controller_lib \<Rightarrow> 'e server \<Rightarrow> kafka_cluster \<Rightarrow> prepared \<Rightarrow> listener_object list \<Rightarrow>
     (trace, 'e controller_error fault, unit) io" where
  "apply_discovery lib srv kafka pr listeners =
     io_bind (io_lift (fault_context BuildDiscoveryConfig
       (build_discovery_configmaps (op_meta (ctl_op lib)) (config_map_build_error (ctl_op lib)) kafka
         (metadata kafka) (pr_image pr) (pr_security pr) listeners))) (\<lambda>cms.
     io_bind (io_for cms (\<lambda>cm. io_fails ApplyDiscoveryConfig
       (apply_object srv (ConfigMapObject cm) (\<lambda>_. ())))) (\<lambda>_. io_return ()))"

definition finish_reconcile ::
  "'e controller_lib \<Rightarrow> 'e server \<Rightarrow> kafka_cluster \<Rightarrow> json list \<Rightarrow>
     (trace, 'e controller_error fault, action) io" where
  "finish_reconcile lib srv kafka stateful_sets =
     (let conditions = compute_conditions lib kafka stateful_sets (spec_cluster_operation (spec kafka)) in
      io_bind (io_fails DeleteOrphansFailed (request DeleteOrphans
        (\<lambda>w. unless_error (srv_delete_orphans_error srv w) ()))) (\<lambda>_.
      io_bind (io_fails ApplyStatus (request (PatchStatus conditions)
        (\<lambda>w. unless_error (srv_patch_status_error srv w conditions) ()))) (\<lambda>_.
      io_return AwaitChange)))"

text \<open>Everything before the end, with the stateful sets the server returned.\<close>

definition reconcile_objects ::
  "'e controller_lib \<Rightarrow> 'e server \<Rightarrow> kafka_cluster \<Rightarrow> (trace, 'e controller_error fault, json list) io"
where
  "reconcile_objects lib srv kafka =
     io_bind (prepare lib srv kafka) (\<lambda>pr.
     io_bind (apply_rbac lib srv kafka) (\<lambda>rbac_sa.
     io_bind (io_for (pr_role_config pr) (reconcile_rolegroup lib srv kafka pr rbac_sa)) (\<lambda>results.
     io_bind (apply_pdb lib srv kafka) (\<lambda>_.
     io_bind (apply_discovery lib srv kafka pr (map fst results)) (\<lambda>_.
     io_return (map snd results))))))"

definition reconcile_kafka ::
  "'e controller_lib \<Rightarrow> 'e server \<Rightarrow> 'e + kafka_cluster \<Rightarrow>
     (trace, 'e controller_error fault, action) io" where
  "reconcile_kafka lib srv guarded =
     io_bind (io_lift (fails (with_context InvalidKafkaCluster guarded))) (\<lambda>kafka.
     io_bind (reconcile_objects lib srv kafka) (finish_reconcile lib srv kafka))"

section \<open>Requests and their answers\<close>

text \<open>Whether the server accepts a request made after the given trace.\<close>

fun accepted :: "'e server \<Rightarrow> trace \<Rightarrow> effect \<Rightarrow> bool" where
  "accepted srv w (NewClusterResources s) = True"
| "accepted srv w (GetAuthenticationClass n) = is_ok (srv_authentication_class srv w n)"
| "accepted srv w (GetOpaConfigMap c) = is_ok (srv_opa_url srv w c)"
| "accepted srv w (GetConfigMap n ns) = is_ok (srv_config_map_data srv w n ns)"
| "accepted srv w (Apply x) = (srv_apply_error srv w x = None)"
| "accepted srv w DeleteOrphans = (srv_delete_orphans_error srv w = None)"
| "accepted srv w (PatchStatus c) = (srv_patch_status_error srv w c = None)"

fun all_accepted :: "'e server \<Rightarrow> trace \<Rightarrow> effect list \<Rightarrow> bool" where
  "all_accepted srv w [] = True"
| "all_accepted srv w (e # es) = (accepted srv w e \<and> all_accepted srv (w @ [e]) es)"

lemma all_accepted_append:
  "all_accepted srv w (us @ vs) \<longleftrightarrow> all_accepted srv w us \<and> all_accepted srv (w @ us) vs"
  by (induction us arbitrary: w) auto

datatype write_kind =
    WServiceAccount | WRoleBinding | WListener | WService | WConfigMap | WStatefulSet | WPdb
  | WDeleteOrphans | WStatus

fun object_kind :: "k8s_object \<Rightarrow> write_kind" where
  "object_kind (ListenerObject x) = WListener"
| "object_kind (ServiceObject x) = WService"
| "object_kind (ConfigMapObject x) = WConfigMap"
| "object_kind (StatefulSetObject x) = WStatefulSet"
| "object_kind (ServiceAccountObject x) = WServiceAccount"
| "object_kind (RoleBindingObject x) = WRoleBinding"
| "object_kind (PdbObject x) = WPdb"

fun write_kinds :: "effect list \<Rightarrow> write_kind list" where
  "write_kinds [] = []"
| "write_kinds (Apply x # es) = object_kind x # write_kinds es"
| "write_kinds (DeleteOrphans # es) = WDeleteOrphans # write_kinds es"
| "write_kinds (PatchStatus c # es) = WStatus # write_kinds es"
| "write_kinds (e # es) = write_kinds es"

lemma write_kinds_append: "write_kinds (us @ vs) = write_kinds us @ write_kinds vs"
  by (induction us rule: write_kinds.induct) auto

text \<open>
  \<open>performs srv K m\<close>: a successful run of \<open>m\<close> only adds accepted requests, and \<open>K\<close> relates its
  result to the kinds of the writes it added.
\<close>

definition performs ::
  "'e server \<Rightarrow> ('a \<Rightarrow> write_kind list \<Rightarrow> bool) \<Rightarrow> (trace, 'f, 'a) io \<Rightarrow> bool" where
  "performs srv K m \<longleftrightarrow> (\<forall>w x w'. m w = (Inr x, w') \<longrightarrow>
     (\<exists>us. w' = w @ us \<and> all_accepted srv w us \<and> K x (write_kinds us)))"

lemma performs_return: "K x [] \<Longrightarrow> performs srv K (io_return x)"
  by (auto simp: performs_def)

lemma performs_lift: "(\<And>x. r = Inr x \<Longrightarrow> K x []) \<Longrightarrow> performs srv K (io_lift r)"
  by (auto simp: performs_def)

lemma performs_fails: "performs srv K m \<Longrightarrow> performs srv K (io_fails c m)"
  by (auto simp: performs_def io_fails_def io_simps)

lemma performs_context: "performs srv K m \<Longrightarrow> performs srv K (io_context c m)"
  by (auto simp: performs_def io_simps)

lemma performs_mono: "performs srv K m \<Longrightarrow> (\<And>x k. K x k \<Longrightarrow> L x k) \<Longrightarrow> performs srv L m"
  unfolding performs_def by meson

lemma performs_bind:
  assumes m: "performs srv K m" and f: "\<And>x. performs srv (L x) (f x)"
    and comb: "\<And>x k y l. K x k \<Longrightarrow> L x y l \<Longrightarrow> M y (k @ l)"
  shows "performs srv M (io_bind m f)"
  unfolding performs_def
proof (intro allI impI)
  fix w y w''
  assume "io_bind m f w = (Inr y, w'')"
  then obtain x w' where m1: "m w = (Inr x, w')" and f1: "f x w' = (Inr y, w'')"
    by (auto simp: io_bind_eq_Inr)
  from m1 m obtain us where us: "w' = w @ us" "all_accepted srv w us" "K x (write_kinds us)"
    unfolding performs_def by meson
  from f1 f [of x] obtain vs where vs: "w'' = w' @ vs" "all_accepted srv w' vs" "L x y (write_kinds vs)"
    unfolding performs_def by meson
  show "\<exists>us. w'' = w @ us \<and> all_accepted srv w us \<and> M y (write_kinds us)"
    using us vs comb [OF us(3) vs(3)]
    by (intro exI [of _ "us @ vs"]) (simp add: all_accepted_append write_kinds_append)
qed

lemma performs_for:
  assumes "\<And>x. performs srv (\<lambda>_ k. k = ks) (body x)"
  shows "performs srv (\<lambda>ys k. length ys = length xs \<and> k = concat (replicate (length ys) ks))
    (io_for xs body)"
proof (induction xs)
  case (Cons x xs)
  have "performs srv (\<lambda>ys k. length ys = Suc (length xs) \<and> k = concat (replicate (length xs) ks))
      (io_bind (io_for xs body) (\<lambda>ys. io_return (y # ys)))" for y
    by (rule performs_bind [OF Cons.IH, where L = "\<lambda>ys zs k. zs = y # ys \<and> k = []"])
      (auto intro: performs_return)
  then show ?case
    unfolding io_for.simps by (rule performs_bind [OF assms]) auto
next
  case Nil
  show ?case unfolding io_for.simps by (rule performs_return) simp
qed

lemma performs_apply: "performs srv (\<lambda>_ k. k = [object_kind x]) (apply_object srv x answer)"
  by (auto simp: performs_def io_simps)

lemma performs_read:
  assumes "write_kinds [e] = []" and "\<And>w x. answer w = Inr x \<Longrightarrow> accepted srv w e"
  shows "performs srv (\<lambda>_ k. k = []) (request e answer)"
  unfolding performs_def
proof (intro allI impI)
  fix w x w'
  assume "request e answer w = (Inr x, w')"
  then have "answer w = Inr x" "w' = w @ [e]" by (auto simp: request_run)
  then show "\<exists>us. w' = w @ us \<and> all_accepted srv w us \<and> write_kinds us = []"
    using assms by (intro exI [of _ "[e]"]) auto
qed

text \<open>A computation that only reads: every request it makes is a read, also when it fails.\<close>

abbreviation reads_only :: "(trace, 'e, 'a) io \<Rightarrow> bool" where
  "reads_only m \<equiv> emits (\<lambda>e. \<not> is_write e) m"

lemma write_kinds_reads: "list_all (\<lambda>e. \<not> is_write e) us \<Longrightarrow> write_kinds us = []"
  by (induction us rule: write_kinds.induct) auto

lemma emits_fails [emits_intros]: "emits P m \<Longrightarrow> emits P (io_fails c m)"
  unfolding io_fails_def by (rule emits_context)

lemma emits_prepare: "reads_only (prepare lib srv kafka)"
  unfolding prepare_def Let_def
  by (intro emits_intros emits_new_from_kafka_cluster emits_resolve_vector_aggregator_address)
    (auto intro!: emits_intros split: option.splits)

subsection \<open>The phases\<close>

abbreviation quiet :: "'e server \<Rightarrow> (trace, 'f, 'a) io \<Rightarrow> bool" where
  "quiet srv m \<equiv> performs srv (\<lambda>_ k. k = []) m"

lemma quiet_bind: "quiet srv m \<Longrightarrow> (\<And>x. quiet srv (f x)) \<Longrightarrow> quiet srv (io_bind m f)"
  by (erule performs_bind) auto

lemma quiet_for: "(\<And>x. quiet srv (body x)) \<Longrightarrow> quiet srv (io_for xs body)"
  by (rule performs_mono [OF performs_for]) auto

lemma quiet_lift: "quiet srv (io_lift r)"
  by (rule performs_lift) simp

lemma quiet_return: "quiet srv (io_return x)"
  by (rule performs_return) simp

lemmas quiet_intros =
  quiet_bind quiet_for quiet_lift quiet_return performs_fails performs_context

lemma quiet_prepare: "quiet srv (prepare lib srv kafka)"
proof -
  have new: "quiet srv (request (NewClusterResources s) (\<lambda>_. unless_error e ()))" for s e
    by (rule performs_read) simp_all
  have auth: "quiet srv (request (GetAuthenticationClass n) (\<lambda>w. srv_authentication_class srv w n))" for n
    by (rule performs_read) simp_all
  have opa_url: "quiet srv (request (GetOpaConfigMap c) (\<lambda>w. srv_opa_url srv w c))" for c
    by (rule performs_read) simp_all
  have cm: "quiet srv (request (GetConfigMap n ns) (\<lambda>w. srv_config_map_data srv w n ns))" for n ns
    by (rule performs_read) simp_all
  have opa_phase: "quiet srv (case x of None \<Rightarrow> io_return None
        | Some opa_spec \<Rightarrow> io_bind (io_fails InvalidOpaConfig
            (request (GetOpaConfigMap opa_spec) (\<lambda>w. srv_opa_url srv w opa_spec)))
            (\<lambda>url. io_return (Some url)))" for x
    by (cases x) (auto intro: quiet_intros opa_url)
  have vector: "quiet srv (resolve_vector_aggregator_address srv kafka)"
    unfolding resolve_vector_aggregator_address_def
    by (cases "cc_vector_aggregator_config_map_name (spec_cluster_config (spec kafka))")
      (auto intro!: quiet_intros cm)
  show ?thesis
    unfolding prepare_def Let_def new_from_kafka_cluster_def from_references_def
    by (intro quiet_intros new auth opa_phase vector)
qed

lemma performs_apply_rbac:
  "performs srv (\<lambda>_ k. k = [WServiceAccount, WRoleBinding]) (apply_rbac lib srv kafka)"
  unfolding apply_rbac_def case_prod_unfold
  by (rule performs_bind [OF quiet_lift performs_bind [OF quiet_lift
        performs_bind [OF performs_fails [OF performs_apply]
          performs_bind [OF performs_fails [OF performs_apply] quiet_return]]]]) simp_all

definition rolegroup_kinds :: "write_kind list" where
  "rolegroup_kinds = [WListener, WService, WConfigMap, WStatefulSet]"

lemma performs_reconcile_rolegroup:
  "performs srv (\<lambda>_ k. k = rolegroup_kinds) (reconcile_rolegroup lib srv kafka pr sa rg)"
  unfolding reconcile_rolegroup_def apply_rolegroup_def rolegroup_kinds_def
  by (rule performs_bind [OF quiet_lift
        performs_bind [OF performs_fails [OF performs_apply]
        performs_bind [OF performs_fails [OF performs_apply]
        performs_bind [OF performs_fails [OF performs_apply]
        performs_bind [OF performs_fails [OF performs_apply] quiet_return]]]]]) simp_all

definition pdb_kinds :: "kafka_cluster \<Rightarrow> write_kind list" where
  "pdb_kinds kafka =
     (case spec_brokers (spec kafka) of None \<Rightarrow> []
      | Some rl \<Rightarrow> if pdb_enabled (pod_disruption_budget (role_generic_config rl)) then [WPdb] else [])"

lemma performs_apply_pdb: "performs srv (\<lambda>_ k. k = pdb_kinds kafka) (apply_pdb lib srv kafka)"
proof (cases "spec_brokers (spec kafka)")
  case None
  then show ?thesis
    unfolding apply_pdb_def cluster_role_config_def pdb_kinds_def by (simp add: quiet_return)
next
  case (Some rl)
  have "performs srv (\<lambda>_ k. k = pdb_kinds kafka)
      (add_pdbs srv l (pod_disruption_budget (role_generic_config rl)) kafka Broker)" for l
  proof (cases "pdb_enabled (pod_disruption_budget (role_generic_config rl))")
    case True
    then have kinds: "pdb_kinds kafka = [WPdb]" by (simp add: pdb_kinds_def Some)
    show ?thesis
      unfolding add_pdbs_def Let_def kinds
      using True by (simp only: not_True_eq_False if_False)
        (rule performs_bind [OF quiet_lift performs_context [OF performs_apply]], simp)
  qed (simp add: add_pdbs_def pdb_kinds_def Some quiet_return)
  then show ?thesis
    unfolding apply_pdb_def cluster_role_config_def Some by (auto intro: performs_fails)
qed

lemma performs_apply_discovery:
  "performs srv (\<lambda>_ k. k = [WConfigMap, WConfigMap]) (apply_discovery lib srv kafka pr ls)"
proof -
  have two: "length cms = 2" if "fault_context BuildDiscoveryConfig
       (build_discovery_configmaps (op_meta (ctl_op lib)) (config_map_build_error (ctl_op lib)) kafka
         (metadata kafka) (pr_image pr) (pr_security pr) ls) = Inr cms" for cms
    using that by (auto simp: fault_context_eq_Inr build_discovery_configmaps_eq_Inr)
  have body: "performs srv (\<lambda>_ k. k = [WConfigMap]) (io_fails ApplyDiscoveryConfig
      (apply_object srv (ConfigMapObject cm) (\<lambda>_. ())))" for cm
    using performs_fails [OF performs_apply [where x = "ConfigMapObject cm"]] by simp
  have loop: "performs srv (\<lambda>_ k. k = concat (replicate (length cms) [WConfigMap]))
      (io_bind (io_for cms (\<lambda>cm. io_fails ApplyDiscoveryConfig
        (apply_object srv (ConfigMapObject cm) (\<lambda>_. ())))) (\<lambda>_. io_return ()))" for cms
    by (rule performs_bind [OF performs_for [OF body] quiet_return]) auto
  show ?thesis
    unfolding apply_discovery_def
    by (rule performs_bind [where K = "\<lambda>cms k. length cms = 2 \<and> k = []", OF performs_lift loop])
      (use two in \<open>auto simp: numeral_2_eq_2\<close>)
qed

lemma performs_reconcile_objects:
  "performs srv (\<lambda>sets k. k = [WServiceAccount, WRoleBinding] @
      concat (replicate (length sets) rolegroup_kinds) @ pdb_kinds kafka @ [WConfigMap, WConfigMap])
    (reconcile_objects lib srv kafka)"
proof -
  have rest: "performs srv (\<lambda>sets k. sets = map snd results \<and> k = pdb_kinds kafka @ [WConfigMap, WConfigMap])
      (io_bind (apply_pdb lib srv kafka) (\<lambda>_.
       io_bind (apply_discovery lib srv kafka pr (map fst results)) (\<lambda>_.
       io_return (map snd results))))" for pr and results :: "(listener_object \<times> json) list"
    by (rule performs_bind [OF performs_apply_pdb performs_bind [OF performs_apply_discovery
          performs_return [where K = "\<lambda>sets k. sets = map snd results \<and> k = []"]]]) auto
  have groups: "performs srv (\<lambda>sets k. k = concat (replicate (length sets) rolegroup_kinds) @
        pdb_kinds kafka @ [WConfigMap, WConfigMap])
      (io_bind (io_for (pr_role_config pr) (reconcile_rolegroup lib srv kafka pr sa)) (\<lambda>results.
       io_bind (apply_pdb lib srv kafka) (\<lambda>_.
       io_bind (apply_discovery lib srv kafka pr (map fst results)) (\<lambda>_.
       io_return (map snd results)))))" for pr sa
    by (rule performs_bind [OF performs_for [OF performs_reconcile_rolegroup] rest]) auto
  show ?thesis
    unfolding reconcile_objects_def
    by (rule performs_bind [OF quiet_prepare performs_bind [OF performs_apply_rbac groups]]) auto
qed

subsection \<open>What may be requested before the end\<close>

lemma emits_bind_lift:
  "(\<And>x. r = Inr x \<Longrightarrow> emits P (f x)) \<Longrightarrow> emits P (io_bind (io_lift r) f)"
  by (cases r) (auto simp: emits_def io_bind_def)

lemma emits_for_set:
  "(\<And>x. x \<in> set xs \<Longrightarrow> emits P (body x)) \<Longrightarrow> emits P (io_for xs body)"
  by (induction xs) (auto intro!: emits_intros)

text \<open>The metadata of an applied object, when the operator built it.\<close>

fun object_metadata :: "k8s_object \<Rightarrow> built_meta option" where
  "object_metadata (ListenerObject x) = Some (lo_metadata x)"
| "object_metadata (ServiceObject x) = Some (svc_metadata x)"
| "object_metadata (ConfigMapObject x) = Some (cm_metadata x)"
| "object_metadata (StatefulSetObject x) = Some (ss_metadata x)"
| "object_metadata _ = None"

fun owned_apply :: "kafka_cluster \<Rightarrow> effect \<Rightarrow> bool" where
  "owned_apply kafka (Apply x) =
     (case object_metadata x of None \<Rightarrow> True | Some m \<Rightarrow> owned_by kafka m)"
| "owned_apply kafka DeleteOrphans = False"
| "owned_apply kafka (PatchStatus c) = False"
| "owned_apply kafka _ = True"

lemma build_rolegroup_stages:
  assumes "build_rolegroup lib kafka pr sa g cfg = Inr ro"
  obtains config where
    "merged_config (op_crd (ctl_op lib)) kafka Broker (broker_rolegroup_ref kafka g) = Inr config"
    "build_broker_rolegroup_service (ctl_op lib) kafka (pr_image pr) (broker_rolegroup_ref kafka g) =
       Inr (ro_service ro)"
    "build_broker_rolegroup_config_map (ctl_op lib) kafka (pr_image pr) (pr_security pr)
       (broker_rolegroup_ref kafka g) cfg config (pr_vector_aggregator pr) = Inr (ro_config_map ro)"
    "build_broker_rolegroup_statefulset (ctl_op lib) kafka Broker (pr_image pr)
       (broker_rolegroup_ref kafka g) cfg (pr_opa_connect pr) (pr_security pr) config sa =
       Inr (ro_stateful_set ro)"
    "build_broker_rolegroup_bootstrap_listener (ctl_op lib) kafka (pr_image pr) (pr_security pr)
       (broker_rolegroup_ref kafka g) config = Inr (ro_listener ro)"
  using assms by (auto simp: build_rolegroup_def Let_def result_simps)

lemma build_rolegroup_metadata:
  assumes "build_rolegroup lib kafka pr sa g cfg = Inr ro"
  shows "list_all (\<lambda>m. owned_by kafka m \<and>
           meta_labels m = Some (rolegroup_labels kafka (pr_image pr) (broker_rolegroup_ref kafka g)))
           [svc_metadata (ro_service ro), cm_metadata (ro_config_map ro),
            ss_metadata (ro_stateful_set ro), lo_metadata (ro_listener ro)]"
    and "map meta_name [svc_metadata (ro_service ro), cm_metadata (ro_config_map ro),
            ss_metadata (ro_stateful_set ro), lo_metadata (ro_listener ro)] =
         map Some [lib_object_name (op_crd (ctl_op lib)) (broker_rolegroup_ref kafka g),
            lib_object_name (op_crd (ctl_op lib)) (broker_rolegroup_ref kafka g),
            lib_object_name (op_crd (ctl_op lib)) (broker_rolegroup_ref kafka g),
            lib_object_name (op_crd (ctl_op lib)) (broker_rolegroup_ref kafka g) @ ''-bootstrap'']"
proof -
  obtain config where
    s: "build_broker_rolegroup_service (ctl_op lib) kafka (pr_image pr) (broker_rolegroup_ref kafka g) =
       Inr (ro_service ro)" and
    c: "build_broker_rolegroup_config_map (ctl_op lib) kafka (pr_image pr) (pr_security pr)
       (broker_rolegroup_ref kafka g) cfg config (pr_vector_aggregator pr) = Inr (ro_config_map ro)" and
    t: "build_broker_rolegroup_statefulset (ctl_op lib) kafka Broker (pr_image pr)
       (broker_rolegroup_ref kafka g) cfg (pr_opa_connect pr) (pr_security pr) config sa =
       Inr (ro_stateful_set ro)" and
    l: "build_broker_rolegroup_bootstrap_listener (ctl_op lib) kafka (pr_image pr) (pr_security pr)
       (broker_rolegroup_ref kafka g) config = Inr (ro_listener ro)"
    by (rule build_rolegroup_stages [OF assms])
  note built =
    service_object.built [where i = "(kafka, pr_image pr, broker_rolegroup_ref kafka g)", simplified, OF s]
    config_map_object.built [where i = "(kafka, pr_image pr, pr_security pr, broker_rolegroup_ref kafka g,
      cfg, config, pr_vector_aggregator pr)", simplified, OF c]
    stateful_set_object.built [where i = "(kafka, Broker, pr_image pr, broker_rolegroup_ref kafka g, cfg,
      pr_opa_connect pr, pr_security pr, config, sa)", simplified, OF t]
    bootstrap_listener_object.built [where i = "(kafka, pr_image pr, pr_security pr,
      broker_rolegroup_ref kafka g, config)", simplified, OF l]
  show "list_all (\<lambda>m. owned_by kafka m \<and>
           meta_labels m = Some (rolegroup_labels kafka (pr_image pr) (broker_rolegroup_ref kafka g)))
           [svc_metadata (ro_service ro), cm_metadata (ro_config_map ro),
            ss_metadata (ro_stateful_set ro), lo_metadata (ro_listener ro)]"
    using built by simp
  show "map meta_name [svc_metadata (ro_service ro), cm_metadata (ro_config_map ro),
            ss_metadata (ro_stateful_set ro), lo_metadata (ro_listener ro)] =
         map Some [lib_object_name (op_crd (ctl_op lib)) (broker_rolegroup_ref kafka g),
            lib_object_name (op_crd (ctl_op lib)) (broker_rolegroup_ref kafka g),
            lib_object_name (op_crd (ctl_op lib)) (broker_rolegroup_ref kafka g),
            lib_object_name (op_crd (ctl_op lib)) (broker_rolegroup_ref kafka g) @ ''-bootstrap'']"
    using built by (simp add: bootstrap_service_name_def)
qed

lemma emits_reconcile_rolegroup:
  "emits (owned_apply kafka) (reconcile_rolegroup lib srv kafka pr sa rg)"
  unfolding reconcile_rolegroup_def
proof (rule emits_bind_lift)
  fix ro
  assume "and_then (name_unchecked (metadata kafka)) (\<lambda>_.
    build_rolegroup lib kafka pr sa (fst rg) (snd rg)) = Inr ro"
  then have "build_rolegroup lib kafka pr sa (fst rg) (snd rg) = Inr ro"
    by (auto simp: result_simps)
  from build_rolegroup_metadata(1) [OF this]
  show "emits (owned_apply kafka) (apply_rolegroup srv (broker_rolegroup_ref kafka (fst rg)) ro)"
    unfolding apply_rolegroup_def by (auto intro!: emits_intros)
qed

lemma emits_apply_discovery:
  "emits (owned_apply kafka) (apply_discovery lib srv kafka pr ls)"
  unfolding apply_discovery_def
proof (rule emits_bind_lift)
  fix cms
  assume "fault_context BuildDiscoveryConfig
       (build_discovery_configmaps (op_meta (ctl_op lib)) (config_map_build_error (ctl_op lib)) kafka
         (metadata kafka) (pr_image pr) (pr_security pr) ls) = Inr cms"
  then have "\<forall>cm\<in>set cms. owned_by kafka (cm_metadata cm)"
    by (auto simp: fault_context_eq_Inr build_discovery_configmaps_eq_Inr
        build_discovery_configmap_eq_Inr owned_by_def)
  then show "emits (owned_apply kafka) (io_bind (io_for cms (\<lambda>cm. io_fails ApplyDiscoveryConfig
       (apply_object srv (ConfigMapObject cm) (\<lambda>_. ())))) (\<lambda>_. io_return ()))"
    by (intro emits_bind emits_for_set) (auto intro!: emits_intros)
qed

lemma read_owned: "\<not> is_write e \<Longrightarrow> owned_apply kafka e"
  by (cases e) auto

lemma emits_reconcile_objects: "emits (owned_apply kafka) (reconcile_objects lib srv kafka)"
proof -
  have "emits (owned_apply kafka) (prepare lib srv kafka)"
    by (rule emits_mono [OF emits_prepare]) (rule read_owned)
  moreover have "emits (owned_apply kafka) (apply_rbac lib srv kafka)"
    unfolding apply_rbac_def case_prod_unfold by (auto intro!: emits_intros)
  moreover have "emits (owned_apply kafka) (apply_pdb lib srv kafka)"
    unfolding apply_pdb_def
    by (auto intro!: emits_intros emits_add_pdbs split: option.split)
  ultimately show ?thesis
    unfolding reconcile_objects_def
    by (intro emits_intros emits_reconcile_rolegroup emits_apply_discovery)
qed

subsection \<open>How a reconciliation can fail\<close>

definition sum_errors :: "('e \<Rightarrow> bool) \<Rightarrow> 'e + 'a \<Rightarrow> bool" where
  "sum_errors P r \<longleftrightarrow> (case r of Inl e \<Rightarrow> P e | Inr _ \<Rightarrow> True)"

definition io_errors :: "('e \<Rightarrow> bool) \<Rightarrow> ('w, 'e, 'a) io \<Rightarrow> bool" where
  "io_errors P m \<longleftrightarrow> (\<forall>w. sum_errors P (fst (m w)))"

named_theorems error_intros "the errors a computation can end with"

lemma sum_errors_basic [error_intros]:
  "sum_errors P (Inr x)" "P e \<Longrightarrow> sum_errors P (Inl e)"
  by (simp_all add: sum_errors_def)

lemma sum_errors_and_then [error_intros]:
  "sum_errors P r \<Longrightarrow> (\<And>x. r = Inr x \<Longrightarrow> sum_errors P (f x)) \<Longrightarrow> sum_errors P (and_then r f)"
  by (cases r) (simp_all add: sum_errors_def)

lemma sum_errors_context [error_intros]:
  "(\<And>e. P (c e)) \<Longrightarrow> sum_errors P (with_context c r)"
  by (cases r) (simp_all add: sum_errors_def)

lemma sum_errors_ok_or [error_intros]: "P e \<Longrightarrow> sum_errors P (ok_or e x)"
  by (cases x) (simp_all add: sum_errors_def)

lemma sum_errors_if [error_intros]:
  "(b \<Longrightarrow> sum_errors P r) \<Longrightarrow> (\<not> b \<Longrightarrow> sum_errors P s) \<Longrightarrow> sum_errors P (if b then r else s)"
  by simp

lemma io_errors_bind [error_intros]:
  assumes m: "io_errors P m" and f: "\<And>x. io_errors P (f x)"
  shows "io_errors P (io_bind m f)"
  unfolding io_errors_def
proof
  fix w
  obtain r w' where mw: "m w = (r, w')" by (cases "m w")
  have "sum_errors P r" using m [unfolded io_errors_def, rule_format, of w] by (simp add: mw)
  then show "sum_errors P (fst (io_bind m f w))"
    using f [unfolded io_errors_def, rule_format, of _ w']
    by (cases r) (simp_all add: io_bind_def mw sum_errors_def)
qed

lemma io_errors_lift [error_intros]: "sum_errors P r \<Longrightarrow> io_errors P (io_lift r)"
  by (simp add: io_errors_def)

lemma io_errors_return [error_intros]: "io_errors P (io_return x)"
  by (simp add: io_errors_def sum_errors_def)

lemma io_errors_fails [error_intros]: "(\<And>e. P (Fail (c e))) \<Longrightarrow> io_errors P (io_fails c m)"
  by (auto simp: io_errors_def sum_errors_def io_fails_def io_context_def with_context_def
      split: sum.splits prod.splits)

lemma io_errors_for [error_intros]: "(\<And>x. io_errors P (body x)) \<Longrightarrow> io_errors P (io_for xs body)"
  by (induction xs) (auto intro!: error_intros)

text \<open>Where a panic can come from, and that errors name no secondary object.\<close>

definition expected_fault :: "'e controller_lib \<Rightarrow> kafka_cluster \<Rightarrow> 'e controller_error fault \<Rightarrow> bool"
where
  "expected_fault lib kafka f \<longleftrightarrow>
     (case f of
        Panic \<Rightarrow> metadata_name (metadata kafka) = None \<or>
          (\<exists>l ls. listener_pvc_error (ctl_op lib) l ls ''listener-bootstrap'' \<noteq> None)
      | Fail e \<Rightarrow> secondary_object e = None \<and> (\<forall>x. e \<noteq> InvalidKafkaCluster x))"

definition plain_error :: "'e controller_error \<Rightarrow> bool" where
  "plain_error e \<longleftrightarrow> secondary_object e = None \<and> (\<forall>x. e \<noteq> InvalidKafkaCluster x)"

lemma expected_Fail [simp]: "expected_fault lib kafka (Fail e) = plain_error e"
  by (simp add: expected_fault_def plain_error_def)

lemma sum_errors_fails [error_intros]:
  "sum_errors plain_error r \<Longrightarrow> sum_errors (expected_fault lib kafka) (fails r)"
  by (cases r) (simp_all add: sum_errors_def)

lemmas plain_error_simps = plain_error_def secondary_object_def

lemma owned_metadata_errors:
  "(\<And>e. P (f e)) \<Longrightarrow> (\<And>e. P (g e)) \<Longrightarrow> sum_errors P (owned_metadata lib f g kafka ow n l)"
  unfolding owned_metadata_def by (intro error_intros)

lemma simple_builder_errors:
  "sum_errors plain_error (build_broker_rolegroup_service lib kafka img rg)"
  "sum_errors plain_error (build_broker_rolegroup_config_map lib kafka img sec rg bc config address)"
  "sum_errors plain_error (build_broker_rolegroup_bootstrap_listener lib kafka img sec rg config)"
  "sum_errors plain_error (finish_stateful_set lib kafka img rg rl g pb pvcs)"
  unfolding build_broker_rolegroup_service_def build_broker_rolegroup_config_map_def
    build_broker_rolegroup_bootstrap_listener_def finish_stateful_set_def Let_def
  by (intro error_intros owned_metadata_errors; simp add: plain_error_simps)+

lemma add_volume_mounts_errors: "sum_errors plain_error (add_volume_mounts lib ms cb)"
  by (induction lib ms cb rule: add_volume_mounts.induct)
    (auto intro!: error_intros simp: plain_error_simps)

lemma container_errors:
  "sum_errors plain_error (new_container lib c)"
  "sum_errors plain_error (broker_env mem kafka bc config)"
  "sum_errors plain_error (build_kafka_container op img sec ls url env config cb)"
proof -
  show "sum_errors plain_error (new_container lib c)"
    unfolding new_container_def by (intro error_intros) (simp add: plain_error_simps)
  have "sum_errors plain_error (heap_env mem config)"
    unfolding heap_env_def Let_def
    by (cases "res_memory_limit (kc_resources config)")
      (auto intro!: error_intros simp: plain_error_simps)
  then show "sum_errors plain_error (broker_env mem kafka bc config)"
    unfolding broker_env_def Let_def by (intro error_intros)
  show "sum_errors plain_error (build_kafka_container op img sec ls url env config cb)"
    unfolding build_kafka_container_def Let_def by (intro error_intros add_volume_mounts_errors)
qed

lemma build_pod_errors: "sum_errors plain_error (build_pod lib img rg config sa ols ls b)"
proof -
  obtain pb kcat kafka_cb where b: "b = (pb, kcat, kafka_cb)" by (cases b)
  show ?thesis
    unfolding build_pod_def Let_def b prod.case
    by (intro error_intros; simp add: plain_error_simps)
qed

lemma secure_pod_errors:
  "sum_errors (expected_fault lib kafka) (secure_pod (ctl_op lib) r rg sec config ul b)"
  unfolding secure_pod_def Let_def
  by (intro error_intros; (simp add: plain_error_simps)?)
    (auto simp: sum_errors_def expected_fault_def LISTENER_BOOTSTRAP_VOLUME_NAME_def
      unless_error_def unwrap_def split: option.splits)

lemma stateful_set_errors:
  "sum_errors (expected_fault lib kafka)
     (build_broker_rolegroup_statefulset (ctl_op lib) kafka r img rg bc url sec config sa)"
  unfolding build_broker_rolegroup_statefulset_def Let_def case_prod_unfold
  by (intro error_intros secure_pod_errors container_errors build_pod_errors simple_builder_errors;
      simp add: plain_error_simps)

lemma build_rolegroup_errors:
  "sum_errors (expected_fault lib kafka) (build_rolegroup lib kafka pr sa g cfg)"
  unfolding build_rolegroup_def Let_def
  by (intro error_intros stateful_set_errors simple_builder_errors; simp add: plain_error_simps)

lemma io_errors_fails_expected [error_intros]:
  "(\<And>e. plain_error (c e)) \<Longrightarrow> io_errors (expected_fault lib kafka) (io_fails c m)"
  by (rule io_errors_fails) simp

lemma name_unchecked_errors: "sum_errors (expected_fault lib kafka) (name_unchecked (metadata kafka))"
  by (cases "metadata_name (metadata kafka)")
    (simp_all add: name_unchecked_def sum_errors_def expected_fault_def)

lemma reconcile_objects_errors:
  "io_errors (expected_fault lib kafka) (reconcile_objects lib srv kafka)"
proof -
  have opa_phase: "io_errors (expected_fault lib kafka) (case x of None \<Rightarrow> io_return None
        | Some opa_spec \<Rightarrow> io_bind (io_fails InvalidOpaConfig
            (request (GetOpaConfigMap opa_spec) (\<lambda>w. srv_opa_url srv w opa_spec)))
            (\<lambda>url. io_return (Some url)))" for x
    by (cases x) (auto intro!: error_intros simp: plain_error_simps)
  have prep: "io_errors (expected_fault lib kafka) (prepare lib srv kafka)"
    unfolding prepare_def Let_def validated_product_config_def
    by (intro error_intros opa_phase; simp add: plain_error_simps)
  have rbac: "io_errors (expected_fault lib kafka) (apply_rbac lib srv kafka)"
    unfolding apply_rbac_def case_prod_unfold by (intro error_intros; simp add: plain_error_simps)
  have group: "io_errors (expected_fault lib kafka) (reconcile_rolegroup lib srv kafka pr sa rg)"
    for pr sa rg
    unfolding reconcile_rolegroup_def apply_rolegroup_def
    by (intro error_intros build_rolegroup_errors name_unchecked_errors; simp add: plain_error_simps)
  have pdb: "io_errors (expected_fault lib kafka) (apply_pdb lib srv kafka)"
    unfolding apply_pdb_def
    by (cases "cluster_role_config kafka Broker")
      (auto intro!: error_intros simp: plain_error_simps)
  have "sum_errors (expected_fault lib kafka) (fault_context BuildDiscoveryConfig
      (build_discovery_configmaps l c kafka (metadata kafka) img sec ls))" for l c img sec ls
    by (auto simp: sum_errors_def fault_context_def with_context_def build_discovery_configmaps_def
        build_discovery_configmap_def name_unchecked_def expected_fault_def plain_error_simps
        owned_metadata_def unless_error_def ok_or_def and_then_def fails_def Let_def
        split: sum.splits option.splits fault.splits)
  then have disc: "io_errors (expected_fault lib kafka) (apply_discovery lib srv kafka pr ls)" for pr ls
    unfolding apply_discovery_def by (intro error_intros; simp add: plain_error_simps)
  show ?thesis
    unfolding reconcile_objects_def by (intro error_intros prep rbac group pdb disc)
qed

subsection \<open>Runs\<close>

lemma finish_reconcile_run:
  "finish_reconcile lib srv kafka sets w =
     (let c = compute_conditions lib kafka sets (spec_cluster_operation (spec kafka)) in
      case srv_delete_orphans_error srv w of
        Some e \<Rightarrow> (Inl (Fail (DeleteOrphansFailed e)), w @ [DeleteOrphans])
      | None \<Rightarrow> (case srv_patch_status_error srv (w @ [DeleteOrphans]) c of
          Some e \<Rightarrow> (Inl (Fail (ApplyStatus e)), w @ [DeleteOrphans, PatchStatus c])
        | None \<Rightarrow> (Inr AwaitChange, w @ [DeleteOrphans, PatchStatus c])))"
  by (cases "srv_delete_orphans_error srv w";
      cases "srv_patch_status_error srv (w @ [DeleteOrphans])
        (compute_conditions lib kafka sets (spec_cluster_operation (spec kafka)))";
      simp add: finish_reconcile_def Let_def io_bind_def io_fails_def io_context_def request_def)

lemma io_for_length: "io_for xs body w = (Inr ys, w') \<Longrightarrow> length ys = length xs"
  by (induction xs arbitrary: w ys) (auto simp: io_simps)

lemma reconcile_objects_groups:
  assumes "reconcile_objects lib srv kafka w = (Inr sets, w')"
  shows "\<exists>pr. fst (prepare lib srv kafka w) = Inr pr \<and> length sets = length (pr_role_config pr)"
  using assms unfolding reconcile_objects_def by (auto simp: io_bind_eq_Inr dest!: io_for_length)

text \<open>A run either stops before the end, or reaches the end with all objects applied.\<close>

lemma reconcile_kafka_run:
  assumes "reconcile_kafka lib srv (Inr kafka) w = (r, w')"
  obtains
    (stopped) f us where "reconcile_objects lib srv kafka w = (Inl f, w')" "r = Inl f" "w' = w @ us"
      "list_all (owned_apply kafka) us" "expected_fault lib kafka f"
  | (not_deleted) us e where "w' = w @ us @ [DeleteOrphans]" "list_all (owned_apply kafka) us"
      "all_accepted srv w us" "\<exists>pr. fst (prepare lib srv kafka w) = Inr pr \<and>
         write_kinds us = [WServiceAccount, WRoleBinding] @
           concat (replicate (length (pr_role_config pr)) rolegroup_kinds) @
           pdb_kinds kafka @ [WConfigMap, WConfigMap]"
      "srv_delete_orphans_error srv (w @ us) = Some e"
      "r = Inl (Fail (DeleteOrphansFailed e))"
  | (finished) us sets where "list_all (owned_apply kafka) us" "all_accepted srv w us"
      "\<exists>pr. fst (prepare lib srv kafka w) = Inr pr \<and>
         write_kinds us = [WServiceAccount, WRoleBinding] @
           concat (replicate (length (pr_role_config pr)) rolegroup_kinds) @
           pdb_kinds kafka @ [WConfigMap, WConfigMap]"
      "srv_delete_orphans_error srv (w @ us) = None"
      "w' = w @ us @ [DeleteOrphans,
         PatchStatus (compute_conditions lib kafka sets (spec_cluster_operation (spec kafka)))]"
      "r = (case srv_patch_status_error srv (w @ us @ [DeleteOrphans])
               (compute_conditions lib kafka sets (spec_cluster_operation (spec kafka))) of
             None \<Rightarrow> Inr AwaitChange | Some e \<Rightarrow> Inl (Fail (ApplyStatus e)))"
proof -
  obtain r1 w1 where run: "reconcile_objects lib srv kafka w = (r1, w1)"
    by (cases "reconcile_objects lib srv kafka w")
  have all: "reconcile_kafka lib srv (Inr kafka) w =
      (case r1 of Inl f \<Rightarrow> (Inl f, w1) | Inr sets \<Rightarrow> finish_reconcile lib srv kafka sets w1)"
    by (simp add: reconcile_kafka_def io_bind_def run split: sum.split)
  obtain us where us: "w1 = w @ us" "list_all (owned_apply kafka) us"
    using emitsD [OF emits_reconcile_objects run] by blast
  show thesis
  proof (cases r1)
    case (Inl f)
    have "expected_fault lib kafka f"
      using reconcile_objects_errors [unfolded io_errors_def, rule_format, of lib kafka srv w] run Inl
      by (simp add: sum_errors_def)
    then show thesis using stopped [of f us] all assms run us Inl by simp
  next
    case (Inr sets)
    obtain vs where vs: "w1 = w @ vs" "all_accepted srv w vs"
      "write_kinds vs = [WServiceAccount, WRoleBinding] @
         concat (replicate (length sets) rolegroup_kinds) @ pdb_kinds kafka @ [WConfigMap, WConfigMap]"
      using performs_reconcile_objects [unfolded performs_def, rule_format, OF run [unfolded Inr]]
      by blast
    have "vs = us" using us(1) vs(1) by simp
    note u = us vs(2,3) [unfolded this]
    have kinds: "\<exists>pr. fst (prepare lib srv kafka w) = Inr pr \<and>
        write_kinds us = [WServiceAccount, WRoleBinding] @
          concat (replicate (length (pr_role_config pr)) rolegroup_kinds) @
          pdb_kinds kafka @ [WConfigMap, WConfigMap]"
      using reconcile_objects_groups [OF run [unfolded Inr]] u(4) by auto
    let ?c = "compute_conditions lib kafka sets (spec_cluster_operation (spec kafka))"
    have fin: "(r, w') = (case srv_delete_orphans_error srv w1 of
          Some e \<Rightarrow> (Inl (Fail (DeleteOrphansFailed e)), w1 @ [DeleteOrphans])
        | None \<Rightarrow> (case srv_patch_status_error srv (w1 @ [DeleteOrphans]) ?c of
            Some e \<Rightarrow> (Inl (Fail (ApplyStatus e)), w1 @ [DeleteOrphans, PatchStatus ?c])
          | None \<Rightarrow> (Inr AwaitChange, w1 @ [DeleteOrphans, PatchStatus ?c])))"
      using assms all by (simp add: Inr finish_reconcile_run Let_def)
    show thesis
    proof (cases "srv_delete_orphans_error srv w1")
      case (Some e)
      show thesis by (rule not_deleted [of us e]) (use fin u(1-3) Some kinds in simp_all)
    next
      case None
      then show thesis
        by (intro finished [of us sets]) (use fin u None kinds in \<open>auto split: option.splits\<close>)
    qed
  qed
qed

lemma io_bind_run: "m w = (Inr x, w') \<Longrightarrow> io_bind m f w = f x w'"
  by (simp add: io_bind_def)

lemma prepare_valid:
  assumes "prepare lib srv kafka w = (Inr pr, w')"
  shows "sec_valid (pr_security pr)" and "spec_brokers (spec kafka) \<noteq> None"
proof -
  obtain validated sec w1 w2 where
    c: "validated_product_config lib kafka (resolve_image lib (spec_image (spec kafka)) DOCKER_IMAGE_BASE_NAME)
      = Inr validated" and
    n: "new_from_kafka_cluster
          (\<lambda>n. request (GetAuthenticationClass n) (\<lambda>w. srv_authentication_class srv w n))
          (authentication_provider_to_string lib) kafka w1 = (Inr sec, w2)" and
    v: "(validate_authentication_methods sec :: 'a security_error + unit) = Inr ()" and
    pr: "pr_security pr = sec"
    using assms unfolding prepare_def Let_def io_fails_def
    by (auto simp: io_simps fails_eq_Inr with_context_eq_Inr)
  have "is_ok (validate_authentication_methods sec :: unit security_error + unit)"
    using v by (auto simp: validate_authentication_methods_def split: if_splits)
  then show "sec_valid (pr_security pr)"
    using new_from_kafka_cluster_eq_Inr [OF n] by (simp add: sec_valid_def pr)
  show "spec_brokers (spec kafka) \<noteq> None"
    using c by (auto simp: validated_product_config_def result_simps)
qed

lemma reconcile_objects_prepare:
  assumes "prepare lib srv kafka w = (Inl f, w')"
  shows "reconcile_kafka lib srv (Inr kafka) w = (Inl f, w')"
  using assms by (simp add: reconcile_kafka_def reconcile_objects_def io_bind_def)

lemma reconcile_kafka_outcome:
  assumes "reconcile_kafka lib srv (Inr kafka) w = (r, w')"
  shows "case r of
      Inr a \<Rightarrow> a = AwaitChange
    | Inl (Fail e) \<Rightarrow> secondary_object e = None \<and> error_policy e = Requeue (5 * 10 ^ 9)
    | Inl Panic \<Rightarrow> metadata_name (metadata kafka) = None \<or>
        (\<exists>l ls. listener_pvc_error (ctl_op lib) l ls ''listener-bootstrap'' \<noteq> None)"
proof -
  have policy: "plain_error e \<Longrightarrow> secondary_object e = None \<and> error_policy e = Requeue (5 * 10 ^ 9)" for e
    by (auto simp: plain_error_def error_policy_cases)
  have last: "plain_error (DeleteOrphansFailed e)" "plain_error (ApplyStatus e)" for e
    by (simp_all add: plain_error_simps)
  from assms show ?thesis
  proof (cases rule: reconcile_kafka_run)
    case (stopped f us)
    then show ?thesis
      using policy by (cases f) (auto simp: expected_fault_def plain_error_def)
  next
    case (not_deleted us e)
    then show ?thesis using policy [OF last(1)] by simp
  next
    case (finished us sets)
    show ?thesis
      using finished(6) policy [OF last(2)]
      by (cases "srv_patch_status_error srv (w @ us @ [DeleteOrphans])
        (compute_conditions lib kafka sets (spec_cluster_operation (spec kafka)))")
        simp_all
  qed
qed

lemma applied_owned:
  assumes "reconcile_kafka lib srv (Inr kafka) w = (r, w @ us)"
    and "Apply x \<in> set us" and "object_metadata x = Some m"
  shows "owned_by kafka m"
proof -
  have owned: "list_all (owned_apply kafka) vs \<Longrightarrow> Apply x \<in> set vs \<Longrightarrow> owned_by kafka m" for vs
    using assms(3) by (auto simp: list_all_iff)
  from assms(1) show ?thesis
    by (cases rule: reconcile_kafka_run) (use assms(2) owned in auto)
qed

section \<open>Properties\<close>

text \<open>
  C1. A successful reconciliation: it waits for the next change; it has made, in order, the
  writes service account, role binding, then for each role group of the validated configuration
  bootstrap listener, service, config map and stateful set, then the disruption budget if enabled,
  two discovery config maps, the deletion of orphans and the status; the server accepted every one
  of its requests.
\<close>

theorem successful_reconciliation:
  assumes "reconcile_kafka lib srv (Inr kafka) w = (Inr a, w')"
  shows "a = AwaitChange \<and> (\<exists>us pr. w' = w @ us \<and> all_accepted srv w us \<and>
           fst (prepare lib srv kafka w) = Inr pr \<and>
           write_kinds us = [WServiceAccount, WRoleBinding] @
             concat (replicate (length (pr_role_config pr)) [WListener, WService, WConfigMap, WStatefulSet]) @ pdb_kinds kafka @
             [WConfigMap, WConfigMap, WDeleteOrphans, WStatus])"
  using assms
proof (cases rule: reconcile_kafka_run)
  case (finished us sets)
  let ?c = "compute_conditions lib kafka sets (spec_cluster_operation (spec kafka))"
  have a: "srv_patch_status_error srv (w @ us @ [DeleteOrphans]) ?c = None" "a = AwaitChange"
    using finished(6) by (simp_all split: option.splits)
  let ?us = "us @ [DeleteOrphans, PatchStatus ?c]"
  have "all_accepted srv w ?us"
    using finished(2,4) a by (simp add: all_accepted_append)
  moreover have "\<exists>pr. fst (prepare lib srv kafka w) = Inr pr \<and>
      write_kinds ?us = [WServiceAccount, WRoleBinding] @
        concat (replicate (length (pr_role_config pr)) [WListener, WService, WConfigMap, WStatefulSet]) @
        pdb_kinds kafka @ [WConfigMap, WConfigMap, WDeleteOrphans, WStatus]"
    using finished(3) by (auto simp: write_kinds_append rolegroup_kinds_def)
  ultimately show ?thesis using a finished(5) by blast
qed simp_all

text \<open>
  C2. Orphaned resources are deleted only when all objects are in place: in any run, failing or
  not, that asks for the deletion, all requests before it were accepted and include every object
  of a complete reconciliation, those of all role groups of the validated configuration among
  them; at most the status patch follows it.
\<close>

theorem orphans_deleted_last:
  assumes "reconcile_kafka lib srv (Inr kafka) w = (r, w @ us)" and "DeleteOrphans \<in> set us"
  shows "\<exists>vs pr tl. us = vs @ DeleteOrphans # tl \<and> all_accepted srv w vs \<and>
           fst (prepare lib srv kafka w) = Inr pr \<and>
           write_kinds vs = [WServiceAccount, WRoleBinding] @
             concat (replicate (length (pr_role_config pr)) [WListener, WService, WConfigMap, WStatefulSet]) @ pdb_kinds kafka @
             [WConfigMap, WConfigMap] \<and>
           (tl = [] \<or> (\<exists>c. tl = [PatchStatus c]))"
  using assms(1)
proof (cases rule: reconcile_kafka_run)
  case (stopped f vs)
  then show ?thesis using assms(2) by (auto simp: list_all_iff)
next
  case (not_deleted vs e)
  then have "us = vs @ DeleteOrphans # []" by simp
  then show ?thesis using not_deleted(3,4) unfolding rolegroup_kinds_def by blast
next
  case (finished vs sets)
  then have "us = vs @ DeleteOrphans #
      [PatchStatus (compute_conditions lib kafka sets (spec_cluster_operation (spec kafka)))]" by simp
  then show ?thesis using finished(2,3) unfolding rolegroup_kinds_def by blast
qed

text \<open>
  The status is patched at most once, as the last request, and only after the deletion of
  orphaned resources was accepted; the run then fails only if the patch itself is refused.
\<close>

theorem status_patched_last:
  assumes "reconcile_kafka lib srv (Inr kafka) w = (r, w @ us)" and "PatchStatus c \<in> set us"
  shows "\<exists>vs. us = vs @ [DeleteOrphans, PatchStatus c] \<and>
           all_accepted srv w (vs @ [DeleteOrphans]) \<and> (\<forall>d. PatchStatus d \<notin> set vs) \<and>
           (r = Inr AwaitChange \<or> (\<exists>e. r = Inl (Fail (ApplyStatus e))))"
  using assms(1)
proof (cases rule: reconcile_kafka_run)
  case (finished vs sets)
  have free: "PatchStatus d \<notin> set vs" for d using finished(1) by (auto simp: list_all_iff)
  have us: "us = vs @ [DeleteOrphans,
      PatchStatus (compute_conditions lib kafka sets (spec_cluster_operation (spec kafka)))]"
    using finished(5) by simp
  with assms(2) free have "c = compute_conditions lib kafka sets (spec_cluster_operation (spec kafka))"
    by auto
  moreover have "all_accepted srv w (vs @ [DeleteOrphans])"
    using finished(2,4) by (simp add: all_accepted_append)
  moreover have "r = Inr AwaitChange \<or> (\<exists>e. r = Inl (Fail (ApplyStatus e)))"
    using finished(6) by (simp split: option.splits)
  ultimately show ?thesis using us free by blast
qed (use assms(2) in \<open>auto simp: list_all_iff\<close>)

text \<open>
  C5. Nothing is written for an invalid configuration: a run that made any write had completed its
  preparation before, so the broker role is defined and the security settings have passed
  validation (supported and compatible authentication classes, Kerberos only with TLS).
\<close>

theorem writes_need_valid_settings:
  assumes "reconcile_kafka lib srv (Inr kafka) w = (r, w @ us)" and "\<exists>e\<in>set us. is_write e"
  shows "\<exists>pr reads rest. prepare lib srv kafka w = (Inr pr, w @ reads) \<and> us = reads @ rest \<and>
           (\<forall>e\<in>set reads. \<not> is_write e) \<and> sec_valid (pr_security pr) \<and>
           spec_brokers (spec kafka) \<noteq> None"
proof -
  obtain p w1 where p: "prepare lib srv kafka w = (p, w1)" by (cases "prepare lib srv kafka w")
  obtain reads where reads: "w1 = w @ reads" "list_all (\<lambda>e. \<not> is_write e) reads"
    using emitsD [OF emits_prepare p] by blast
  show ?thesis
  proof (cases p)
    case (Inl f)
    then have "us = reads" using reconcile_objects_prepare [OF p [unfolded Inl]] assms(1) reads(1) by simp
    then show ?thesis using reads(2) assms(2) by (auto simp: list_all_iff)
  next
    case (Inr pr)
    let ?rest = "io_bind (io_bind (apply_rbac lib srv kafka) (\<lambda>rbac_sa.
         io_bind (io_for (pr_role_config pr) (reconcile_rolegroup lib srv kafka pr rbac_sa)) (\<lambda>results.
         io_bind (apply_pdb lib srv kafka) (\<lambda>_.
         io_bind (apply_discovery lib srv kafka pr (map fst results)) (\<lambda>_.
         io_return (map snd results)))))) (finish_reconcile lib srv kafka)"
    have "emits (\<lambda>_. True) ?rest"
      unfolding apply_rbac_def case_prod_unfold apply_pdb_def finish_reconcile_def Let_def
        reconcile_rolegroup_def apply_rolegroup_def apply_discovery_def
      by (auto intro!: emits_intros emits_add_pdbs split: option.split)
    moreover have "?rest w1 = (r, w @ us)"
      using assms(1) p Inr
      by (simp add: reconcile_kafka_def reconcile_objects_def io_bind_assoc io_bind_run)
    ultimately obtain rest where "w @ us = w1 @ rest" using emitsD by blast
    then show ?thesis using prepare_valid [OF p [unfolded Inr]] p Inr reads by (auto simp: list_all_iff)
  qed
qed

text \<open>
  C16. Every object the operator builds is owned: in any run each listener, service, config map and
  stateful set it applies carries a controller owner reference to the cluster, so deleting the
  cluster deletes them.
\<close>

theorem applied_objects_owned:
  assumes "reconcile_kafka lib srv (Inr kafka) w = (r, w @ us)"
    and "Apply x \<in> set us" and "object_metadata x = Some m"
  shows "MetaOwnerReference (metadata kafka) None (Some True) \<in> set m"
  using applied_owned [OF assms] by (simp add: owned_by_def)

text \<open>
  C12. How a reconciliation can fail. An object that could not be read causes no request and is
  left alone until it changes. Any other error names no secondary object and is retried after
  five seconds; a panic needs a cluster without a name or a refused claim for the bootstrap
  listener.
\<close>

theorem reconciliation_faults:
  "case reconcile_kafka lib srv guarded w of
     (Inr a, w') \<Rightarrow> a = AwaitChange
   | (Inl (Fail e), w') \<Rightarrow> secondary_object e = None \<and>
       (case guarded of
          Inl x \<Rightarrow> e = InvalidKafkaCluster x \<and> w' = w \<and> error_policy e = AwaitChange
        | Inr kafka \<Rightarrow> error_policy e = Requeue (5 * 10 ^ 9))
   | (Inl Panic, w') \<Rightarrow>
       (case guarded of
          Inl x \<Rightarrow> False
        | Inr kafka \<Rightarrow> metadata_name (metadata kafka) = None \<or>
            (\<exists>l ls. listener_pvc_error (ctl_op lib) l ls ''listener-bootstrap'' \<noteq> None))"
proof (cases guarded)
  case (Inl x)
  then show ?thesis
    by (simp add: reconcile_kafka_def io_bind_def secondary_object_def error_policy_def)
next
  case (Inr kafka)
  obtain r w' where run: "reconcile_kafka lib srv (Inr kafka) w = (r, w')"
    by (cases "reconcile_kafka lib srv (Inr kafka) w")
  then show ?thesis
    using reconcile_kafka_outcome [OF run] by (auto simp: Inr split: sum.splits fault.splits)
qed

text \<open>
  C15. The objects of a role group belong together: service, config map and stateful set have the
  role group's object name and the bootstrap listener that name with \<open>-bootstrap\<close>; all four are
  owned by the cluster and labelled alike; the pods claim exactly this bootstrap listener, and the
  broker's configuration is mounted from exactly this config map.
\<close>

theorem rolegroup_objects_consistent:
  assumes "build_rolegroup lib kafka pr sa g cfg = Inr ro"
  shows "map meta_name [svc_metadata (ro_service ro), cm_metadata (ro_config_map ro),
            ss_metadata (ro_stateful_set ro)] =
           replicate 3 (Some (lib_object_name (op_crd (ctl_op lib)) (broker_rolegroup_ref kafka g))) \<and>
         meta_name (lo_metadata (ro_listener ro)) =
           Some (lib_object_name (op_crd (ctl_op lib)) (broker_rolegroup_ref kafka g) @ ''-bootstrap'') \<and>
         list_all (\<lambda>m. owned_by kafka m \<and>
            meta_labels m = Some (rolegroup_labels kafka (pr_image pr) (broker_rolegroup_ref kafka g)))
           [svc_metadata (ro_service ro), cm_metadata (ro_config_map ro),
            ss_metadata (ro_stateful_set ro), lo_metadata (ro_listener ro)] \<and>
         (\<exists>ls n data. ss_volume_claim_templates (ro_stateful_set ro) =
            Some [DataPvc data, ListenerPvc ''listener-bootstrap'' n ls] \<and>
            meta_name (lo_metadata (ro_listener ro)) = Some n) \<and>
         (\<exists>n. \<lparr>volume_name = ''config'', volume_source = VolumeConfigMap n\<rparr>
              \<in> set (pod_volumes (pt_builder (ss_template (ro_stateful_set ro)))) \<and>
            meta_name (cm_metadata (ro_config_map ro)) = Some n)"
proof -
  obtain config where t: "build_broker_rolegroup_statefulset (ctl_op lib) kafka Broker (pr_image pr)
       (broker_rolegroup_ref kafka g) cfg (pr_opa_connect pr) (pr_security pr) config sa =
       Inr (ro_stateful_set ro)"
    by (rule build_rolegroup_stages [OF assms])
  show ?thesis
    using build_rolegroup_metadata [OF assms] build_statefulset_references [OF t]
    by (simp add: numeral_3_eq_3 bootstrap_service_name_def)
qed

section \<open>Witnesses\<close>

definition example_server :: "string server" where
  "example_server = \<lparr>
     srv_authentication_class = (\<lambda>w n. Inl ''not found''),
     srv_opa_url = (\<lambda>w c. Inl ''not found''),
     srv_config_map_data = (\<lambda>w n ns. Inr None),
     srv_apply_error = (\<lambda>w x. None),
     srv_listener = (\<lambda>w l. l\<lparr>lo_status := None\<rparr>),
     srv_service_account = (\<lambda>w s. s),
     srv_stateful_set = (\<lambda>w s. ''{}''),
     srv_delete_orphans_error = (\<lambda>w. None),
     srv_patch_status_error = (\<lambda>w c. None)\<rparr>"

definition example_controller_lib :: "string controller_lib" where
  "example_controller_lib = \<lparr>
     ctl_op = example_operator_lib,
     resolve_image = (\<lambda>spec name. example_image),
     apply_strategy = (\<lambda>c. c),
     cluster_resources_error = (\<lambda>m c. None),
     transform_all_roles_to_config = (\<lambda>k r kinds rl. Inr []),
     validate_all_roles_and_groups_config = (\<lambda>v c. Inr [(''broker'', [(''blue'', [])])]),
     authentication_provider_to_string = (\<lambda>p. ''x''),
     get_required_labels = Inr ''labels'',
     build_rbac_resources = (\<lambda>k n l. Inr (example_account, ''{}'')),
     compute_conditions = (\<lambda>k s c. [''{}''])\<rparr>"

definition example_prepared :: prepared where
  "example_prepared = \<lparr>pr_image = example_image, pr_role_config = [(''blue'', [])],
     pr_security = example_security [] ''tls'' (Some ''tls''), pr_opa_connect = None,
     pr_vector_aggregator = None\<rparr>"

lemma example_prepare:
  "prepare example_controller_lib srv example_kafka w =
     (Inr example_prepared, w @ [NewClusterResources ''{}''])"
proof -
  have valid: "validate_authentication_methods (example_security [] ''tls'' (Some ''tls'')) = Inr ()"
    by (simp add: validate_authentication_methods_def example_security_def)
  have sec: "new_from_kafka_cluster f g example_kafka w = (Inr (example_security [] ''tls'' (Some ''tls'')), w)"
    for f g w
    by (simp add: new_from_kafka_cluster_def from_references_def io_bind_def io_context_def
        validate_classes_def example_kafka_def example_security_def default_kafka_tls_def
        internal_tls_default_def server_tls_default_def TLS_DEFAULT_SECRET_CLASS_def)
  have spec: "spec_brokers (spec example_kafka) = Some example_role"
    "opa (cc_authorization (spec_cluster_config (spec example_kafka))) = None"
    "cc_vector_aggregator_config_map_name (spec_cluster_config (spec example_kafka)) = None"
    "spec_cluster_operation (spec example_kafka) = ''{}''"
    by (simp_all add: example_kafka_def)
  show ?thesis
    by (simp add: request_def prepare_def Let_def io_bind_def io_fails_def io_context_def sec valid spec
        validated_product_config_def example_controller_lib_def example_prepared_def
        resolve_vector_aggregator_address_def)
qed

lemma example_merged_config:
  "\<exists>c. merged_config example_lib example_kafka Broker (broker_rolegroup_ref example_kafka ''blue'') = Inr c \<and>
     kc_requested_secret_lifetime c \<noteq> None \<and> res_memory_limit (kc_resources c) = None \<and>
     kc_logging c = \<lparr>enable_vector_agent = False, log_containers = []\<rparr>"
  by (simp add: merged_config_eq_Inr example_brokers example_blue example_lib_def
      example_validate_def example_merge_def default_config_def example_group_def
      example_common_def empty_fragment_def example_role_def)

lemma example_ctl_op [simp]: "ctl_op example_controller_lib = example_operator_lib"
  by (simp add: example_controller_lib_def)

lemma example_rolegroup_built:
  "\<exists>ro. build_rolegroup example_controller_lib example_kafka example_prepared sa ''blue'' [] = Inr ro"
proof -
  let ?rg = "broker_rolegroup_ref example_kafka ''blue''"
  obtain c where c: "merged_config example_lib example_kafka Broker ?rg = Inr c"
    and l: "kc_requested_secret_lifetime c \<noteq> None" and m: "res_memory_limit (kc_resources c) = None"
    and v: "kc_logging c = \<lparr>enable_vector_agent = False, log_containers = []\<rparr>"
    using example_merged_config by blast
  obtain d where d: "kc_requested_secret_lifetime c = Some d" using l by blast
  have acc: "library_accepts example_operator_lib example_kafka example_image ?rg c"
    by (auto simp: library_accepts_def example_meta_lib_ok heap_env_def m v collision_lib_def)
  obtain ss where ss: "build_broker_rolegroup_statefulset example_operator_lib example_kafka Broker
      example_image ?rg [] None (pr_security example_prepared) c sa = Inr ss"
    using build_statefulset_total [of example_operator_lib, simplified, OF collision_lib_documented acc
        example_brokers example_blue example_namespace d] unfolding is_ok_iff by blast
  obtain svc where svc: "build_broker_rolegroup_service example_operator_lib example_kafka example_image
       ?rg = Inr svc"
    by (auto simp: build_service_eq_Inr example_meta_lib_ok)
  obtain cm where cm: "build_broker_rolegroup_config_map example_operator_lib example_kafka example_image
      (pr_security example_prepared) ?rg [] c None = Inr cm"
    by (auto simp: build_broker_rolegroup_config_map_def Let_def example_meta_lib_ok result_simps
      extend_role_group_config_map_def v automatic_log_config_def)
  obtain bl where bl: "build_broker_rolegroup_bootstrap_listener example_operator_lib example_kafka
      example_image (pr_security example_prepared) ?rg c = Inr bl"
    by (auto simp: build_bootstrap_listener_eq_Inr example_meta_lib_ok)
  have "pr_image example_prepared = example_image" "pr_opa_connect example_prepared = None"
    "pr_vector_aggregator example_prepared = None" by (simp_all add: example_prepared_def)
  then show ?thesis by (simp add: build_rolegroup_def Let_def c ss svc cm bl)
qed

lemma example_objects_run:
  "\<exists>w' sets. reconcile_objects example_controller_lib example_server example_kafka w = (Inr sets, w')"
proof -
  obtain ro where ro: "build_rolegroup example_controller_lib example_kafka example_prepared
      example_account ''blue'' [] = Inr ro"
    using example_rolegroup_built by blast
  let ?l = "(ro_listener ro)\<lparr>lo_status := None\<rparr>"
  have app: "apply_object example_server x f w = (Inr (f w), w @ [Apply x])" for x w and f :: "_ \<Rightarrow> 'x"
    by (simp add: apply_object_def request_def example_server_def)
  have rbac: "apply_rbac example_controller_lib example_server example_kafka w =
      (Inr example_account, w @ [Apply (ServiceAccountObject example_account), Apply (RoleBindingObject ''{}'')])"
    for w
    by (simp add: apply_rbac_def example_controller_lib_def io_bind_def io_fails_def io_context_def
        app) (simp add: example_server_def)
  have name: "name_unchecked (metadata example_kafka) = Inr ''simple-kafka''"
    by (simp add: name_unchecked_def example_kafka_def)
  have grp: "reconcile_rolegroup example_controller_lib example_server example_kafka example_prepared
      example_account (''blue'', []) w =
      (Inr (srv_listener example_server w (ro_listener ro), ''{}''), w @ [Apply (ListenerObject (ro_listener ro)),
        Apply (ServiceObject (ro_service ro)), Apply (ConfigMapObject (ro_config_map ro)),
        Apply (StatefulSetObject (ro_stateful_set ro))])" for w
    by (simp add: reconcile_rolegroup_def apply_rolegroup_def ro name io_bind_def io_fails_def
        io_context_def app) (simp add: example_server_def)
  have pdb: "\<exists>w'. apply_pdb example_controller_lib example_server example_kafka w = (Inr (), w')" for w
    by (auto simp: apply_pdb_def cluster_role_config_def example_brokers io_fails_def io_context_def
        add_pdbs_def io_bind_def app Let_def example_operator_lib_def)
  have hosts: "listener_hosts [srv_listener example_server w l] p = Inr []" for w l p
    by (simp add: listener_hosts_def ingress_addresses_def example_server_def)
  have name: "metadata_name (metadata example_kafka) = Some ''simple-kafka''"
    by (simp add: example_kafka_def)
  have disc: "\<exists>w'. apply_discovery example_controller_lib example_server example_kafka example_prepared
      [srv_listener example_server w0 l] w = (Inr (), w')" for w w0 l
  proof -
    have "\<exists>cm1 cm2. fault_context BuildDiscoveryConfig (build_discovery_configmaps
        (op_meta (ctl_op example_controller_lib)) (config_map_build_error (ctl_op example_controller_lib))
        example_kafka (metadata example_kafka) (pr_image example_prepared) (pr_security example_prepared)
        [srv_listener example_server w0 l]) = Inr [cm1, cm2]"
      by (simp add: build_discovery_configmaps_eq_Inr fault_context_eq_Inr name hosts
          example_prepared_def build_discovery_configmap_eq_Inr example_meta_lib_ok)
    then obtain cm1 cm2 where built: "fault_context BuildDiscoveryConfig (build_discovery_configmaps
        (op_meta (ctl_op example_controller_lib)) (config_map_build_error (ctl_op example_controller_lib))
        example_kafka (metadata example_kafka) (pr_image example_prepared) (pr_security example_prepared)
        [srv_listener example_server w0 l]) = Inr [cm1, cm2]" by blast
    show ?thesis
      unfolding apply_discovery_def built by (simp add: io_bind_def io_fails_def io_context_def app)
  qed
  have groups: "\<exists>w'. io_for (pr_role_config example_prepared)
      (reconcile_rolegroup example_controller_lib example_server example_kafka example_prepared
        example_account) w = (Inr [(srv_listener example_server w (ro_listener ro), ''{}'')], w')" for w
    by (simp add: example_prepared_def [THEN arg_cong [of _ _ pr_role_config]] io_bind_def grp)
  obtain w1 w2 w3 where
    "io_for (pr_role_config example_prepared)
      (reconcile_rolegroup example_controller_lib example_server example_kafka example_prepared
        example_account) (w @ [NewClusterResources ''{}'', Apply (ServiceAccountObject example_account), Apply (RoleBindingObject ''{}'')])
      = (Inr [(srv_listener example_server (w @ [NewClusterResources ''{}'', Apply (ServiceAccountObject example_account),
          Apply (RoleBindingObject ''{}'')]) (ro_listener ro), ''{}'')], w1)"
    "apply_pdb example_controller_lib example_server example_kafka w1 = (Inr (), w2)"
    "apply_discovery example_controller_lib example_server example_kafka example_prepared
      [srv_listener example_server (w @ [NewClusterResources ''{}'', Apply (ServiceAccountObject example_account),
          Apply (RoleBindingObject ''{}'')]) (ro_listener ro)] w2 = (Inr (), w3)"
    using groups pdb disc by meson
  then show ?thesis
    by (simp add: reconcile_objects_def io_bind_run [OF example_prepare] io_bind_run [OF rbac] io_bind_run)
qed

lemma example_run_again:
  "\<exists>us. reconcile_kafka example_controller_lib example_server (Inr example_kafka) w =
       (Inr AwaitChange, w @ us)"
proof -
  obtain w' sets where run:
    "reconcile_objects example_controller_lib example_server example_kafka w = (Inr sets, w')"
    using example_objects_run by blast
  obtain us where "w' = w @ us" using emitsD [OF emits_reconcile_objects run] by blast
  moreover have "srv_delete_orphans_error example_server w = None"
    "srv_patch_status_error example_server w c = None" for w c by (simp_all add: example_server_def)
  ultimately show ?thesis
    by (auto simp: reconcile_kafka_def run io_bind_def finish_reconcile_run Let_def)
qed

lemma example_run:
  "\<exists>us c. reconcile_kafka example_controller_lib example_server (Inr example_kafka) [] =
       (Inr AwaitChange, us) \<and> DeleteOrphans \<in> set us \<and> PatchStatus c \<in> set us"
proof -
  obtain w' sets where run:
    "reconcile_objects example_controller_lib example_server example_kafka [] = (Inr sets, w')"
    using example_objects_run by blast
  have "srv_delete_orphans_error example_server w = None" "srv_patch_status_error example_server w c = None"
    for w c by (simp_all add: example_server_def)
  then show ?thesis
    by (auto simp: reconcile_kafka_def run io_bind_def finish_reconcile_run Let_def)
qed

theorem successful_reconciliation_witness:
  "\<exists>us. reconcile_kafka example_controller_lib example_server (Inr example_kafka) [] =
       (Inr AwaitChange, us) \<and>
     write_kinds us = [WServiceAccount, WRoleBinding, WListener, WService, WConfigMap, WStatefulSet,
       WPdb, WConfigMap, WConfigMap, WDeleteOrphans, WStatus]"
proof -
  obtain us where run: "reconcile_kafka example_controller_lib example_server (Inr example_kafka) [] =
      (Inr AwaitChange, us)" using example_run by blast
  have "pdb_kinds example_kafka = [WPdb]"
    by (simp add: pdb_kinds_def example_brokers) (simp add: example_role_def)
  moreover have "length (pr_role_config example_prepared) = 1" by (simp add: example_prepared_def)
  ultimately show ?thesis using successful_reconciliation [OF run] run by (auto simp: example_prepare)
qed

theorem orphans_deleted_last_witness:
  "\<exists>us vs tl. reconcile_kafka example_controller_lib example_server (Inr example_kafka) [] =
       (Inr AwaitChange, us) \<and> us = vs @ DeleteOrphans # tl \<and> all_accepted example_server [] vs"
proof -
  obtain us where run: "reconcile_kafka example_controller_lib example_server (Inr example_kafka) [] =
      (Inr AwaitChange, [] @ us)" and d: "DeleteOrphans \<in> set us" using example_run by auto
  from orphans_deleted_last [OF run d] run show ?thesis by auto
qed

theorem status_patched_last_witness:
  "\<exists>us vs c. reconcile_kafka example_controller_lib example_server (Inr example_kafka) [] =
       (Inr AwaitChange, us) \<and> us = vs @ [DeleteOrphans, PatchStatus c]"
proof -
  obtain us c where run: "reconcile_kafka example_controller_lib example_server (Inr example_kafka) [] =
      (Inr AwaitChange, [] @ us)" and p: "PatchStatus c \<in> set us" using example_run by auto
  from status_patched_last [OF run p] run show ?thesis by auto
qed

theorem writes_need_valid_settings_witness:
  "\<exists>us reads pr. reconcile_kafka example_controller_lib example_server (Inr example_kafka) [] =
       (Inr AwaitChange, us) \<and>
     prepare example_controller_lib example_server example_kafka [] = (Inr pr, reads) \<and>
     sec_valid (pr_security pr)"
proof -
  obtain us where run: "reconcile_kafka example_controller_lib example_server (Inr example_kafka) [] =
      (Inr AwaitChange, [] @ us)" and d: "DeleteOrphans \<in> set us" using example_run by auto
  have "\<exists>e\<in>set us. is_write e" by (rule bexI [OF _ d]) simp
  from writes_need_valid_settings [OF run this] run show ?thesis by auto
qed

theorem applied_objects_owned_witness:
  "\<exists>us x m. reconcile_kafka example_controller_lib example_server (Inr example_kafka) [] =
       (Inr AwaitChange, us) \<and> Apply x \<in> set us \<and> object_metadata x = Some m \<and>
     MetaOwnerReference (metadata example_kafka) None (Some True) \<in> set m"
proof -
  obtain us where run: "reconcile_kafka example_controller_lib example_server (Inr example_kafka) [] =
      (Inr AwaitChange, [] @ us)" using example_run by auto
  have "\<exists>x. Apply x \<in> set us \<and> object_kind x = WConfigMap"
  proof -
    have "WConfigMap \<in> set (write_kinds us)"
      using run by (cases rule: reconcile_kafka_run) (auto simp: write_kinds_append split: option.splits)
    moreover have "WConfigMap \<in> set (write_kinds vs) \<Longrightarrow> \<exists>x. Apply x \<in> set vs \<and> object_kind x = WConfigMap"
      for vs by (induction vs rule: write_kinds.induct) auto
    ultimately show ?thesis by blast
  qed
  then obtain x where x: "Apply x \<in> set us" "object_kind x = WConfigMap" by blast
  then obtain cm where "x = ConfigMapObject cm" by (cases x) auto
  then have "object_metadata x = Some (cm_metadata cm)" by simp
  with applied_objects_owned [OF run x(1) this] run x show ?thesis by auto
qed

theorem rolegroup_objects_consistent_witness:
  "\<exists>ro. build_rolegroup example_controller_lib example_kafka example_prepared example_account ''blue'' [] =
       Inr ro \<and> meta_name (lo_metadata (ro_listener ro)) = Some ''simple-kafka-broker-blue-bootstrap''"
proof -
  obtain ro where ro: "build_rolegroup example_controller_lib example_kafka example_prepared
      example_account ''blue'' [] = Inr ro"
    using example_rolegroup_built by blast
  have "lib_object_name example_lib (broker_rolegroup_ref example_kafka ''blue'') =
      ''simple-kafka-broker-blue''"
    by (simp add: example_lib_def broker_rolegroup_ref_def example_kafka_def)
  with rolegroup_objects_consistent [OF ro] ro show ?thesis by simp
qed

end
