(* ===== verification/AppliedObjects.thy ===== *)
theory AppliedObjects
  imports Controller
begin

text \<open>
  Which objects a successful reconciliation applies. The code collects role groups in hash maps, whose
  iteration order differs from run to run; a list in the model is such a map in the order of one run,
  and statements about two runs give each its own. The identities of the applied objects do not depend
  on that order, nor on what the server answers.
\<close>

section \<open>Identities\<close>

text \<open>
  What identifies an object the operator built is its kind and name (the namespace is the cluster's); an
  object built by the library is identified as a whole.
\<close>

datatype object_identity = Named write_kind "string option" | Whole k8s_object

definition object_identity :: "k8s_object \<Rightarrow> object_identity" where
  "object_identity x =
     (case object_metadata x of Some m \<Rightarrow> Named (object_kind x) (meta_name m) | None \<Rightarrow> Whole x)"

fun applied :: "effect list \<Rightarrow> object_identity set" where
  "applied [] = {}"
| "applied (Apply x # es) = insert (object_identity x) (applied es)"
| "applied (e # es) = applied es"

lemma applied_append: "applied (us @ vs) = applied us \<union> applied vs"
  by (induction us rule: applied.induct) auto

lemma applied_set: "applied us = object_identity ` {x. Apply x \<in> set us}"
  by (induction us rule: applied.induct) auto

text \<open>The identities that are wanted for a resource and the names of its role groups.\<close>

definition role_groups_of :: "'e controller_lib \<Rightarrow> kafka_cluster \<Rightarrow> string set" where
  "role_groups_of lib kafka =
     (case validated_product_config lib kafka
             (resolve_image lib (spec_image (spec kafka)) DOCKER_IMAGE_BASE_NAME) of
        Inl _ \<Rightarrow> {}
      | Inr validated \<Rightarrow>
          fst ` set (case map_of validated ''broker'' of None \<Rightarrow> [] | Some c \<Rightarrow> c))"

definition rbac_identities :: "'e controller_lib \<Rightarrow> kafka_cluster \<Rightarrow> object_identity set" where
  "rbac_identities lib kafka =
     (case and_then (get_required_labels lib) (build_rbac_resources lib kafka APP_NAME) of
        Inl _ \<Rightarrow> {}
      | Inr (sa, rb) \<Rightarrow> {Whole (ServiceAccountObject sa), Whole (RoleBindingObject rb)})"

definition group_identities :: "'e crd_lib \<Rightarrow> kafka_cluster \<Rightarrow> string \<Rightarrow> object_identity set" where
  "group_identities lib kafka g =
     (let n = lib_object_name lib (broker_rolegroup_ref kafka g) in
      {Named WListener (Some (n @ ''-bootstrap'')), Named WService (Some n), Named WConfigMap (Some n),
       Named WStatefulSet (Some n)})"

definition pdb_identities :: "kafka_cluster \<Rightarrow> object_identity set" where
  "pdb_identities kafka =
     (case spec_brokers (spec kafka) of
        None \<Rightarrow> {}
      | Some rl \<Rightarrow>
          let pdb = pod_disruption_budget (role_generic_config rl) in
          if pdb_enabled pdb then
            {Whole (PdbObject \<lparr>pdb_cluster = metadata kafka, pdb_role = ''broker'',
               pdb_max = (case pdb_max_unavailable pdb of Some n \<Rightarrow> n | None \<Rightarrow> 1)\<rparr>)}
          else {})"

definition discovery_identities :: "kafka_cluster \<Rightarrow> object_identity set" where
  "discovery_identities kafka =
     (case metadata_name (metadata kafka) of
        None \<Rightarrow> {}
      | Some n \<Rightarrow> {Named WConfigMap (Some n), Named WConfigMap (Some (n @ ''-nodeport''))})"

definition wanted_identities :: "'e controller_lib \<Rightarrow> kafka_cluster \<Rightarrow> object_identity set" where
  "wanted_identities lib kafka =
     rbac_identities lib kafka \<union>
     (\<Union>g\<in>role_groups_of lib kafka. group_identities (op_crd (ctl_op lib)) kafka g) \<union>
     pdb_identities kafka \<union> discovery_identities kafka"

section \<open>What the phases apply\<close>

text \<open>\<open>applies P m\<close>: a successful run of \<open>m\<close> returns \<open>x\<close> and applies objects with identities \<open>S\<close> with \<open>P x S\<close>.\<close>

definition applies ::
  "('a \<Rightarrow> object_identity set \<Rightarrow> bool) \<Rightarrow> (trace, 'f, 'a) io \<Rightarrow> bool" where
  "applies P m \<longleftrightarrow> (\<forall>w x w'. m w = (Inr x, w') \<longrightarrow> (\<exists>us. w' = w @ us \<and> P x (applied us)))"

lemma applies_return: "P x {} \<Longrightarrow> applies P (io_return x)"
  by (auto simp: applies_def)

lemma applies_lift: "(\<And>x. r = Inr x \<Longrightarrow> P x {}) \<Longrightarrow> applies P (io_lift r)"
  by (auto simp: applies_def)

lemma applies_fails: "applies P m \<Longrightarrow> applies P (io_fails c m)"
  by (auto simp: applies_def io_fails_def io_simps)

lemma applies_context: "applies P m \<Longrightarrow> applies P (io_context c m)"
  by (auto simp: applies_def io_simps)

lemma applies_mono: "applies P m \<Longrightarrow> (\<And>x S. P x S \<Longrightarrow> Q x S) \<Longrightarrow> applies Q m"
  unfolding applies_def by meson

lemma applies_object: "applies (\<lambda>_ S. S = {object_identity x}) (apply_object srv x answer)"
  by (auto simp: applies_def io_simps)

lemma applies_bind:
  assumes m: "applies P m" and f: "\<And>x. applies (Q x) (f x)"
    and comb: "\<And>x S y T. P x S \<Longrightarrow> Q x y T \<Longrightarrow> R y (S \<union> T)"
  shows "applies R (io_bind m f)"
  unfolding applies_def
proof (intro allI impI)
  fix w y w''
  assume "io_bind m f w = (Inr y, w'')"
  then obtain x w' where m1: "m w = (Inr x, w')" and f1: "f x w' = (Inr y, w'')"
    by (auto simp: io_bind_eq_Inr)
  from m1 m obtain us where us: "w' = w @ us" "P x (applied us)" unfolding applies_def by meson
  from f1 f [of x] obtain vs where vs: "w'' = w' @ vs" "Q x y (applied vs)" unfolding applies_def by meson
  show "\<exists>us. w'' = w @ us \<and> R y (applied us)"
    using us vs comb [OF us(2) vs(2)] by (intro exI [of _ "us @ vs"]) (simp add: applied_append)
qed

text \<open>When the second part does not care what the first one returned, the identities add up.\<close>

lemma applies_seq:
  "applies (\<lambda>_ S. S = A) m \<Longrightarrow> (\<And>x. applies (\<lambda>_ S. S = B) (f x)) \<Longrightarrow>
     applies (\<lambda>_ S. S = A \<union> B) (io_bind m f)"
  by (rule applies_bind [where P = "\<lambda>_ S. S = A" and Q = "\<lambda>_ _ S. S = B"]) auto

lemma applies_lift_bind:
  "(\<And>x. r = Inr x \<Longrightarrow> applies P (f x)) \<Longrightarrow> applies P (io_bind (io_lift r) f)"
  by (cases r) (auto simp: applies_def io_bind_def)

lemma applies_for:
  assumes "\<And>x. applies (\<lambda>_ S. S = G x) (body x)"
  shows "applies (\<lambda>_ S. S = (\<Union>x\<in>set xs. G x)) (io_for xs body)"
proof (induction xs)
  case (Cons x xs)
  have "applies (\<lambda>_ S. S = G x \<union> ((\<Union>x\<in>set xs. G x) \<union> {})) (io_for (x # xs) body)"
    unfolding io_for.simps by (intro applies_seq assms Cons.IH applies_return refl)
  then show ?case by simp
next
  case Nil
  show ?case unfolding io_for.simps by (rule applies_return) simp
qed

lemma applies_quiet:
  assumes "reads_only m" and "\<And>w x w'. m w = (Inr x, w') \<Longrightarrow> Q x"
  shows "applies (\<lambda>x S. S = {} \<and> Q x) m"
proof -
  have "list_all (\<lambda>e. \<not> is_write e) us \<Longrightarrow> applied us = {}" for us
    by (induction us rule: applied.induct) auto
  then show ?thesis
    using assms unfolding applies_def by (metis emitsD)
qed

lemma applies_prepare:
  "applies (\<lambda>pr S. S = {} \<and> fst ` set (pr_role_config pr) = role_groups_of lib kafka) (prepare lib srv kafka)"
proof (rule applies_quiet [OF emits_prepare])
  fix w pr w'
  assume "prepare lib srv kafka w = (Inr pr, w')"
  then obtain validated where
    "validated_product_config lib kafka (resolve_image lib (spec_image (spec kafka)) DOCKER_IMAGE_BASE_NAME)
       = Inr validated"
    "pr_role_config pr =
       (case map_of validated (kafka_role_to_string Broker) of None \<Rightarrow> [] | Some c \<Rightarrow> c)"
    unfolding prepare_def Let_def io_fails_def by (auto simp: io_simps fails_eq_Inr with_context_eq_Inr)
  then show "fst ` set (pr_role_config pr) = role_groups_of lib kafka"
    by (simp add: role_groups_of_def)
qed

lemma applies_rbac: "applies (\<lambda>_ S. S = rbac_identities lib kafka) (apply_rbac lib srv kafka)"
  unfolding apply_rbac_def case_prod_unfold
proof (intro applies_lift_bind)
  fix ls built
  assume "fails (with_context GetRequiredLabels (get_required_labels lib)) = Inr ls"
    and "fails (with_context BuildRbacResources (build_rbac_resources lib kafka APP_NAME ls)) = Inr built"
  then have ids: "rbac_identities lib kafka = {object_identity (ServiceAccountObject (fst built))} \<union>
      ({object_identity (RoleBindingObject (snd built))} \<union> {})"
    by (auto simp: rbac_identities_def object_identity_def fails_eq_Inr with_context_eq_Inr
        split: prod.splits)
  show "applies (\<lambda>_ S. S = rbac_identities lib kafka)
     (io_bind (io_fails ApplyServiceAccount (apply_object srv (ServiceAccountObject (fst built))
       (\<lambda>w. srv_service_account srv w (fst built)))) (\<lambda>rbac_sa.
     io_bind (io_fails ApplyRoleBinding (apply_object srv (RoleBindingObject (snd built))
       (\<lambda>_. ()))) (\<lambda>_. io_return rbac_sa)))"
    unfolding ids by (intro applies_seq applies_fails applies_object applies_return refl)
qed

lemma applies_rolegroup:
  "applies (\<lambda>_ S. S = group_identities (op_crd (ctl_op lib)) kafka (fst rg))
     (reconcile_rolegroup lib srv kafka pr sa rg)"
  unfolding reconcile_rolegroup_def
proof (rule applies_lift_bind)
  fix ro
  assume "and_then (name_unchecked (metadata kafka))
    (\<lambda>_. build_rolegroup lib kafka pr sa (fst rg) (snd rg)) = Inr ro"
  then have "build_rolegroup lib kafka pr sa (fst rg) (snd rg) = Inr ro" by (auto simp: result_simps)
  from build_rolegroup_metadata(2) [OF this]
  have ids: "group_identities (op_crd (ctl_op lib)) kafka (fst rg) =
      {object_identity (ListenerObject (ro_listener ro))} \<union>
      ({object_identity (ServiceObject (ro_service ro))} \<union>
      ({object_identity (ConfigMapObject (ro_config_map ro))} \<union>
      ({object_identity (StatefulSetObject (ro_stateful_set ro))} \<union> {})))"
    by (auto simp: group_identities_def object_identity_def Let_def)
  show "applies (\<lambda>_ S. S = group_identities (op_crd (ctl_op lib)) kafka (fst rg))
     (apply_rolegroup srv (broker_rolegroup_ref kafka (fst rg)) ro)"
    unfolding apply_rolegroup_def ids
    by (intro applies_seq applies_fails applies_object applies_return refl)
qed

lemma applies_pdb: "applies (\<lambda>_ S. S = pdb_identities kafka) (apply_pdb lib srv kafka)"
proof (cases "spec_brokers (spec kafka)")
  case None
  then show ?thesis
    by (simp add: apply_pdb_def cluster_role_config_def pdb_identities_def applies_return)
next
  case (Some rl)
  let ?pdb = "pod_disruption_budget (role_generic_config rl)"
  have "applies (\<lambda>_ S. S = pdb_identities kafka) (add_pdbs srv l ?pdb kafka Broker)" for l
  proof (cases "pdb_enabled ?pdb")
    case True
    show ?thesis
      unfolding add_pdbs_def Let_def using True
      by (simp only: not_True_eq_False if_False)
        (rule applies_lift_bind, rule applies_context, rule applies_mono [OF applies_object],
         auto simp: pdb_identities_def Some object_identity_def Let_def max_unavailable_brokers_def
           result_simps split: option.splits)
  qed (simp add: add_pdbs_def pdb_identities_def Some applies_return)
  then show ?thesis
    unfolding apply_pdb_def cluster_role_config_def Some by (auto intro: applies_fails)
qed

lemma applies_discovery:
  "applies (\<lambda>_ S. S = discovery_identities kafka) (apply_discovery lib srv kafka pr ls)"
  unfolding apply_discovery_def
proof (rule applies_lift_bind)
  fix cms
  assume "fault_context BuildDiscoveryConfig
     (build_discovery_configmaps (op_meta (ctl_op lib)) (config_map_build_error (ctl_op lib)) kafka
       (metadata kafka) (pr_image pr) (pr_security pr) ls) = Inr cms"
  then have ids: "discovery_identities kafka =
      (\<Union>cm\<in>set cms. {object_identity (ConfigMapObject cm)}) \<union> {}"
    by (auto simp: fault_context_eq_Inr build_discovery_configmaps_eq_Inr build_discovery_configmap_eq_Inr
        discovery_identities_def object_identity_def)
  show "applies (\<lambda>_ S. S = discovery_identities kafka) (io_bind (io_for cms (\<lambda>cm.
       io_fails ApplyDiscoveryConfig (apply_object srv (ConfigMapObject cm) (\<lambda>_. ())))) (\<lambda>_. io_return ()))"
    unfolding ids by (intro applies_seq applies_for applies_fails applies_object applies_return refl)
qed

lemma applies_reconcile_objects:
  "applies (\<lambda>_ S. S = wanted_identities lib kafka) (reconcile_objects lib srv kafka)"
proof -
  let ?group = "group_identities (op_crd (ctl_op lib)) kafka"
  have rest: "applies (\<lambda>_ S. S = rbac_identities lib kafka \<union>
       ((\<Union>rg\<in>set (pr_role_config pr). ?group (fst rg)) \<union>
         (pdb_identities kafka \<union> (discovery_identities kafka \<union> {}))))
      (io_bind (apply_rbac lib srv kafka) (\<lambda>rbac_sa.
       io_bind (io_for (pr_role_config pr) (reconcile_rolegroup lib srv kafka pr rbac_sa)) (\<lambda>results.
       io_bind (apply_pdb lib srv kafka) (\<lambda>_.
       io_bind (apply_discovery lib srv kafka pr (map fst results)) (\<lambda>_.
       io_return (map snd results))))))" for pr
    by (intro applies_seq applies_rbac applies_for applies_rolegroup applies_pdb applies_discovery
        applies_return refl)
  have groups: "fst ` set rgs = role_groups_of lib kafka \<Longrightarrow>
      (\<Union>rg\<in>set rgs. ?group (fst rg)) = (\<Union>g\<in>role_groups_of lib kafka. ?group g)" for rgs :: "(string \<times> role_group_config) list"
    by (metis SUP_image comp_apply image_cong)
  show ?thesis
    unfolding reconcile_objects_def
    by (rule applies_bind [OF applies_prepare rest]) (auto simp: wanted_identities_def groups)
qed

lemma applied_of_success:
  assumes "reconcile_kafka lib srv (Inr kafka) w = (Inr a, w @ us)"
  shows "applied us = wanted_identities lib kafka"
proof -
  obtain sets w1 where objs: "reconcile_objects lib srv kafka w = (Inr sets, w1)"
    and fin: "finish_reconcile lib srv kafka sets w1 = (Inr a, w @ us)"
    using assms by (auto simp: reconcile_kafka_def io_bind_eq_Inr)
  obtain vs where vs: "w1 = w @ vs" "applied vs = wanted_identities lib kafka"
    using applies_reconcile_objects [unfolded applies_def, rule_format, OF objs] by blast
  from fin vs(1) obtain c where "us = vs @ [DeleteOrphans, PatchStatus c]"
    by (auto simp: finish_reconcile_run Let_def split: option.splits)
  with vs(2) show ?thesis by (simp add: applied_append)
qed

section \<open>Properties\<close>

text \<open>
  C13. Which objects exist for a cluster is a function of the resource: a successful reconciliation, on
  whatever server and in whatever order it meets the role groups, applies the two RBAC objects, for
  every role group of the validated configuration a bootstrap listener, a service, a config map and a
  stateful set of the group's name, the disruption budget if enabled, and the two discovery config
  maps named after the cluster; it applies nothing else.
\<close>

theorem applied_objects_determined:
  assumes "reconcile_kafka lib srv (Inr kafka) w = (Inr a, w @ us)"
  shows "object_identity ` {x. Apply x \<in> set us} =
     rbac_identities lib kafka \<union>
     (\<Union>g\<in>role_groups_of lib kafka.
        {Named WListener (Some (lib_object_name (op_crd (ctl_op lib)) (broker_rolegroup_ref kafka g) @ ''-bootstrap'')),
         Named WService (Some (lib_object_name (op_crd (ctl_op lib)) (broker_rolegroup_ref kafka g))),
         Named WConfigMap (Some (lib_object_name (op_crd (ctl_op lib)) (broker_rolegroup_ref kafka g))),
         Named WStatefulSet (Some (lib_object_name (op_crd (ctl_op lib)) (broker_rolegroup_ref kafka g)))}) \<union>
     pdb_identities kafka \<union>
     (case metadata_name (metadata kafka) of
        None \<Rightarrow> {}
      | Some n \<Rightarrow> {Named WConfigMap (Some n), Named WConfigMap (Some (n @ ''-nodeport''))})"
  using applied_of_success [OF assms]
  by (simp add: applied_set wanted_identities_def group_identities_def discovery_identities_def Let_def)

section \<open>Witnesses\<close>

theorem applied_objects_determined_witness:
  "\<exists>us x. reconcile_kafka example_controller_lib example_server (Inr example_kafka) [] =
       (Inr AwaitChange, us) \<and> Apply x \<in> set us \<and>
     object_identity x = Named WStatefulSet (Some ''simple-kafka-broker-blue'')"
proof -
  obtain us where run: "reconcile_kafka example_controller_lib example_server (Inr example_kafka) [] =
      (Inr AwaitChange, [] @ us)" using example_run by auto
  have blue: "''blue'' \<in> role_groups_of example_controller_lib example_kafka"
    by (simp add: role_groups_of_def validated_product_config_def example_controller_lib_def example_brokers)
  have name: "lib_object_name (op_crd (ctl_op example_controller_lib)) (broker_rolegroup_ref example_kafka ''blue'')
      = ''simple-kafka-broker-blue''"
    by (simp add: example_lib_def broker_rolegroup_ref_def example_kafka_def)
  have "Named WStatefulSet (Some ''simple-kafka-broker-blue'') \<in> object_identity ` {x. Apply x \<in> set us}"
    unfolding applied_objects_determined [OF run]
    by (intro UnI1 UnI2 UN_I [OF blue]) (simp only: name insert_iff simp_thms)
  then obtain x where "Apply x \<in> set us"
    "object_identity x = Named WStatefulSet (Some ''simple-kafka-broker-blue'')" by auto
  with run show ?thesis by auto
qed

end
