(* ===== verification/ObjectStore.thy ===== *)
theory ObjectStore
  imports AppliedObjects
begin

text \<open>
  What reconciliations do to the objects of the cluster, under what the operator library documents. With
  a strategy that writes, \<open>ClusterResources::add\<close> makes the object exist if it succeeds, and
  \<open>delete_orphaned_resources\<close> removes objects that were not added since the run began, one by one: all of
  them if it succeeds, any of them if it fails. With a strategy that does not write (reconciliation
  paused), and by any other call, nothing changes.
\<close>

section \<open>The promise of the library\<close>

text \<open>The keys of the objects applied by some calls; a key is whatever identifies an object.\<close>

fun applied_keys :: "(k8s_object \<Rightarrow> 'k) \<Rightarrow> effect list \<Rightarrow> 'k set" where
  "applied_keys key [] = {}"
| "applied_keys key (Apply x # es) = insert (key x) (applied_keys key es)"
| "applied_keys key (e # es) = applied_keys key es"

lemma applied_keys_append:
  "applied_keys key (us @ vs) = applied_keys key us \<union> applied_keys key vs"
  by (induction key us rule: applied_keys.induct) auto

lemma applied_keys_set: "applied_keys key us = {key x | x. Apply x \<in> set us}"
  by (induction key us rule: applied_keys.induct) auto

lemma applied_keys_identity: "applied_keys object_identity us = applied us"
  by (induction us rule: applied.induct) auto

text \<open>The strategy of the \<open>ClusterResources\<close> in use: the one created last.\<close>

fun strategy_of :: "effect list \<Rightarrow> json option" where
  "strategy_of [] = None"
| "strategy_of (e # es) =
     (case strategy_of es of
        Some s \<Rightarrow> Some s
      | None \<Rightarrow> (case e of NewClusterResources s \<Rightarrow> Some s | _ \<Rightarrow> None))"

definition writing :: "(json \<Rightarrow> bool) \<Rightarrow> effect list \<Rightarrow> bool" where
  "writing writes us \<longleftrightarrow> (\<exists>s. strategy_of us = Some s \<and> writes s)"

text \<open>What one call may do when the strategy writes: \<open>us\<close> are the calls of the run before it.\<close>

fun object_step :: "(k8s_object \<Rightarrow> 'k) \<Rightarrow> bool \<Rightarrow> effect list \<Rightarrow> effect \<Rightarrow> 'k set \<Rightarrow> 'k set \<Rightarrow> bool" where
  "object_step key succeeds us (Apply x) ks ks' \<longleftrightarrow>
     ks \<subseteq> ks' \<and> ks' \<subseteq> insert (key x) ks \<and> (succeeds \<longrightarrow> key x \<in> ks')"
| "object_step key succeeds us DeleteOrphans ks ks' \<longleftrightarrow>
     ks \<inter> applied_keys key us \<subseteq> ks' \<and> ks' \<subseteq> ks \<and> (succeeds \<longrightarrow> ks' \<subseteq> applied_keys key us)"
| "object_step key succeeds us e ks ks' \<longleftrightarrow> ks' = ks"

text \<open>
  \<open>existing w\<close>: the keys of the cluster's objects after the calls \<open>w\<close>. The promise is about the calls \<open>us\<close>
  of one run that begins after \<open>w0\<close>; \<open>writes\<close> says which strategies write.
\<close>

definition keeps_objects ::
  "'e server \<Rightarrow> (json \<Rightarrow> bool) \<Rightarrow> (k8s_object \<Rightarrow> 'k) \<Rightarrow> (trace \<Rightarrow> 'k set) \<Rightarrow> trace \<Rightarrow> effect list \<Rightarrow> bool"
where
  "keeps_objects srv writes key existing w0 us \<longleftrightarrow>
     (\<forall>vs e rest. us = vs @ e # rest \<longrightarrow>
        (if writing writes vs
         then object_step key (accepted srv (w0 @ vs) e) vs e (existing (w0 @ vs)) (existing (w0 @ vs @ [e]))
         else existing (w0 @ vs @ [e]) = existing (w0 @ vs)))"

section \<open>The strategy of a run\<close>

fun uses_strategy :: "json \<Rightarrow> effect \<Rightarrow> bool" where
  "uses_strategy s (NewClusterResources s') = (s' = s)"
| "uses_strategy s e = True"

lemma phases_emit:
  assumes "\<And>e. \<forall>s. e \<noteq> NewClusterResources s \<Longrightarrow> P e"
  shows "emits P (apply_rbac lib srv kafka)" and "emits P (reconcile_rolegroup lib srv kafka pr sa rg)"
    and "emits P (apply_pdb lib srv kafka)" and "emits P (apply_discovery lib srv kafka pr ls)"
    and "emits P (finish_reconcile lib srv kafka sets)"
  unfolding apply_rbac_def case_prod_unfold reconcile_rolegroup_def apply_rolegroup_def apply_pdb_def
    apply_discovery_def finish_reconcile_def Let_def
  using assms by (auto intro!: emits_intros emits_add_pdbs split: option.split)

text \<open>\<open>begins e m\<close>: every run of \<open>m\<close> begins with the call \<open>e\<close>.\<close>

definition begins :: "effect \<Rightarrow> (trace, 'f, 'a) io \<Rightarrow> bool" where
  "begins e m \<longleftrightarrow> (\<forall>w r w'. m w = (r, w') \<longrightarrow> (\<exists>us. w' = w @ e # us))"

lemma begins_request: "begins e (io_fails c (request e answer))"
  by (auto simp: begins_def io_fails_def io_context_def request_def)

lemma begins_bind:
  assumes "begins e m" and "\<And>x. emits (\<lambda>_. True) (f x)"
  shows "begins e (io_bind m f)"
  unfolding begins_def
proof (intro allI impI)
  fix w r w'
  assume run: "io_bind m f w = (r, w')"
  obtain r1 w1 where m: "m w = (r1, w1)" by (cases "m w")
  with assms(1) obtain us where us: "w1 = w @ e # us" unfolding begins_def by blast
  show "\<exists>us. w' = w @ e # us"
  proof (cases r1)
    case (Inl f)
    with run m us show ?thesis by (auto simp: io_bind_def)
  next
    case (Inr x)
    with run m have "f x w1 = (r, w')" by (simp add: io_bind_def)
    with emitsD [OF assms(2)] obtain vs where "w' = w1 @ vs" by blast
    with us show ?thesis by simp
  qed
qed

lemma begins_prepare:
  "begins (NewClusterResources (apply_strategy lib (spec_cluster_operation (spec kafka))))
     (prepare lib srv kafka)"
  unfolding prepare_def Let_def
  by (rule begins_bind [OF begins_request],
      intro emits_intros emits_new_from_kafka_cluster emits_resolve_vector_aggregator_address)
    (auto intro!: emits_intros split: option.splits)

lemma emits_prepare_strategy:
  "emits (uses_strategy (apply_strategy lib (spec_cluster_operation (spec kafka)))) (prepare lib srv kafka)"
  unfolding prepare_def Let_def
  by (intro emits_intros emits_new_from_kafka_cluster emits_resolve_vector_aggregator_address)
    (auto intro!: emits_intros split: option.splits)

lemma run_strategy:
  assumes "reconcile_kafka lib srv (Inr kafka) w = (r, w @ us)"
  shows "\<exists>vs. us = NewClusterResources (apply_strategy lib (spec_cluster_operation (spec kafka))) # vs"
    and "list_all (uses_strategy (apply_strategy lib (spec_cluster_operation (spec kafka)))) us"
proof -
  let ?s = "apply_strategy lib (spec_cluster_operation (spec kafka))"
  have other: "\<forall>s. e \<noteq> NewClusterResources s \<Longrightarrow> uses_strategy ?s e" for e
    by (cases e) auto
  have "begins (NewClusterResources ?s) (reconcile_kafka lib srv (Inr kafka))"
    unfolding reconcile_kafka_def reconcile_objects_def
    by (simp only: with_context_simps fails_simps io_bind_lift sum.case)
      (intro begins_bind begins_prepare emits_intros phases_emit TrueI)
  with assms show "\<exists>vs. us = NewClusterResources ?s # vs" unfolding begins_def by fastforce
  have "emits (uses_strategy ?s) (reconcile_kafka lib srv (Inr kafka))"
    unfolding reconcile_kafka_def reconcile_objects_def
    by (simp only: with_context_simps fails_simps io_bind_lift sum.case)
      (intro emits_intros emits_prepare_strategy phases_emit other)
  from emitsD [OF this assms] show "list_all (uses_strategy ?s) us" by simp
qed

lemma strategy_of_uses:
  "list_all (uses_strategy s) us \<Longrightarrow> strategy_of us = None \<or> strategy_of us = Some s"
proof (induction us)
  case (Cons e us)
  then show ?case by (cases e) auto
qed simp

lemma strategy_of_prefix:
  assumes "reconcile_kafka lib srv (Inr kafka) w = (r, w @ vs @ rest)" and "vs \<noteq> []"
  shows "strategy_of vs = Some (apply_strategy lib (spec_cluster_operation (spec kafka)))"
proof -
  note run = run_strategy [OF assms(1)]
  then obtain vs' where vs: "vs = NewClusterResources
      (apply_strategy lib (spec_cluster_operation (spec kafka))) # vs'"
    using assms(2) by (cases vs) auto
  moreover have "list_all (uses_strategy (apply_strategy lib (spec_cluster_operation (spec kafka)))) vs'"
    using run(2) vs by simp
  ultimately show ?thesis using strategy_of_uses by fastforce
qed

lemma writing_prefix:
  assumes "reconcile_kafka lib srv (Inr kafka) w = (r, w @ vs @ rest)"
  shows "writing writes vs \<longleftrightarrow>
    vs \<noteq> [] \<and> writes (apply_strategy lib (spec_cluster_operation (spec kafka)))"
  using strategy_of_prefix [OF assms] by (cases "vs = []") (auto simp: writing_def)

section \<open>Facts\<close>

lemma keeps_objects_prefix:
  "keeps_objects srv writes key existing w0 (us @ vs) \<Longrightarrow> keeps_objects srv writes key existing w0 us"
  by (auto simp: keeps_objects_def)

lemma keeps_objects_step:
  assumes "keeps_objects srv writes key existing w0 (us @ [e])"
  shows "if writing writes us
    then object_step key (accepted srv (w0 @ us) e) us e (existing (w0 @ us)) (existing (w0 @ us @ [e]))
    else existing (w0 @ us @ [e]) = existing (w0 @ us)"
  using assms unfolding keeps_objects_def by blast

lemma not_writing_keeps:
  assumes "keeps_objects srv writes key existing w0 us"
    and "\<And>vs rest. us = vs @ rest \<Longrightarrow> \<not> writing writes vs"
  shows "existing (w0 @ us) = existing w0"
  using assms
proof (induction us rule: rev_induct)
  case (snoc e us)
  have "existing (w0 @ us) = existing w0"
    using snoc.IH [OF keeps_objects_prefix [OF snoc.prems(1)]] snoc.prems(2) by auto
  with keeps_objects_step [OF snoc.prems(1)] snoc.prems(2) [of us "[e]"] show ?case by simp
qed simp

text \<open>Calls other than the deletion of orphans only add keys, those of applied objects.\<close>

lemma no_deletion_keeps:
  assumes "keeps_objects srv writes key existing w0 us" and "DeleteOrphans \<notin> set us"
  shows "existing w0 \<subseteq> existing (w0 @ us)"
  using assms
proof (induction us rule: rev_induct)
  case (snoc e us)
  have "existing w0 \<subseteq> existing (w0 @ us)"
    using snoc keeps_objects_prefix by fastforce
  moreover have "e \<noteq> DeleteOrphans" using snoc.prems by auto
  ultimately show ?case
    using keeps_objects_step [OF snoc.prems(1)] by (cases e) (auto split: if_splits)
qed simp

lemma accepted_applied_exist:
  assumes "keeps_objects srv writes key existing w0 us" and "DeleteOrphans \<notin> set us"
    and "all_accepted srv w0 us" and "\<And>vs x rest. us = vs @ Apply x # rest \<Longrightarrow> writing writes vs"
  shows "applied_keys key us \<subseteq> existing (w0 @ us)"
  using assms
proof (induction us rule: rev_induct)
  case (snoc e us)
  have IH: "applied_keys key us \<subseteq> existing (w0 @ us)"
  proof (rule snoc.IH [OF keeps_objects_prefix [OF snoc.prems(1)]])
    show "DeleteOrphans \<notin> set us" "all_accepted srv w0 us"
      using snoc.prems(2,3) by (simp_all add: all_accepted_append)
    show "writing writes vs" if "us = vs @ Apply x # rest" for vs x rest
      using snoc.prems(4) [of vs x "rest @ [e]"] that by simp
  qed
  have acc: "accepted srv (w0 @ us) e" using snoc.prems(3) by (simp add: all_accepted_append)
  have e: "e \<noteq> DeleteOrphans" using snoc.prems by auto
  have "writing writes us" if "e = Apply x" for x
    using snoc.prems(4) [of us x "[]"] that by simp
  with IH acc keeps_objects_step [OF snoc.prems(1)] e show ?case
    by (cases e) (auto simp: applied_keys_append split: if_splits)
qed simp

lemma only_applied_added:
  assumes "keeps_objects srv writes key existing w0 us"
  shows "existing (w0 @ us) \<subseteq> existing w0 \<union> applied_keys key us"
  using assms
proof (induction us rule: rev_induct)
  case (snoc e us)
  have "existing (w0 @ us) \<subseteq> existing w0 \<union> applied_keys key us"
    using snoc keeps_objects_prefix by blast
  with keeps_objects_step [OF snoc.prems] show ?case
    by (cases e) (auto simp: applied_keys_append split: if_splits)
qed simp

lemma owned_no_deletion: "list_all (owned_apply kafka) us \<Longrightarrow> DeleteOrphans \<notin> set us"
  by (auto simp: list_all_iff)

text \<open>A run deletes at most at one point, after everything was applied; the status follows.\<close>

lemma run_shape:
  assumes "reconcile_kafka lib srv (Inr kafka) w = (r, w @ us)"
  obtains
    (no_deletion) "DeleteOrphans \<notin> set us" "\<forall>a. r \<noteq> Inr a"
  | (deletion) vs post where "us = vs @ DeleteOrphans # post" "DeleteOrphans \<notin> set vs"
      "all_accepted srv w vs" "post = [] \<or> (\<exists>c. post = [PatchStatus c])"
      "(\<exists>a. r = Inr a) \<longrightarrow> accepted srv (w @ vs) DeleteOrphans"
  using assms
proof (cases rule: reconcile_kafka_run)
  case (stopped f vs)
  then show thesis using no_deletion owned_no_deletion by auto
next
  case (not_deleted vs e)
  then show thesis using deletion [of vs "[]"] owned_no_deletion by auto
next
  case (finished vs sets)
  then show thesis using deletion [of vs] owned_no_deletion by auto
qed

text \<open>The deletion keeps what the run applied; a successful one keeps nothing else.\<close>

lemma deletion_step:
  assumes "keeps_objects srv writes key existing w0 (vs @ [DeleteOrphans])" and "writing writes vs"
  shows "existing (w0 @ vs) \<inter> applied_keys key vs \<subseteq> existing (w0 @ vs @ [DeleteOrphans])"
    and "accepted srv (w0 @ vs) DeleteOrphans \<Longrightarrow>
      existing (w0 @ vs @ [DeleteOrphans]) \<subseteq> existing (w0 @ vs) \<inter> applied_keys key vs"
  using keeps_objects_step [OF assms(1)] assms(2) by auto

lemma status_changes_nothing:
  assumes "keeps_objects srv writes key existing w0 (us @ [e, PatchStatus c])"
  shows "existing (w0 @ us @ [e, PatchStatus c]) = existing (w0 @ us @ [e])"
  using keeps_objects_step [of srv writes key existing w0 "us @ [e]" "PatchStatus c"] assms
  by (simp split: if_splits)

text \<open>What exists at the end of a run that reached the deletion: the status patch changes nothing.\<close>

lemma existing_after_deletion:
  assumes "keeps_objects srv writes key existing w0 (vs @ DeleteOrphans # post)"
    and "post = [] \<or> (\<exists>c. post = [PatchStatus c])"
  shows "keeps_objects srv writes key existing w0 (vs @ [DeleteOrphans])"
    and "existing (w0 @ vs @ DeleteOrphans # post) = existing (w0 @ vs @ [DeleteOrphans])"
proof -
  show "keeps_objects srv writes key existing w0 (vs @ [DeleteOrphans])"
    using assms(1) keeps_objects_prefix [of srv writes key existing w0 "vs @ [DeleteOrphans]" post] by simp
  show "existing (w0 @ vs @ DeleteOrphans # post) = existing (w0 @ vs @ [DeleteOrphans])"
    using assms(2)
  proof (elim disjE exE)
    fix c assume "post = [PatchStatus c]"
    with assms(1) show ?thesis
      using status_changes_nothing [of srv writes key existing w0 vs DeleteOrphans c] by simp
  qed simp
qed

lemma success_shape:
  assumes keeps: "keeps_objects srv writes key existing w us"
    and run: "reconcile_kafka lib srv (Inr kafka) w = (Inr a, w @ us)"
    and active: "writes (apply_strategy lib (spec_cluster_operation (spec kafka)))"
  shows "existing (w @ us) = applied_keys key us"
  using run
proof (cases rule: run_shape)
  case (deletion vs post)
  have w: "vs' \<noteq> [] \<Longrightarrow> us = vs' @ rest \<Longrightarrow> writing writes vs'" for vs' rest
    using writing_prefix [of lib srv kafka w "Inr a" vs' rest] run active by simp
  obtain first where first: "us = NewClusterResources first # tl us"
    using run_strategy(1) [OF run] by auto
  note ends = existing_after_deletion [OF keeps [unfolded deletion(1)] deletion(4)]
  have "applied_keys key vs \<subseteq> existing (w @ vs)"
  proof (rule accepted_applied_exist [OF keeps_objects_prefix [OF ends(1)] deletion(2,3)])
    fix vs' x rest assume "vs = vs' @ Apply x # rest"
    with deletion(1) first show "writing writes vs'"
      using w [of vs' "Apply x # rest @ DeleteOrphans # post"] by (cases vs') auto
  qed
  moreover have "writing writes vs"
    using w [of vs "DeleteOrphans # post"] deletion(1) first by (cases vs) auto
  ultimately have "existing (w @ vs @ [DeleteOrphans]) = applied_keys key vs"
    using deletion_step [OF ends(1)] deletion(5) by blast
  moreover have "applied_keys key us = applied_keys key vs"
    using deletion(1,4) by (auto simp: applied_keys_append)
  ultimately show ?thesis using ends(2) by (simp add: deletion(1))
qed simp

lemma paused_shape:
  assumes "keeps_objects srv writes key existing w (vs @ rest)"
    and "reconcile_kafka lib srv (Inr kafka) w = (r, w @ vs @ rest)"
    and "\<not> writes (apply_strategy lib (spec_cluster_operation (spec kafka)))"
  shows "existing (w @ vs) = existing w"
proof (rule not_writing_keeps [OF keeps_objects_prefix [OF assms(1)]])
  fix vs' rest' assume "vs = vs' @ rest'"
  with writing_prefix [of lib srv kafka w r vs' "rest' @ rest"] assms(2,3)
  show "\<not> writing writes vs'" by simp
qed

lemma applied_objects_stay:
  assumes keeps: "keeps_objects srv writes key existing w (vs @ rest)"
    and run: "reconcile_kafka lib srv (Inr kafka) w = (r, w @ vs @ rest)"
    and k: "k \<in> existing w" "k \<in> applied_keys key (vs @ rest) \<or> DeleteOrphans \<notin> set vs"
  shows "k \<in> existing (w @ vs)"
proof (cases "DeleteOrphans \<in> set vs")
  case False
  then show ?thesis
    using no_deletion_keeps [OF keeps_objects_prefix [OF keeps]] k(1) by blast
next
  case True
  with k(2) have wanted: "k \<in> applied_keys key (vs @ rest)" by blast
  from run show ?thesis
  proof (cases rule: run_shape)
    case no_deletion
    with True show ?thesis by simp
  next
    case (deletion us post)
    from True obtain us' post' where vs: "vs = us' @ DeleteOrphans # post'" "DeleteOrphans \<notin> set us'"
      by (meson split_list_first)
    with deletion(1,2) have eq: "us' = us" "post' @ rest = post"
      by (auto simp: append_eq_append_conv2 Cons_eq_append_conv append_eq_Cons_conv)
    have post': "post' = [] \<or> (\<exists>c. post' = [PatchStatus c])"
      using deletion(4) eq(2) by (cases post') auto
    have keeps_us: "keeps_objects srv writes key existing w (us @ DeleteOrphans # post')"
      using keeps_objects_prefix [OF keeps] vs(1) eq(1) by simp
    note ends = existing_after_deletion [OF keeps_us post']
    have "k \<in> applied_keys key us"
      using wanted deletion(1,4) by (auto simp: applied_keys_append)
    moreover have "k \<in> existing (w @ us)"
      using no_deletion_keeps [OF keeps_objects_prefix [OF ends(1)] deletion(2)] k(1) by blast
    ultimately have "k \<in> existing (w @ us @ [DeleteOrphans])"
      using deletion_step(1) [OF ends(1)] keeps_objects_step [OF ends(1)]
      by (cases "writing writes us") auto
    then show ?thesis using ends(2) vs(1) eq(1) by simp
  qed
qed

section \<open>Properties\<close>

text \<open>
  C3. What a successful reconciliation leaves behind depends on the cluster operation: with a strategy that
  writes, exactly the objects it applied exist, everything it applied being there and what earlier
  reconciliations left (say of a removed role group) gone; with one that does not, as for a cluster
  whose reconciliation is paused, exactly what existed before.
\<close>

theorem success_leaves_applied_objects:
  assumes "keeps_objects srv writes key existing w us"
    and "reconcile_kafka lib srv (Inr kafka) w = (Inr a, w @ us)"
  shows "existing (w @ us) =
    (if writes (apply_strategy lib (spec_cluster_operation (spec kafka)))
     then {key x | x. Apply x \<in> set us} else existing w)"
  using success_shape [OF assms] paused_shape [of srv writes key existing w us "[]" lib kafka "Inr a"] assms
  by (simp add: applied_keys_set)

text \<open>
  C4. Nothing that is still wanted disappears, at any moment of any run: an object that existed before
  exists after every prefix of the calls, unless orphans have been deleted and the run does not
  apply it. In particular a run that fails before the deletion removes nothing, and a deletion that
  fails half-way removes nothing that is wanted.
\<close>

theorem wanted_objects_stay:
  assumes "keeps_objects srv writes key existing w (vs @ rest)"
    and "reconcile_kafka lib srv (Inr kafka) w = (r, w @ vs @ rest)"
    and "k \<in> existing w" and "(\<exists>x. Apply x \<in> set (vs @ rest) \<and> k = key x) \<or> DeleteOrphans \<notin> set vs"
  shows "k \<in> existing (w @ vs)"
  using applied_objects_stay [OF assms(1-3)] assms(4) by (auto simp: applied_keys_set)

text \<open>
  C14. Reconciling again changes nothing: after a successful reconciliation a second successful one of the
  same resource, even if it meets the role groups in another order and the server gives other
  answers, leaves the same objects in existence at every moment.
\<close>

theorem second_run_changes_nothing:
  assumes "keeps_objects srv writes object_identity existing w us"
    and "reconcile_kafka lib srv (Inr kafka) w = (Inr a, w @ us)"
    and "keeps_objects srv' writes object_identity existing (w @ us) (vs @ rest)"
    and "reconcile_kafka lib' srv' (Inr kafka) (w @ us) = (Inr b, (w @ us) @ vs @ rest)"
    and "lib' = lib\<lparr>validate_all_roles_and_groups_config := other_order\<rparr>"
    and "role_groups_of lib' kafka = role_groups_of lib kafka"
  shows "existing ((w @ us) @ vs) = existing (w @ us)"
proof (cases "writes (apply_strategy lib (spec_cluster_operation (spec kafka)))")
  case False
  then show ?thesis using paused_shape [OF assms(3,4)] by (simp add: assms(5))
next
  case True
  have wanted: "wanted_identities lib' kafka = wanted_identities lib kafka"
    using assms(6) by (simp add: wanted_identities_def rbac_identities_def assms(5))
  have keys: "applied_keys object_identity us = applied_keys object_identity (vs @ rest)"
    using applied_of_success [OF assms(2)] applied_of_success [OF assms(4)] wanted
    by (simp only: applied_keys_identity)
  have now: "existing (w @ us) = applied_keys object_identity us"
    by (rule success_shape [OF assms(1,2) True])
  show ?thesis
  proof
    show "existing ((w @ us) @ vs) \<subseteq> existing (w @ us)"
      using only_applied_added [OF keeps_objects_prefix [OF assms(3)]] now keys
      by (auto simp: applied_keys_append)
    show "existing (w @ us) \<subseteq> existing ((w @ us) @ vs)"
    proof
      fix k assume k: "k \<in> existing (w @ us)"
      with now keys have "k \<in> applied_keys object_identity (vs @ rest)" by simp
      with k show "k \<in> existing ((w @ us) @ vs)"
        using applied_objects_stay [OF assms(3,4)] by blast
    qed
  qed
qed

section \<open>Witnesses\<close>

text \<open>
  A cluster in which every strategy writes and every call does what it can: the keys after some calls, and
  after a first run of \<open>n\<close> calls and a part of a second one.
\<close>

fun keys_after :: "(k8s_object \<Rightarrow> 'k) \<Rightarrow> effect list \<Rightarrow> 'k set \<Rightarrow> effect \<Rightarrow> 'k set" where
  "keys_after key us ks (Apply x) = insert (key x) ks"
| "keys_after key us ks DeleteOrphans = ks \<inter> applied_keys key us"
| "keys_after key us ks e = ks"

fun keys_run :: "(k8s_object \<Rightarrow> 'k) \<Rightarrow> effect list \<Rightarrow> 'k set \<Rightarrow> effect list \<Rightarrow> 'k set" where
  "keys_run key us ks [] = ks"
| "keys_run key us ks (e # es) =
     keys_run key (us @ [e]) (if strategy_of us = None then ks else keys_after key us ks e) es"

lemma keys_run_snoc:
  "keys_run key us ks (es @ [e]) =
     (if strategy_of (us @ es) = None then keys_run key us ks es
      else keys_after key (us @ es) (keys_run key us ks es) e)"
  by (induction es arbitrary: us ks) simp_all

definition example_existing :: "(k8s_object \<Rightarrow> 'k) \<Rightarrow> nat \<Rightarrow> 'k set \<Rightarrow> trace \<Rightarrow> 'k set" where
  "example_existing key n ks w = keys_run key [] (keys_run key [] ks (take n w)) (drop n w)"

lemma object_step_keys_after: "object_step key ok us e ks (keys_after key us ks e)"
  by (cases e) auto

lemma example_keeps_first:
  assumes "length us \<le> n"
  shows "keeps_objects srv (\<lambda>_. True) key (example_existing key n ks) [] us"
  unfolding keeps_objects_def
  using assms by (auto simp: example_existing_def writing_def object_step_keys_after
      keys_run_snoc [of _ "[]", simplified])

lemma example_keeps_second:
  "keeps_objects srv (\<lambda>_. True) key (example_existing key (length w) ks) w us"
  unfolding keeps_objects_def
  by (auto simp: example_existing_def writing_def object_step_keys_after
      keys_run_snoc [of _ "[]", simplified])

text \<open>A leftover of an earlier reconciliation, present before the run, is gone after it.\<close>

theorem success_leaves_applied_objects_witness:
  "\<exists>us. reconcile_kafka example_controller_lib example_server (Inr example_kafka) [] = (Inr AwaitChange, us) \<and>
     example_existing id (length us) {RoleBindingObject ''leftover''} us = {x. Apply x \<in> set us}"
proof -
  obtain us where run: "reconcile_kafka example_controller_lib example_server (Inr example_kafka) [] =
      (Inr AwaitChange, [] @ us)" using example_run by auto
  from success_leaves_applied_objects [OF example_keeps_first [OF order_refl] run,
      of id "{RoleBindingObject ''leftover''}"] run show ?thesis
    by auto
qed

theorem wanted_objects_stay_witness:
  "\<exists>us. reconcile_kafka example_controller_lib example_server (Inr example_kafka) [] = (Inr AwaitChange, us) \<and>
     (\<forall>x vs rest. us = vs @ rest \<longrightarrow> Apply x \<in> set us \<longrightarrow> x \<in> example_existing id (length us) {x} vs)"
proof -
  obtain us where run: "reconcile_kafka example_controller_lib example_server (Inr example_kafka) [] =
      (Inr AwaitChange, [] @ us)" using example_run by auto
  have "x \<in> example_existing id (length us) {x} vs" if "us = vs @ rest" "Apply x \<in> set us" for x vs rest
  proof -
    note wanted_objects_stay [where existing = "example_existing id (length us) {x}" and key = id
        and w = "[]", OF example_keeps_first run [unfolded that(1)]]
    from this [of x] that show ?thesis by (auto simp: example_existing_def)
  qed
  with run show ?thesis by auto
qed

theorem second_run_changes_nothing_witness:
  "\<exists>us vs. reconcile_kafka example_controller_lib example_server (Inr example_kafka) [] =
       (Inr AwaitChange, us) \<and>
     reconcile_kafka example_controller_lib example_server (Inr example_kafka) us = (Inr AwaitChange, us @ vs) \<and>
     example_existing object_identity (length us) {} (us @ vs) =
       example_existing object_identity (length us) {} us"
proof -
  obtain us where run: "reconcile_kafka example_controller_lib example_server (Inr example_kafka) [] =
      (Inr AwaitChange, [] @ us)" using example_run by auto
  obtain vs where again: "reconcile_kafka example_controller_lib example_server (Inr example_kafka) ([] @ us) =
      (Inr AwaitChange, ([] @ us) @ vs @ [])" using example_run_again [of us] by auto
  have second: "keeps_objects example_server (\<lambda>_. True) object_identity
      (example_existing object_identity (length us) {}) ([] @ us) (vs @ [])"
    using example_keeps_second [of example_server object_identity us "{}" vs] by simp
  from second_run_changes_nothing [OF example_keeps_first [OF order_refl] run second again,
      of "validate_all_roles_and_groups_config example_controller_lib"] run again
  show ?thesis by auto
qed

end
