(* ===== verification/EntryPoint.thy ===== *)
theory EntryPoint
  imports Controller
begin

text \<open>
  The process around the reconciliation: \<open>rust/operator-binary/src/main.rs\<close>. The entry point
  dispatches the command line and starts the controller with its setup; what the controller runtime of
  kube makes of the setup, when it reconciles and with what delay, is not under the repository and is
  not modelled.
\<close>

section \<open>The entry point\<close>

record product_operator_run =
  run_product_config :: json
  run_watch_namespace :: json
  run_tracing_target :: json
  run_cluster_info_opts :: json

record kafka_run =
  kafka_broker_clusterrole :: string
  run_common :: product_operator_run

datatype cli_command = CrdCommand | RunCommand kafka_run

text \<open>The file the build writes, and what clap takes from the package.\<close>

record built_info =
  PKG_VERSION :: string
  GIT_VERSION :: "string option"
  TARGET :: string
  BUILT_TIME_UTC :: string
  RUSTC_VERSION :: string
  crate_description :: string
  crate_version :: string

text \<open>The setup of the controller: the namespaces it watches and the kinds of objects it owns.\<close>

record controller_setup =
  cs_watch_namespace :: json
  cs_owned :: "write_kind list"

datatype process_event =
    PrintYamlSchema string
  | InitializeLogging string string json
  | PrintStartupString string string "string option" string string string
  | LoadProductConfig json "string list"
  | InitializeOperator "string option" json
  | RunController controller_setup json json

record 'e main_lib =
  print_yaml_schema_error :: "string \<Rightarrow> 'e option"
  load_product_config :: "json \<Rightarrow> string list \<Rightarrow> 'e + json"
  initialize_operator :: "string option \<Rightarrow> json \<Rightarrow> 'e + json"

definition process_step :: "process_event \<Rightarrow> 'e + 'a \<Rightarrow> (process_event list, 'e, 'a) io" where
  "process_step ev r w = (r, w @ [ev])"

definition kafka_controller :: "json \<Rightarrow> controller_setup" where
  "kafka_controller ns = \<lparr>
     cs_watch_namespace = ns,
     cs_owned = [WStatefulSet, WService, WListener, WConfigMap, WServiceAccount, WRoleBinding]\<rparr>"

definition create_controller :: "json \<Rightarrow> json \<Rightarrow> json \<Rightarrow> (process_event list, 'e, unit) io" where
  "create_controller client product_config ns =
     process_step (RunController (kafka_controller ns) client product_config) (Inr ())"

definition operator_main ::
  "'e main_lib \<Rightarrow> built_info \<Rightarrow> cli_command \<Rightarrow> (process_event list, 'e, unit) io" where
  "operator_main lib info cmd =
     (case cmd of
        CrdCommand \<Rightarrow>
          process_step (PrintYamlSchema (PKG_VERSION info))
            (unless_error (print_yaml_schema_error lib (PKG_VERSION info)) ())
      | RunCommand opts \<Rightarrow>
          let c = run_common opts;
              paths = [''deploy/config-spec/properties.yaml'',
                       ''/etc/stackable/kafka-operator/config-spec/properties.yaml'']
          in io_bind (process_step
               (InitializeLogging ''KAFKA_OPERATOR_LOG'' APP_NAME (run_tracing_target c)) (Inr ()))
          (\<lambda>_. io_bind (process_step
               (PrintStartupString (crate_description info) (crate_version info) (GIT_VERSION info)
                 (TARGET info) (BUILT_TIME_UTC info) (RUSTC_VERSION info)) (Inr ()))
          (\<lambda>_. io_bind (process_step (LoadProductConfig (run_product_config c) paths)
               (load_product_config lib (run_product_config c) paths))
          (\<lambda>product_config. io_bind (process_step
               (InitializeOperator (Some OPERATOR_NAME) (run_cluster_info_opts c))
               (initialize_operator lib (Some OPERATOR_NAME) (run_cluster_info_opts c)))
          (\<lambda>client. create_controller client product_config (run_watch_namespace c))))))"

section \<open>The entry point starts the controller last\<close>

lemma operator_main_events:
  assumes "operator_main lib info cmd w = (r, w')"
  shows "\<exists>us. w' = w @ us \<and>
     (\<forall>setup client pc. RunController setup client pc \<in> set us \<longrightarrow>
        (\<exists>opts vs. cmd = RunCommand opts \<and> r = Inr () \<and>
           setup = kafka_controller (run_watch_namespace (run_common opts)) \<and>
           us = vs @ [RunController setup client pc] \<and> length vs = 4 \<and>
           initialize_operator lib (Some ''kafka.stackable.tech'')
             (run_cluster_info_opts (run_common opts)) = Inr client))"
proof (cases cmd)
  case CrdCommand
  then show ?thesis using assms by (auto simp: operator_main_def process_step_def)
next
  case (RunCommand opts)
  then show ?thesis
    using assms
    by (auto simp: operator_main_def process_step_def io_bind_def Let_def create_controller_def
        OPERATOR_NAME_def split: sum.splits)
qed

text \<open>Of the kinds a reconciliation applies, the setup declares all as owned but the disruption budget.\<close>

lemma owned_kinds:
  "object_kind x \<in> set (cs_owned (kafka_controller ns)) \<longleftrightarrow> (\<forall>p. x \<noteq> PdbObject p)"
  by (cases x) (simp_all add: kafka_controller_def)

end
