(* ===== verification/Serde.thy ===== *)
theory Serde
  imports Security
begin

text \<open>
  Reading and writing the custom resource: the \<open>Deserialize\<close> and \<open>Serialize\<close> implementations that
  serde derives from the attributes of the structs in \<open>rust/crd/src/lib.rs\<close>, \<open>tls.rs\<close>,
  \<open>authentication.rs\<close> and \<open>authorization.rs\<close> (\<open>rename_all\<close>, \<open>default\<close>, \<open>skip_serializing_if\<close>). A
  document is the tree a JSON or YAML reader delivers; a rejected document is None (which of several
  errors is reported is not modelled). Structs of the operator library are read and written by the
  functions of \<open>serde_lib\<close>.
\<close>

datatype serde_value =
    SNull
  | SString string
  | SNumber int
  | SSeq "serde_value list"
  | SMap "(string \<times> serde_value) list"

record serde_lib =
  de_metadata :: "serde_value \<Rightarrow> object_meta option"
  de_image :: "serde_value \<Rightarrow> json option"
  ser_image :: "json \<Rightarrow> serde_value"
  de_role :: "serde_value \<Rightarrow> role option"
  ser_role :: "role \<Rightarrow> serde_value"
  de_operation :: "serde_value \<Rightarrow> json option"
  ser_operation :: "json \<Rightarrow> serde_value"
  default_operation :: json
  de_opa :: "serde_value \<Rightarrow> json option"
  ser_opa :: "json \<Rightarrow> serde_value"

section \<open>Values\<close>

fun de_string :: "serde_value \<Rightarrow> string option" where
  "de_string (SString s) = Some s"
| "de_string _ = None"

fun de_option :: "(serde_value \<Rightarrow> 'a option) \<Rightarrow> serde_value \<Rightarrow> 'a option option" where
  "de_option de SNull = Some None"
| "de_option de v = map_option Some (de v)"

fun de_vec :: "(serde_value \<Rightarrow> 'a option) \<Rightarrow> serde_value \<Rightarrow> 'a list option" where
  "de_vec de (SSeq vs) = those (map de vs)"
| "de_vec de _ = None"

definition ser_option :: "('a \<Rightarrow> serde_value) \<Rightarrow> 'a option \<Rightarrow> serde_value" where
  "ser_option ser x = (case x of None \<Rightarrow> SNull | Some y \<Rightarrow> ser y)"

definition ser_vec :: "('a \<Rightarrow> serde_value) \<Rightarrow> 'a list \<Rightarrow> serde_value" where
  "ser_vec ser xs = SSeq (map ser xs)"

section \<open>Fields\<close>

text \<open>
  A field occurs at most once. Without an attribute it must be present, unless its type is an
  \<open>Option\<close>; with \<open>default\<close> an absent field has the given value; unknown fields are ignored. On the
  way out, \<open>skip_serializing_if\<close> leaves a None out.
\<close>

definition field :: "string \<Rightarrow> (string \<times> serde_value) list \<Rightarrow> serde_value option option" where
  "field k fs =
     (case filter (\<lambda>f. fst f = k) fs of
        [] \<Rightarrow> Some None
      | [f] \<Rightarrow> Some (Some (snd f))
      | _ \<Rightarrow> None)"

definition required_field ::
  "string \<Rightarrow> (serde_value \<Rightarrow> 'a option) \<Rightarrow> (string \<times> serde_value) list \<Rightarrow> 'a option" where
  "required_field k de fs =
     Option.bind (field k fs) (\<lambda>v. Option.bind v de)"

definition default_field ::
  "string \<Rightarrow> 'a \<Rightarrow> (serde_value \<Rightarrow> 'a option) \<Rightarrow> (string \<times> serde_value) list \<Rightarrow> 'a option" where
  "default_field k d de fs =
     Option.bind (field k fs) (\<lambda>v. case v of None \<Rightarrow> Some d | Some x \<Rightarrow> de x)"

definition option_field ::
  "string \<Rightarrow> (serde_value \<Rightarrow> 'a option) \<Rightarrow> (string \<times> serde_value) list \<Rightarrow> 'a option option" where
  "option_field k de fs = default_field k None (de_option de) fs"

definition skip_none ::
  "string \<Rightarrow> ('a \<Rightarrow> serde_value) \<Rightarrow> 'a option \<Rightarrow> (string \<times> serde_value) list" where
  "skip_none k ser x = (case x of None \<Rightarrow> [] | Some y \<Rightarrow> [(k, ser y)])"

lemma field_distinct: "distinct (map fst fs) \<Longrightarrow> field k fs = Some (map_of fs k)"
proof (induction fs)
  case (Cons f fs)
  have "filter (\<lambda>g. fst g = fst f) fs = []" using Cons.prems
    by (auto simp: filter_empty_conv) (metis fst_conv image_eqI)
  then show ?case using Cons by (cases "fst f = k") (auto simp: field_def)
qed (simp add: field_def)

section \<open>The structs of the resource\<close>

fun de_kafka_authentication :: "serde_value \<Rightarrow> kafka_authentication option" where
  "de_kafka_authentication (SMap fs) =
     Option.bind (required_field ''authenticationClass'' de_string fs) (\<lambda>c.
     Some \<lparr>ka_authentication_class = c\<rparr>)"
| "de_kafka_authentication _ = None"

definition ser_kafka_authentication :: "kafka_authentication \<Rightarrow> serde_value" where
  "ser_kafka_authentication a =
     SMap [(''authenticationClass'', SString (ka_authentication_class a))]"

fun de_kafka_authorization :: "serde_lib \<Rightarrow> serde_value \<Rightarrow> kafka_authorization option" where
  "de_kafka_authorization lib (SMap fs) =
     Option.bind (option_field ''opa'' (de_opa lib) fs) (\<lambda>x. Some \<lparr>opa = x\<rparr>)"
| "de_kafka_authorization lib _ = None"

definition ser_kafka_authorization :: "serde_lib \<Rightarrow> kafka_authorization \<Rightarrow> serde_value" where
  "ser_kafka_authorization lib a = SMap [(''opa'', ser_option (ser_opa lib) (opa a))]"

fun de_kafka_tls :: "serde_value \<Rightarrow> kafka_tls option" where
  "de_kafka_tls (SMap fs) =
     Option.bind (default_field ''internalSecretClass'' internal_tls_default de_string fs) (\<lambda>i.
     Option.bind (default_field ''serverSecretClass'' server_tls_default (de_option de_string) fs) (\<lambda>s.
     Some \<lparr>kt_internal_secret_class = i, kt_server_secret_class = s\<rparr>))"
| "de_kafka_tls _ = None"

definition ser_kafka_tls :: "kafka_tls \<Rightarrow> serde_value" where
  "ser_kafka_tls t =
     SMap ([(''internalSecretClass'', SString (kt_internal_secret_class t))]
       @ skip_none ''serverSecretClass'' SString (kt_server_secret_class t))"

fun de_kafka_cluster_config :: "serde_lib \<Rightarrow> serde_value \<Rightarrow> kafka_cluster_config option" where
  "de_kafka_cluster_config lib (SMap fs) =
     Option.bind (default_field ''authentication'' [] (de_vec de_kafka_authentication) fs) (\<lambda>a.
     Option.bind (default_field ''authorization'' \<lparr>opa = None\<rparr> (de_kafka_authorization lib) fs) (\<lambda>z.
     Option.bind (default_field ''tls'' default_kafka_tls (de_option de_kafka_tls) fs) (\<lambda>t.
     Option.bind (option_field ''vectorAggregatorConfigMapName'' de_string fs) (\<lambda>v.
     Option.bind (required_field ''zookeeperConfigMapName'' de_string fs) (\<lambda>zk.
     Some \<lparr>cc_authentication = a, cc_authorization = z, cc_tls = t,
           cc_vector_aggregator_config_map_name = v, cc_zookeeper_config_map_name = zk\<rparr>)))))"
| "de_kafka_cluster_config lib _ = None"

definition ser_kafka_cluster_config :: "serde_lib \<Rightarrow> kafka_cluster_config \<Rightarrow> serde_value" where
  "ser_kafka_cluster_config lib c =
     SMap ([(''authentication'', ser_vec ser_kafka_authentication (cc_authentication c)),
            (''authorization'', ser_kafka_authorization lib (cc_authorization c))]
       @ skip_none ''tls'' ser_kafka_tls (cc_tls c)
       @ skip_none ''vectorAggregatorConfigMapName'' SString (cc_vector_aggregator_config_map_name c)
       @ [(''zookeeperConfigMapName'', SString (cc_zookeeper_config_map_name c))])"

fun de_kafka_cluster_spec :: "serde_lib \<Rightarrow> serde_value \<Rightarrow> kafka_cluster_spec option" where
  "de_kafka_cluster_spec lib (SMap fs) =
     Option.bind (required_field ''image'' (de_image lib) fs) (\<lambda>i.
     Option.bind (option_field ''brokers'' (de_role lib) fs) (\<lambda>b.
     Option.bind (required_field ''clusterConfig'' (de_kafka_cluster_config lib) fs) (\<lambda>c.
     Option.bind (default_field ''clusterOperation'' (default_operation lib) (de_operation lib) fs) (\<lambda>x.
     Some \<lparr>spec_image = i, spec_brokers = b, spec_cluster_config = c,
           spec_cluster_operation = x\<rparr>))))"
| "de_kafka_cluster_spec lib _ = None"

definition ser_kafka_cluster_spec :: "serde_lib \<Rightarrow> kafka_cluster_spec \<Rightarrow> serde_value" where
  "ser_kafka_cluster_spec lib s =
     SMap [(''image'', ser_image lib (spec_image s)),
           (''brokers'', ser_option (ser_role lib) (spec_brokers s)),
           (''clusterConfig'', ser_kafka_cluster_config lib (spec_cluster_config s)),
           (''clusterOperation'', ser_operation lib (spec_cluster_operation s))]"

text \<open>The resource that the kube macro builds around the specification (without a status).\<close>

fun de_kafka_cluster :: "serde_lib \<Rightarrow> serde_value \<Rightarrow> kafka_cluster option" where
  "de_kafka_cluster lib (SMap fs) =
     Option.bind (required_field ''metadata'' (de_metadata lib) fs) (\<lambda>m.
     Option.bind (required_field ''spec'' (de_kafka_cluster_spec lib) fs) (\<lambda>s.
     Some \<lparr>metadata = m, spec = s, status = None\<rparr>))"
| "de_kafka_cluster lib _ = None"

section \<open>Entries of a document\<close>

fun lookup_path :: "serde_value \<Rightarrow> string list \<Rightarrow> serde_value option" where
  "lookup_path v [] = Some v"
| "lookup_path (SMap fs) (k # ks) = Option.bind (map_of fs k) (\<lambda>v. lookup_path v ks)"
| "lookup_path _ (_ # _) = None"

definition tls_entry :: "serde_value \<Rightarrow> string list \<Rightarrow> serde_value option" where
  "tls_entry doc ks = lookup_path doc ([''spec'', ''clusterConfig'', ''tls''] @ ks)"

lemma lookup_path_append:
  "lookup_path v (ks @ ks') = Option.bind (lookup_path v ks) (\<lambda>x. lookup_path x ks')"
proof (induction v ks rule: lookup_path.induct)
  case (2 fs k ks)
  then show ?case by (cases "map_of fs k") auto
qed auto

lemma tls_entry_Cons:
  "tls_entry doc (k # ks) = Option.bind (tls_entry doc []) (\<lambda>v. lookup_path v (k # ks))"
  unfolding tls_entry_def append_Nil2 by (rule lookup_path_append)

lemma field_lookup: "field k fs = Some v \<Longrightarrow> map_of fs k = v"
proof -
  have "map_of fs k = (case filter (\<lambda>f. fst f = k) fs of [] \<Rightarrow> None | f # _ \<Rightarrow> Some (snd f))"
    by (induction fs) auto
  then show "field k fs = Some v \<Longrightarrow> map_of fs k = v"
    by (auto simp: field_def split: list.splits)
qed

lemma required_field_SomeD:
  "required_field k de fs = Some x \<Longrightarrow> \<exists>v. map_of fs k = Some v \<and> de v = Some x"
  by (auto simp: required_field_def bind_eq_Some_conv dest: field_lookup)

lemma default_field_SomeD:
  "default_field k d de fs = Some x \<Longrightarrow>
     (case map_of fs k of None \<Rightarrow> x = d | Some v \<Rightarrow> de v = Some x)"
  by (auto simp: default_field_def bind_eq_Some_conv dest!: field_lookup split: option.splits)

lemma de_kafka_tls_entries:
  assumes "de_kafka_tls v = Some t"
  shows "(kt_server_secret_class t = None \<longleftrightarrow> lookup_path v [''serverSecretClass''] = Some SNull) \<and>
         (kt_internal_secret_class t = [] \<longleftrightarrow>
            lookup_path v [''internalSecretClass''] = Some (SString [])) \<and>
         lookup_path v [''internalSecretClass''] \<noteq> Some SNull"
proof -
  obtain fs where v: "v = SMap fs" using assms by (cases v) auto
  obtain i c where t: "t = \<lparr>kt_internal_secret_class = i, kt_server_secret_class = c\<rparr>"
    and i: "default_field ''internalSecretClass'' internal_tls_default de_string fs = Some i"
    and c: "default_field ''serverSecretClass'' server_tls_default (de_option de_string) fs = Some c"
    using assms by (auto simp: v bind_eq_Some_conv)
  have str: "de_string x = Some c \<longleftrightarrow> x = SString c" for x c by (cases x) auto
  have opt: "de_option de_string x = Some c \<longleftrightarrow>
      (case c of None \<Rightarrow> x = SNull | Some n \<Rightarrow> x = SString n)" for x c
    by (cases x; cases c) auto
  show ?thesis using default_field_SomeD [OF i] default_field_SomeD [OF c]
    by (auto simp: v t str opt internal_tls_default_def server_tls_default_def
      TLS_DEFAULT_SECRET_CLASS_def split: option.splits)
qed

lemma tls_entry_read:
  assumes "de_kafka_cluster lib doc = Some kafka"
  shows "case tls_entry doc [] of
      None \<Rightarrow> cc_tls (spec_cluster_config (spec kafka)) = default_kafka_tls
    | Some v \<Rightarrow> de_option de_kafka_tls v = Some (cc_tls (spec_cluster_config (spec kafka)))"
proof -
  obtain fs where doc: "doc = SMap fs" using assms by (cases doc) auto
  obtain sv where sv: "map_of fs ''spec'' = Some sv" "de_kafka_cluster_spec lib sv = Some (spec kafka)"
    using assms by (auto simp: doc bind_eq_Some_conv dest!: required_field_SomeD)
  obtain ss where ss: "sv = SMap ss" using sv(2) by (cases sv) auto
  have "\<exists>c. required_field ''clusterConfig'' (de_kafka_cluster_config lib) ss = Some c \<and>
      c = spec_cluster_config (spec kafka)"
    using sv(2) by (cases "spec kafka") (auto simp: ss bind_eq_Some_conv)
  then obtain cv where cv: "map_of ss ''clusterConfig'' = Some cv"
      "de_kafka_cluster_config lib cv = Some (spec_cluster_config (spec kafka))"
    by (auto dest!: required_field_SomeD)
  obtain cs where cs: "cv = SMap cs" using cv(2) by (cases cv) auto
  have "default_field ''tls'' default_kafka_tls (de_option de_kafka_tls) cs =
      Some (cc_tls (spec_cluster_config (spec kafka)))"
    using cv(2) by (cases "spec_cluster_config (spec kafka)") (auto simp: cs bind_eq_Some_conv)
  from default_field_SomeD [OF this] show ?thesis
    by (simp add: tls_entry_def doc sv(1) ss cv(1) cs bind_option_cong split: option.splits)
qed

section \<open>The contract of a codec\<close>

locale serde_codec =
  fixes ser :: "'a \<Rightarrow> serde_value" and de :: "serde_value \<Rightarrow> 'a option"
  assumes de_ser: "de (ser x) = Some x"
    and ser_not_null: "ser x \<noteq> SNull"
begin

lemma de_option_ser: "de_option de (ser x) = Some (Some x)"
  using de_ser [of x] ser_not_null [of x] by (cases "ser x") simp_all

lemma de_option_ser_option: "de_option de (ser_option ser x) = Some x"
  by (cases x) (simp_all add: ser_option_def de_option_ser)

lemma those_ser: "those (map (de \<circ> ser) xs) = Some xs"
  by (induction xs) (simp_all add: de_ser)

lemma de_vec_ser_vec: "de_vec de (ser_vec ser xs) = Some xs"
  using those_ser [of xs] by (simp add: ser_vec_def)

lemma ser_inject: "ser x = ser y \<longleftrightarrow> x = y"
  by (metis de_ser option.inject)

end

lemmas serde_fields =
  required_field_def default_field_def option_field_def field_def skip_none_def

interpretation string_codec: serde_codec SString de_string
  by unfold_locales simp_all

interpretation authentication_codec: serde_codec ser_kafka_authentication de_kafka_authentication
  by unfold_locales (simp_all add: ser_kafka_authentication_def serde_fields)

lemma authorization_codec:
  assumes "serde_codec (ser_opa lib) (de_opa lib)"
  shows "serde_codec (ser_kafka_authorization lib) (de_kafka_authorization lib)"
  by unfold_locales
    (simp_all add: ser_kafka_authorization_def serde_fields
      serde_codec.de_option_ser_option [OF assms])

text \<open>
  The TLS settings are not a codec: an absent \<open>serverSecretClass\<close> is read as the default secret
  class, but it is what None is written as. Reading back fills None with the default.
\<close>

definition with_server_default :: "kafka_tls \<Rightarrow> kafka_tls" where
  "with_server_default t = t\<lparr>kt_server_secret_class :=
     Some (case kt_server_secret_class t of None \<Rightarrow> ''tls'' | Some c \<Rightarrow> c)\<rparr>"

lemma de_ser_kafka_tls: "de_kafka_tls (ser_kafka_tls t) = Some (with_server_default t)"
  by (cases "kt_server_secret_class t")
    (simp_all add: ser_kafka_tls_def serde_fields with_server_default_def server_tls_default_def
      TLS_DEFAULT_SECRET_CLASS_def)

definition with_tls_default :: "kafka_cluster_config \<Rightarrow> kafka_cluster_config" where
  "with_tls_default c = c\<lparr>cc_tls := Some (with_server_default
     (case cc_tls c of None \<Rightarrow> \<lparr>kt_internal_secret_class = ''tls'', kt_server_secret_class = None\<rparr>
      | Some t \<Rightarrow> t))\<rparr>"

lemma ser_kafka_tls_map: "\<exists>fs. ser_kafka_tls t = SMap fs"
  by (simp add: ser_kafka_tls_def)

lemma de_ser_cluster_config:
  assumes "serde_codec (ser_opa lib) (de_opa lib)"
  shows "de_kafka_cluster_config lib (ser_kafka_cluster_config lib c) = Some (with_tls_default c)"
proof -
  have tls: "de_option de_kafka_tls (ser_kafka_tls t) = Some (Some (with_server_default t))" for t
    using ser_kafka_tls_map [of t] de_ser_kafka_tls [of t] by auto
  have auth: "de_kafka_authorization lib (ser_kafka_authorization lib z) = Some z" for z
    by (rule serde_codec.de_ser [OF authorization_codec [OF assms]])
  note rt = tls auth authentication_codec.de_vec_ser_vec string_codec.de_ser
  show ?thesis
    by (cases "cc_tls c"; cases "cc_vector_aggregator_config_map_name c")
      (simp_all add: ser_kafka_cluster_config_def serde_fields rt with_tls_default_def
        default_kafka_tls_def internal_tls_default_def server_tls_default_def
        TLS_DEFAULT_SECRET_CLASS_def with_server_default_def)
qed

text \<open>What the operator library's structs are assumed to satisfy.\<close>

definition serde_lib_ok :: "serde_lib \<Rightarrow> role option \<Rightarrow> bool" where
  "serde_lib_ok lib brokers \<longleftrightarrow>
     serde_codec (ser_image lib) (de_image lib) \<and>
     serde_codec (ser_operation lib) (de_operation lib) \<and>
     serde_codec (ser_opa lib) (de_opa lib) \<and>
     de_option (de_role lib) (ser_option (ser_role lib) brokers) = Some brokers"

lemma de_ser_cluster_spec:
  assumes "serde_lib_ok lib (spec_brokers s)"
  shows "de_kafka_cluster_spec lib (ser_kafka_cluster_spec lib s) =
           Some (s\<lparr>spec_cluster_config := with_tls_default (spec_cluster_config s)\<rparr>)"
proof -
  have image: "serde_codec (ser_image lib) (de_image lib)" and role: "de_option (de_role lib) (ser_option (ser_role lib) (spec_brokers s)) = Some (spec_brokers s)"
    and operation: "serde_codec (ser_operation lib) (de_operation lib)"
    and opa_codec: "serde_codec (ser_opa lib) (de_opa lib)"
    using assms by (simp_all add: serde_lib_ok_def)
  show ?thesis
    by (simp add: ser_kafka_cluster_spec_def serde_fields de_ser_cluster_config [OF opa_codec]
        serde_codec.de_ser [OF image] role
        serde_codec.de_ser [OF operation])
qed

lemma with_server_default_same: "with_server_default t = t \<longleftrightarrow> kt_server_secret_class t \<noteq> None"
  by (cases t) (auto simp: with_server_default_def split: option.splits)

lemma with_tls_default_same:
  "with_tls_default c = c \<longleftrightarrow> (\<exists>t. cc_tls c = Some t \<and> kt_server_secret_class t \<noteq> None)"
  by (cases c; cases "cc_tls c")
    (auto simp: with_tls_default_def with_server_default_same)

lemma with_tls_default_idem: "with_tls_default (with_tls_default c) = with_tls_default c"
  by (simp add: with_tls_default_def with_server_default_def)

lemma with_tls_default_only_tls: "(with_tls_default c)\<lparr>cc_tls := cc_tls c\<rparr> = c"
  by (simp add: with_tls_default_def)

section \<open>Properties\<close>

text \<open>
  C24. Writing and reading back a specification changes nothing but missing TLS settings: the result
  differs from the original at most in \<open>tls\<close>, it is the original exactly when a server secret class
  is set, and a second round changes nothing. A None that switches server TLS off does not survive:
  it is skipped when writing and its absence is read as the default \<open>tls\<close>.
\<close>

theorem cluster_spec_roundtrip:
  assumes "serde_lib_ok lib (spec_brokers s)"
  shows "\<exists>s'. de_kafka_cluster_spec lib (ser_kafka_cluster_spec lib s) = Some s' \<and>
           (s' = s \<longleftrightarrow> (\<exists>t. cc_tls (spec_cluster_config s) = Some t \<and> kt_server_secret_class t \<noteq> None)) \<and>
           s'\<lparr>spec_cluster_config := (spec_cluster_config s')\<lparr>cc_tls := cc_tls (spec_cluster_config s)\<rparr>\<rparr> = s \<and>
           (cc_tls (spec_cluster_config s) = None \<longrightarrow> cc_tls (spec_cluster_config s') = default_kafka_tls) \<and>
           de_kafka_cluster_spec lib (ser_kafka_cluster_spec lib s') = Some s'"
proof -
  let ?s = "s\<lparr>spec_cluster_config := with_tls_default (spec_cluster_config s)\<rparr>"
  have "?s = s \<longleftrightarrow> with_tls_default (spec_cluster_config s) = spec_cluster_config s"
    by (cases s) simp
  moreover have "cc_tls (with_tls_default c) = default_kafka_tls" if "cc_tls c = None" for c
    using that by (simp add: with_tls_default_def with_server_default_def default_kafka_tls_def
        internal_tls_default_def server_tls_default_def TLS_DEFAULT_SECRET_CLASS_def)
  moreover have "serde_lib_ok lib (spec_brokers ?s)" using assms by simp
  ultimately show ?thesis
    by (intro exI [of _ ?s])
      (simp add: de_ser_cluster_spec [OF assms] de_ser_cluster_spec with_tls_default_same with_tls_default_idem
        with_tls_default_only_tls)
qed

text \<open>
  C25. Which entries of a document switch encryption off, from the document that the API server
  delivers to the security settings the operator works with. Server encryption is off exactly when
  \<open>spec.clusterConfig.tls\<close> or its \<open>serverSecretClass\<close> is an explicit null; leaving either out means the
  default \<open>tls\<close>. Internal encryption is off exactly when \<open>internalSecretClass\<close> is the empty string: a
  null \<open>tls\<close> does not switch it off, and a document with a null \<open>internalSecretClass\<close> is not read at
  all (the documentation offers that null as the way to switch internal encryption off).
\<close>

theorem tls_settings_of_document:
  assumes "de_kafka_cluster lib doc = Some kafka"
    and "new_from_kafka_cluster resolve_class pts kafka w = (Inr sec, w')"
  shows "(tls_server_secret_class sec = None \<longleftrightarrow>
            tls_entry doc [] = Some SNull \<or> tls_entry doc [''serverSecretClass''] = Some SNull) \<and>
         (tls_internal_secret_class sec = None \<longleftrightarrow>
            tls_entry doc [''internalSecretClass''] = Some (SString [])) \<and>
         tls_entry doc [''internalSecretClass''] \<noteq> Some SNull"
proof -
  let ?t = "cc_tls (spec_cluster_config (spec kafka))"
  have sec: "tls_server_secret_class sec = Option.bind ?t kt_server_secret_class"
    "tls_internal_secret_class sec =
       (case ?t of None \<Rightarrow> Some ''tls''
        | Some t \<Rightarrow> if kt_internal_secret_class t = [] then None else Some (kt_internal_secret_class t))"
    using assms(2)
    by (auto simp: new_from_kafka_cluster_def io_simps tls_server_secret_class_def
      tls_internal_secret_class_def internal_tls_default_def TLS_DEFAULT_SECRET_CLASS_def
      split: option.splits)
  note doc = tls_entry_read [OF assms(1)]
  show ?thesis
  proof (cases "tls_entry doc []")
    case None
    then show ?thesis using doc by (simp add: sec tls_entry_Cons default_kafka_tls_def
      internal_tls_default_def server_tls_default_def TLS_DEFAULT_SECRET_CLASS_def)
  next
    case (Some v)
    show ?thesis
    proof (cases "v = SNull")
      case True
      then show ?thesis using doc Some by (simp add: sec tls_entry_Cons)
    next
      case False
      have "de_option de_kafka_tls v = map_option Some (de_kafka_tls v)"
        using False by (cases v) simp_all
      then obtain t where t: "?t = Some t" "de_kafka_tls v = Some t" using doc Some
        by (cases ?t) (auto simp del: de_option.simps)
      then show ?thesis using de_kafka_tls_entries [OF t(2)] Some False
        by (auto simp: sec tls_entry_Cons)
    qed
  qed
qed

section \<open>Witnesses\<close>

definition example_serde_lib :: serde_lib where
  "example_serde_lib = \<lparr>
     de_metadata = (\<lambda>v. case v of
         SMap fs \<Rightarrow> Some \<lparr>
           metadata_name = (case map_of fs ''name'' of Some (SString n) \<Rightarrow> Some n | _ \<Rightarrow> None),
           metadata_namespace = (case map_of fs ''namespace'' of Some (SString n) \<Rightarrow> Some n | _ \<Rightarrow> None)\<rparr>
       | _ \<Rightarrow> None),
     de_image = (\<lambda>v. case v of SMap [(_, SString i)] \<Rightarrow> Some i | _ \<Rightarrow> None),
     ser_image = (\<lambda>i. SMap [(''productVersion'', SString i)]),
     de_role = (\<lambda>v. Some example_role),
     ser_role = (\<lambda>r. SMap []),
     de_operation = de_string,
     ser_operation = SString,
     default_operation = ''{}'',
     de_opa = de_string,
     ser_opa = SString\<rparr>"

lemma example_serde_lib_ok: "serde_lib_ok example_serde_lib (Some example_role)"
  unfolding serde_lib_ok_def
  by (intro conjI; (unfold_locales)?) (simp_all add: example_serde_lib_def ser_option_def)

theorem cluster_spec_roundtrip_witness:
  "\<exists>s'. de_kafka_cluster_spec example_serde_lib (ser_kafka_cluster_spec example_serde_lib
        (spec example_kafka)) = Some s' \<and> s' = spec example_kafka"
proof -
  have b: "spec_brokers (spec example_kafka) = Some example_role" by (rule example_brokers)
  have "\<exists>t. cc_tls (spec_cluster_config (spec example_kafka)) = Some t \<and> kt_server_secret_class t \<noteq> None"
    by (simp add: example_kafka_def default_kafka_tls_def server_tls_default_def)
  then show ?thesis
    using cluster_spec_roundtrip [of example_serde_lib "spec example_kafka"]
      example_serde_lib_ok by (auto simp: b)
qed

definition example_document :: serde_value where
  "example_document = SMap [
     (''metadata'', SMap [(''name'', SString ''simple-kafka''), (''namespace'', SString ''default'')]),
     (''spec'', SMap [
        (''image'', SMap [(''productVersion'', SString ''3.7.1'')]),
        (''clusterConfig'', SMap [
           (''tls'', SMap [(''serverSecretClass'', SNull)]),
           (''zookeeperConfigMapName'', SString ''xyz'')])])]"

theorem tls_settings_of_document_witness:
  "case de_kafka_cluster example_serde_lib example_document of None \<Rightarrow> False
   | Some kafka \<Rightarrow>
      (case new_from_kafka_cluster (\<lambda>_. io_return (example_tls_class None)) (\<lambda>_. []) kafka () :: (unit security_error + _) \<times> _ of
         (Inl e, _) \<Rightarrow> False
       | (Inr sec, _) \<Rightarrow> tls_server_secret_class sec = None \<and> tls_internal_secret_class sec \<noteq> None)"
proof -
  let ?r = "\<lambda>_. io_return (example_tls_class None) :: (unit, unit, authentication_class) io"
  obtain kafka where k: "de_kafka_cluster example_serde_lib example_document = Some kafka"
    and a: "cc_authentication (spec_cluster_config (spec kafka)) = []"
    by (simp add: example_document_def example_serde_lib_def serde_fields)
  obtain sec where sec: "new_from_kafka_cluster ?r (\<lambda>_. []) kafka () = (Inr sec, ())"
    by (simp add: new_from_kafka_cluster_def a io_simps from_references_def validate_classes_def)
  show ?thesis
    using tls_settings_of_document [OF k sec]
    by (simp add: k sec, simp add: example_document_def tls_entry_def)
qed

end
