(* ===== verification/Fragments.thy ===== *)
theory Fragments
  imports Serde
begin

text \<open>
  The configuration fragments of \<open>rust/crd/src/lib.rs\<close>: what the derived \<open>Merge\<close>, \<open>Default\<close> and
  \<open>FromFragment\<close> of \<open>KafkaConfig\<close> and \<open>Storage\<close> do, field by field in the order of the structs. With
  them the configuration of a role group is determined down to the types of the operator library,
  whose merging and validation stay parameters. The unit test of \<open>affinity.rs\<close> is translated at the end.
\<close>

section \<open>Functions of the library\<close>

text \<open>
  \<open>Resources<T, K>\<close> is generic in the storage settings, so its functions take those of \<open>Storage\<close>. A
  validation error is the one of a missing required field or a nested one, with the field's name.
\<close>

record 'e fragment_lib =
  fl_merge_logging :: "json \<Rightarrow> json \<Rightarrow> json"
  fl_merge_affinity :: "affinity_fragment \<Rightarrow> affinity_fragment \<Rightarrow> affinity_fragment"
  fl_merge_pvc :: "pvc_config_fragment \<Rightarrow> pvc_config_fragment \<Rightarrow> pvc_config_fragment"
  fl_merge_resources :: "(storage_fragment \<Rightarrow> storage_fragment \<Rightarrow> storage_fragment) \<Rightarrow>
    resources_fragment \<Rightarrow> resources_fragment \<Rightarrow> resources_fragment"
  fl_validate_logging :: "json \<Rightarrow> 'e + logging"
  fl_validate_affinity :: "affinity_fragment \<Rightarrow> 'e + json"
  fl_validate_pvc :: "pvc_config_fragment \<Rightarrow> 'e + pvc_config"
  fl_validate_resources :: "(storage_fragment \<Rightarrow> 'e + storage) \<Rightarrow> resources_fragment \<Rightarrow> 'e + resources"
  fl_required_field :: 'e
  fl_in_field :: "string \<Rightarrow> 'e \<Rightarrow> 'e"
  fl_default_logging :: json
  fl_default_affinity :: affinity_fragment
  fl_default_pvc :: pvc_config_fragment
  fl_default_resources :: "storage_fragment \<Rightarrow> resources_fragment"

section \<open>Derived functions\<close>

definition default_storage_fragment :: "'e fragment_lib \<Rightarrow> storage_fragment" where
  "default_storage_fragment fl = \<lparr>stf_log_dirs = fl_default_pvc fl\<rparr>"

definition default_fragment :: "'e fragment_lib \<Rightarrow> kafka_config_fragment" where
  "default_fragment fl = \<lparr>
     cf_logging = fl_default_logging fl,
     cf_resources = fl_default_resources fl (default_storage_fragment fl),
     cf_affinity = fl_default_affinity fl,
     cf_graceful_shutdown_timeout = None,
     cf_bootstrap_listener_class = None,
     cf_broker_listener_class = None,
     cf_requested_secret_lifetime = None\<rparr>"

definition merge_storage ::
  "'e fragment_lib \<Rightarrow> storage_fragment \<Rightarrow> storage_fragment \<Rightarrow> storage_fragment" where
  "merge_storage fl self defaults =
     \<lparr>stf_log_dirs = fl_merge_pvc fl (stf_log_dirs self) (stf_log_dirs defaults)\<rparr>"

definition merge_config ::
  "'e fragment_lib \<Rightarrow> kafka_config_fragment \<Rightarrow> kafka_config_fragment \<Rightarrow> kafka_config_fragment" where
  "merge_config fl self defaults = \<lparr>
     cf_logging = fl_merge_logging fl (cf_logging self) (cf_logging defaults),
     cf_resources =
       fl_merge_resources fl (merge_storage fl) (cf_resources self) (cf_resources defaults),
     cf_affinity = fl_merge_affinity fl (cf_affinity self) (cf_affinity defaults),
     cf_graceful_shutdown_timeout =
       opt_or (cf_graceful_shutdown_timeout self) (cf_graceful_shutdown_timeout defaults),
     cf_bootstrap_listener_class =
       opt_or (cf_bootstrap_listener_class self) (cf_bootstrap_listener_class defaults),
     cf_broker_listener_class =
       opt_or (cf_broker_listener_class self) (cf_broker_listener_class defaults),
     cf_requested_secret_lifetime =
       opt_or (cf_requested_secret_lifetime self) (cf_requested_secret_lifetime defaults)\<rparr>"

definition validate_storage :: "'e fragment_lib \<Rightarrow> storage_fragment \<Rightarrow> 'e + storage" where
  "validate_storage fl f =
     and_then (with_context (fl_in_field fl ''log_dirs'') (fl_validate_pvc fl (stf_log_dirs f)))
       (\<lambda>pvc. Inr \<lparr>st_log_dirs = pvc\<rparr>)"

text \<open>A field of type \<open>String\<close> must be set, one of type \<open>Option<Duration>\<close> is copied.\<close>

definition validate_config :: "'e fragment_lib \<Rightarrow> kafka_config_fragment \<Rightarrow> 'e + kafka_config" where
  "validate_config fl f =
     and_then (with_context (fl_in_field fl ''logging'') (fl_validate_logging fl (cf_logging f))) (\<lambda>l.
     and_then (with_context (fl_in_field fl ''resources'')
       (fl_validate_resources fl (validate_storage fl) (cf_resources f))) (\<lambda>r.
     and_then (with_context (fl_in_field fl ''affinity'')
       (fl_validate_affinity fl (cf_affinity f))) (\<lambda>a.
     and_then (with_context (fl_in_field fl ''bootstrap_listener_class'')
       (ok_or (fl_required_field fl) (cf_bootstrap_listener_class f))) (\<lambda>bootstrap.
     and_then (with_context (fl_in_field fl ''broker_listener_class'')
       (ok_or (fl_required_field fl) (cf_broker_listener_class f))) (\<lambda>broker.
     Inr \<lparr>kc_logging = l, kc_resources = r, kc_affinity = a,
          kc_graceful_shutdown_timeout = cf_graceful_shutdown_timeout f,
          kc_bootstrap_listener_class = bootstrap,
          kc_broker_listener_class = broker,
          kc_requested_secret_lifetime = cf_requested_secret_lifetime f\<rparr>)))))"

text \<open>The library functions with the derived ones in their places.\<close>

definition with_fragments :: "'e fragment_lib \<Rightarrow> 'e crd_lib \<Rightarrow> 'e crd_lib" where
  "with_fragments fl lib = lib\<lparr>lib_merge := merge_config fl, lib_validate := validate_config fl\<rparr>"

lemma with_fragments_simps [simp]:
  "lib_merge (with_fragments fl lib) = merge_config fl"
  "lib_validate (with_fragments fl lib) = validate_config fl"
  "lib_name_any (with_fragments fl lib) = lib_name_any lib"
  "lib_default_logging (with_fragments fl lib) = lib_default_logging lib"
  "lib_affinity_between_role_pods (with_fragments fl lib) = lib_affinity_between_role_pods lib"
  "lib_object_name (with_fragments fl lib) = lib_object_name lib"
  by (simp_all add: with_fragments_def)

lemma default_config_with_fragments [simp]:
  "default_config (with_fragments fl lib) n r = default_config lib n r"
  by (simp add: default_config_def get_affinity_def)

section \<open>Laws of merging\<close>

text \<open>
  Merging is used in chains: the group's settings over the role's over the defaults. The interface says
  that unset settings are neutral and that a chain may be merged in any grouping.
\<close>

locale mergeable =
  fixes merge :: "'a \<Rightarrow> 'a \<Rightarrow> 'a"
    and unset :: 'a
  assumes merge_assoc: "merge (merge a b) c = merge a (merge b c)"
    and merge_unset: "merge unset a = a" "merge a unset = a"
begin

definition chain :: "'a list \<Rightarrow> 'a" where
  "chain fs = foldr merge fs unset"

lemma chain_append: "chain (fs @ gs) = merge (chain fs) (chain gs)"
  by (induction fs) (simp_all add: chain_def merge_unset merge_assoc)

lemma chain_skips_unset: "chain (filter (\<lambda>f. f \<noteq> unset) fs) = chain fs"
  by (induction fs) (simp_all add: chain_def merge_unset)

lemma chain_two: "chain [a, b] = merge a b"
  by (simp add: chain_def merge_unset)

end

text \<open>Optional settings, and everything built from mergeable settings.\<close>

interpretation option_setting: mergeable opt_or None
  by unfold_locales (simp_all add: opt_or_assoc opt_or_def split: option.splits)

lemma storage_mergeable:
  assumes "mergeable (fl_merge_pvc fl) (fl_default_pvc fl)"
  shows "mergeable (merge_storage fl) (default_storage_fragment fl)"
proof -
  note laws = mergeable.merge_assoc [OF assms] mergeable.merge_unset [OF assms]
  show ?thesis
    by unfold_locales (simp_all add: merge_storage_def default_storage_fragment_def laws)
qed

text \<open>The first setting of a chain that is set is the one that counts.\<close>

fun first_set :: "'a option list \<Rightarrow> 'a option" where
  "first_set [] = None"
| "first_set (None # xs) = first_set xs"
| "first_set (Some x # xs) = Some x"

lemma option_chain_first_set: "option_setting.chain xs = first_set xs"
  by (induction xs rule: first_set.induct) (simp_all add: option_setting.chain_def)

definition resources_laws :: "'e fragment_lib \<Rightarrow> bool" where
  "resources_laws fl \<longleftrightarrow> (\<forall>m u. mergeable m u \<longrightarrow>
     mergeable (fl_merge_resources fl m) (fl_default_resources fl u))"

text \<open>
  Merging of whole fragments may be regrouped up to the log settings: the choice between a custom and an
  automatic log configuration is an enum, for which the library promises no such law.
\<close>

lemma merge_config_regroup:
  assumes "mergeable (fl_merge_affinity fl) (fl_default_affinity fl)"
    and "mergeable (fl_merge_pvc fl) (fl_default_pvc fl)" and "resources_laws fl"
  shows "merge_config fl (merge_config fl a b) c =
    (merge_config fl a (merge_config fl b c))
      \<lparr>cf_logging := fl_merge_logging fl (fl_merge_logging fl (cf_logging a) (cf_logging b)) (cf_logging c)\<rparr>"
proof -
  have "mergeable (fl_merge_resources fl (merge_storage fl))
      (fl_default_resources fl (default_storage_fragment fl))"
    using assms(3) storage_mergeable [OF assms(2)] unfolding resources_laws_def by blast
  from mergeable.merge_assoc [OF this] show ?thesis
    by (simp add: merge_config_def mergeable.merge_assoc [OF assms(1)] option_setting.merge_assoc)
qed

section \<open>What the derived functions promise\<close>

lemma derived_merge_prefers_self: "merge_prefers_self (with_fragments fl lib)"
  by (simp add: merge_prefers_self_def merge_config_def)

lemma validate_config_eq_Inr:
  "validate_config fl f = Inr c \<longleftrightarrow>
     fl_validate_logging fl (cf_logging f) = Inr (kc_logging c) \<and>
     fl_validate_resources fl (validate_storage fl) (cf_resources f) = Inr (kc_resources c) \<and>
     fl_validate_affinity fl (cf_affinity f) = Inr (kc_affinity c) \<and>
     cf_bootstrap_listener_class f = Some (kc_bootstrap_listener_class c) \<and>
     cf_broker_listener_class f = Some (kc_broker_listener_class c) \<and>
     kc_graceful_shutdown_timeout c = cf_graceful_shutdown_timeout f \<and>
     kc_requested_secret_lifetime c = cf_requested_secret_lifetime f"
  by (cases c) (auto simp: validate_config_def result_simps)

lemma derived_validate_copies: "validate_copies (with_fragments fl lib)"
  by (simp add: validate_copies_def validate_config_eq_Inr)

text \<open>With both listener classes set, only a nested setting can be refused; the first one is reported.\<close>

lemma validate_config_eq_Inl:
  assumes "cf_bootstrap_listener_class f \<noteq> None" and "cf_broker_listener_class f \<noteq> None"
  shows "validate_config fl f = Inl e \<longleftrightarrow>
    (\<exists>x. fl_validate_logging fl (cf_logging f) = Inl x \<and> e = fl_in_field fl ''logging'' x) \<or>
    (is_ok (fl_validate_logging fl (cf_logging f)) \<and>
     (\<exists>x. fl_validate_resources fl (validate_storage fl) (cf_resources f) = Inl x \<and>
        e = fl_in_field fl ''resources'' x)) \<or>
    (is_ok (fl_validate_logging fl (cf_logging f)) \<and>
     is_ok (fl_validate_resources fl (validate_storage fl) (cf_resources f)) \<and>
     (\<exists>x. fl_validate_affinity fl (cf_affinity f) = Inl x \<and> e = fl_in_field fl ''affinity'' x))"
  using assms
  by (auto simp: validate_config_def result_simps is_ok_def split: sum.splits)


section \<open>Merged configuration\<close>

definition first_of :: "'a option list \<Rightarrow> 'a \<Rightarrow> 'a" where
  "first_of xs d = (case first_set xs of None \<Rightarrow> d | Some x \<Rightarrow> x)"

lemma opt_or_first_of: "opt_or x (opt_or y (Some d)) = Some (first_of [x, y] d)"
  by (cases x; cases y) (simp_all add: first_of_def)

text \<open>
  C22. The configuration of a role group. The listener classes, the shutdown timeout and the certificate
  lifetime are those of the role group, else of the role, else the defaults; no user setting can make
  them missing. Log settings, resources and affinity are the library's merge of the three, and only
  their validation can fail, reported with the field, the first in the order of the struct.
\<close>

theorem merged_config_of_settings:
  assumes "spec_brokers (spec kafka) = Some rl" and "map_of (role_groups rl) g = Some rg"
    and "grp = com_config (rg_config rg)" and "rol = com_config (role_common rl)"
    and "d = default_config lib (lib_name_any lib (metadata kafka)) Broker"
  shows "merged_config (with_fragments fl lib) kafka Broker (broker_rolegroup_ref kafka g) =
    (case fl_validate_logging fl (fl_merge_logging fl (cf_logging grp)
            (fl_merge_logging fl (cf_logging rol) (cf_logging d))) of
       Inl e \<Rightarrow> Inl (FragmentValidationFailure (fl_in_field fl ''logging'' e))
     | Inr l \<Rightarrow>
    (case fl_validate_resources fl (validate_storage fl)
            (fl_merge_resources fl (merge_storage fl) (cf_resources grp)
              (fl_merge_resources fl (merge_storage fl) (cf_resources rol) (cf_resources d))) of
       Inl e \<Rightarrow> Inl (FragmentValidationFailure (fl_in_field fl ''resources'' e))
     | Inr r \<Rightarrow>
    (case fl_validate_affinity fl (fl_merge_affinity fl (cf_affinity grp)
            (fl_merge_affinity fl (cf_affinity rol) (cf_affinity d))) of
       Inl e \<Rightarrow> Inl (FragmentValidationFailure (fl_in_field fl ''affinity'' e))
     | Inr a \<Rightarrow> Inr \<lparr>
         kc_logging = l, kc_resources = r, kc_affinity = a,
         kc_graceful_shutdown_timeout =
           Some (first_of [cf_graceful_shutdown_timeout grp, cf_graceful_shutdown_timeout rol]
             DEFAULT_BROKER_GRACEFUL_SHUTDOWN_TIMEOUT),
         kc_bootstrap_listener_class =
           first_of [cf_bootstrap_listener_class grp, cf_bootstrap_listener_class rol] ''cluster-internal'',
         kc_broker_listener_class =
           first_of [cf_broker_listener_class grp, cf_broker_listener_class rol] ''cluster-internal'',
         kc_requested_secret_lifetime =
           Some (first_of [cf_requested_secret_lifetime grp, cf_requested_secret_lifetime rol]
             DEFAULT_BROKER_SECRET_LIFETIME)\<rparr>)))"
  using assms(1,2)
  by (simp add: merged_config_def cluster_rolegroup_broker assms(3-5) Let_def validate_config_def
      merge_config_def opt_or_first_of and_then_def with_context_def ok_or_def split: sum.splits)

section \<open>Default affinity\<close>

text \<open>
  A cluster whose role and role group leave the affinity unset gets the default one: brokers of the
  same cluster prefer not to share a node, with weight 70, and nothing else is required.
\<close>

theorem default_affinity_used:
  assumes "mergeable (fl_merge_affinity fl) (fl_default_affinity fl)"
    and "spec_brokers (spec kafka) = Some rl" and "map_of (role_groups rl) g = Some rg"
    and "cf_affinity (com_config (rg_config rg)) = fl_default_affinity fl"
    and "cf_affinity (com_config (role_common rl)) = fl_default_affinity fl"
    and "merged_config (with_fragments fl lib) kafka Broker (broker_rolegroup_ref kafka g) = Inr c"
  shows "fl_validate_affinity fl \<lparr>
      aff_pod_affinity = None,
      aff_pod_anti_affinity = Some \<lparr>
        paa_preferred = Some [lib_affinity_between_role_pods lib ''kafka''
          (lib_name_any lib (metadata kafka)) ''broker'' 70],
        paa_required = None\<rparr>,
      aff_node_affinity = None,
      aff_node_selector = None\<rparr> = Inr (kc_affinity c)"
  using assms(2,3,6)
  by (simp add: merged_config_eq_Inr validate_config_eq_Inr merge_config_def assms(4,5)
      mergeable.merge_unset [OF assms(1)])
    (simp add: default_config_def get_affinity_def APP_NAME_def)

section \<open>Resources\<close>

text \<open>What the library documents of resources: each setting is merged by itself and copied by validation.\<close>

definition resources_by_field :: "'e fragment_lib \<Rightarrow> bool" where
  "resources_by_field fl \<longleftrightarrow>
     (\<forall>m a b. fl_merge_resources fl m a b = \<lparr>
        resf_cpu = \<lparr>cpuf_min = opt_or (cpuf_min (resf_cpu a)) (cpuf_min (resf_cpu b)),
                    cpuf_max = opt_or (cpuf_max (resf_cpu a)) (cpuf_max (resf_cpu b))\<rparr>,
        resf_memory = \<lparr>memf_limit = opt_or (memf_limit (resf_memory a)) (memf_limit (resf_memory b))\<rparr>,
        resf_storage = m (resf_storage a) (resf_storage b)\<rparr>) \<and>
     (\<forall>v f r. fl_validate_resources fl v f = Inr r \<longrightarrow>
        res_cpu_min r = cpuf_min (resf_cpu f) \<and> res_cpu_max r = cpuf_max (resf_cpu f) \<and>
        res_memory_limit r = memf_limit (resf_memory f) \<and>
        v (resf_storage f) = Inr (res_storage r)) \<and>
     (\<forall>a b. pvcf_capacity (fl_merge_pvc fl a b) = opt_or (pvcf_capacity a) (pvcf_capacity b)) \<and>
     (\<forall>f p. fl_validate_pvc fl f = Inr p \<longrightarrow> pvc_capacity p = pvcf_capacity f)"

lemma validate_storage_eq_Inr:
  "validate_storage fl f = Inr s \<longleftrightarrow> fl_validate_pvc fl (stf_log_dirs f) = Inr (st_log_dirs s)"
  by (cases s) (auto simp: validate_storage_def result_simps)

text \<open>
  C23. The resources of a broker: processor limits, memory limit and the capacity of the log volume are
  always set, each by itself from the role group, else the role, else 250m, 1000m, 1Gi and 2Gi.
\<close>

theorem resources_of_settings:
  assumes laws: "resources_by_field fl"
    and "spec_brokers (spec kafka) = Some rl" and "map_of (role_groups rl) g = Some rg"
    and grp: "grp = cf_resources (com_config (rg_config rg))"
    and rol: "rol = cf_resources (com_config (role_common rl))"
    and run: "merged_config (with_fragments fl lib) kafka Broker (broker_rolegroup_ref kafka g) = Inr c"
  shows "res_cpu_min (kc_resources c) =
           Some (first_of [cpuf_min (resf_cpu grp), cpuf_min (resf_cpu rol)] ''250m'') \<and>
         res_cpu_max (kc_resources c) =
           Some (first_of [cpuf_max (resf_cpu grp), cpuf_max (resf_cpu rol)] ''1000m'') \<and>
         res_memory_limit (kc_resources c) =
           Some (first_of [memf_limit (resf_memory grp), memf_limit (resf_memory rol)] ''1Gi'') \<and>
         pvc_capacity (st_log_dirs (res_storage (kc_resources c))) =
           Some (first_of [pvcf_capacity (stf_log_dirs (resf_storage grp)),
             pvcf_capacity (stf_log_dirs (resf_storage rol))] ''2Gi'')"
proof -
  let ?d = "cf_resources (default_config lib (lib_name_any lib (metadata kafka)) Broker)"
  let ?f = "fl_merge_resources fl (merge_storage fl) grp (fl_merge_resources fl (merge_storage fl) rol ?d)"
  have valid: "fl_validate_resources fl (validate_storage fl) ?f = Inr (kc_resources c)"
    using run assms(2,3) by (simp add: merged_config_eq_Inr validate_config_eq_Inr merge_config_def grp rol)
  note merged = laws [unfolded resources_by_field_def, THEN conjunct1, rule_format]
  note copied = laws [unfolded resources_by_field_def, THEN conjunct2, THEN conjunct1, rule_format, OF valid]
  note capacity = laws [unfolded resources_by_field_def, THEN conjunct2, THEN conjunct2]
  have "fl_validate_pvc fl (stf_log_dirs (resf_storage ?f)) = Inr (st_log_dirs (res_storage (kc_resources c)))"
    using copied by (simp add: validate_storage_eq_Inr)
  with capacity have "pvc_capacity (st_log_dirs (res_storage (kc_resources c))) =
      pvcf_capacity (stf_log_dirs (resf_storage ?f))" by blast
  then show ?thesis
    using copied
    by (simp add: merged merge_storage_def capacity default_config_def opt_or_first_of)
qed

section \<open>Witnesses\<close>

text \<open>Library functions as documented, for a given form of the validated affinity.\<close>

definition example_fragment_lib :: "(affinity_fragment \<Rightarrow> json) \<Rightarrow> string fragment_lib" where
  "example_fragment_lib aff = \<lparr>
     fl_merge_logging = (\<lambda>a b. a),
     fl_merge_affinity = (\<lambda>a b. \<lparr>
       aff_pod_affinity = opt_or (aff_pod_affinity a) (aff_pod_affinity b),
       aff_pod_anti_affinity = opt_or (aff_pod_anti_affinity a) (aff_pod_anti_affinity b),
       aff_node_affinity = opt_or (aff_node_affinity a) (aff_node_affinity b),
       aff_node_selector = opt_or (aff_node_selector a) (aff_node_selector b)\<rparr>),
     fl_merge_pvc = (\<lambda>a b. \<lparr>
       pvcf_capacity = opt_or (pvcf_capacity a) (pvcf_capacity b),
       pvcf_storage_class = opt_or (pvcf_storage_class a) (pvcf_storage_class b),
       pvcf_selectors = opt_or (pvcf_selectors a) (pvcf_selectors b)\<rparr>),
     fl_merge_resources = (\<lambda>m a b. \<lparr>
       resf_cpu = \<lparr>cpuf_min = opt_or (cpuf_min (resf_cpu a)) (cpuf_min (resf_cpu b)),
                   cpuf_max = opt_or (cpuf_max (resf_cpu a)) (cpuf_max (resf_cpu b))\<rparr>,
       resf_memory = \<lparr>memf_limit = opt_or (memf_limit (resf_memory a)) (memf_limit (resf_memory b))\<rparr>,
       resf_storage = m (resf_storage a) (resf_storage b)\<rparr>),
     fl_validate_logging = (\<lambda>l. Inr \<lparr>enable_vector_agent = False, log_containers = []\<rparr>),
     fl_validate_affinity = (\<lambda>a. Inr (aff a)),
     fl_validate_pvc = (\<lambda>f. Inr \<lparr>pvc_capacity = pvcf_capacity f,
       pvc_storage_class = pvcf_storage_class f, pvc_selectors = pvcf_selectors f\<rparr>),
     fl_validate_resources = (\<lambda>v f. and_then (v (resf_storage f)) (\<lambda>s. Inr \<lparr>
       res_cpu_min = cpuf_min (resf_cpu f), res_cpu_max = cpuf_max (resf_cpu f),
       res_memory_limit = memf_limit (resf_memory f), res_storage = s\<rparr>)),
     fl_required_field = ''required field'',
     fl_in_field = (\<lambda>f e. f @ '': '' @ e),
     fl_default_logging = ''{}'',
     fl_default_affinity = \<lparr>aff_pod_affinity = None, aff_pod_anti_affinity = None,
       aff_node_affinity = None, aff_node_selector = None\<rparr>,
     fl_default_pvc = \<lparr>pvcf_capacity = None, pvcf_storage_class = None, pvcf_selectors = None\<rparr>,
     fl_default_resources = (\<lambda>s. \<lparr>resf_cpu = \<lparr>cpuf_min = None, cpuf_max = None\<rparr>,
       resf_memory = \<lparr>memf_limit = None\<rparr>, resf_storage = s\<rparr>)\<rparr>"

lemma example_affinity_mergeable:
  "mergeable (fl_merge_affinity (example_fragment_lib aff)) (fl_default_affinity (example_fragment_lib aff))"
  by unfold_locales
    (simp_all add: example_fragment_lib_def option_setting.merge_assoc option_setting.merge_unset)

lemma example_resources_by_field: "resources_by_field (example_fragment_lib aff)"
  by (auto simp: resources_by_field_def example_fragment_lib_def result_simps)

lemma example_default_fragment: "default_fragment (example_fragment_lib aff) = empty_fragment"
  by (simp add: default_fragment_def default_storage_fragment_def example_fragment_lib_def empty_fragment_def)

lemma example_fragments_merged:
  "\<exists>c. merged_config (with_fragments (example_fragment_lib aff) example_lib) example_kafka Broker
     (broker_rolegroup_ref example_kafka ''blue'') = Inr c"
  by (simp add: merged_config_eq_Inr example_brokers example_blue validate_config_def merge_config_def
      example_fragment_lib_def validate_storage_def example_group_def example_common_def
      empty_fragment_def example_role_def default_config_def opt_or_first_of)

theorem merged_config_of_settings_witness:
  "\<exists>c. merged_config (with_fragments (example_fragment_lib (\<lambda>_. ''{}'')) example_lib) example_kafka Broker
          (broker_rolegroup_ref example_kafka ''blue'') = Inr c \<and>
       kc_bootstrap_listener_class c = ''external-stable'' \<and>
       kc_broker_listener_class c = ''external-unstable'' \<and>
       kc_requested_secret_lifetime c = Some DEFAULT_BROKER_SECRET_LIFETIME"
  using merged_config_of_settings [OF example_brokers example_blue refl refl refl,
      of "example_fragment_lib (\<lambda>_. ''{}'')" example_lib]
  by (simp add: example_fragment_lib_def validate_storage_def example_group_def example_common_def
      empty_fragment_def example_role_def first_of_def)

theorem default_affinity_used_witness:
  "\<exists>c. merged_config (with_fragments (example_fragment_lib (\<lambda>a. case aff_pod_anti_affinity a of
            Some p \<Rightarrow> concat (the (paa_preferred p)) | None \<Rightarrow> ''none'')) example_lib) example_kafka Broker
          (broker_rolegroup_ref example_kafka ''blue'') = Inr c \<and> kc_affinity c = ''{}''"
proof -
  let ?fl = "example_fragment_lib (\<lambda>a. case aff_pod_anti_affinity a of
      Some p \<Rightarrow> concat (the (paa_preferred p)) | None \<Rightarrow> ''none'')"
  obtain c where c: "merged_config (with_fragments ?fl example_lib) example_kafka Broker
      (broker_rolegroup_ref example_kafka ''blue'') = Inr c" using example_fragments_merged by blast
  from default_affinity_used [OF example_affinity_mergeable example_brokers example_blue _ _ c] c
  show ?thesis
    by (simp add: example_group_def example_common_def empty_fragment_def example_role_def)
      (simp add: example_fragment_lib_def example_lib_def)
qed

theorem resources_of_settings_witness:
  "\<exists>c. merged_config (with_fragments (example_fragment_lib (\<lambda>_. ''{}'')) example_lib) example_kafka Broker
          (broker_rolegroup_ref example_kafka ''blue'') = Inr c \<and>
       res_memory_limit (kc_resources c) = Some ''1Gi''"
proof -
  obtain c where c: "merged_config (with_fragments (example_fragment_lib (\<lambda>_. ''{}'')) example_lib)
      example_kafka Broker (broker_rolegroup_ref example_kafka ''blue'') = Inr c"
    using example_fragments_merged by blast
  from resources_of_settings [OF example_resources_by_field example_brokers example_blue refl refl c] c
  show ?thesis
    by (simp add: example_group_def example_common_def empty_fragment_def example_role_def first_of_def)
qed

end
