(* ===== verification/UnitTests.thy ===== *)
theory UnitTests
  imports Fragments Listener
begin

text \<open>
  The unit tests of \<open>lib.rs\<close>, \<open>listener.rs\<close> and \<open>affinity.rs\<close> under \<open>rust/crd/src\<close>, translated: a test is the
  conjunction of its assertions over the model, its YAML documents are the trees they denote. That
  they hold checks the model against the expectations written in the repository.
\<close>

section \<open>Documents\<close>

type_synonym fields = "(string \<times> serde_value) list"

text \<open>The fields of the metadata beside the name, of the specification beside the image, and of \<open>clusterConfig\<close>.\<close>

definition test_document :: "fields \<Rightarrow> fields \<Rightarrow> fields \<Rightarrow> serde_value" where
  "test_document meta other cluster_config =
     SMap [(''apiVersion'', SString ''kafka.stackable.tech/v1alpha1''),
           (''kind'', SString ''KafkaCluster''),
           (''metadata'', SMap ((''name'', SString ''simple-kafka'') # meta)),
           (''spec'', SMap ((''image'', SMap [(''productVersion'', SString ''3.7.1'')]) # other
              @ [(''clusterConfig'', SMap cluster_config)]))]"

definition test_cluster :: "fields \<Rightarrow> fields \<Rightarrow> fields \<Rightarrow> kafka_cluster" where
  "test_cluster meta other cluster_config =
     the (de_kafka_cluster example_serde_lib (test_document meta other cluster_config))"

section \<open>Tests of the resource\<close>

definition get_server_secret_class :: "kafka_cluster \<Rightarrow> string option" where
  "get_server_secret_class kafka =
     Option.bind (cc_tls (spec_cluster_config (spec kafka))) kt_server_secret_class"

definition get_internal_secret_class :: "kafka_cluster \<Rightarrow> string" where
  "get_internal_secret_class kafka =
     kt_internal_secret_class (the (cc_tls (spec_cluster_config (spec kafka))))"

definition secret_classes_are :: "fields \<Rightarrow> fields \<Rightarrow> string option \<Rightarrow> string \<Rightarrow> bool" where
  "secret_classes_are other cluster_config server internal \<longleftrightarrow>
     de_kafka_cluster example_serde_lib (test_document [] other cluster_config) \<noteq> None \<and>
     get_server_secret_class (test_cluster [] other cluster_config) = server \<and>
     get_internal_secret_class (test_cluster [] other cluster_config) = internal"

definition test_client_tls :: bool where
  "test_client_tls \<longleftrightarrow>
     secret_classes_are [] [(''zookeeperConfigMapName'', SString ''xyz'')]
       server_tls_default internal_tls_default \<and>
     secret_classes_are []
       [(''tls'', SMap [(''serverSecretClass'', SString ''simple-kafka-server-tls'')]),
        (''zookeeperConfigMapName'', SString ''xyz'')]
       (Some ''simple-kafka-server-tls'') internal_tls_default \<and>
     secret_classes_are []
       [(''tls'', SMap [(''serverSecretClass'', SNull)]),
        (''zookeeperConfigMapName'', SString ''xyz'')]
       None internal_tls_default \<and>
     secret_classes_are [(''zookeeperConfigMapName'', SString ''xyz'')]
       [(''tls'', SMap [(''internalSecretClass'', SString ''simple-kafka-internal-tls'')]),
        (''zookeeperConfigMapName'', SString ''xyz'')]
       server_tls_default ''simple-kafka-internal-tls''"

definition test_internal_tls :: bool where
  "test_internal_tls \<longleftrightarrow>
     secret_classes_are [] [(''zookeeperConfigMapName'', SString ''xyz'')]
       server_tls_default internal_tls_default \<and>
     secret_classes_are []
       [(''tls'', SMap [(''internalSecretClass'', SString ''simple-kafka-internal-tls'')]),
        (''zookeeperConfigMapName'', SString ''xyz'')]
       server_tls_default ''simple-kafka-internal-tls'' \<and>
     secret_classes_are []
       [(''tls'', SMap [(''serverSecretClass'', SString ''simple-kafka-server-tls'')]),
        (''zookeeperConfigMapName'', SString ''xyz'')]
       (Some ''simple-kafka-server-tls'') internal_tls_default"

section \<open>Tests of the listeners\<close>

text \<open>The expected texts: entries \<open>name://host:port\<close> and \<open>name:protocol\<close>, separated by commas.\<close>

definition expected_listeners :: "(kafka_listener_name \<times> string \<times> string) list \<Rightarrow> string" where
  "expected_listeners ls = join '',''
     (map (\<lambda>(n, host, port). listener_name_to_string n @ ''://'' @ host @ '':'' @ port) ls)"

definition expected_protocols :: "(kafka_listener_name \<times> kafka_listener_protocol) list \<Rightarrow> string" where
  "expected_protocols ps = join '',''
     (map (\<lambda>(n, p). listener_name_to_string n @ '':'' @ protocol_to_string p) ps)"

definition test_object_name :: string where
  "test_object_name = ''simple-kafka-broker-default''"

definition test_cluster_domain :: string where
  "test_cluster_domain = ''cluster.local''"

text \<open>The three assertions on one configuration.\<close>

definition listener_texts_are ::
  "kafka_cluster \<Rightarrow> kafka_tls_security \<Rightarrow> string \<Rightarrow> string \<Rightarrow> string \<Rightarrow> bool" where
  "listener_texts_are kafka sec bound advertised protocols \<longleftrightarrow>
     (case get_kafka_listener_config kafka sec test_object_name test_cluster_domain of
        Inl _ \<Rightarrow> False
      | Inr config \<Rightarrow>
          listeners_value config = bound \<and>
          advertised_listeners_value config = advertised \<and>
          listener_security_protocol_map_value config = protocols)"

definition test_fqdn :: "kafka_cluster \<Rightarrow> string" where
  "test_fqdn kafka =
     (case pod_fqdn kafka test_object_name test_cluster_domain of Inl _ \<Rightarrow> [] | Inr fqdn \<Rightarrow> fqdn)"

definition test_auth_class :: "authentication_class_provider \<Rightarrow> authentication_class" where
  "test_auth_class p = \<lparr>ac_metadata = object_ref_new ''auth-class'', ac_provider = p\<rparr>"

definition client_and_internal_texts ::
  "kafka_cluster \<Rightarrow> kafka_tls_security \<Rightarrow> kafka_listener_name \<Rightarrow> kafka_listener_protocol \<Rightarrow> bool" where
  "client_and_internal_texts kafka sec client_name protocol =
     listener_texts_are kafka sec
       (expected_listeners
         [(client_name, LISTENER_LOCAL_ADDRESS, u16_to_string (client_port sec)),
          (Internal, LISTENER_LOCAL_ADDRESS, u16_to_string (internal_port sec))])
       (expected_listeners
         [(client_name, node_address_cmd STACKABLE_LISTENER_BROKER_DIR,
             node_port_cmd STACKABLE_LISTENER_BROKER_DIR (client_port_name sec)),
          (Internal, test_fqdn kafka, u16_to_string (internal_port sec))])
       (expected_protocols [(client_name, protocol), (Internal, protocol)])"

definition test_kafka_tls :: kafka_cluster where
  "test_kafka_tls = test_cluster [(''namespace'', SString ''default'')] []
     [(''authentication'', SSeq [SMap [(''authenticationClass'', SString ''kafka-client-tls'')]]),
      (''tls'', SMap [(''internalSecretClass'', SString ''internalTls''),
                      (''serverSecretClass'', SString ''tls'')]),
      (''zookeeperConfigMapName'', SString ''xyz'')]"

definition test_get_kafka_listeners_config :: bool where
  "test_get_kafka_listeners_config \<longleftrightarrow>
     client_and_internal_texts test_kafka_tls
       (example_security [test_auth_class (TlsProvider (Some ''client-auth-secret-class''))]
         ''internalTls'' (Some ''tls''))
       ClientAuth Ssl \<and>
     client_and_internal_texts test_kafka_tls (example_security [] ''tls'' (Some ''tls'')) Client Ssl \<and>
     client_and_internal_texts test_kafka_tls (example_security [] [] None) Client Plaintext"

definition test_kafka_kerberos :: kafka_cluster where
  "test_kafka_kerberos = test_cluster [(''namespace'', SString ''default'')] []
     [(''authentication'', SSeq [SMap [(''authenticationClass'', SString ''kafka-kerberos'')]]),
      (''tls'', SMap [(''serverSecretClass'', SString ''tls'')]),
      (''zookeeperConfigMapName'', SString ''xyz'')]"

definition test_get_kafka_kerberos_listeners_config :: bool where
  "test_get_kafka_kerberos_listeners_config =
     (let sec = example_security [test_auth_class (KerberosProvider ''kerberos-secret-class'')]
            ''tls'' (Some ''tls'');
          broker_address = node_address_cmd STACKABLE_LISTENER_BROKER_DIR;
          broker_port = node_port_cmd STACKABLE_LISTENER_BROKER_DIR (client_port_name sec)
      in listener_texts_are test_kafka_kerberos sec
           (expected_listeners
             [(Client, LISTENER_LOCAL_ADDRESS, u16_to_string (client_port sec)),
              (Internal, LISTENER_LOCAL_ADDRESS, u16_to_string (internal_port sec)),
              (Bootstrap, LISTENER_LOCAL_ADDRESS, u16_to_string (bootstrap_port sec))])
           (expected_listeners
             [(Client, broker_address, broker_port),
              (Internal, test_fqdn test_kafka_kerberos, u16_to_string (internal_port sec)),
              (Bootstrap, broker_address, broker_port)])
           (expected_protocols [(Client, SaslSsl), (Internal, Ssl), (Bootstrap, SaslSsl)]))"

section \<open>Test of the default affinity\<close>

text \<open>
  What belongs to the library are arguments: the functions that read the document and the fragments, the
  form \<open>aff\<close> of a validated affinity, and \<open>weighted_term\<close>, a \<open>WeightedPodAffinityTerm\<close> with the given
  labels, topology key and weight.
\<close>

definition affinity_test_document :: serde_value where
  "affinity_test_document = test_document []
     [(''brokers'', SMap [(''roleGroups'', SMap [(''default'', SMap [(''replicas'', SNumber 1)])])])]
     [(''zookeeperConfigMapName'', SString ''xyz'')]"

definition test_affinity_defaults ::
  "serde_lib \<Rightarrow> 'e crd_lib \<Rightarrow> ((string \<times> string) list \<Rightarrow> string \<Rightarrow> int \<Rightarrow> json) \<Rightarrow>
     (affinity_fragment \<Rightarrow> json) \<Rightarrow> kafka_role \<Rightarrow> bool" where
  "test_affinity_defaults slib lib weighted_term aff r \<longleftrightarrow>
     (case de_kafka_cluster slib affinity_test_document of
        None \<Rightarrow> False
      | Some kafka \<Rightarrow>
          (case merged_config lib kafka r (kafka_role_rolegroup_ref r kafka ''default'') of
             Inl _ \<Rightarrow> False
           | Inr config \<Rightarrow>
               kc_affinity config = aff \<lparr>
                 aff_pod_affinity = None,
                 aff_pod_anti_affinity = Some \<lparr>
                   paa_preferred = Some [weighted_term
                     [(''app.kubernetes.io/name'', ''kafka''),
                      (''app.kubernetes.io/instance'', ''simple-kafka''),
                      (''app.kubernetes.io/component'', ''broker'')]
                     ''kubernetes.io/hostname'' 70],
                   paa_required = None\<rparr>,
                 aff_node_affinity = None,
                 aff_node_selector = None\<rparr>))"

text \<open>The library as documented: role groups with a number of replicas, labels and topology key.\<close>

fun read_role_group :: "serde_value \<Rightarrow> role_group option" where
  "read_role_group (SMap [(k, SNumber n)]) =
     (if k = ''replicas'' then Some (example_group empty_fragment (Some (word_of_int n))) else None)"
| "read_role_group _ = None"

fun read_role :: "serde_value \<Rightarrow> role option" where
  "read_role (SMap [(k, SMap [(g, v)])]) =
     (if k = ''roleGroups'' then map_option (\<lambda>rg. \<lparr>role_common = example_common empty_fragment,
          role_generic_config = \<lparr>pod_disruption_budget =
            \<lparr>pdb_enabled = True, pdb_max_unavailable = None\<rparr>\<rparr>,
          role_groups = [(g, rg)]\<rparr>) (read_role_group v)
      else None)"
| "read_role _ = None"

definition affinity_test_serde :: serde_lib where
  "affinity_test_serde = example_serde_lib\<lparr>de_role := read_role\<rparr>"

definition affinity_test_lib ::
  "((string \<times> string) list \<Rightarrow> string \<Rightarrow> int \<Rightarrow> json) \<Rightarrow> (affinity_fragment \<Rightarrow> json) \<Rightarrow> string crd_lib" where
  "affinity_test_lib weighted_term aff =
     with_fragments (example_fragment_lib aff)
       (example_lib\<lparr>lib_affinity_between_role_pods := (\<lambda>app name r weight. weighted_term
          [(''app.kubernetes.io/name'', app), (''app.kubernetes.io/instance'', name),
           (''app.kubernetes.io/component'', r)] ''kubernetes.io/hostname'' weight)\<rparr>)"

section \<open>The tests pass\<close>

lemma affinity_test_pass:
  "test_affinity_defaults affinity_test_serde (affinity_test_lib weighted_term aff) weighted_term aff Broker"
proof -
  obtain kafka rg where kafka: "de_kafka_cluster affinity_test_serde affinity_test_document = Some kafka"
    "spec_brokers (spec kafka) = Some \<lparr>role_common = example_common empty_fragment,
       role_generic_config = \<lparr>pod_disruption_budget =
         \<lparr>pdb_enabled = True, pdb_max_unavailable = None\<rparr>\<rparr>, role_groups = [(''default'', rg)]\<rparr>"
    "com_config (rg_config rg) = empty_fragment" "metadata_name (metadata kafka) = Some ''simple-kafka''"
    by (simp add: affinity_test_document_def test_document_def affinity_test_serde_def
        example_serde_lib_def serde_fields example_group_def example_common_def)
  have ref: "kafka_role_rolegroup_ref Broker kafka g = broker_rolegroup_ref kafka g" for g
    by (simp add: kafka_role_rolegroup_ref_def broker_rolegroup_ref_def)
  show ?thesis
    unfolding test_affinity_defaults_def kafka(1) option.case ref affinity_test_lib_def
    by (simp add: merged_config_def cluster_rolegroup_broker kafka Let_def validate_config_def
        merge_config_def example_common_def empty_fragment_def example_fragment_lib_def
        validate_storage_def default_config_def get_affinity_def APP_NAME_def example_lib_def)
qed

lemma tls_tests_pass: "test_client_tls \<and> test_internal_tls"
  by (simp add: test_client_tls_def test_internal_tls_def secret_classes_are_def test_cluster_def
      test_document_def example_serde_lib_def serde_fields get_server_secret_class_def
      get_internal_secret_class_def internal_tls_default_def server_tls_default_def
      default_kafka_tls_def TLS_DEFAULT_SECRET_CLASS_def)

lemma test_kafka_namespace:
  "namespace test_kafka_tls = Some ''default''" "namespace test_kafka_kerberos = Some ''default''"
  by (simp_all add: namespace_def test_kafka_tls_def test_kafka_kerberos_def test_cluster_def
      test_document_def example_serde_lib_def serde_fields internal_tls_default_def
      server_tls_default_def TLS_DEFAULT_SECRET_CLASS_def default_kafka_tls_def)

lemmas test_listener_defs =
  listener_texts_are_def get_kafka_listener_config_def pod_fqdn_def test_fqdn_def push_listener_def
  test_auth_class_def example_security_defs listeners_value_def advertised_listeners_value_def
  listener_security_protocol_map_value_def listener_to_string_def expected_listeners_def
  expected_protocols_def

lemma listeners_tests_pass: "test_get_kafka_listeners_config"
  unfolding test_get_kafka_listeners_config_def client_and_internal_texts_def
  by (simp add: test_listener_defs test_kafka_namespace client_port_def tls_enabled_def
      internal_port_def Let_def less_kafka_listener_name_def)

lemma kerberos_listeners_tests_pass: "test_get_kafka_kerberos_listeners_config"
  unfolding test_get_kafka_kerberos_listeners_config_def
  by (simp add: test_listener_defs test_kafka_namespace client_port_def tls_enabled_def
      internal_port_def bootstrap_port_def Let_def less_kafka_listener_name_def)

section \<open>Properties\<close>

text \<open>
  The repository's unit tests of the resource hold of the model: TLS defaults and overrides, the three
  listener texts for mutual TLS, server TLS, no security and Kerberos, and the default affinity.
\<close>

theorem unit_tests_pass:
  "test_client_tls \<and> test_internal_tls \<and> test_get_kafka_listeners_config \<and>
   test_get_kafka_kerberos_listeners_config \<and>
   test_affinity_defaults affinity_test_serde (affinity_test_lib weighted_term aff) weighted_term aff Broker"
  using affinity_test_pass tls_tests_pass listeners_tests_pass kerberos_listeners_tests_pass by blast

end
