(* ===== verification/Spec2Isabelle.thy ===== *)
theory Spec2Isabelle
  imports ObjectStore EntryPoint UnitTests
begin

text \<open>
  A verification development for the Stackable operator for Apache Kafka.

  The program. \<open>rust/crd\<close> defines the custom resource KafkaCluster and everything that can be
  computed from it: merged role group settings, predicted pods, resolved authentication classes,
  the security context with the broker properties, ports, volumes and shell commands that follow
  from it, and the broker's listeners. \<open>rust/operator-binary\<close> is the controller: for every change
  of a KafkaCluster it computes and applies the Kubernetes objects that run the cluster (RBAC
  objects; per role group a bootstrap listener, a headless service, a config map and a stateful
  set; a disruption budget; two discovery config maps), deletes what is no longer needed and
  reports the status.

  Theories, in the order of the code's layers.

  \<^item> Prelude: results (\<open>'e + 'a\<close> for \<open>Result\<close>, with \<open>and_then\<close> for \<open>?\<close> and \<open>with_context\<close> for
    snafu's \<open>context\<close>), effectful computations over a state (\<open>io\<close>), sorted maps for \<open>BTreeMap\<close>.
    The locale \<open>ordered_map\<close> states what a client may rely on after \<open>insert\<close> and \<open>extend\<close>; it is
    interpreted as \<open>bt\<close> on the model of \<open>BTreeMap\<close>.
  \<^item> TextFormat: decimal numbers, \<open>join\<close> and its inverse \<open>split_on\<close>; the locale \<open>enum_string\<close> for
    enums with \<open>Display\<close> and \<open>EnumString\<close> (interpreted for roles, listener names and protocols).
  \<^item> Crd (\<open>crd/src/lib.rs\<close>, \<open>affinity.rs\<close>, \<open>authorization.rs\<close>, \<open>tls.rs\<close>): the resource, role and role
    group lookup, pod prediction, defaults and merging of role group settings, computed properties.
  \<^item> Authentication (\<open>crd/src/authentication.rs\<close>): resolution and validation of authentication classes.
  \<^item> ListenerNames, Listener (\<open>crd/src/listener.rs\<close>): names and protocols of listeners; the listener
    configuration of a broker and its three printed lists.
  \<^item> Security (\<open>crd/src/security.rs\<close>): the security context, ports and broker properties. The locale
    \<open>secured_port\<close> states what a port that depends on a switch promises; it is interpreted for the
    client, bootstrap and internal ports.
  \<^item> KubeTypes, PodSecurity (\<open>security.rs\<close>, \<open>operator-binary/src/kerberos.rs\<close>): builders of pods and
    containers as lists of recorded calls; the volumes, mounts and variables for TLS and Kerberos.
  \<^item> Commands (\<open>security.rs\<close>): the readiness probe and the start script of the broker.
  \<^item> Resources: metadata, config map builders, objects and the requests to the API server. The locale
    \<open>owned_object\<close> states what every object built for a cluster promises (its name, the controller
    owner reference, the recommended labels); it is interpreted for the discovery config map, the
    bootstrap listener, the service, the config map and the stateful set.
  \<^item> Discovery (\<open>discovery.rs\<close>), Operations (\<open>operations/pdb.rs\<close>, \<open>operations/graceful_shutdown.rs\<close>),
    ProductLogging (\<open>product_logging.rs\<close>).
  \<^item> ControllerError, Objects, StatefulSet, Controller (\<open>kafka_controller.rs\<close>): the error type with the
    names, messages and requeueing of its variants, the objects of a role group, the stateful set in
    the stages of its function, and the reconciliation.
  \<^item> AppliedObjects: which objects a successful reconciliation applies, by kind and name, as a function of
    the resource and independent of the order of the role groups.
  \<^item> ObjectStore: what the requests of reconciliations do to the objects of the cluster, under the
    library's promise about them (\<open>keeps_objects\<close>: a strategy either writes or does not; a deletion of
    orphans that reports success leaves what was applied, one that fails may have deleted some of the
    orphans and nothing else).
  \<^item> EntryPoint (\<open>main.rs\<close>): the dispatch of the command line and the setup of the controller.
  \<^item> Serde (attributes of the structs in \<open>crd/src\<close>): reading and writing the resource. The locale
    \<open>serde_codec\<close> states what a type that can be written and read back promises; it is interpreted for
    strings and authentication references, and is what is assumed of the library's types.
  \<^item> Fragments (\<open>Storage\<close> and \<open>KafkaConfig\<close> in \<open>crd/src/lib.rs\<close>): the derived merging, defaults and validation
    of configuration fragments. The locale \<open>mergeable\<close> states the laws of merging; it is interpreted for
    optional settings, carried over to storage settings and assumed of the library's types.
  \<^item> UnitTests: the unit tests of \<open>lib.rs\<close>, \<open>listener.rs\<close> and \<open>affinity.rs\<close> as predicates that hold.

  State and effects. The operator keeps no state between reconciliations. \<open>reconcile_kafka\<close> runs
  over the trace of the requests it makes (\<open>effect\<close>: reads, \<open>Apply\<close> of an object, deletion of orphans,
  status patch); the server's answer to a request is a function of the trace before it (record
  \<open>server\<close>), so a theorem for every server holds for every behaviour of the cluster, failures at any
  request included. Every \<open>?\<close> of the code is an \<open>and_then\<close> or \<open>io_bind\<close>, every error variant a
  constructor. \<open>fault\<close> separates the error a function returns from a panic (\<open>unwrap\<close> of the bootstrap
  claim, \<open>name_unchecked\<close>). A long function of the code is split where the code starts a new stage;
  the stages are composed in its order.

  Library functions. What belongs to \<open>stackable-operator\<close>, \<open>product-config\<close> or
  Kubernetes is a field of a record the definitions take as argument: \<open>crd_lib\<close> (merging and
  validation of fragments, object names), \<open>fragment_lib\<close> (the same of the library's own types),
  \<open>meta_lib\<close> and \<open>pod_lib\<close> (failures of the builders, labels),
  \<open>memory_lib\<close>, \<open>bash_lib\<close>, \<open>logging_lib\<close>, \<open>pdb_lib\<close>,
  \<open>operator_lib\<close>, \<open>controller_lib\<close>. Only documented behaviour is assumed of them,
  as a named hypothesis of the theorem that needs it (\<open>merge_prefers_self\<close>,
  \<open>resources_by_field\<close>, \<open>volumes_fail_on_collision\<close>, \<open>pod_lib_documented\<close>,
  \<open>keeps_objects\<close>), and each such theorem has a
  witness with concrete functions. Opaque data (resource specifications, log configurations, label sets) is
  of type \<open>json\<close>.

  Hash maps. Role groups come in a hash map whose order changes from run to run. A list stands for the
  map in the order one run meets it; theorems about two runs give each its own order
  (\<open>second_run_changes_nothing\<close>), and \<open>applied_objects_determined\<close>, \<open>discovery_entry_order\<close> and
  \<open>pods_order_deterministic\<close> say what depends on the order and what does not.

  What is shown. Reconciliation: order and completeness of the writes, orphan deletion and status last, no
  write for invalid settings, ownership of everything applied, every error with its requeueing, the kinds
  and names of what is applied. Objects of the cluster: with a strategy that writes a successful run leaves
  exactly what it applied, nothing wanted disappears on the way, a second run changes nothing; what does
  change with the order of the role groups is the text of the discovery entry. Role group objects:
  consistent names, owners, labels and references, all mounts backed by volumes, the whole environment of
  the broker, building never fails by a collision of the operator's own making. Security: every encrypted
  listener has mounted key material (with two stated exceptions), no plaintext towards clients with TLS,
  SASL listeners have their login configuration, ports and probes follow the client mode; the generated
  properties and listeners refine short tables (\<open>store_dir\<close>, \<open>abstract_listeners\<close>,
  \<open>tls_pod_volumes\<close>). Three theorems record where settings that pass validation leave a broker
  without the key material it is told to use, or a probe that does not probe. Resource: the configuration of
  a role group field by field, pod prediction independent of hash map order, what absent and null settings
  mean; a None of the server secret class is lost when the resource is written and read back. The
  repository's own unit tests hold of the model. Texts: the protocol map and the discovery entry read back
  to what was printed.

  Bounds. Ports are 16-bit words, Kubernetes ports 32-bit words read as signed; the conversions are
  those of the code. All definitions are total, no fuel is used: the loops of the code run over lists.

  Not modelled. The JSON schema, clap derivations and the positional form serde accepts for structs;
  which of several errors a rejected document is reported with; tracing output; the controller runtime of
  kube, which decides when \<open>reconcile_kafka\<close> runs, and the deletion of the resource; the individual
  requests of \<open>delete_orphaned_resources\<close> and of the other library calls, each of which is one effect
  here; the panic of \<open>ObjectRef::from_obj\<close> for a cluster without a name when pods are predicted (in
  the reconciliation it is modelled); floating-point rounding and NaN (sizes are rationals; the heap
  ratio is the exact value of the single-precision constant); the object reference inside the discovery error, whose construction
  would panic for a cluster without a name; merging of pod overrides into the template, which is the
  library's.
\<close>

end
